theory Spec2Isabelle
  imports Main "HOL-Library.Sublist"
begin

section \<open>Values of the configuration framework\<close>

text \<open>
  The provider reads and writes attributes through \<open>schema.ResourceData\<close>, whose values
  are Go \<open>interface{}\<close> values. \<open>tfvalue\<close> lists the dynamic types that occur in the
  modelled files: strings, booleans, integers, \<open>[]interface{}\<close>, \<open>*schema.Set\<close> (its
  elements in the order of \<open>Set.List()\<close>), \<open>map[string]interface{}\<close> (an association
  list, because the code ranges over it) and \<open>map[string]string\<close> (only stored, never
  ranged over).
\<close>

datatype tfvalue =
    TNil
  | TString string
  | TBool bool
  | TInt int
  | TList "tfvalue list"
  | TSet "tfvalue list"
  | TMap "(string \<times> tfvalue) list"
  | TStrMap "string \<Rightarrow> string option"

text \<open>What stops a Go function without a return value: a run-time panic.\<close>

datatype panic = NilPointerDereference | TypeAssertionFailed | IndexOutOfRange

section \<open>Integration action: the request configuration\<close>

text \<open>\<open>platformclientv2.Requestconfig\<close>: every field is a pointer, \<open>None\<close> is \<open>nil\<close>.\<close>

record Requestconfig =
  RequestUrlTemplate :: "string option"
  RequestTemplate :: "string option"
  RequestType :: "string option"
  Headers :: "(string \<Rightarrow> string option) option"

definition empty_Requestconfig :: Requestconfig where
  "empty_Requestconfig =
     \<lparr>RequestUrlTemplate = None, RequestTemplate = None, RequestType = None, Headers = None\<rparr>"

text \<open>
  \<open>for key, val := range m.(map[string]interface{}) { out[key] = val.(string) }\<close>:
  the loop of \<open>buildSdkActionConfigRequest\<close>, \<open>buildSdkActionConfigResponse\<close> and
  \<open>buildCredentialFields\<close>. A value that is not a string panics in the type assertion.
\<close>

fun copy_strings ::
  "(string \<times> tfvalue) list \<Rightarrow> (string \<Rightarrow> string option) \<Rightarrow> panic + (string \<Rightarrow> string option)"
where
  "copy_strings [] out = Inr out"
| "copy_strings ((key, TString val) # rest) out = copy_strings rest (out(key \<mapsto> val))"
| "copy_strings ((key, _) # rest) out = Inl TypeAssertionFailed"

text \<open>
  \<open>if v, ok := configMap[key]; ok && v != nil { ... range v.(map[string]interface{}) ... }\<close>
\<close>

definition copy_string_map ::
  "tfvalue option \<Rightarrow> panic + (string \<Rightarrow> string option)"
where
  "copy_string_map entry =
     (case entry of
        None \<Rightarrow> Inr Map.empty
      | Some TNil \<Rightarrow> Inr Map.empty
      | Some (TMap kvs) \<Rightarrow> copy_strings kvs Map.empty
      | Some _ \<Rightarrow> Inl TypeAssertionFailed)"

text \<open>\<open>configMap[key].(string)\<close>: a missing key yields the nil interface, which panics.\<close>

definition assert_string :: "tfvalue option \<Rightarrow> panic + string" where
  "assert_string entry =
     (case entry of Some (TString x) \<Rightarrow> Inr x | _ \<Rightarrow> Inl TypeAssertionFailed)"

section \<open>Resource data\<close>

text \<open>
  \<open>schema.ResourceData\<close> as the modelled files use it: the resource ID, the attributes
  by name, and whether the resource is being created in this apply
  (\<open>d.IsNewResource()\<close>).
\<close>

record ResourceData =
  rd_Id :: string
  rd_attrs :: "string \<Rightarrow> tfvalue option"
  rd_IsNewResource :: bool

definition SetId :: "string \<Rightarrow> ResourceData \<Rightarrow> ResourceData" where
  "SetId v d = d\<lparr>rd_Id := v\<rparr>"

definition Set_attr :: "string \<Rightarrow> tfvalue \<Rightarrow> ResourceData \<Rightarrow> ResourceData" where
  "Set_attr key v d = d\<lparr>rd_attrs := (rd_attrs d)(key \<mapsto> v)\<rparr>"

text \<open>
  \<open>d.Get(key).(T)\<close>: \<open>Get\<close> returns the zero value of the attribute's schema type when
  the attribute is unset, so the type assertion that follows it cannot fail; one getter
  per schema type. For an attribute whose schema declares a \<open>Default\<close> the framework
  stores the default when the configuration leaves the attribute out: in the resource
  data of this model such an attribute is set, to the default.
\<close>

definition Get_string :: "ResourceData \<Rightarrow> string \<Rightarrow> string" where
  "Get_string d key = (case rd_attrs d key of Some (TString v) \<Rightarrow> v | _ \<Rightarrow> [])"

definition Get_bool :: "ResourceData \<Rightarrow> string \<Rightarrow> bool" where
  "Get_bool d key = (case rd_attrs d key of Some (TBool v) \<Rightarrow> v | _ \<Rightarrow> False)"

definition Get_int :: "ResourceData \<Rightarrow> string \<Rightarrow> int" where
  "Get_int d key = (case rd_attrs d key of Some (TInt v) \<Rightarrow> v | _ \<Rightarrow> 0)"

definition Get_list :: "ResourceData \<Rightarrow> string \<Rightarrow> tfvalue list" where
  "Get_list d key = (case rd_attrs d key of Some (TList v) \<Rightarrow> v | _ \<Rightarrow> [])"

definition Get_set :: "ResourceData \<Rightarrow> string \<Rightarrow> tfvalue list" where
  "Get_set d key = (case rd_attrs d key of Some (TSet v) \<Rightarrow> v | _ \<Rightarrow> [])"

definition Get_map :: "ResourceData \<Rightarrow> string \<Rightarrow> (string \<times> tfvalue) list" where
  "Get_map d key = (case rd_attrs d key of Some (TMap v) \<Rightarrow> v | _ \<Rightarrow> [])"

text \<open>
  \<open>d.GetOk(key)\<close>: the second result tells whether the attribute is set to a value other
  than its type's zero value.
\<close>

definition is_zero :: "tfvalue \<Rightarrow> bool" where
  "is_zero v =
     (case v of
        TNil \<Rightarrow> True
      | TString x \<Rightarrow> x = []
      | TBool b \<Rightarrow> \<not> b
      | TInt i \<Rightarrow> i = 0
      | TList xs \<Rightarrow> xs = []
      | TSet xs \<Rightarrow> xs = []
      | TMap kvs \<Rightarrow> kvs = []
      | TStrMap m \<Rightarrow> False)"

definition GetOk :: "ResourceData \<Rightarrow> string \<Rightarrow> bool" where
  "GetOk d key = (case rd_attrs d key of None \<Rightarrow> False | Some v \<Rightarrow> \<not> is_zero v)"

text \<open>
  \<open>buildSdkActionConfigRequest\<close>. The assignments run in the source's order: url
  template, request template, request type, headers.
\<close>

definition buildSdkActionConfigRequest :: "ResourceData \<Rightarrow> panic + Requestconfig" where
  "buildSdkActionConfigRequest d =
     (case Get_list d ''config_request'' of
        [] \<Rightarrow> Inr empty_Requestconfig
      | TMap configMap # _ \<Rightarrow>
          (case assert_string (map_of configMap ''request_url_template'') of
             Inl p \<Rightarrow> Inl p
           | Inr urlTemplate \<Rightarrow>
          (case assert_string (map_of configMap ''request_template'') of
             Inl p \<Rightarrow> Inl p
           | Inr template \<Rightarrow>
          (case assert_string (map_of configMap ''request_type'') of
             Inl p \<Rightarrow> Inl p
           | Inr reqType \<Rightarrow>
          (case copy_string_map (map_of configMap ''headers'') of
             Inl p \<Rightarrow> Inl p
           | Inr headers \<Rightarrow>
               Inr \<lparr>RequestUrlTemplate = Some urlTemplate,
                    RequestTemplate = Some template,
                    RequestType = Some reqType,
                    Headers = Some headers\<rparr>))))
      | _ # _ \<Rightarrow> Inl TypeAssertionFailed)"

text \<open>\<open>if p != nil { m[key] = *p }\<close> on a fresh map entry.\<close>

definition put_if :: "string \<Rightarrow> 'a option \<Rightarrow> ('a \<Rightarrow> tfvalue) \<Rightarrow> (string \<times> tfvalue) list" where
  "put_if key p wrap = (case p of None \<Rightarrow> [] | Some v \<Rightarrow> [(key, wrap v)])"

definition flattenActionConfigRequest :: "Requestconfig \<Rightarrow> tfvalue list" where
  "flattenActionConfigRequest sdkRequest =
     [TMap (put_if ''request_url_template'' (RequestUrlTemplate sdkRequest) TString
          @ put_if ''request_type'' (RequestType sdkRequest) TString
          @ put_if ''request_template'' (RequestTemplate sdkRequest) TString
          @ put_if ''headers'' (Headers sdkRequest) TStrMap)]"

section \<open>Wire structures\<close>

text \<open>
  The structures of the client SDK and of the repository, with the fields the modelled
  code reads or writes. Every Go pointer field is an \<open>option\<close>.
\<close>

record Responseconfig =
  TranslationMap :: "(string \<Rightarrow> string option) option"
  TranslationMapDefaults :: "(string \<Rightarrow> string option) option"
  SuccessTemplate :: "string option"

definition empty_Responseconfig :: Responseconfig where
  "empty_Responseconfig =
     \<lparr>TranslationMap = None, TranslationMapDefaults = None, SuccessTemplate = None\<rparr>"

record Actionconfig =
  Request :: "Requestconfig option"
  Response :: "Responseconfig option"

text \<open>A parsed JSON document held in an \<open>interface{}\<close>; \<open>JNull\<close> is the nil interface.\<close>

datatype json =
    JNull
  | JBool bool
  | JNumber int
  | JString string
  | JArray "json list"
  | JObject "(string \<times> json) list"

record ActionInput =
  InputSchema :: "json option"

record ActionOutput =
  SuccessSchema :: "json option"

record ActionContract =
  Output :: "ActionOutput option"
  Input :: "ActionInput option"

record IntegrationAction =
  action_Id :: "string option"
  action_Name :: "string option"
  action_Category :: "string option"
  action_IntegrationId :: "string option"
  action_Secure :: "bool option"
  action_Config :: "Actionconfig option"
  action_Contract :: "ActionContract option"
  action_Version :: "int option"

record Updateactioninput =
  upd_Category :: "string option"
  upd_Name :: "string option"
  upd_Config :: "Actionconfig option"
  upd_Version :: "int option"

text \<open>An entity of a listing page: the fields the exporters and data sources read.\<close>

record Entity =
  Entity_Id :: "string option"
  Entity_Name :: "string option"
  Entity_State :: "string option"

record Entitylisting =
  Entities :: "Entity list option"

record Roledivision =
  RoleId :: "string option"
  DivisionId :: "string option"

record Oauthclient =
  client_Name :: "string option"
  client_Description :: "string option"
  client_AccessTokenValiditySeconds :: "int option"
  client_AuthorizedGrantType :: "string option"
  client_State :: "string option"
  client_RegisteredRedirectUri :: "string list option"
  client_Scope :: "string list option"
  client_RoleDivisions :: "Roledivision list option"

record Oauthclientrequest =
  req_Name :: "string option"
  req_Description :: "string option"
  req_AccessTokenValiditySeconds :: "int option"
  req_AuthorizedGrantType :: "string option"
  req_State :: "string option"
  req_RegisteredRedirectUri :: "string list option"
  req_Scope :: "string list option"
  req_RoleDivisions :: "Roledivision list option"

record Genericsaml =
  saml_Name :: "string option"
  saml_Certificate :: "string option"
  saml_Certificates :: "string list option"
  saml_IssuerURI :: "string option"
  saml_SsoTargetURI :: "string option"
  saml_RelyingPartyIdentifier :: "string option"
  saml_Disabled :: "bool option"
  saml_LogoImageData :: "string option"
  saml_EndpointCompression :: "bool option"
  saml_NameIdentifierFormat :: "string option"

record ResourceMeta =
  Name :: string

type_synonym ResourceIDMetaMap = "string \<Rightarrow> ResourceMeta option"

text \<open>
  The structures of the credential and phone requests. \<open>Properties\<close> is a
  \<open>map[string]interface{}\<close> of nested maps, written as a \<open>tfvalue\<close> association list.
\<close>

record Credentialtype =
  credtype_Name :: "string option"

record Credential =
  cred_Name :: "string option"
  cred_VarType :: "Credentialtype option"
  cred_CredentialFields :: "(string \<Rightarrow> string option) option"

record Domainentityref =
  ref_Id :: "string option"

record Line =
  line_Name :: "string option"
  line_LineBaseSettings :: "Domainentityref option"
  line_Properties :: "(string \<times> tfvalue) list option"

record Phonecapabilities =
  cap_Provisions :: "bool option"
  cap_Registers :: "bool option"
  cap_DualRegisters :: "bool option"
  cap_HardwareIdType :: "string option"
  cap_AllowReboot :: "bool option"
  cap_NoRebalance :: "bool option"
  cap_NoCloudProvisioning :: "bool option"
  cap_MediaCodecs :: "string list option"
  cap_Cdm :: "bool option"

definition empty_Phonecapabilities :: Phonecapabilities where
  "empty_Phonecapabilities =
     \<lparr>cap_Provisions = None, cap_Registers = None, cap_DualRegisters = None,
      cap_HardwareIdType = None, cap_AllowReboot = None, cap_NoRebalance = None,
      cap_NoCloudProvisioning = None, cap_MediaCodecs = None, cap_Cdm = None\<rparr>"

record Phone =
  phone_Name :: "string option"
  phone_State :: "string option"
  phone_Site :: "Domainentityref option"
  phone_PhoneBaseSettings :: "Domainentityref option"
  phone_LineBaseSettings :: "Domainentityref option"
  phone_PhoneMetaBase :: "Domainentityref option"
  phone_Lines :: "Line list option"
  phone_Capabilities :: "Phonecapabilities option"
  phone_Properties :: "(string \<times> tfvalue) list option"
  phone_WebRtcUser :: "Domainentityref option"

section \<open>The remote API, the state and the trace of calls\<close>

text \<open>\<open>platformclientv2.APIResponse\<close>, as far as the retry predicates look at it.\<close>

record APIResponse =
  StatusCode :: nat
  ErrorMessage :: string

text \<open>
  A client call returns Go's triple \<open>(payload, response, err)\<close>; a call without a payload
  returns \<open>(response, err)\<close>. Nothing is assumed about how the three relate.
\<close>

type_synonym 'a sdk_result = "'a option \<times> APIResponse option \<times> string option"
type_synonym sdk_status = "APIResponse option \<times> string option"

text \<open>The requests the modelled code sends, with their arguments, as the trace records them.\<close>

datatype call =
    GetIntegrationsActionsReq nat nat
  | GetIntegrationActionReq string
  | GetIntegrationActionTemplateReq string string
  | PatchIntegrationsActionReq string Updateactioninput
  | DeleteIntegrationsActionReq string
  | GetIntegrationsCredentialsReq nat nat
  | GetIntegrationsCredentialReq string
  | DeleteIntegrationsCredentialReq string
  | GetOauthClientsReq
  | GetOauthClientReq string
  | PutOauthClientReq string Oauthclientrequest
  | DeleteOauthClientReq string
  | GetIdentityprovidersGenericReq
  | PutIdentityprovidersGenericReq Genericsaml
  | DeleteIdentityprovidersGenericReq
  | GetTelephonyProvidersEdgesPhonesReq nat nat
  | GetTelephonyProvidersEdgesPhoneReq string
  | DeleteTelephonyProvidersEdgesPhoneReq string
  | GetRoutingQueuesReq nat nat string
  | GetArchitectSchedulegroupsReq nat nat string

datatype event = Call call | Sleep nat

text \<open>
  The vendor API is outside the repository: each endpoint is a function of the server's
  state \<open>'sv\<close>, about which nothing is assumed. The record also carries what the modelled
  files take from elsewhere: \<open>sdkGetIntegrationAction\<close> and
  \<open>sdkGetIntegrationActionTemplate\<close> (the repository's own HTTP wrappers, taken at their
  signature), \<open>json.Marshal\<close>, and the repository helpers \<open>isVersionMismatch\<close>,
  \<open>getHomeDivisionID\<close> and \<open>buildSdkStringList\<close>, whose code is not in the modelled files
  and which are therefore parameters. \<open>poll_interval\<close> (seconds between two attempts of
  a retried call) and \<open>retry_limit\<close> (attempts of \<open>retryWhen\<close>) are the two numbers the
  retry helpers need and the specification leaves open.
\<close>

record 'sv sdk =
  GetIntegrationsActions :: "nat \<Rightarrow> nat \<Rightarrow> 'sv \<Rightarrow> Entitylisting sdk_result \<times> 'sv"
  sdkGetIntegrationAction :: "string \<Rightarrow> 'sv \<Rightarrow> IntegrationAction sdk_result \<times> 'sv"
  sdkGetIntegrationActionTemplate :: "string \<Rightarrow> string \<Rightarrow> 'sv \<Rightarrow> string sdk_result \<times> 'sv"
  PatchIntegrationsAction :: "string \<Rightarrow> Updateactioninput \<Rightarrow> 'sv \<Rightarrow> unit sdk_result \<times> 'sv"
  DeleteIntegrationsAction :: "string \<Rightarrow> 'sv \<Rightarrow> sdk_status \<times> 'sv"
  GetIntegrationsCredentials :: "nat \<Rightarrow> nat \<Rightarrow> 'sv \<Rightarrow> Entitylisting sdk_result \<times> 'sv"
  GetIntegrationsCredential :: "string \<Rightarrow> 'sv \<Rightarrow> unit sdk_result \<times> 'sv"
  DeleteIntegrationsCredential :: "string \<Rightarrow> 'sv \<Rightarrow> sdk_status \<times> 'sv"
  GetOauthClients :: "'sv \<Rightarrow> Entitylisting sdk_result \<times> 'sv"
  GetOauthClient :: "string \<Rightarrow> 'sv \<Rightarrow> Oauthclient sdk_result \<times> 'sv"
  PutOauthClient :: "string \<Rightarrow> Oauthclientrequest \<Rightarrow> 'sv \<Rightarrow> unit sdk_result \<times> 'sv"
  DeleteOauthClient :: "string \<Rightarrow> 'sv \<Rightarrow> sdk_status \<times> 'sv"
  GetIdentityprovidersGeneric :: "'sv \<Rightarrow> Genericsaml sdk_result \<times> 'sv"
  PutIdentityprovidersGeneric :: "Genericsaml \<Rightarrow> 'sv \<Rightarrow> unit sdk_result \<times> 'sv"
  DeleteIdentityprovidersGeneric :: "'sv \<Rightarrow> unit sdk_result \<times> 'sv"
  GetTelephonyProvidersEdgesPhones :: "nat \<Rightarrow> nat \<Rightarrow> 'sv \<Rightarrow> Entitylisting sdk_result \<times> 'sv"
  GetTelephonyProvidersEdgesPhone :: "string \<Rightarrow> 'sv \<Rightarrow> Entity sdk_result \<times> 'sv"
  DeleteTelephonyProvidersEdgesPhone :: "string \<Rightarrow> 'sv \<Rightarrow> sdk_status \<times> 'sv"
  GetRoutingQueues :: "nat \<Rightarrow> nat \<Rightarrow> string \<Rightarrow> 'sv \<Rightarrow> Entitylisting sdk_result \<times> 'sv"
  GetArchitectSchedulegroups :: "nat \<Rightarrow> nat \<Rightarrow> string \<Rightarrow> 'sv \<Rightarrow> Entitylisting sdk_result \<times> 'sv"
  json_Marshal :: "json \<Rightarrow> string + string"
  isVersionMismatch :: "APIResponse option \<Rightarrow> bool"
  getHomeDivisionID :: "string + string"
  buildSdkStringList :: "ResourceData \<Rightarrow> string \<Rightarrow> string list option"
  poll_interval :: nat
  retry_limit :: nat

text \<open>
  What an operation works on: the resource data \<open>d\<close> it was handed, the server, and the
  trace of the calls and sleeps so far (oldest first).
\<close>

record 'sv state =
  rdata :: ResourceData
  server :: 'sv
  trace :: "event list"

definition invoke :: "call \<Rightarrow> ('sv \<Rightarrow> 'a \<times> 'sv) \<Rightarrow> 'sv state \<Rightarrow> 'a \<times> 'sv state" where
  "invoke c endpoint s =
     (case endpoint (server s) of
        (r, sv') \<Rightarrow> (r, s\<lparr>server := sv', trace := trace s @ [Call c]\<rparr>))"

definition sleep :: "nat \<Rightarrow> 'sv state \<Rightarrow> 'sv state" where
  "sleep seconds s = s\<lparr>trace := trace s @ [Sleep seconds]\<rparr>"

definition on_rdata :: "(ResourceData \<Rightarrow> ResourceData) \<Rightarrow> 'sv state \<Rightarrow> 'sv state" where
  "on_rdata f s = s\<lparr>rdata := f (rdata s)\<rparr>"

text \<open>
  How an operation ends: \<open>None\<close> is Go's nil \<open>diag.Diagnostics\<close>; a failure is an error
  diagnostic, the error of an exhausted retry budget, or a panic.
\<close>

datatype failure = Diag string | RetryExhausted string | Panicked panic

text \<open>
  What one run of a retried closure yields: nil, \<open>resource.RetryableError\<close>,
  \<open>resource.NonRetryableError\<close>, or a panic.
\<close>

datatype attempt = Done | RetryableError string | NonRetryableError string | Crash panic

section \<open>Retry helpers\<close>

text \<open>
  Modelled from the spec: \<open>isStatus404\<close> is called by the modelled files and defined
  elsewhere in the repository. The specification's not-found is the server's 404 status.
\<close>

definition isStatus404 :: "APIResponse option \<Rightarrow> bool" where
  "isStatus404 resp = (case resp of None \<Rightarrow> False | Some r \<Rightarrow> StatusCode r = 404)"

text \<open>
  Modelled from the spec: \<open>withRetries(ctx, timeout, method)\<close> is defined elsewhere in the
  repository. The specification (4.1, 5, 7): the method is retried with a fixed poll
  interval up to a bounded timeout; a transient (retryable) result is retried within the
  budget, everything else propagates immediately; when the timeout elapses the operation
  fails as retry-exhausted. With the first attempt at time 0 and one attempt every
  \<open>poll_interval\<close> seconds, the attempts that start within \<open>timeout\<close> seconds are the
  first one and \<open>timeout div poll_interval\<close> retries.
\<close>

fun retry_loop :: "nat \<Rightarrow> ('s \<Rightarrow> attempt \<times> 's) \<Rightarrow> 's \<Rightarrow> failure option \<times> 's" where
  "retry_loop 0 method s =
     (case method s of
        (Done, s') \<Rightarrow> (None, s')
      | (RetryableError e, s') \<Rightarrow> (Some (RetryExhausted e), s')
      | (NonRetryableError e, s') \<Rightarrow> (Some (Diag e), s')
      | (Crash p, s') \<Rightarrow> (Some (Panicked p), s'))"
| "retry_loop (Suc n) method s =
     (case method s of
        (Done, s') \<Rightarrow> (None, s')
      | (RetryableError e, s') \<Rightarrow> retry_loop n method s'
      | (NonRetryableError e, s') \<Rightarrow> (Some (Diag e), s')
      | (Crash p, s') \<Rightarrow> (Some (Panicked p), s'))"

definition withRetries ::
  "'sv sdk \<Rightarrow> nat \<Rightarrow> ('sv state \<Rightarrow> attempt \<times> 'sv state) \<Rightarrow> 'sv state
   \<Rightarrow> failure option \<times> 'sv state"
where
  "withRetries sdk timeout method s = retry_loop (timeout div poll_interval sdk) method s"

text \<open>
  Modelled from the spec: \<open>withRetriesForRead(ctx, timeout, d, method)\<close> is defined
  elsewhere in the repository. The specification (4.1, Read): a not-found shortly after a
  create is transient and the read is retried up to the bounded timeout, failing as
  retry-exhausted when it elapses; a not-found in any other context clears the entity
  from state without error. The read closures report not-found as their only retryable
  error, and the resource data tells whether the resource is being created.
\<close>

definition withRetriesForRead ::
  "'sv sdk \<Rightarrow> nat \<Rightarrow> ('sv state \<Rightarrow> attempt \<times> 'sv state) \<Rightarrow> 'sv state
   \<Rightarrow> failure option \<times> 'sv state"
where
  "withRetriesForRead sdk timeout method s =
     (if rd_IsNewResource (rdata s) then withRetries sdk timeout method s
      else
        (case method s of
           (Done, s') \<Rightarrow> (None, s')
         | (RetryableError e, s') \<Rightarrow> (None, on_rdata (SetId []) s')
         | (NonRetryableError e, s') \<Rightarrow> (Some (Diag e), s')
         | (Crash p, s') \<Rightarrow> (Some (Panicked p), s')))"

text \<open>
  Modelled from the spec: \<open>retryWhen(shouldRetry, callSdk)\<close> is defined elsewhere in the
  repository. The specification (4.1, Update): when the server rejects the update for a
  version mismatch the operation re-reads the entity and retries the update, bounded by a
  small retry count. The closure returns a response and diagnostics; the predicate
  decides on the response whether the failed call is run again. \<open>n\<close> counts the retries
  that are left.
\<close>

fun retryWhen_loop ::
  "nat \<Rightarrow> (APIResponse option \<Rightarrow> bool) \<Rightarrow> ('s \<Rightarrow> (APIResponse option \<times> failure option) \<times> 's)
   \<Rightarrow> 's \<Rightarrow> failure option \<times> 's"
where
  "retryWhen_loop 0 shouldRetry callSdk s =
     (case callSdk s of
        ((resp, None), s') \<Rightarrow> (None, s')
      | ((resp, Some err), s') \<Rightarrow> (Some err, s'))"
| "retryWhen_loop (Suc n) shouldRetry callSdk s =
     (case callSdk s of
        ((resp, None), s') \<Rightarrow> (None, s')
      | ((resp, Some (Panicked p)), s') \<Rightarrow> (Some (Panicked p), s')
      | ((resp, Some err), s') \<Rightarrow>
          (if shouldRetry resp then retryWhen_loop n shouldRetry callSdk s'
           else (Some err, s')))"

definition retryWhen ::
  "'sv sdk \<Rightarrow> (APIResponse option \<Rightarrow> bool)
   \<Rightarrow> ('sv state \<Rightarrow> (APIResponse option \<times> failure option) \<times> 'sv state)
   \<Rightarrow> 'sv state \<Rightarrow> failure option \<times> 'sv state"
where
  "retryWhen sdk shouldRetry callSdk s = retryWhen_loop (retry_limit sdk) shouldRetry callSdk s"

section \<open>Integration action\<close>

subsection \<open>Exporter\<close>

text \<open>The \<open>for _, action := range *actions.Entities\<close> loop of \<open>getAllIntegrationActions\<close>.\<close>

fun add_actions :: "Entity list \<Rightarrow> ResourceIDMetaMap \<Rightarrow> panic + ResourceIDMetaMap" where
  "add_actions [] resources = Inr resources"
| "add_actions (action # rest) resources =
     (case Entity_Id action of
        None \<Rightarrow> Inl NilPointerDereference
      | Some i \<Rightarrow>
          if prefix ''static'' i then add_actions rest resources
          else
            (case Entity_Name action of
               None \<Rightarrow> Inl NilPointerDereference
             | Some n \<Rightarrow> add_actions rest (resources(i \<mapsto> \<lparr>Name = n\<rparr>))))"

text \<open>
  The page loop \<open>for pageNum := 1; ; pageNum++\<close>. It has no bound of its own, so the
  model is a partial function: \<open>None\<close> is a loop that never ends.
\<close>

partial_function (option) getAllIntegrationActions_pages ::
  "'sv sdk \<Rightarrow> nat \<Rightarrow> ResourceIDMetaMap \<Rightarrow> 'sv state
   \<Rightarrow> ((failure + ResourceIDMetaMap) \<times> 'sv state) option"
where
  "getAllIntegrationActions_pages sdk pageNum resources s =
     (case invoke (GetIntegrationsActionsReq 100 pageNum) (GetIntegrationsActions sdk 100 pageNum) s of
        ((actions, resp, Some getErr), s') \<Rightarrow>
          Some (Inl (Diag (''Failed to get page of integration actions: '' @ getErr)), s')
      | ((None, resp, None), s') \<Rightarrow> Some (Inl (Panicked NilPointerDereference), s')
      | ((Some actions, resp, None), s') \<Rightarrow>
          (case Entities actions of
             None \<Rightarrow> Some (Inr resources, s')
           | Some [] \<Rightarrow> Some (Inr resources, s')
           | Some (e # es) \<Rightarrow>
               (case add_actions (e # es) resources of
                  Inl p \<Rightarrow> Some (Inl (Panicked p), s')
                | Inr resources' \<Rightarrow>
                    getAllIntegrationActions_pages sdk (pageNum + 1) resources' s')))"

definition getAllIntegrationActions ::
  "'sv sdk \<Rightarrow> 'sv state \<Rightarrow> ((failure + ResourceIDMetaMap) \<times> 'sv state) option"
where
  "getAllIntegrationActions sdk s = getAllIntegrationActions_pages sdk 1 Map.empty s"

subsection \<open>Building the request from the configuration\<close>

definition buildSdkActionConfigResponse :: "ResourceData \<Rightarrow> panic + Responseconfig" where
  "buildSdkActionConfigResponse d =
     (case Get_list d ''config_response'' of
        [] \<Rightarrow> Inr empty_Responseconfig
      | TMap configMap # _ \<Rightarrow>
          (case copy_string_map (map_of configMap ''translation_map'') of
             Inl p \<Rightarrow> Inl p
           | Inr transMap \<Rightarrow>
          (case copy_string_map (map_of configMap ''translation_map_defaults'') of
             Inl p \<Rightarrow> Inl p
           | Inr transMapDefaults \<Rightarrow>
          (case (case map_of configMap ''success_template'' of
                   None \<Rightarrow> Inr []
                 | Some tempVal \<Rightarrow> assert_string (Some tempVal)) of
             Inl p \<Rightarrow> Inl p
           | Inr successTemplate \<Rightarrow>
               Inr \<lparr>TranslationMap = Some transMap,
                    TranslationMapDefaults = Some transMapDefaults,
                    SuccessTemplate = Some successTemplate\<rparr>)))
      | _ # _ \<Rightarrow> Inl TypeAssertionFailed)"

definition buildSdkActionConfig :: "ResourceData \<Rightarrow> panic + Actionconfig" where
  "buildSdkActionConfig d =
     (case buildSdkActionConfigRequest d of
        Inl p \<Rightarrow> Inl p
      | Inr request \<Rightarrow>
          (case buildSdkActionConfigResponse d of
             Inl p \<Rightarrow> Inl p
           | Inr response \<Rightarrow> Inr \<lparr>Request = Some request, Response = Some response\<rparr>))"

text \<open>
  The \<open>IntegrationAction\<close> literal of \<open>createIntegrationAction\<close>. The contract is the
  result of \<open>buildSdkActionContract\<close>, built from the two required contract attributes.
\<close>

definition createIntegrationAction_request ::
  "ResourceData \<Rightarrow> ActionContract option \<Rightarrow> panic + IntegrationAction"
where
  "createIntegrationAction_request d actionContract =
     (case buildSdkActionConfig d of
        Inl p \<Rightarrow> Inl p
      | Inr config \<Rightarrow>
          Inr \<lparr>action_Id = None,
               action_Name = Some (Get_string d ''name''),
               action_Category = Some (Get_string d ''category''),
               action_IntegrationId = Some (Get_string d ''integration_id''),
               action_Secure = Some (Get_bool d ''secure''),
               action_Config = Some config,
               action_Contract = actionContract,
               action_Version = None\<rparr>)"

subsection \<open>Flattening the response into the configuration\<close>

definition flattenActionConfigResponse :: "Responseconfig \<Rightarrow> tfvalue list" where
  "flattenActionConfigResponse sdkResponse =
     [TMap (put_if ''translation_map'' (TranslationMap sdkResponse) TStrMap
          @ put_if ''translation_map_defaults'' (TranslationMapDefaults sdkResponse) TStrMap
          @ put_if ''success_template'' (SuccessTemplate sdkResponse) TString)]"

text \<open>
  \<open>flattenActionContract\<close>: \<open>Inl\<close> carries the text of the error diagnostics, without
  the printed schema value that the source's format string puts before the error.
\<close>

definition flattenActionContract :: "'sv sdk \<Rightarrow> json \<Rightarrow> string + string" where
  "flattenActionContract sdk schema =
     (if schema = JNull then Inr []
      else
        (case json_Marshal sdk schema of
           Inl err \<Rightarrow> Inl (''Error marshalling action contract: '' @ err)
         | Inr schemaBytes \<Rightarrow> Inr schemaBytes))"

text \<open>\<open>if p != nil { d.Set(key, *p) } else { d.Set(key, nil) }\<close>\<close>

definition set_or_nil :: "string \<Rightarrow> 'a option \<Rightarrow> ('a \<Rightarrow> tfvalue) \<Rightarrow> ResourceData \<Rightarrow> ResourceData" where
  "set_or_nil key p wrap d = Set_attr key (case p of None \<Rightarrow> TNil | Some v \<Rightarrow> wrap v) d"

text \<open>
  \<open>action.Contract != nil && action.Contract.Input != nil &&
  action.Contract.Input.InputSchema != nil\<close>, and the same for the output.
\<close>

definition contract_InputSchema :: "IntegrationAction \<Rightarrow> json option" where
  "contract_InputSchema action =
     (case action_Contract action of
        None \<Rightarrow> None
      | Some c \<Rightarrow> (case Input c of None \<Rightarrow> None | Some i \<Rightarrow> InputSchema i))"

definition contract_SuccessSchema :: "IntegrationAction \<Rightarrow> json option" where
  "contract_SuccessSchema action =
     (case action_Contract action of
        None \<Rightarrow> None
      | Some c \<Rightarrow> (case Output c of None \<Rightarrow> None | Some out \<Rightarrow> SuccessSchema out))"

definition set_contract :: "'sv sdk \<Rightarrow> string \<Rightarrow> json option \<Rightarrow> ResourceData \<Rightarrow> string + ResourceData" where
  "set_contract sdk key schema d =
     (case schema of
        None \<Rightarrow> Inr (Set_attr key TNil d)
      | Some v \<Rightarrow>
          (case flattenActionContract sdk v of
             Inl err \<Rightarrow> Inl err
           | Inr text \<Rightarrow> Inr (Set_attr key (TString text) d)))"

definition set_config_request :: "IntegrationAction \<Rightarrow> string option \<Rightarrow> ResourceData \<Rightarrow> ResourceData" where
  "set_config_request action reqTemp d =
     (case action_Config action of
        None \<Rightarrow> Set_attr ''config_request'' TNil d
      | Some c \<Rightarrow>
          (case Request c of
             None \<Rightarrow> Set_attr ''config_request'' TNil d
           | Some r \<Rightarrow>
               Set_attr ''config_request''
                 (TList (flattenActionConfigRequest (r\<lparr>RequestTemplate := reqTemp\<rparr>))) d))"

definition set_config_response :: "IntegrationAction \<Rightarrow> string option \<Rightarrow> ResourceData \<Rightarrow> ResourceData" where
  "set_config_response action successTemp d =
     (case action_Config action of
        None \<Rightarrow> Set_attr ''config_response'' TNil d
      | Some c \<Rightarrow>
          (case Response c of
             None \<Rightarrow> Set_attr ''config_response'' TNil d
           | Some r \<Rightarrow>
               Set_attr ''config_response''
                 (TList (flattenActionConfigResponse (r\<lparr>SuccessTemplate := successTemp\<rparr>))) d))"

text \<open>
  The tail of the read closure, from \<open>d.Set("name", ...)\<close> to the final log line, which
  dereferences \<open>action.Name\<close> once more.
\<close>

definition readIntegrationAction_set ::
  "'sv sdk \<Rightarrow> IntegrationAction \<Rightarrow> string option \<Rightarrow> string option \<Rightarrow> ResourceData
   \<Rightarrow> attempt \<times> ResourceData"
where
  "readIntegrationAction_set sdk action reqTemp successTemp d0 =
     (let d1 = set_or_nil ''name'' (action_Name action) TString d0;
          d2 = set_or_nil ''category'' (action_Category action) TString d1;
          d3 = set_or_nil ''integration_id'' (action_IntegrationId action) TString d2;
          d4 = set_or_nil ''secure'' (action_Secure action) TBool d3
      in
        (case set_contract sdk ''contract_input'' (contract_InputSchema action) d4 of
           Inl err \<Rightarrow> (NonRetryableError err, d4)
         | Inr d5 \<Rightarrow>
             (case set_contract sdk ''contract_output'' (contract_SuccessSchema action) d5 of
                Inl err \<Rightarrow> (NonRetryableError err, d5)
              | Inr d6 \<Rightarrow>
                  (let d7 = set_config_request action reqTemp d6;
                       d8 = set_config_response action successTemp d7
                   in
                     (case action_Name action of
                        None \<Rightarrow> (Crash NilPointerDereference, d8)
                      | Some n \<Rightarrow> (Done, d8))))))"

subsection \<open>Read, update, delete\<close>

text \<open>The closure that \<open>readIntegrationAction\<close> hands to \<open>withRetriesForRead\<close>.\<close>

definition readIntegrationAction_attempt :: "'sv sdk \<Rightarrow> 'sv state \<Rightarrow> attempt \<times> 'sv state" where
  "readIntegrationAction_attempt sdk s =
     (let i = rd_Id (rdata s) in
      case invoke (GetIntegrationActionReq i) (sdkGetIntegrationAction sdk i) s of
        ((action, resp, Some getErr), s1) \<Rightarrow>
          (if isStatus404 resp
           then (RetryableError (''Failed to read integration action '' @ i @ '': '' @ getErr), s1)
           else (NonRetryableError (''Failed to read integration action '' @ i @ '': '' @ getErr), s1))
      | ((action, resp, None), s1) \<Rightarrow>
      (case invoke (GetIntegrationActionTemplateReq i ''requesttemplate.vm'')
              (sdkGetIntegrationActionTemplate sdk i ''requesttemplate.vm'') s1 of
        ((reqTemp, resp, Some getErr), s2) \<Rightarrow>
          (if isStatus404 resp then (Done, on_rdata (SetId []) s2)
           else (NonRetryableError
                   (''Failed to read request template for integration action '' @ i @ '': '' @ getErr), s2))
      | ((reqTemp, resp, None), s2) \<Rightarrow>
      (case invoke (GetIntegrationActionTemplateReq i ''successtemplate.vm'')
              (sdkGetIntegrationActionTemplate sdk i ''successtemplate.vm'') s2 of
        ((successTemp, resp, Some getErr), s3) \<Rightarrow>
          (if isStatus404 resp then (Done, on_rdata (SetId []) s3)
           else (NonRetryableError
                   (''Failed to read success template for integration action '' @ i @ '': '' @ getErr), s3))
      | ((successTemp, resp, None), s3) \<Rightarrow>
          (case action of
             None \<Rightarrow> (Crash NilPointerDereference, s3)
           | Some a \<Rightarrow>
               (case readIntegrationAction_set sdk a reqTemp successTemp (rdata s3) of
                  (r, d') \<Rightarrow> (r, s3\<lparr>rdata := d'\<rparr>))))))"

definition readIntegrationAction :: "'sv sdk \<Rightarrow> 'sv state \<Rightarrow> failure option \<times> 'sv state" where
  "readIntegrationAction sdk s = withRetriesForRead sdk 30 (readIntegrationAction_attempt sdk) s"

text \<open>
  The closure that \<open>updateIntegrationAction\<close> hands to \<open>retryWhen\<close>. The response it returns
  is the one of the GET in all three exits: the PATCH's response is discarded
  (\<open>_, _, err := integAPI.PatchIntegrationsAction(...)\<close>).
\<close>

definition updateIntegrationAction_attempt ::
  "'sv sdk \<Rightarrow> string \<Rightarrow> string \<Rightarrow> 'sv state \<Rightarrow> (APIResponse option \<times> failure option) \<times> 'sv state"
where
  "updateIntegrationAction_attempt sdk name category s =
     (let i = rd_Id (rdata s) in
      case invoke (GetIntegrationActionReq i) (sdkGetIntegrationAction sdk i) s of
        ((action, resp, Some getErr), s1) \<Rightarrow>
          ((resp, Some (Diag (''Failed to read integration action '' @ i @ '': '' @ getErr))), s1)
      | ((None, resp, None), s1) \<Rightarrow> ((None, Some (Panicked NilPointerDereference)), s1)
      | ((Some action, resp, None), s1) \<Rightarrow>
          (case buildSdkActionConfig (rdata s1) of
             Inl p \<Rightarrow> ((None, Some (Panicked p)), s1)
           | Inr config \<Rightarrow>
               (case invoke
                       (PatchIntegrationsActionReq i
                          \<lparr>upd_Category = Some category, upd_Name = Some name,
                           upd_Config = Some config, upd_Version = action_Version action\<rparr>)
                       (PatchIntegrationsAction sdk i
                          \<lparr>upd_Category = Some category, upd_Name = Some name,
                           upd_Config = Some config, upd_Version = action_Version action\<rparr>) s1 of
                  ((u, patchResp, Some err), s2) \<Rightarrow>
                    ((resp, Some (Diag (''Failed to update integration action '' @ name @ '': '' @ err))), s2)
                | ((u, patchResp, None), s2) \<Rightarrow> ((resp, None), s2))))"

definition updateIntegrationAction :: "'sv sdk \<Rightarrow> 'sv state \<Rightarrow> failure option \<times> 'sv state" where
  "updateIntegrationAction sdk s =
     (let name = Get_string (rdata s) ''name'';
          category = Get_string (rdata s) ''category''
      in
        (case retryWhen sdk (isVersionMismatch sdk) (updateIntegrationAction_attempt sdk name category) s of
           (Some diagErr, s1) \<Rightarrow> (Some diagErr, s1)
         | (None, s1) \<Rightarrow> readIntegrationAction sdk (sleep 5 s1)))"

text \<open>The closure that \<open>deleteIntegrationAction\<close> hands to \<open>withRetries\<close>.\<close>

definition deleteIntegrationAction_attempt :: "'sv sdk \<Rightarrow> 'sv state \<Rightarrow> attempt \<times> 'sv state" where
  "deleteIntegrationAction_attempt sdk s =
     (let i = rd_Id (rdata s) in
      case invoke (GetIntegrationActionReq i) (sdkGetIntegrationAction sdk i) s of
        ((action, resp, Some err), s1) \<Rightarrow>
          (if isStatus404 resp then (Done, s1)
           else (NonRetryableError (''Error deleting integration action '' @ i @ '': '' @ err), s1))
      | ((action, resp, None), s1) \<Rightarrow>
          (RetryableError (''Integration action '' @ i @ '' still exists''), s1))"

definition deleteIntegrationAction :: "'sv sdk \<Rightarrow> 'sv state \<Rightarrow> failure option \<times> 'sv state" where
  "deleteIntegrationAction sdk s =
     (let name = Get_string (rdata s) ''name'';
          i = rd_Id (rdata s)
      in
        (case invoke (DeleteIntegrationsActionReq i) (DeleteIntegrationsAction sdk i) s of
           ((resp, Some err), s1) \<Rightarrow>
             (Some (Diag (''Failed to delete integration action '' @ name @ '': '' @ err)), s1)
         | ((resp, None), s1) \<Rightarrow> withRetries sdk 30 (deleteIntegrationAction_attempt sdk) s1))"

section \<open>Conversions between sets and string lists\<close>

text \<open>
  Modelled from the spec: \<open>setToStringList\<close> and \<open>stringListToSet\<close> are defined elsewhere
  in the repository. They are the marshalling steps the specification describes (2,
  "marshal configuration into request shapes and responses back into configuration")
  for a set of strings: the first returns a pointer to the set's elements as strings, the
  second builds the set of a list's strings. A set holds each element once.
\<close>

definition setToStringList :: "tfvalue list \<Rightarrow> string list option" where
  "setToStringList strSet = Some (concat (map (\<lambda>v. case v of TString x \<Rightarrow> [x] | _ \<Rightarrow> []) strSet))"

definition stringListToSet :: "string list \<Rightarrow> tfvalue" where
  "stringListToSet strs = TSet (map TString (remdups strs))"

section \<open>OAuth client\<close>

subsection \<open>Exporter\<close>

fun add_clients :: "Entity list \<Rightarrow> ResourceIDMetaMap \<Rightarrow> panic + ResourceIDMetaMap" where
  "add_clients [] resources = Inr resources"
| "add_clients (client # rest) resources =
     (if Entity_State client = Some ''disabled'' then add_clients rest resources
      else
        (case Entity_Id client of
           None \<Rightarrow> Inl NilPointerDereference
         | Some i \<Rightarrow>
             (case Entity_Name client of
                None \<Rightarrow> Inl NilPointerDereference
              | Some n \<Rightarrow> add_clients rest (resources(i \<mapsto> \<lparr>Name = n\<rparr>)))))"

definition getAllOAuthClients ::
  "'sv sdk \<Rightarrow> 'sv state \<Rightarrow> (failure + ResourceIDMetaMap) \<times> 'sv state"
where
  "getAllOAuthClients sdk s =
     (case invoke GetOauthClientsReq (GetOauthClients sdk) s of
        ((clients, resp, Some getErr), s') \<Rightarrow>
          (Inl (Diag (''Failed to get page of oauth clients: '' @ getErr)), s')
      | ((None, resp, None), s') \<Rightarrow> (Inl (Panicked NilPointerDereference), s')
      | ((Some clients, resp, None), s') \<Rightarrow>
          (case Entities clients of
             None \<Rightarrow> (Inr Map.empty, s')
           | Some [] \<Rightarrow> (Inr Map.empty, s')
           | Some (e # es) \<Rightarrow>
               (case add_clients (e # es) Map.empty of
                  Inl p \<Rightarrow> (Inl (Panicked p), s')
                | Inr resources \<Rightarrow> (Inr resources, s'))))"

subsection \<open>Building the request\<close>

definition buildOAuthRedirectURIs :: "ResourceData \<Rightarrow> string list option" where
  "buildOAuthRedirectURIs d =
     (if GetOk d ''registered_redirect_uris''
      then setToStringList (Get_set d ''registered_redirect_uris'')
      else None)"

definition buildOAuthScopes :: "ResourceData \<Rightarrow> string list option" where
  "buildOAuthScopes d =
     (if GetOk d ''scopes'' then setToStringList (Get_set d ''scopes'') else None)"

text \<open>The \<open>for _, role := range roleConfig\<close> loop of \<open>buildOAuthRoles\<close>.\<close>

fun buildOAuthRoles_loop ::
  "'sv sdk \<Rightarrow> tfvalue list \<Rightarrow> Roledivision list \<Rightarrow> failure + Roledivision list"
where
  "buildOAuthRoles_loop sdk [] sdkRoles = Inr sdkRoles"
| "buildOAuthRoles_loop sdk (TMap roleMap # rest) sdkRoles =
     (case assert_string (map_of roleMap ''role_id'') of
        Inl p \<Rightarrow> Inl (Panicked p)
      | Inr roleId \<Rightarrow>
          (case (case map_of roleMap ''division_id'' of
                   None \<Rightarrow> Inr []
                 | Some divConfig \<Rightarrow> assert_string (Some divConfig)) of
             Inl p \<Rightarrow> Inl (Panicked p)
           | Inr divisionId \<Rightarrow>
               (if divisionId = [] then
                  (case getHomeDivisionID sdk of
                     Inl diagErr \<Rightarrow> Inl (Diag diagErr)
                   | Inr home \<Rightarrow>
                       buildOAuthRoles_loop sdk rest
                         (sdkRoles @ [\<lparr>RoleId = Some roleId, DivisionId = Some home\<rparr>]))
                else
                  buildOAuthRoles_loop sdk rest
                    (sdkRoles @ [\<lparr>RoleId = Some roleId, DivisionId = Some divisionId\<rparr>]))))"
| "buildOAuthRoles_loop sdk (_ # rest) sdkRoles = Inl (Panicked TypeAssertionFailed)"

definition buildOAuthRoles :: "'sv sdk \<Rightarrow> ResourceData \<Rightarrow> failure + Roledivision list option" where
  "buildOAuthRoles sdk d =
     (if GetOk d ''roles'' then
        (case buildOAuthRoles_loop sdk (Get_set d ''roles'') [] of
           Inl e \<Rightarrow> Inl e
         | Inr sdkRoles \<Rightarrow> Inr (Some sdkRoles))
      else Inr None)"

definition flattenOAuthRoles :: "Roledivision list \<Rightarrow> tfvalue" where
  "flattenOAuthRoles sdkRoles =
     TSet (remdups (map (\<lambda>roleDiv.
        TMap (put_if ''role_id'' (RoleId roleDiv) TString
            @ put_if ''division_id'' (DivisionId roleDiv) TString)) sdkRoles))"

subsection \<open>Read, update, delete\<close>

definition readOAuthClient_set :: "Oauthclient \<Rightarrow> ResourceData \<Rightarrow> attempt \<times> ResourceData" where
  "readOAuthClient_set client d0 =
     (case client_Name client of
        None \<Rightarrow> (Crash NilPointerDereference, d0)
      | Some n \<Rightarrow>
          (let d1 = Set_attr ''name'' (TString n) d0;
               d2 = set_or_nil ''description'' (client_Description client) TString d1;
               d3 = set_or_nil ''access_token_validity_seconds''
                      (client_AccessTokenValiditySeconds client) TInt d2;
               d4 = set_or_nil ''authorized_grant_type'' (client_AuthorizedGrantType client) TString d3;
               d5 = set_or_nil ''state'' (client_State client) TString d4;
               d6 = set_or_nil ''registered_redirect_uris''
                      (client_RegisteredRedirectUri client) stringListToSet d5;
               d7 = set_or_nil ''scopes'' (client_Scope client) stringListToSet d6;
               d8 = set_or_nil ''roles'' (client_RoleDivisions client) flattenOAuthRoles d7
           in (Done, d8)))"

definition readOAuthClient_attempt :: "'sv sdk \<Rightarrow> 'sv state \<Rightarrow> attempt \<times> 'sv state" where
  "readOAuthClient_attempt sdk s =
     (let i = rd_Id (rdata s) in
      case invoke (GetOauthClientReq i) (GetOauthClient sdk i) s of
        ((client, resp, Some getErr), s1) \<Rightarrow>
          (if isStatus404 resp
           then (RetryableError (''Failed to read oauth client '' @ i @ '': '' @ getErr), s1)
           else (NonRetryableError (''Failed to read oauth client '' @ i @ '': '' @ getErr), s1))
      | ((None, resp, None), s1) \<Rightarrow> (Crash NilPointerDereference, s1)
      | ((Some client, resp, None), s1) \<Rightarrow>
          (case readOAuthClient_set client (rdata s1) of
             (r, d') \<Rightarrow> (r, s1\<lparr>rdata := d'\<rparr>)))"

definition readOAuthClient :: "'sv sdk \<Rightarrow> 'sv state \<Rightarrow> failure option \<times> 'sv state" where
  "readOAuthClient sdk s = withRetriesForRead sdk 30 (readOAuthClient_attempt sdk) s"

text \<open>
  The \<open>platformclientv2.Oauthclientrequest\<close> literal of \<open>updateOAuthClient\<close> (and of
  \<open>createOAuthClient\<close>): five fields take the address of a local variable, three come
  from the builders.
\<close>

definition updateOAuthClient_request :: "ResourceData \<Rightarrow> Roledivision list option \<Rightarrow> Oauthclientrequest" where
  "updateOAuthClient_request d roles =
     \<lparr>req_Name = Some (Get_string d ''name''),
      req_Description = Some (Get_string d ''description''),
      req_AccessTokenValiditySeconds = Some (Get_int d ''access_token_validity_seconds''),
      req_AuthorizedGrantType = Some (Get_string d ''authorized_grant_type''),
      req_State = Some (Get_string d ''state''),
      req_RegisteredRedirectUri = buildOAuthRedirectURIs d,
      req_Scope = buildOAuthScopes d,
      req_RoleDivisions = roles\<rparr>"

definition updateOAuthClient :: "'sv sdk \<Rightarrow> 'sv state \<Rightarrow> failure option \<times> 'sv state" where
  "updateOAuthClient sdk s =
     (let d = rdata s;
          name = Get_string d ''name''
      in
        (case buildOAuthRoles sdk d of
           Inl diagErr \<Rightarrow> (Some diagErr, s)
         | Inr roles \<Rightarrow>
             (case invoke (PutOauthClientReq (rd_Id d) (updateOAuthClient_request d roles))
                     (PutOauthClient sdk (rd_Id d) (updateOAuthClient_request d roles)) s of
                ((u, resp, Some err), s1) \<Rightarrow>
                  (Some (Diag (''Failed to update oauth client '' @ name @ '': '' @ err)), s1)
              | ((u, resp, None), s1) \<Rightarrow> readOAuthClient sdk (sleep 5 s1))))"

text \<open>The closure that \<open>deleteOAuthClient\<close> hands to \<open>withRetries\<close>.\<close>

definition deleteOAuthClient_attempt :: "'sv sdk \<Rightarrow> 'sv state \<Rightarrow> attempt \<times> 'sv state" where
  "deleteOAuthClient_attempt sdk s =
     (let i = rd_Id (rdata s) in
      case invoke (GetOauthClientReq i) (GetOauthClient sdk i) s of
        ((oauthClient, resp, Some err), s1) \<Rightarrow>
          (if isStatus404 resp then (Done, s1)
           else (NonRetryableError (''Error deleting OAuth client '' @ i @ '': '' @ err), s1))
      | ((None, resp, None), s1) \<Rightarrow> (Crash NilPointerDereference, s1)
      | ((Some oauthClient, resp, None), s1) \<Rightarrow>
          (case client_State oauthClient of
             None \<Rightarrow> (Crash NilPointerDereference, s1)
           | Some st \<Rightarrow>
               if st = ''deleted'' then (Done, s1)
               else (RetryableError (''OAuth client '' @ i @ '' still exists''), s1)))"

definition deleteOAuthClient :: "'sv sdk \<Rightarrow> 'sv state \<Rightarrow> failure option \<times> 'sv state" where
  "deleteOAuthClient sdk s =
     (let name = Get_string (rdata s) ''name'' in
      case updateOAuthClient sdk (on_rdata (Set_attr ''state'' (TString ''inactive'')) s) of
        (Some diagErr, s1) \<Rightarrow> (Some diagErr, s1)
      | (None, s1) \<Rightarrow>
          (case invoke (DeleteOauthClientReq (rd_Id (rdata s1)))
                  (DeleteOauthClient sdk (rd_Id (rdata s1))) s1 of
             ((resp, Some err), s2) \<Rightarrow>
               (Some (Diag (''Failed to delete oauth client '' @ name @ '': '' @ err)), s2)
           | ((resp, None), s2) \<Rightarrow> withRetries sdk 30 (deleteOAuthClient_attempt sdk) s2))"

section \<open>Integration credential\<close>

fun add_credentials :: "Entity list \<Rightarrow> ResourceIDMetaMap \<Rightarrow> panic + ResourceIDMetaMap" where
  "add_credentials [] resources = Inr resources"
| "add_credentials (cred # rest) resources =
     (case Entity_Name cred of
        None \<Rightarrow> add_credentials rest resources
      | Some n \<Rightarrow>
          (case Entity_Id cred of
             None \<Rightarrow> Inl NilPointerDereference
           | Some i \<Rightarrow> add_credentials rest (resources(i \<mapsto> \<lparr>Name = n\<rparr>))))"

partial_function (option) getAllCredentials_pages ::
  "'sv sdk \<Rightarrow> nat \<Rightarrow> ResourceIDMetaMap \<Rightarrow> 'sv state
   \<Rightarrow> ((failure + ResourceIDMetaMap) \<times> 'sv state) option"
where
  "getAllCredentials_pages sdk pageNum resources s =
     (case invoke (GetIntegrationsCredentialsReq pageNum 100)
             (GetIntegrationsCredentials sdk pageNum 100) s of
        ((credentials, resp, Some err), s') \<Rightarrow>
          Some (Inl (Diag (''Failed to get page of credentials: '' @ err)), s')
      | ((None, resp, None), s') \<Rightarrow> Some (Inl (Panicked NilPointerDereference), s')
      | ((Some credentials, resp, None), s') \<Rightarrow>
          (case Entities credentials of
             None \<Rightarrow> Some (Inr resources, s')
           | Some [] \<Rightarrow> Some (Inr resources, s')
           | Some (e # es) \<Rightarrow>
               (case add_credentials (e # es) resources of
                  Inl p \<Rightarrow> Some (Inl (Panicked p), s')
                | Inr resources' \<Rightarrow> getAllCredentials_pages sdk (pageNum + 1) resources' s')))"

definition getAllCredentials ::
  "'sv sdk \<Rightarrow> 'sv state \<Rightarrow> ((failure + ResourceIDMetaMap) \<times> 'sv state) option"
where
  "getAllCredentials sdk s = getAllCredentials_pages sdk 1 Map.empty s"

text \<open>\<open>buildCredentialFields\<close>: both exits return \<open>&results\<close>.\<close>

definition buildCredentialFields :: "ResourceData \<Rightarrow> panic + (string \<Rightarrow> string option) option" where
  "buildCredentialFields d =
     (if GetOk d ''fields'' then
        (case copy_strings (Get_map d ''fields'') Map.empty of
           Inl p \<Rightarrow> Inl p
         | Inr results \<Rightarrow> Inr (Some results))
      else Inr (Some Map.empty))"

text \<open>
  The \<open>platformclientv2.Credential\<close> literal of \<open>createCredential\<close> and of
  \<open>updateCredential\<close>.
\<close>

definition createCredential_request :: "ResourceData \<Rightarrow> panic + Credential" where
  "createCredential_request d =
     (case buildCredentialFields d of
        Inl p \<Rightarrow> Inl p
      | Inr credentialFields \<Rightarrow>
          Inr \<lparr>cred_Name = Some (Get_string d ''name''),
               cred_VarType = Some \<lparr>credtype_Name = Some (Get_string d ''credential_type_name'')\<rparr>,
               cred_CredentialFields = credentialFields\<rparr>)"

definition deleteCredential_attempt :: "'sv sdk \<Rightarrow> 'sv state \<Rightarrow> attempt \<times> 'sv state" where
  "deleteCredential_attempt sdk s =
     (let i = rd_Id (rdata s) in
      case invoke (GetIntegrationsCredentialReq i) (GetIntegrationsCredential sdk i) s of
        ((c, resp, Some err), s1) \<Rightarrow>
          (if isStatus404 resp then (Done, s1)
           else (NonRetryableError (''Error deleting credential action '' @ i @ '': '' @ err), s1))
      | ((c, resp, None), s1) \<Rightarrow>
          (RetryableError (''Integration credential '' @ i @ '' still exists''), s1))"

definition deleteCredential :: "'sv sdk \<Rightarrow> 'sv state \<Rightarrow> failure option \<times> 'sv state" where
  "deleteCredential sdk s =
     (let i = rd_Id (rdata s) in
      case invoke (DeleteIntegrationsCredentialReq i) (DeleteIntegrationsCredential sdk i) s of
        ((resp, Some err), s1) \<Rightarrow>
          (Some (Diag (''Failed to delete the credential '' @ i @ '': '' @ err)), s1)
      | ((resp, None), s1) \<Rightarrow> withRetries sdk 30 (deleteCredential_attempt sdk) s1)"

section \<open>Generic identity provider\<close>

definition readIdpGeneric_set :: "Genericsaml \<Rightarrow> ResourceData \<Rightarrow> ResourceData" where
  "readIdpGeneric_set generic d0 =
     (let d1 = set_or_nil ''name'' (saml_Name generic) TString d0;
          d2 = (case saml_Certificate generic of
                  Some c \<Rightarrow> Set_attr ''certificates'' (stringListToSet [c]) d1
                | None \<Rightarrow>
                    (case saml_Certificates generic of
                       Some cs \<Rightarrow> Set_attr ''certificates'' (stringListToSet cs) d1
                     | None \<Rightarrow> Set_attr ''certificates'' TNil d1));
          d3 = set_or_nil ''issuer_uri'' (saml_IssuerURI generic) TString d2;
          d4 = set_or_nil ''target_uri'' (saml_SsoTargetURI generic) TString d3;
          d5 = set_or_nil ''relying_party_identifier'' (saml_RelyingPartyIdentifier generic) TString d4;
          d6 = set_or_nil ''disabled'' (saml_Disabled generic) TBool d5;
          d7 = set_or_nil ''logo_image_data'' (saml_LogoImageData generic) TString d6;
          d8 = set_or_nil ''endpoint_compression'' (saml_EndpointCompression generic) TBool d7
      in set_or_nil ''name_identifier_format'' (saml_NameIdentifierFormat generic) TString d8)"

definition readIdpGeneric_attempt :: "'sv sdk \<Rightarrow> 'sv state \<Rightarrow> attempt \<times> 'sv state" where
  "readIdpGeneric_attempt sdk s =
     (case invoke GetIdentityprovidersGenericReq (GetIdentityprovidersGeneric sdk) s of
        ((generic, resp, Some getErr), s1) \<Rightarrow>
          (if isStatus404 resp then (RetryableError (''Failed to read IDP Generic: '' @ getErr), s1)
           else (NonRetryableError (''Failed to read IDP Generic: '' @ getErr), s1))
      | ((None, resp, None), s1) \<Rightarrow> (Crash NilPointerDereference, s1)
      | ((Some generic, resp, None), s1) \<Rightarrow> (Done, on_rdata (readIdpGeneric_set generic) s1))"

definition readIdpGeneric :: "'sv sdk \<Rightarrow> 'sv state \<Rightarrow> failure option \<times> 'sv state" where
  "readIdpGeneric sdk s = withRetriesForRead sdk 30 (readIdpGeneric_attempt sdk) s"

text \<open>
  The request \<open>updateIdpGeneric\<close> builds: eight fields always set, then the certificates
  in the singular field when there is exactly one and in the plural field otherwise.
\<close>

definition updateIdpGeneric_request :: "'sv sdk \<Rightarrow> ResourceData \<Rightarrow> Genericsaml" where
  "updateIdpGeneric_request sdk d =
     (let update =
            \<lparr>saml_Name = Some (Get_string d ''name''),
             saml_Certificate = None,
             saml_Certificates = None,
             saml_IssuerURI = Some (Get_string d ''issuer_uri''),
             saml_SsoTargetURI = Some (Get_string d ''target_uri''),
             saml_RelyingPartyIdentifier = Some (Get_string d ''relying_party_identifier''),
             saml_Disabled = Some (Get_bool d ''disabled''),
             saml_LogoImageData = Some (Get_string d ''logo_image_data''),
             saml_EndpointCompression = Some (Get_bool d ''endpoint_compression''),
             saml_NameIdentifierFormat = Some (Get_string d ''name_identifier_format'')\<rparr>
      in
        (case buildSdkStringList sdk d ''certificates'' of
           None \<Rightarrow> update
         | Some certificates \<Rightarrow>
             (case certificates of
                [c] \<Rightarrow> update\<lparr>saml_Certificate := Some c\<rparr>
              | _ \<Rightarrow> update\<lparr>saml_Certificates := Some certificates\<rparr>)))"

definition updateIdpGeneric :: "'sv sdk \<Rightarrow> 'sv state \<Rightarrow> failure option \<times> 'sv state" where
  "updateIdpGeneric sdk s =
     (let update = updateIdpGeneric_request sdk (rdata s) in
      case invoke (PutIdentityprovidersGenericReq update) (PutIdentityprovidersGeneric sdk update) s of
        ((u, resp, Some err), s1) \<Rightarrow> (Some (Diag (''Failed to update IDP Generic: '' @ err)), s1)
      | ((u, resp, None), s1) \<Rightarrow> readIdpGeneric sdk (sleep 20 s1))"

definition createIdpGeneric :: "'sv sdk \<Rightarrow> 'sv state \<Rightarrow> failure option \<times> 'sv state" where
  "createIdpGeneric sdk s = updateIdpGeneric sdk (on_rdata (SetId ''generic'') s)"

definition deleteIdpGeneric_attempt :: "'sv sdk \<Rightarrow> 'sv state \<Rightarrow> attempt \<times> 'sv state" where
  "deleteIdpGeneric_attempt sdk s =
     (case invoke GetIdentityprovidersGenericReq (GetIdentityprovidersGeneric sdk) s of
        ((generic, resp, Some err), s1) \<Rightarrow>
          (if isStatus404 resp then (Done, s1)
           else (NonRetryableError (''Error deleting IDP Generic: '' @ err), s1))
      | ((generic, resp, None), s1) \<Rightarrow> (RetryableError ''IDP Generic still exists'', s1))"

definition deleteIdpGeneric :: "'sv sdk \<Rightarrow> 'sv state \<Rightarrow> failure option \<times> 'sv state" where
  "deleteIdpGeneric sdk s =
     (case invoke DeleteIdentityprovidersGenericReq (DeleteIdentityprovidersGeneric sdk) s of
        ((u, resp, Some err), s1) \<Rightarrow> (Some (Diag (''Failed to delete IDP Generic: '' @ err)), s1)
      | ((u, resp, None), s1) \<Rightarrow> withRetries sdk 30 (deleteIdpGeneric_attempt sdk) s1)"

section \<open>Phone\<close>

subsection \<open>Building the request\<close>

text \<open>
  The phone builders call three functions whose code is not in the modelled files:
  \<open>buildSdkDomainEntityRef(d, idAttr)\<close>, \<open>interfaceListToStrings(list)\<close> and the standard
  library's \<open>fmt.Sprintf("%v", v)\<close>. They are parameters of the model.
\<close>

record phone_helpers =
  buildSdkDomainEntityRef :: "ResourceData \<Rightarrow> string \<Rightarrow> Domainentityref option"
  interfaceListToStrings :: "tfvalue list \<Rightarrow> string list"
  fmt_Sprint :: "tfvalue \<Rightarrow> string"

text \<open>\<open>strconv.Itoa\<close> on a number that is not negative.\<close>

fun Itoa :: "nat \<Rightarrow> string" where
  "Itoa n =
     (if n < 10 then [char_of (48 + n)]
      else Itoa (n div 10) @ [char_of (48 + n mod 10)])"

text \<open>\<open>"line_" + *lineBaseSettings.Id\<close>: a nil reference or a nil ID panics.\<close>

definition line_prefix :: "Domainentityref option \<Rightarrow> panic + string" where
  "line_prefix lineBaseSettings =
     (case lineBaseSettings of
        None \<Rightarrow> Inl NilPointerDereference
      | Some l \<Rightarrow>
          (case ref_Id l of
             None \<Rightarrow> Inl NilPointerDereference
           | Some i \<Rightarrow> Inr (''line_'' @ i)))"

text \<open>
  \<open>buildSdkLines\<close> returns the lines and whether the phone is standalone. Without line
  addresses there is one line, named after the line base settings; otherwise one line
  per address, numbered from 1, each with the address in its properties. The loop runs
  at least once, and its first iteration dereferences \<open>lineBaseSettings.Id\<close>.
\<close>

definition buildSdkLines ::
  "phone_helpers \<Rightarrow> ResourceData \<Rightarrow> Domainentityref option \<Rightarrow> panic + (Line list option \<times> bool)"
where
  "buildSdkLines h d lineBaseSettings =
     (let ok = GetOk d ''line_addresses'';
          lineStringList = interfaceListToStrings h (Get_list d ''line_addresses'')
      in
        if \<not> ok \<or> length lineStringList = 0 then
          (case line_prefix lineBaseSettings of
             Inl p \<Rightarrow> Inl p
           | Inr lineName \<Rightarrow>
               Inr (Some [\<lparr>line_Name = Some lineName,
                            line_LineBaseSettings = lineBaseSettings,
                            line_Properties = None\<rparr>], False))
        else
          (case line_prefix lineBaseSettings of
             Inl p \<Rightarrow> Inl p
           | Inr pre \<Rightarrow>
               Inr (Some (map (\<lambda>(i, address).
                             \<lparr>line_Name = Some (pre @ ''_'' @ Itoa (i + 1)),
                              line_LineBaseSettings = lineBaseSettings,
                              line_Properties =
                                Some [(''station_identity_address'',
                                       TMap [(''value'', TMap [(''instance'', TString address)])])]\<rparr>)
                          (enumerate 0 lineStringList)), True)))"

text \<open>\<open>m[key].(bool)\<close> and \<open>m[key].([]interface{})\<close>: a missing key panics.\<close>

definition assert_bool :: "tfvalue option \<Rightarrow> panic + bool" where
  "assert_bool entry = (case entry of Some (TBool b) \<Rightarrow> Inr b | _ \<Rightarrow> Inl TypeAssertionFailed)"

definition assert_list :: "tfvalue option \<Rightarrow> panic + tfvalue list" where
  "assert_list entry = (case entry of Some (TList xs) \<Rightarrow> Inr xs | _ \<Rightarrow> Inl TypeAssertionFailed)"

text \<open>
  \<open>buildSdkCapabilities\<close>. \<open>d.Get("capabilities")\<close> is a list, never nil, so the function
  returns a pointer on every path that returns: to an empty structure when the list is
  empty, and otherwise to a structure with all nine fields set, read in the source's
  order.
\<close>

definition buildSdkCapabilities :: "phone_helpers \<Rightarrow> ResourceData \<Rightarrow> panic + Phonecapabilities option" where
  "buildSdkCapabilities h d =
     (case Get_list d ''capabilities'' of
        [] \<Rightarrow> Inr (Some empty_Phonecapabilities)
      | TMap capabilitiesMap # _ \<Rightarrow>
          (case assert_bool (map_of capabilitiesMap ''provisions'') of
             Inl p \<Rightarrow> Inl p
           | Inr provisions \<Rightarrow>
          (case assert_bool (map_of capabilitiesMap ''registers'') of
             Inl p \<Rightarrow> Inl p
           | Inr registers \<Rightarrow>
          (case assert_bool (map_of capabilitiesMap ''dual_registers'') of
             Inl p \<Rightarrow> Inl p
           | Inr dualRegisters \<Rightarrow>
          (case assert_string (map_of capabilitiesMap ''hardware_id_type'') of
             Inl p \<Rightarrow> Inl p
           | Inr hardwareIdType \<Rightarrow>
          (case assert_bool (map_of capabilitiesMap ''allow_reboot'') of
             Inl p \<Rightarrow> Inl p
           | Inr allowReboot \<Rightarrow>
          (case assert_bool (map_of capabilitiesMap ''no_rebalance'') of
             Inl p \<Rightarrow> Inl p
           | Inr noRebalance \<Rightarrow>
          (case assert_bool (map_of capabilitiesMap ''no_cloud_provisioning'') of
             Inl p \<Rightarrow> Inl p
           | Inr noCloudProvisioning \<Rightarrow>
          (case assert_list (map_of capabilitiesMap ''media_codecs'') of
             Inl p \<Rightarrow> Inl p
           | Inr checkMediaCodecs \<Rightarrow>
          (case assert_bool (map_of capabilitiesMap ''cdm'') of
             Inl p \<Rightarrow> Inl p
           | Inr cdm \<Rightarrow>
               Inr (Some \<lparr>cap_Provisions = Some provisions,
                          cap_Registers = Some registers,
                          cap_DualRegisters = Some dualRegisters,
                          cap_HardwareIdType = Some hardwareIdType,
                          cap_AllowReboot = Some allowReboot,
                          cap_NoRebalance = Some noRebalance,
                          cap_NoCloudProvisioning = Some noCloudProvisioning,
                          cap_MediaCodecs = Some (map (fmt_Sprint h) checkMediaCodecs),
                          cap_Cdm = Some cdm\<rparr>))))))))))
      | _ # _ \<Rightarrow> Inl TypeAssertionFailed)"

text \<open>The \<open>Properties\<close> of a standalone phone.\<close>

definition standalone_properties :: "(string \<times> tfvalue) list" where
  "standalone_properties =
     [(''phone_standalone'', TMap [(''value'', TMap [(''instance'', TBool True)])])]"

text \<open>
  The \<open>platformclientv2.Phone\<close> that \<open>createPhone\<close> posts. \<open>phoneMetaBaseId\<close> is the ID
  that \<open>getPhoneMetaBaseId\<close> returned for \<open>*phoneBaseSettings.Id\<close>.
\<close>

definition createPhone_request :: "phone_helpers \<Rightarrow> ResourceData \<Rightarrow> string \<Rightarrow> panic + Phone" where
  "createPhone_request h d phoneMetaBaseId =
     (let name = Get_string d ''name'';
          state = Get_string d ''state'';
          site = buildSdkDomainEntityRef h d ''site_id'';
          phoneBaseSettings = buildSdkDomainEntityRef h d ''phone_base_settings_id'';
          lineBaseSettings = buildSdkDomainEntityRef h d ''line_base_settings_id''
      in
        (case phoneBaseSettings of
           None \<Rightarrow> Inl NilPointerDereference
         | Some pbs \<Rightarrow>
        (case ref_Id pbs of
           None \<Rightarrow> Inl NilPointerDereference
         | Some pbsId \<Rightarrow>
        (case buildSdkLines h d lineBaseSettings of
           Inl p \<Rightarrow> Inl p
         | Inr (lines, isStandalone) \<Rightarrow>
        (case buildSdkCapabilities h d of
           Inl p \<Rightarrow> Inl p
         | Inr capabilities \<Rightarrow>
             Inr \<lparr>phone_Name = Some name,
                  phone_State = Some state,
                  phone_Site = site,
                  phone_PhoneBaseSettings = phoneBaseSettings,
                  phone_LineBaseSettings = lineBaseSettings,
                  phone_PhoneMetaBase = Some \<lparr>ref_Id = Some phoneMetaBaseId\<rparr>,
                  phone_Lines = lines,
                  phone_Capabilities = capabilities,
                  phone_Properties = (if isStandalone then Some standalone_properties else None),
                  phone_WebRtcUser =
                    (if Get_string d ''web_rtc_user_id'' \<noteq> []
                     then buildSdkDomainEntityRef h d ''web_rtc_user_id'' else None)\<rparr>)))))"

text \<open>The \<open>platformclientv2.Phone\<close> that \<open>updatePhone\<close> puts: no state, no capabilities.\<close>

definition updatePhone_request :: "phone_helpers \<Rightarrow> ResourceData \<Rightarrow> panic + Phone" where
  "updatePhone_request h d =
     (let name = Get_string d ''name'';
          site = buildSdkDomainEntityRef h d ''site_id'';
          phoneBaseSettings = buildSdkDomainEntityRef h d ''phone_base_settings_id'';
          lineBaseSettings = buildSdkDomainEntityRef h d ''line_base_settings_id'';
          phoneMetaBase = buildSdkDomainEntityRef h d ''phone_meta_base_id''
      in
        (case buildSdkLines h d lineBaseSettings of
           Inl p \<Rightarrow> Inl p
         | Inr (lines, isStandalone) \<Rightarrow>
             Inr \<lparr>phone_Name = Some name,
                  phone_State = None,
                  phone_Site = site,
                  phone_PhoneBaseSettings = phoneBaseSettings,
                  phone_LineBaseSettings = None,
                  phone_PhoneMetaBase = phoneMetaBase,
                  phone_Lines = lines,
                  phone_Capabilities = None,
                  phone_Properties = (if isStandalone then Some standalone_properties else None),
                  phone_WebRtcUser =
                    (if Get_string d ''web_rtc_user_id'' \<noteq> []
                     then buildSdkDomainEntityRef h d ''web_rtc_user_id'' else None)\<rparr>))"

subsection \<open>Exporter and delete\<close>

fun add_phones :: "Entity list \<Rightarrow> ResourceIDMetaMap \<Rightarrow> panic + ResourceIDMetaMap" where
  "add_phones [] resources = Inr resources"
| "add_phones (phone # rest) resources =
     (case Entity_State phone of
        None \<Rightarrow> Inl NilPointerDereference
      | Some st \<Rightarrow>
          if st \<noteq> ''deleted'' then
            (case Entity_Id phone of
               None \<Rightarrow> Inl NilPointerDereference
             | Some i \<Rightarrow>
                 (case Entity_Name phone of
                    None \<Rightarrow> Inl NilPointerDereference
                  | Some n \<Rightarrow> add_phones rest (resources(i \<mapsto> \<lparr>Name = n\<rparr>))))
          else add_phones rest resources)"

partial_function (option) getAllPhones_pages ::
  "'sv sdk \<Rightarrow> nat \<Rightarrow> ResourceIDMetaMap \<Rightarrow> 'sv state
   \<Rightarrow> ((failure + ResourceIDMetaMap) \<times> 'sv state) option"
where
  "getAllPhones_pages sdk pageNum resources s =
     (case invoke (GetTelephonyProvidersEdgesPhonesReq pageNum 100)
             (GetTelephonyProvidersEdgesPhones sdk pageNum 100) s of
        ((phones, resp, Some getErr), s') \<Rightarrow>
          Some (Inl (Diag (''Failed to get page of phones: '' @ getErr)), s')
      | ((None, resp, None), s') \<Rightarrow> Some (Inl (Panicked NilPointerDereference), s')
      | ((Some phones, resp, None), s') \<Rightarrow>
          (case Entities phones of
             None \<Rightarrow> Some (Inr resources, s')
           | Some [] \<Rightarrow> Some (Inr resources, s')
           | Some (e # es) \<Rightarrow>
               (case add_phones (e # es) resources of
                  Inl p \<Rightarrow> Some (Inl (Panicked p), s')
                | Inr resources' \<Rightarrow> getAllPhones_pages sdk (pageNum + 1) resources' s')))"

definition getAllPhones ::
  "'sv sdk \<Rightarrow> 'sv state \<Rightarrow> ((failure + ResourceIDMetaMap) \<times> 'sv state) option"
where
  "getAllPhones sdk s = getAllPhones_pages sdk 1 Map.empty s"

definition deletePhone_attempt :: "'sv sdk \<Rightarrow> 'sv state \<Rightarrow> attempt \<times> 'sv state" where
  "deletePhone_attempt sdk s =
     (let i = rd_Id (rdata s) in
      case invoke (GetTelephonyProvidersEdgesPhoneReq i) (GetTelephonyProvidersEdgesPhone sdk i) s of
        ((phone, resp, Some err), s1) \<Rightarrow>
          (if isStatus404 resp then (Done, s1)
           else (NonRetryableError (''Error deleting Phone '' @ i @ '': '' @ err), s1))
      | ((None, resp, None), s1) \<Rightarrow> (Crash NilPointerDereference, s1)
      | ((Some phone, resp, None), s1) \<Rightarrow>
          (case Entity_State phone of
             None \<Rightarrow> (Crash NilPointerDereference, s1)
           | Some st \<Rightarrow>
               if st = ''deleted'' then (Done, s1)
               else (RetryableError (''Phone '' @ i @ '' still exists''), s1)))"

definition deletePhone :: "'sv sdk \<Rightarrow> 'sv state \<Rightarrow> failure option \<times> 'sv state" where
  "deletePhone sdk s =
     (let i = rd_Id (rdata s) in
      case invoke (DeleteTelephonyProvidersEdgesPhoneReq i) (DeleteTelephonyProvidersEdgesPhone sdk i) s of
        ((resp, Some err), s1) \<Rightarrow> (Some (Diag (''Failed to delete phone: '' @ err)), s1)
      | ((resp, None), s1) \<Rightarrow> withRetries sdk 30 (deletePhone_attempt sdk) s1)"

section \<open>Data sources\<close>

text \<open>The \<open>for _, queue := range *queues.Entities\<close> loop of \<open>dataSourceRoutingQueueRead\<close>.\<close>

fun find_queue :: "string \<Rightarrow> Entity list \<Rightarrow> panic + string option" where
  "find_queue name [] = Inr None"
| "find_queue name (queue # rest) =
     (if Entity_Name queue = Some name then
        (case Entity_Id queue of None \<Rightarrow> Inl NilPointerDereference | Some i \<Rightarrow> Inr (Some i))
      else find_queue name rest)"

text \<open>
  The closure of \<open>dataSourceRoutingQueueRead\<close>: a page loop without a bound of its own,
  hence partial.
\<close>

partial_function (option) dataSourceRoutingQueueRead_pages ::
  "'sv sdk \<Rightarrow> string \<Rightarrow> nat \<Rightarrow> 'sv state \<Rightarrow> (attempt \<times> 'sv state) option"
where
  "dataSourceRoutingQueueRead_pages sdk name pageNum s =
     (case invoke (GetRoutingQueuesReq pageNum 100 name) (GetRoutingQueues sdk pageNum 100 name) s of
        ((queues, resp, Some getErr), s') \<Rightarrow>
          Some (NonRetryableError (''Error requesting queue '' @ name @ '': '' @ getErr), s')
      | ((None, resp, None), s') \<Rightarrow> Some (Crash NilPointerDereference, s')
      | ((Some queues, resp, None), s') \<Rightarrow>
          (case Entities queues of
             None \<Rightarrow> Some (RetryableError (''No routing queues found with name '' @ name), s')
           | Some [] \<Rightarrow> Some (RetryableError (''No routing queues found with name '' @ name), s')
           | Some (e # es) \<Rightarrow>
               (case find_queue name (e # es) of
                  Inl p \<Rightarrow> Some (Crash p, s')
                | Inr (Some i) \<Rightarrow> Some (Done, on_rdata (SetId i) s')
                | Inr None \<Rightarrow> dataSourceRoutingQueueRead_pages sdk name (pageNum + 1) s')))"

text \<open>
  Modelled from the spec: \<open>withRetries\<close> (see above) applied to a method with a loop of
  its own, which may not return: \<open>None\<close> is a run in which some attempt does not return.
\<close>

fun retry_loop_partial ::
  "nat \<Rightarrow> ('s \<Rightarrow> (attempt \<times> 's) option) \<Rightarrow> 's \<Rightarrow> (failure option \<times> 's) option"
where
  "retry_loop_partial 0 method s =
     (case method s of
        None \<Rightarrow> None
      | Some (Done, s') \<Rightarrow> Some (None, s')
      | Some (RetryableError e, s') \<Rightarrow> Some (Some (RetryExhausted e), s')
      | Some (NonRetryableError e, s') \<Rightarrow> Some (Some (Diag e), s')
      | Some (Crash p, s') \<Rightarrow> Some (Some (Panicked p), s'))"
| "retry_loop_partial (Suc n) method s =
     (case method s of
        None \<Rightarrow> None
      | Some (Done, s') \<Rightarrow> Some (None, s')
      | Some (RetryableError e, s') \<Rightarrow> retry_loop_partial n method s'
      | Some (NonRetryableError e, s') \<Rightarrow> Some (Some (Diag e), s')
      | Some (Crash p, s') \<Rightarrow> Some (Some (Panicked p), s'))"

definition dataSourceRoutingQueueRead ::
  "'sv sdk \<Rightarrow> 'sv state \<Rightarrow> (failure option \<times> 'sv state) option"
where
  "dataSourceRoutingQueueRead sdk s =
     (let name = Get_string (rdata s) ''name'' in
      retry_loop_partial (15 div poll_interval sdk) (dataSourceRoutingQueueRead_pages sdk name 1) s)"

text \<open>The closure of \<open>dataSourceScheduleGroupRead\<close>: one page, its first entity.\<close>

definition dataSourceScheduleGroupRead_attempt ::
  "'sv sdk \<Rightarrow> string \<Rightarrow> 'sv state \<Rightarrow> attempt \<times> 'sv state"
where
  "dataSourceScheduleGroupRead_attempt sdk name s =
     (case invoke (GetArchitectSchedulegroupsReq 1 100 name)
             (GetArchitectSchedulegroups sdk 1 100 name) s of
        ((scheduleGroups, resp, Some getErr), s') \<Rightarrow>
          (NonRetryableError (''Error requesting schedule group '' @ name @ '': '' @ getErr), s')
      | ((None, resp, None), s') \<Rightarrow> (Crash NilPointerDereference, s')
      | ((Some scheduleGroups, resp, None), s') \<Rightarrow>
          (case Entities scheduleGroups of
             None \<Rightarrow> (RetryableError (''No schedule groups found with name '' @ name), s')
           | Some [] \<Rightarrow> (RetryableError (''No schedule groups found with name '' @ name), s')
           | Some (scheduleGroup # rest) \<Rightarrow>
               (case Entity_Id scheduleGroup of
                  None \<Rightarrow> (Crash NilPointerDereference, s')
                | Some i \<Rightarrow> (Done, on_rdata (SetId i) s'))))"

definition dataSourceScheduleGroupRead :: "'sv sdk \<Rightarrow> 'sv state \<Rightarrow> failure option \<times> 'sv state" where
  "dataSourceScheduleGroupRead sdk s =
     (let name = Get_string (rdata s) ''name'' in
      withRetries sdk 15 (dataSourceScheduleGroupRead_attempt sdk name) s)"

section \<open>Example configurations and servers\<close>

text \<open>Concrete inputs on which the theorems below are instantiated.\<close>

text \<open>An action whose request block asks for a GET with one header.\<close>

definition get_action_data :: ResourceData where
  "get_action_data =
     \<lparr>rd_Id = ''a1'',
      rd_attrs = [''config_request'' \<mapsto>
         TList [TMap [(''request_url_template'', TString ''https://example.org/v1''),
                      (''request_type'', TString ''GET''),
                      (''request_template'', TString ''${input.rawRequest}''),
                      (''headers'', TMap [(''Accept'', TString ''application/json'')])]]],
      rd_IsNewResource = False\<rparr>"

text \<open>A resource with no attribute set.\<close>

definition bare_data :: ResourceData where
  "bare_data = \<lparr>rd_Id = ''id-1'', rd_attrs = Map.empty, rd_IsNewResource = False\<rparr>"

text \<open>An OAuth client whose scopes are set and whose other optional attributes are not.\<close>

definition scoped_client_data :: ResourceData where
  "scoped_client_data =
     \<lparr>rd_Id = ''client-1'',
      rd_attrs = [''name'' \<mapsto> TString ''cli'', ''scopes'' \<mapsto> TSet [TString ''openid'']],
      rd_IsNewResource = False\<rparr>"

text \<open>
  A server that answers no call (every endpoint returns a transport error). The helper
  parameters get plain instances: a 409 response is a version mismatch, and
  \<open>buildSdkStringList\<close> follows the pattern of \<open>buildOAuthScopes\<close>. The servers of the
  examples below override the endpoints they need.
\<close>

definition offline_sdk :: "'sv sdk" where
  "offline_sdk =
     \<lparr>GetIntegrationsActions = (\<lambda>pageSize pageNum sv. ((None, None, Some ''offline''), sv)),
      sdkGetIntegrationAction = (\<lambda>i sv. ((None, None, Some ''offline''), sv)),
      sdkGetIntegrationActionTemplate = (\<lambda>i templateName sv. ((None, None, Some ''offline''), sv)),
      PatchIntegrationsAction = (\<lambda>i body sv. ((None, None, Some ''offline''), sv)),
      DeleteIntegrationsAction = (\<lambda>i sv. ((None, Some ''offline''), sv)),
      GetIntegrationsCredentials = (\<lambda>pageNum pageSize sv. ((None, None, Some ''offline''), sv)),
      GetIntegrationsCredential = (\<lambda>i sv. ((None, None, Some ''offline''), sv)),
      DeleteIntegrationsCredential = (\<lambda>i sv. ((None, Some ''offline''), sv)),
      GetOauthClients = (\<lambda>sv. ((None, None, Some ''offline''), sv)),
      GetOauthClient = (\<lambda>i sv. ((None, None, Some ''offline''), sv)),
      PutOauthClient = (\<lambda>i body sv. ((None, None, Some ''offline''), sv)),
      DeleteOauthClient = (\<lambda>i sv. ((None, Some ''offline''), sv)),
      GetIdentityprovidersGeneric = (\<lambda>sv. ((None, None, Some ''offline''), sv)),
      PutIdentityprovidersGeneric = (\<lambda>body sv. ((None, None, Some ''offline''), sv)),
      DeleteIdentityprovidersGeneric = (\<lambda>sv. ((None, None, Some ''offline''), sv)),
      GetTelephonyProvidersEdgesPhones = (\<lambda>pageNum pageSize sv. ((None, None, Some ''offline''), sv)),
      GetTelephonyProvidersEdgesPhone = (\<lambda>i sv. ((None, None, Some ''offline''), sv)),
      DeleteTelephonyProvidersEdgesPhone = (\<lambda>i sv. ((None, Some ''offline''), sv)),
      GetRoutingQueues = (\<lambda>pageNum pageSize name sv. ((None, None, Some ''offline''), sv)),
      GetArchitectSchedulegroups = (\<lambda>pageNum pageSize name sv. ((None, None, Some ''offline''), sv)),
      json_Marshal = (\<lambda>v. Inl ''unsupported''),
      isVersionMismatch = (\<lambda>resp. case resp of None \<Rightarrow> False | Some r \<Rightarrow> StatusCode r = 409),
      getHomeDivisionID = Inr ''home'',
      buildSdkStringList = (\<lambda>d key. if GetOk d key then setToStringList (Get_set d key) else None),
      poll_interval = 10,
      retry_limit = 3\<rparr>"

text \<open>Identity provider configurations with one and with two certificates.\<close>

definition one_certificate_data :: ResourceData where
  "one_certificate_data =
     \<lparr>rd_Id = ''generic'',
      rd_attrs = [''name'' \<mapsto> TString ''idp'', ''certificates'' \<mapsto> TSet [TString ''CERT-A'']],
      rd_IsNewResource = False\<rparr>"

definition two_certificates_data :: ResourceData where
  "two_certificates_data =
     \<lparr>rd_Id = ''generic'',
      rd_attrs = [''name'' \<mapsto> TString ''idp'',
                  ''certificates'' \<mapsto> TSet [TString ''CERT-A'', TString ''CERT-B'']],
      rd_IsNewResource = False\<rparr>"

text \<open>
  An OAuth client whose scopes are set to the empty set, with one redirect URI and one
  role that names no division.
\<close>

definition cleared_client_data :: ResourceData where
  "cleared_client_data =
     \<lparr>rd_Id = ''client-2'',
      rd_attrs = [''name'' \<mapsto> TString ''cli'',
                  ''scopes'' \<mapsto> TSet [],
                  ''registered_redirect_uris'' \<mapsto> TSet [TString ''https://app.example.org/cb''],
                  ''roles'' \<mapsto> TSet [TMap [(''role_id'', TString ''role-1'')]]],
      rd_IsNewResource = False\<rparr>"

text \<open>
  An action whose request block has no headers and whose response block holds only a
  success template, and an action whose response block holds only a translation map.
\<close>

definition plain_action_data :: ResourceData where
  "plain_action_data =
     \<lparr>rd_Id = ''a2'',
      rd_attrs = [''config_request'' \<mapsto>
                    TList [TMap [(''request_url_template'', TString ''https://example.org/v1''),
                                 (''request_type'', TString ''POST''),
                                 (''request_template'', TString ''${input.rawRequest}'')]],
                  ''config_response'' \<mapsto>
                    TList [TMap [(''success_template'', TString ''${rawResult}'')]]],
      rd_IsNewResource = False\<rparr>"

definition mapped_action_data :: ResourceData where
  "mapped_action_data =
     \<lparr>rd_Id = ''a3'',
      rd_attrs = [''config_response'' \<mapsto>
                    TList [TMap [(''translation_map'', TMap [(''id'', TString ''$.id'')])]]],
      rd_IsNewResource = False\<rparr>"

text \<open>
  Plain instances of the phone builders' helpers: a reference to a non-empty ID, the
  strings of a list, and a string printed as itself.
\<close>

definition plain_helpers :: phone_helpers where
  "plain_helpers =
     \<lparr>buildSdkDomainEntityRef =
        (\<lambda>d idAttr. if Get_string d idAttr = [] then None
                     else Some \<lparr>ref_Id = Some (Get_string d idAttr)\<rparr>),
      interfaceListToStrings = map (\<lambda>v. case v of TString x \<Rightarrow> x | _ \<Rightarrow> []),
      fmt_Sprint = (\<lambda>v. case v of TString x \<Rightarrow> x | _ \<Rightarrow> [])\<rparr>"

text \<open>
  A desk phone with a capabilities block and no line addresses, and a WebRTC phone
  without a capabilities block.
\<close>

definition desk_phone_data :: ResourceData where
  "desk_phone_data =
     \<lparr>rd_Id = ''p-1'',
      rd_attrs = [''name'' \<mapsto> TString ''desk'',
                  ''state'' \<mapsto> TString ''active'',
                  ''site_id'' \<mapsto> TString ''site-1'',
                  ''phone_base_settings_id'' \<mapsto> TString ''pbs-1'',
                  ''line_base_settings_id'' \<mapsto> TString ''lbs-1'',
                  ''capabilities'' \<mapsto>
                    TList [TMap [(''provisions'', TBool False),
                                 (''registers'', TBool True),
                                 (''dual_registers'', TBool False),
                                 (''hardware_id_type'', TString ''mac''),
                                 (''allow_reboot'', TBool False),
                                 (''no_rebalance'', TBool False),
                                 (''no_cloud_provisioning'', TBool False),
                                 (''media_codecs'', TList [TString ''audio/opus'']),
                                 (''cdm'', TBool True)]]],
      rd_IsNewResource = True\<rparr>"

definition softphone_data :: ResourceData where
  "softphone_data =
     \<lparr>rd_Id = ''p-2'',
      rd_attrs = [''name'' \<mapsto> TString ''soft'',
                  ''state'' \<mapsto> TString ''active'',
                  ''site_id'' \<mapsto> TString ''site-1'',
                  ''phone_base_settings_id'' \<mapsto> TString ''pbs-2'',
                  ''line_base_settings_id'' \<mapsto> TString ''lbs-2'',
                  ''web_rtc_user_id'' \<mapsto> TString ''user-1''],
      rd_IsNewResource = True\<rparr>"


section \<open>Views used to state the exporters' properties\<close>

text \<open>
  The entity loops of the four exporters share one shape: per entity, panic on a nil
  field, skip the entity, or store its name under its ID. \<open>add_entries\<close> is that shape
  and the \<open>_entry\<close> functions are the four bodies; the lemmas \<open>add_actions_entries\<close>,
  \<open>add_credentials_entries\<close>, \<open>add_phones_entries\<close> and \<open>add_clients_entries\<close> show that
  the loops of the source are its instances.
\<close>

fun add_entries ::
  "(Entity \<Rightarrow> panic + (string \<times> string) option) \<Rightarrow> Entity list \<Rightarrow> ResourceIDMetaMap
   \<Rightarrow> panic + ResourceIDMetaMap"
where
  "add_entries f [] resources = Inr resources"
| "add_entries f (e # rest) resources =
     (case f e of
        Inl p \<Rightarrow> Inl p
      | Inr None \<Rightarrow> add_entries f rest resources
      | Inr (Some (i, n)) \<Rightarrow> add_entries f rest (resources(i \<mapsto> \<lparr>Name = n\<rparr>)))"

definition action_entry :: "Entity \<Rightarrow> panic + (string \<times> string) option" where
  "action_entry action =
     (case Entity_Id action of
        None \<Rightarrow> Inl NilPointerDereference
      | Some i \<Rightarrow>
          if prefix ''static'' i then Inr None
          else (case Entity_Name action of
                  None \<Rightarrow> Inl NilPointerDereference
                | Some n \<Rightarrow> Inr (Some (i, n))))"

definition credential_entry :: "Entity \<Rightarrow> panic + (string \<times> string) option" where
  "credential_entry cred =
     (case Entity_Name cred of
        None \<Rightarrow> Inr None
      | Some n \<Rightarrow>
          (case Entity_Id cred of
             None \<Rightarrow> Inl NilPointerDereference
           | Some i \<Rightarrow> Inr (Some (i, n))))"

definition phone_entry :: "Entity \<Rightarrow> panic + (string \<times> string) option" where
  "phone_entry phone =
     (case Entity_State phone of
        None \<Rightarrow> Inl NilPointerDereference
      | Some st \<Rightarrow>
          if st \<noteq> ''deleted'' then
            (case Entity_Id phone of
               None \<Rightarrow> Inl NilPointerDereference
             | Some i \<Rightarrow>
                 (case Entity_Name phone of
                    None \<Rightarrow> Inl NilPointerDereference
                  | Some n \<Rightarrow> Inr (Some (i, n))))
          else Inr None)"

definition client_entry :: "Entity \<Rightarrow> panic + (string \<times> string) option" where
  "client_entry client =
     (if Entity_State client = Some ''disabled'' then Inr None
      else
        (case Entity_Id client of
           None \<Rightarrow> Inl NilPointerDereference
         | Some i \<Rightarrow>
             (case Entity_Name client of
                None \<Rightarrow> Inl NilPointerDereference
              | Some n \<Rightarrow> Inr (Some (i, n)))))"

text \<open>
  A listing that does not change while it is paged through: whatever the server's state,
  pages \<open>1\<close> to \<open>n - 1\<close> hold the non-empty entity lists \<open>pages k\<close>, and page \<open>n\<close> is
  the first one whose entity list is empty or absent.
\<close>

definition stable_pages ::
  "(nat \<Rightarrow> 'sv \<Rightarrow> Entitylisting sdk_result \<times> 'sv) \<Rightarrow> nat \<Rightarrow> (nat \<Rightarrow> Entity list) \<Rightarrow> bool"
where
  "stable_pages fetch n pages \<longleftrightarrow>
     1 \<le> n
     \<and> (\<forall>k sv. 1 \<le> k \<and> k < n \<longrightarrow>
           pages k \<noteq> []
           \<and> (\<exists>resp sv'. fetch k sv = ((Some \<lparr>Entities = Some (pages k)\<rparr>, resp, None), sv')))
     \<and> (\<forall>sv. \<exists>listing resp sv'.
           fetch n sv = ((Some listing, resp, None), sv')
           \<and> (Entities listing = None \<or> Entities listing = Some []))"

text \<open>A successful response.\<close>

definition ok_response :: APIResponse where
  "ok_response = \<lparr>StatusCode = 200, ErrorMessage = []\<rparr>"

text \<open>A listed entity with all three fields present.\<close>

definition listed :: "string \<Rightarrow> string \<Rightarrow> string \<Rightarrow> Entity" where
  "listed i n st = \<lparr>Entity_Id = Some i, Entity_Name = Some n, Entity_State = Some st\<rparr>"

text \<open>A listing endpoint that holds one page of entities; every later page is empty.\<close>

definition one_page :: "Entity list \<Rightarrow> nat \<Rightarrow> 'sv \<Rightarrow> Entitylisting sdk_result \<times> 'sv" where
  "one_page es pageNum sv =
     (if pageNum = 1 then ((Some \<lparr>Entities = Some es\<rparr>, Some ok_response, None), sv)
      else ((Some \<lparr>Entities = Some []\<rparr>, Some ok_response, None), sv))"

text \<open>
  A server with two actions (one of them static), two credentials (one without a name),
  two OAuth clients (one disabled) and two phones (one deleted).
\<close>

definition listing_sdk :: "unit sdk" where
  "listing_sdk = offline_sdk
     \<lparr>GetIntegrationsActions :=
        (\<lambda>pageSize. one_page [listed ''static-1'' ''builtin'' ''active'', listed ''a-1'' ''lookup'' ''active'']),
      GetIntegrationsCredentials :=
        (\<lambda>pageNum pageSize. one_page
           [listed ''c-1'' ''basic'' ''active'',
            \<lparr>Entity_Id = Some ''c-2'', Entity_Name = None, Entity_State = None\<rparr>] pageNum),
      GetOauthClients :=
        (\<lambda>sv. ((Some \<lparr>Entities = Some [listed ''o-1'' ''cli'' ''active'', listed ''o-2'' ''old'' ''disabled'']\<rparr>,
                 Some ok_response, None), sv)),
      GetTelephonyProvidersEdgesPhones :=
        (\<lambda>pageNum pageSize. one_page
           [listed ''p-1'' ''desk'' ''active'', listed ''p-2'' ''gone'' ''deleted''] pageNum)\<rparr>"

text \<open>The state before any call, on a server without state of its own.\<close>

definition start_state :: "unit state" where
  "start_state = \<lparr>rdata = bare_data, server = (), trace = []\<rparr>"


section \<open>What a poll observes\<close>

text \<open>
  The outcomes of the GET that a delete operation polls, in the words of the
  specification: not found (an error whose response has status 404), reporting the
  terminal state \<open>deleted\<close>, found (no error), and found alive (an entity with a state
  other than \<open>deleted\<close>). \<open>st\<close> selects the state field of the payload.
\<close>

definition not_found :: "'a sdk_result \<Rightarrow> bool" where
  "not_found r \<longleftrightarrow> snd (snd r) \<noteq> None \<and> isStatus404 (fst (snd r))"

definition reports_deleted :: "('a \<Rightarrow> string option) \<Rightarrow> 'a sdk_result \<Rightarrow> bool" where
  "reports_deleted st r \<longleftrightarrow>
     snd (snd r) = None \<and> (case fst r of None \<Rightarrow> False | Some x \<Rightarrow> st x = Some ''deleted'')"

definition found :: "'a sdk_result \<Rightarrow> bool" where
  "found r \<longleftrightarrow> snd (snd r) = None"

definition found_alive :: "('a \<Rightarrow> string option) \<Rightarrow> 'a sdk_result \<Rightarrow> bool" where
  "found_alive st r \<longleftrightarrow>
     snd (snd r) = None
     \<and> (case fst r of
          None \<Rightarrow> False
        | Some x \<Rightarrow> (case st x of None \<Rightarrow> False | Some v \<Rightarrow> v \<noteq> ''deleted''))"

text \<open>Entities as a server may return them.\<close>

definition stored_action :: IntegrationAction where
  "stored_action =
     \<lparr>action_Id = Some ''id-1'', action_Name = Some ''lookup'', action_Category = Some ''web'',
      action_IntegrationId = Some ''int-1'', action_Secure = Some False, action_Config = None,
      action_Contract = None, action_Version = Some 1\<rparr>"

definition active_client :: Oauthclient where
  "active_client =
     \<lparr>client_Name = Some ''cli'', client_Description = None,
      client_AccessTokenValiditySeconds = Some 86400,
      client_AuthorizedGrantType = Some ''CLIENT-CREDENTIALS'', client_State = Some ''inactive'',
      client_RegisteredRedirectUri = None, client_Scope = None, client_RoleDivisions = None\<rparr>"

definition stored_saml :: Genericsaml where
  "stored_saml =
     \<lparr>saml_Name = Some ''idp'', saml_Certificate = Some ''CERT-A'', saml_Certificates = None,
      saml_IssuerURI = Some ''https://idp.example.org'', saml_SsoTargetURI = None,
      saml_RelyingPartyIdentifier = None, saml_Disabled = Some False, saml_LogoImageData = None,
      saml_EndpointCompression = Some False, saml_NameIdentifierFormat = None\<rparr>"

text \<open>
  A server that accepts every delete and update and keeps returning the entity: nothing
  is ever gone.
\<close>

definition lingering_sdk :: "unit sdk" where
  "lingering_sdk = offline_sdk
     \<lparr>sdkGetIntegrationAction := (\<lambda>i sv. ((Some stored_action, Some ok_response, None), sv)),
      DeleteIntegrationsAction := (\<lambda>i sv. ((Some ok_response, None), sv)),
      GetIntegrationsCredential := (\<lambda>i sv. ((Some (), Some ok_response, None), sv)),
      DeleteIntegrationsCredential := (\<lambda>i sv. ((Some ok_response, None), sv)),
      GetOauthClient := (\<lambda>i sv. ((Some active_client, Some ok_response, None), sv)),
      PutOauthClient := (\<lambda>i body sv. ((Some (), Some ok_response, None), sv)),
      DeleteOauthClient := (\<lambda>i sv. ((Some ok_response, None), sv)),
      GetIdentityprovidersGeneric := (\<lambda>sv. ((Some stored_saml, Some ok_response, None), sv)),
      DeleteIdentityprovidersGeneric := (\<lambda>sv. ((Some (), Some ok_response, None), sv)),
      GetTelephonyProvidersEdgesPhone :=
        (\<lambda>i sv. ((Some (listed i ''desk'' ''active''), Some ok_response, None), sv)),
      DeleteTelephonyProvidersEdgesPhone := (\<lambda>i sv. ((Some ok_response, None), sv))\<rparr>"

text \<open>The response of a GET for an entity that does not exist.\<close>

definition missing_response :: APIResponse where
  "missing_response = \<lparr>StatusCode = 404, ErrorMessage = ''not found''\<rparr>"

text \<open>A server that accepts every delete and update and finds no entity.\<close>

definition vanishing_sdk :: "unit sdk" where
  "vanishing_sdk = offline_sdk
     \<lparr>sdkGetIntegrationAction := (\<lambda>i sv. ((None, Some missing_response, Some ''API Error: 404''), sv)),
      DeleteIntegrationsAction := (\<lambda>i sv. ((Some ok_response, None), sv)),
      GetIntegrationsCredential := (\<lambda>i sv. ((None, Some missing_response, Some ''API Error: 404''), sv)),
      DeleteIntegrationsCredential := (\<lambda>i sv. ((Some ok_response, None), sv)),
      GetOauthClient := (\<lambda>i sv. ((None, Some missing_response, Some ''API Error: 404''), sv)),
      PutOauthClient := (\<lambda>i body sv. ((Some (), Some ok_response, None), sv)),
      DeleteOauthClient := (\<lambda>i sv. ((Some ok_response, None), sv)),
      GetIdentityprovidersGeneric := (\<lambda>sv. ((None, Some missing_response, Some ''API Error: 404''), sv)),
      DeleteIdentityprovidersGeneric := (\<lambda>sv. ((Some (), Some ok_response, None), sv)),
      GetTelephonyProvidersEdgesPhone :=
        (\<lambda>i sv. ((None, Some missing_response, Some ''API Error: 404''), sv)),
      DeleteTelephonyProvidersEdgesPhone := (\<lambda>i sv. ((Some ok_response, None), sv))\<rparr>"


text \<open>The state of a resource that has just been created.\<close>

definition created_state :: "unit state" where
  "created_state = start_state\<lparr>rdata := bare_data\<lparr>rd_IsNewResource := True\<rparr>\<rparr>"

text \<open>A server that returns the action and has lost its request template.\<close>

definition templateless_sdk :: "unit sdk" where
  "templateless_sdk = lingering_sdk
     \<lparr>sdkGetIntegrationActionTemplate :=
        (\<lambda>i templateName sv. ((None, Some missing_response, Some ''API Error: 404''), sv))\<rparr>"


text \<open>
  The response of a PATCH that the server rejects because the entity changed after the
  version was read.
\<close>

definition conflict_response :: APIResponse where
  "conflict_response = \<lparr>StatusCode = 409, ErrorMessage = ''version mismatch''\<rparr>"

text \<open>
  A server on which another writer is active: its state counts the updates of the other
  writer that are still to land between a GET and the next PATCH. While the count is
  positive a PATCH is rejected with 409 (and one such update has landed); afterwards
  every PATCH is accepted. Every GET succeeds.
\<close>

definition racing_sdk :: "nat sdk" where
  "racing_sdk = offline_sdk
     \<lparr>sdkGetIntegrationAction := (\<lambda>i sv. ((Some stored_action, Some ok_response, None), sv)),
      sdkGetIntegrationActionTemplate :=
        (\<lambda>i templateName sv. ((Some ''{}'', Some ok_response, None), sv)),
      PatchIntegrationsAction :=
        (\<lambda>i body sv.
           if 0 < sv then ((None, Some conflict_response, Some ''API Error: 409''), sv - 1)
           else ((Some (), Some ok_response, None), sv))\<rparr>"

definition lookup_action_data :: ResourceData where
  "lookup_action_data =
     \<lparr>rd_Id = ''id-1'',
      rd_attrs = [''name'' \<mapsto> TString ''lookup'', ''category'' \<mapsto> TString ''web''],
      rd_IsNewResource = False\<rparr>"

text \<open>One update of the other writer is pending.\<close>

definition racing_state :: "nat state" where
  "racing_state = \<lparr>rdata = lookup_action_data, server = 1, trace = []\<rparr>"

text \<open>The PATCH body that \<open>updateIntegrationAction\<close> builds from \<open>lookup_action_data\<close>.\<close>

definition lookup_action_update :: Updateactioninput where
  "lookup_action_update =
     \<lparr>upd_Category = Some ''web'', upd_Name = Some ''lookup'',
      upd_Config = Some \<lparr>Request = Some empty_Requestconfig, Response = Some empty_Responseconfig\<rparr>,
      upd_Version = Some 1\<rparr>"

text \<open>
  A search that matches names loosely: asked for any name, it lists the one schedule
  group (and the one queue) it holds, named \<open>Sales EMEA\<close>.
\<close>

definition loose_search_sdk :: "unit sdk" where
  "loose_search_sdk = offline_sdk
     \<lparr>GetRoutingQueues := (\<lambda>pageNum pageSize name. one_page [listed ''q-2'' ''Sales EMEA'' ''active''] pageNum),
      GetArchitectSchedulegroups :=
        (\<lambda>pageNum pageSize name. one_page [listed ''sg-2'' ''Sales EMEA'' ''active''] pageNum)\<rparr>"

text \<open>A data source asked for the name \<open>Sales\<close>.\<close>

definition sales_lookup_state :: "unit state" where
  "sales_lookup_state =
     \<lparr>rdata = \<lparr>rd_Id = [], rd_attrs = [''name'' \<mapsto> TString ''Sales''], rd_IsNewResource = True\<rparr>,
      server = (), trace = []\<rparr>"


text \<open>
  The server state in which the poll number \<open>k\<close> (counted from 0) of the endpoint \<open>get\<close>
  is answered, when the first poll is answered in \<open>sv\<close> and nothing but the polls
  touches the server.
\<close>

fun poll_server :: "('sv \<Rightarrow> 'a \<times> 'sv) \<Rightarrow> nat \<Rightarrow> 'sv \<Rightarrow> 'sv" where
  "poll_server get 0 sv = sv"
| "poll_server get (Suc k) sv = poll_server get k (snd (get sv))"

text \<open>
  A server on which a deleted entity stays visible for a while: its state is \<open>None\<close>
  while the entity is stored, and \<open>Some n\<close> after a delete call was accepted, when \<open>n\<close>
  more GETs still find the entity before it is gone. A phone that is gone is still
  returned, in the state \<open>deleted\<close>; every other entity is then not found.
\<close>

definition lagging_get :: "'a \<Rightarrow> nat option \<Rightarrow> 'a sdk_result \<times> nat option" where
  "lagging_get x sv =
     (case sv of
        None \<Rightarrow> ((Some x, Some ok_response, None), None)
      | Some (Suc n) \<Rightarrow> ((Some x, Some ok_response, None), Some n)
      | Some 0 \<Rightarrow> ((None, Some missing_response, Some ''API Error: 404''), Some 0))"

definition lagging_phone :: "string \<Rightarrow> nat option \<Rightarrow> Entity sdk_result \<times> nat option" where
  "lagging_phone i sv =
     (case sv of
        None \<Rightarrow> ((Some (listed i ''desk'' ''active''), Some ok_response, None), None)
      | Some (Suc n) \<Rightarrow> ((Some (listed i ''desk'' ''active''), Some ok_response, None), Some n)
      | Some 0 \<Rightarrow> ((Some (listed i ''desk'' ''deleted''), Some ok_response, None), Some 0))"

definition lagging_sdk :: "nat option sdk" where
  "lagging_sdk = offline_sdk
     \<lparr>sdkGetIntegrationAction := (\<lambda>i. lagging_get stored_action),
      DeleteIntegrationsAction := (\<lambda>i sv. ((Some ok_response, None), Some 2)),
      GetIntegrationsCredential := (\<lambda>i. lagging_get ()),
      DeleteIntegrationsCredential := (\<lambda>i sv. ((Some ok_response, None), Some 2)),
      GetOauthClient := (\<lambda>i. lagging_get active_client),
      PutOauthClient := (\<lambda>i body sv. ((Some (), Some ok_response, None), sv)),
      DeleteOauthClient := (\<lambda>i sv. ((Some ok_response, None), Some 2)),
      GetIdentityprovidersGeneric := lagging_get stored_saml,
      DeleteIdentityprovidersGeneric := (\<lambda>sv. ((Some (), Some ok_response, None), Some 2)),
      GetTelephonyProvidersEdgesPhone := lagging_phone,
      DeleteTelephonyProvidersEdgesPhone := (\<lambda>i sv. ((Some ok_response, None), Some 2))\<rparr>"

definition lagging_state :: "nat option state" where
  "lagging_state = \<lparr>rdata = bare_data, server = None, trace = []\<rparr>"


section \<open>Properties\<close>

subsection \<open>Copying string maps\<close>

lemma copy_strings_all:
  "copy_strings (map (\<lambda>(k, x). (k, TString x)) hs) out = Inr (out ++ map_of (rev hs))"
  by (induction hs arbitrary: out) (auto simp: map_add_def fun_eq_iff split: option.splits)

lemma map_of_rev_distinct: "distinct (map fst hs) \<Longrightarrow> map_of (rev hs) = map_of hs"
  by (induction hs) (force simp: map_add_def fun_eq_iff split: option.splits dest: map_of_SomeD)+

lemma copy_strings_distinct:
  "distinct (map fst hs) \<Longrightarrow>
   copy_strings (map (\<lambda>(k, x). (k, TString x)) hs) Map.empty = Inr (map_of hs)"
  by (simp add: copy_strings_all map_of_rev_distinct)

subsection \<open>Round trip of the request configuration\<close>

text \<open>
  C6. For every \<open>config_request\<close> block (url template, request type, request template
  and a headers map with string values, or no headers), flattening the SDK request built
  from it yields exactly the four fields the block supplied: the strings verbatim, the
  headers as the same key-value map. The keys of the block's headers are distinct, as
  the keys of a Go map are.
\<close>

theorem config_request_round_trip:
  assumes cfg: "Get_list d ''config_request'' = [TMap configMap]"
    and url: "map_of configMap ''request_url_template'' = Some (TString urlTemplate)"
    and rtype: "map_of configMap ''request_type'' = Some (TString reqType)"
    and tmpl: "map_of configMap ''request_template'' = Some (TString template)"
    and hdrs: "map_of configMap ''headers'' = Some (TMap (map (\<lambda>(k, x). (k, TString x)) headers))
               \<or> (headers = [] \<and> (map_of configMap ''headers'' = None
                                  \<or> map_of configMap ''headers'' = Some TNil))"
    and dist: "distinct (map fst headers)"
  shows "case buildSdkActionConfigRequest d of
           Inl p \<Rightarrow> False
         | Inr sdkRequest \<Rightarrow>
             flattenActionConfigRequest sdkRequest =
               [TMap [(''request_url_template'', TString urlTemplate),
                      (''request_type'', TString reqType),
                      (''request_template'', TString template),
                      (''headers'', TStrMap (map_of headers))]]"
proof -
  have h: "copy_string_map (map_of configMap ''headers'') = Inr (map_of headers)"
    using hdrs dist by (auto simp: copy_string_map_def copy_strings_distinct)
  show ?thesis
    by (simp add: buildSdkActionConfigRequest_def cfg url rtype tmpl h assert_string_def
        flattenActionConfigRequest_def put_if_def)
qed

text \<open>The scenario of the specification: \<open>request_type = GET\<close> reads back as \<open>GET\<close>.\<close>

theorem config_request_round_trip_witness:
  "case buildSdkActionConfigRequest get_action_data of
     Inl p \<Rightarrow> False
   | Inr sdkRequest \<Rightarrow>
       flattenActionConfigRequest sdkRequest =
         [TMap [(''request_url_template'', TString ''https://example.org/v1''),
                (''request_type'', TString ''GET''),
                (''request_template'', TString ''${input.rawRequest}''),
                (''headers'', TStrMap (map_of [(''Accept'', ''application/json'')]))]]"
  using config_request_round_trip [of get_action_data
      "[(''request_url_template'', TString ''https://example.org/v1''),
        (''request_type'', TString ''GET''),
        (''request_template'', TString ''${input.rawRequest}''),
        (''headers'', TMap [(''Accept'', TString ''application/json'')])]"
      "''https://example.org/v1''" "''GET''" "''${input.rawRequest}''"
      "[(''Accept'', ''application/json'')]"]
  by (simp add: get_action_data_def Get_list_def)

subsection \<open>Optional fields of the wire requests\<close>

lemma setToStringList_not_None: "setToStringList xs \<noteq> None"
  by (simp add: setToStringList_def)

text \<open>
  C7, as the claim states it, fails: with \<open>fields\<close> unset \<open>buildCredentialFields\<close> still
  returns a pointer (to an empty map), and with \<open>description\<close> unset the OAuth client
  request still carries a description (the empty string).
\<close>

theorem unset_optional_fields_counterexample:
  "\<not> GetOk bare_data ''fields''
   \<and> buildCredentialFields bare_data = Inr (Some Map.empty)
   \<and> \<not> GetOk bare_data ''description''
   \<and> req_Description (updateOAuthClient_request bare_data None) = Some []"
  by (simp add: bare_data_def GetOk_def buildCredentialFields_def updateOAuthClient_request_def
      Get_string_def)

lemma buildOAuthRoles_loop_ids:
  "buildOAuthRoles_loop sdk xs acc = Inr rs \<Longrightarrow>
   \<forall>r\<in>set acc. RoleId r \<noteq> None \<and> DivisionId r \<noteq> None \<Longrightarrow>
   \<forall>r\<in>set rs. RoleId r \<noteq> None \<and> DivisionId r \<noteq> None"
proof (induction sdk xs acc rule: buildOAuthRoles_loop.induct)
  case (1 sdk sdkRoles)
  then show ?case by simp
next
  case (2 sdk roleMap rest sdkRoles)
  from "2.prems"(1) obtain roleId divisionId where
    r: "assert_string (map_of roleMap ''role_id'') = Inr roleId"
    and dv: "(case map_of roleMap ''division_id'' of
               None \<Rightarrow> Inr []
             | Some divConfig \<Rightarrow> assert_string (Some divConfig)) = Inr divisionId"
    by (auto split: sum.splits)
  show ?case
  proof (cases "divisionId = []")
    case True
    with "2.prems"(1) r dv obtain home where
      home: "getHomeDivisionID sdk = Inr home"
      and run: "buildOAuthRoles_loop sdk rest
                  (sdkRoles @ [\<lparr>RoleId = Some roleId, DivisionId = Some home\<rparr>]) = Inr rs"
      by (auto split: sum.splits)
    from "2.IH"(1) [OF r dv True home run] "2.prems"(2) show ?thesis by simp
  next
    case False
    with "2.prems"(1) r dv have
      run: "buildOAuthRoles_loop sdk rest
              (sdkRoles @ [\<lparr>RoleId = Some roleId, DivisionId = Some divisionId\<rparr>]) = Inr rs"
      by simp
    from "2.IH"(2) [OF r dv False run] "2.prems"(2) show ?thesis by simp
  qed
qed simp_all

lemma buildOAuthRoles_ids:
  "buildOAuthRoles sdk d = Inr (Some rs) \<Longrightarrow>
   \<forall>r\<in>set rs. RoleId r \<noteq> None \<and> DivisionId r \<noteq> None"
  using buildOAuthRoles_loop_ids [of sdk "Get_set d ''roles''" "[]" rs]
  by (auto simp: buildOAuthRoles_def split: if_splits sum.splits)

lemma copy_string_map_None: "copy_string_map None = Inr Map.empty"
  by (simp add: copy_string_map_def)

lemma buildSdkActionConfigRequest_set:
  assumes "buildSdkActionConfigRequest d = Inr r" and "Get_list d ''config_request'' \<noteq> []"
  shows "RequestUrlTemplate r \<noteq> None \<and> RequestTemplate r \<noteq> None
       \<and> RequestType r \<noteq> None \<and> Headers r \<noteq> None"
  using assms
  by (auto simp: buildSdkActionConfigRequest_def split: list.splits tfvalue.splits sum.splits)

lemma buildSdkActionConfigRequest_headers:
  assumes "buildSdkActionConfigRequest d = Inr r"
    and "Get_list d ''config_request'' = TMap m # rest" and "map_of m ''headers'' = None"
  shows "Headers r = Some Map.empty"
  using assms
  by (auto simp: buildSdkActionConfigRequest_def copy_string_map_None split: sum.splits)

lemma buildSdkActionConfigResponse_set:
  assumes "buildSdkActionConfigResponse d = Inr r" and "Get_list d ''config_response'' \<noteq> []"
  shows "TranslationMap r \<noteq> None \<and> TranslationMapDefaults r \<noteq> None \<and> SuccessTemplate r \<noteq> None"
  using assms
  by (auto simp: buildSdkActionConfigResponse_def split: list.splits tfvalue.splits sum.splits)

lemma buildSdkActionConfigResponse_unset_keys:
  assumes "buildSdkActionConfigResponse d = Inr r"
    and "Get_list d ''config_response'' = TMap m # rest"
  shows "map_of m ''translation_map'' = None \<Longrightarrow> TranslationMap r = Some Map.empty"
    and "map_of m ''translation_map_defaults'' = None \<Longrightarrow> TranslationMapDefaults r = Some Map.empty"
    and "map_of m ''success_template'' = None \<Longrightarrow> SuccessTemplate r = Some []"
  using assms
  by (auto simp: buildSdkActionConfigResponse_def copy_string_map_None split: sum.splits)

lemma buildSdkLines_result:
  assumes "buildSdkLines h d lineBaseSettings = Inr (lines, isStandalone)"
  shows "(\<exists>l ls. lines = Some (l # ls))
       \<and> (isStandalone \<longleftrightarrow>
            \<not> (\<not> GetOk d ''line_addresses''
               \<or> interfaceListToStrings h (Get_list d ''line_addresses'') = []))"
proof (cases "\<not> GetOk d ''line_addresses''
              \<or> interfaceListToStrings h (Get_list d ''line_addresses'') = []")
  case True
  with assms show ?thesis
    by (auto simp: buildSdkLines_def Let_def split: sum.splits)
next
  case False
  then obtain a as where "interfaceListToStrings h (Get_list d ''line_addresses'') = a # as"
    by (cases "interfaceListToStrings h (Get_list d ''line_addresses'')") auto
  with assms False show ?thesis
    by (auto simp: buildSdkLines_def Let_def enumerate_eq_zip upt_rec [of 0] split: sum.splits)
qed

lemma buildSdkCapabilities_result:
  assumes "buildSdkCapabilities h d = Inr capabilities"
  shows "\<exists>c. capabilities = Some c
           \<and> (Get_list d ''capabilities'' = [] \<longrightarrow> c = empty_Phonecapabilities)
           \<and> (Get_list d ''capabilities'' \<noteq> [] \<longrightarrow>
                cap_Provisions c \<noteq> None \<and> cap_Registers c \<noteq> None \<and> cap_DualRegisters c \<noteq> None
              \<and> cap_HardwareIdType c \<noteq> None \<and> cap_AllowReboot c \<noteq> None
              \<and> cap_NoRebalance c \<noteq> None \<and> cap_NoCloudProvisioning c \<noteq> None
              \<and> cap_MediaCodecs c \<noteq> None \<and> cap_Cdm c \<noteq> None)"
proof (cases "Get_list d ''capabilities''")
  case Nil
  with assms show ?thesis by (auto simp: buildSdkCapabilities_def)
next
  case (Cons v rest)
  with assms obtain capabilitiesMap where v: "v = TMap capabilitiesMap"
    by (cases v) (auto simp: buildSdkCapabilities_def)
  from assms Cons v show ?thesis
    by (simp add: buildSdkCapabilities_def split: sum.splits) auto
qed

lemma createPhone_request_fields:
  assumes "createPhone_request h d phoneMetaBaseId = Inr p"
  shows "phone_State p = Some (Get_string d ''state'')
       \<and> phone_WebRtcUser p
           = (if Get_string d ''web_rtc_user_id'' = [] then None
              else buildSdkDomainEntityRef h d ''web_rtc_user_id'')
       \<and> (\<exists>l ls. phone_Lines p = Some (l # ls))
       \<and> (phone_Properties p = None \<longleftrightarrow>
            (\<not> GetOk d ''line_addresses''
             \<or> interfaceListToStrings h (Get_list d ''line_addresses'') = []))
       \<and> phone_Capabilities p \<noteq> None"
proof -
  from assms obtain lines isStandalone capabilities where
    l: "buildSdkLines h d (buildSdkDomainEntityRef h d ''line_base_settings_id'') = Inr (lines, isStandalone)"
    and c: "buildSdkCapabilities h d = Inr capabilities"
    and p: "phone_State p = Some (Get_string d ''state'')"
      "phone_WebRtcUser p
         = (if Get_string d ''web_rtc_user_id'' = [] then None
            else buildSdkDomainEntityRef h d ''web_rtc_user_id'')"
      "phone_Lines p = lines" "phone_Capabilities p = capabilities"
      "phone_Properties p = (if isStandalone then Some standalone_properties else None)"
    by (auto simp: createPhone_request_def Let_def split: option.splits sum.splits prod.splits)
  from buildSdkLines_result [OF l] buildSdkCapabilities_result [OF c] p
  show ?thesis by auto
qed

lemma createPhone_request_capabilities:
  assumes "createPhone_request h d phoneMetaBaseId = Inr p" and "phone_Capabilities p = Some c"
  shows "Get_list d ''capabilities'' = [] \<Longrightarrow> c = empty_Phonecapabilities"
    and "Get_list d ''capabilities'' \<noteq> [] \<Longrightarrow>
            cap_Provisions c \<noteq> None \<and> cap_Registers c \<noteq> None \<and> cap_DualRegisters c \<noteq> None
          \<and> cap_HardwareIdType c \<noteq> None \<and> cap_AllowReboot c \<noteq> None
          \<and> cap_NoRebalance c \<noteq> None \<and> cap_NoCloudProvisioning c \<noteq> None
          \<and> cap_MediaCodecs c \<noteq> None \<and> cap_Cdm c \<noteq> None"
proof -
  from assms(1) obtain capabilities where
    c: "buildSdkCapabilities h d = Inr capabilities" and "phone_Capabilities p = capabilities"
    by (auto simp: createPhone_request_def Let_def split: option.splits sum.splits prod.splits)
  with assms(2) buildSdkCapabilities_result [OF c]
  show "Get_list d ''capabilities'' = [] \<Longrightarrow> c = empty_Phonecapabilities"
    and "Get_list d ''capabilities'' \<noteq> [] \<Longrightarrow>
            cap_Provisions c \<noteq> None \<and> cap_Registers c \<noteq> None \<and> cap_DualRegisters c \<noteq> None
          \<and> cap_HardwareIdType c \<noteq> None \<and> cap_AllowReboot c \<noteq> None
          \<and> cap_NoRebalance c \<noteq> None \<and> cap_NoCloudProvisioning c \<noteq> None
          \<and> cap_MediaCodecs c \<noteq> None \<and> cap_Cdm c \<noteq> None"
    by auto
qed

lemma updatePhone_request_fields:
  assumes "updatePhone_request h d = Inr p"
  shows "phone_State p = None \<and> phone_Capabilities p = None
       \<and> phone_WebRtcUser p
           = (if Get_string d ''web_rtc_user_id'' = [] then None
              else buildSdkDomainEntityRef h d ''web_rtc_user_id'')
       \<and> (\<exists>l ls. phone_Lines p = Some (l # ls))
       \<and> (phone_Properties p = None \<longleftrightarrow>
            (\<not> GetOk d ''line_addresses''
             \<or> interfaceListToStrings h (Get_list d ''line_addresses'') = []))"
proof -
  from assms obtain lines isStandalone where
    l: "buildSdkLines h d (buildSdkDomainEntityRef h d ''line_base_settings_id'') = Inr (lines, isStandalone)"
    and p: "phone_State p = None" "phone_Capabilities p = None"
      "phone_WebRtcUser p
         = (if Get_string d ''web_rtc_user_id'' = [] then None
            else buildSdkDomainEntityRef h d ''web_rtc_user_id'')"
      "phone_Lines p = lines"
      "phone_Properties p = (if isStandalone then Some standalone_properties else None)"
    by (auto simp: updatePhone_request_def Let_def split: option.splits sum.splits prod.splits)
  from buildSdkLines_result [OF l] p show ?thesis by auto
qed

text \<open>
  C7, amended. What the request builders of the five resources do with every optional
  attribute.

  Absent (nil) in some configurations: the OAuth client's scopes, registered redirect
  URIs and roles are absent exactly when \<open>GetOk\<close> reports no value, that is, when the
  attribute is unset and also when it is set to the empty set (a cleared set is sent
  like an unset one), and present when the set has an element. The phone's WebRTC
  user is absent when \<open>web_rtc_user_id\<close> is unset or empty and is otherwise what
  \<open>buildSdkDomainEntityRef\<close> returns; the phone's standalone properties are absent
  exactly when \<open>line_addresses\<close> yields no address. An integration action's
  \<open>config_request\<close> or \<open>config_response\<close> block that is unset, and a phone's unset
  \<open>capabilities\<close> block, are sent as a present structure all of whose fields are absent.
  The request of a phone update never carries state or capabilities.

  Always present, with the value \<open>d.Get\<close> returns (the zero value or the schema's
  default when unset): the credential's name and fields (an empty map); the OAuth
  client's description, token validity and state, and the division of every role (the
  home division when unset); the identity provider's target URI, relying party
  identifier, disabled flag, logo image data, endpoint compression and name identifier
  format; the integration action's secure flag and, inside a block that is set, its
  request template, headers, translation maps (empty maps) and success template; the
  phone's state on create, its lines (one default line without addresses) and, inside
  a capabilities block that is set, all nine capabilities.
\<close>

theorem optional_fields_presence:
  "(buildOAuthScopes d = None \<longleftrightarrow> \<not> GetOk d ''scopes'')
   \<and> (buildOAuthRedirectURIs d = None \<longleftrightarrow> \<not> GetOk d ''registered_redirect_uris'')
   \<and> (buildOAuthRoles sdk d = Inr None \<longleftrightarrow> \<not> GetOk d ''roles'')
   \<and> req_Scope (updateOAuthClient_request d roles) = buildOAuthScopes d
   \<and> req_RegisteredRedirectUri (updateOAuthClient_request d roles) = buildOAuthRedirectURIs d
   \<and> req_RoleDivisions (updateOAuthClient_request d roles) = roles
   \<and> req_Description (updateOAuthClient_request d roles) = Some (Get_string d ''description'')
   \<and> (\<forall>fields. buildCredentialFields d = Inr fields \<longrightarrow> fields \<noteq> None)
   \<and> (\<not> GetOk d ''fields'' \<longrightarrow> buildCredentialFields d = Inr (Some Map.empty))
   \<and> saml_SsoTargetURI (updateIdpGeneric_request sdk d) = Some (Get_string d ''target_uri'')
   \<and> saml_RelyingPartyIdentifier (updateIdpGeneric_request sdk d)
       = Some (Get_string d ''relying_party_identifier'')
   \<and> saml_LogoImageData (updateIdpGeneric_request sdk d) = Some (Get_string d ''logo_image_data'')
   \<and> (rd_attrs d ''scopes'' = None \<or> rd_attrs d ''scopes'' = Some (TSet [])
        \<longrightarrow> buildOAuthScopes d = None)
   \<and> (\<forall>x xs. rd_attrs d ''scopes'' = Some (TSet (x # xs)) \<longrightarrow> buildOAuthScopes d \<noteq> None)
   \<and> (rd_attrs d ''registered_redirect_uris'' = None \<or> rd_attrs d ''registered_redirect_uris'' = Some (TSet [])
        \<longrightarrow> buildOAuthRedirectURIs d = None)
   \<and> (\<forall>x xs. rd_attrs d ''registered_redirect_uris'' = Some (TSet (x # xs)) \<longrightarrow> buildOAuthRedirectURIs d \<noteq> None)
   \<and> (rd_attrs d ''roles'' = None \<or> rd_attrs d ''roles'' = Some (TSet [])
        \<longrightarrow> buildOAuthRoles sdk d = Inr None)
   \<and> (\<forall>x xs. rd_attrs d ''roles'' = Some (TSet (x # xs)) \<longrightarrow> buildOAuthRoles sdk d \<noteq> Inr None)
   \<and> req_AccessTokenValiditySeconds (updateOAuthClient_request d roles)
       = Some (Get_int d ''access_token_validity_seconds'')
   \<and> req_State (updateOAuthClient_request d roles) = Some (Get_string d ''state'')
   \<and> (\<forall>rs. buildOAuthRoles sdk d = Inr (Some rs)
        \<longrightarrow> (\<forall>r\<in>set rs. RoleId r \<noteq> None \<and> DivisionId r \<noteq> None))
   \<and> (\<forall>c. createCredential_request d = Inr c
        \<longrightarrow> cred_Name c = Some (Get_string d ''name'') \<and> cred_CredentialFields c \<noteq> None)
   \<and> saml_Disabled (updateIdpGeneric_request sdk d) = Some (Get_bool d ''disabled'')
   \<and> saml_EndpointCompression (updateIdpGeneric_request sdk d)
       = Some (Get_bool d ''endpoint_compression'')
   \<and> saml_NameIdentifierFormat (updateIdpGeneric_request sdk d)
       = Some (Get_string d ''name_identifier_format'')
   \<and> (\<forall>a. createIntegrationAction_request d contract = Inr a
        \<longrightarrow> action_Secure a = Some (Get_bool d ''secure'')
            \<and> (\<exists>rq rs. action_Config a = Some \<lparr>Request = Some rq, Response = Some rs\<rparr>))
   \<and> (\<forall>r. buildSdkActionConfigRequest d = Inr r \<and> Get_list d ''config_request'' = []
        \<longrightarrow> r = empty_Requestconfig)
   \<and> (\<forall>r. buildSdkActionConfigRequest d = Inr r \<and> Get_list d ''config_request'' \<noteq> []
        \<longrightarrow> RequestUrlTemplate r \<noteq> None \<and> RequestTemplate r \<noteq> None
            \<and> RequestType r \<noteq> None \<and> Headers r \<noteq> None)
   \<and> (\<forall>r m rest. buildSdkActionConfigRequest d = Inr r
          \<and> Get_list d ''config_request'' = TMap m # rest \<and> map_of m ''headers'' = None
        \<longrightarrow> Headers r = Some Map.empty)
   \<and> (\<forall>r. buildSdkActionConfigResponse d = Inr r \<and> Get_list d ''config_response'' = []
        \<longrightarrow> r = empty_Responseconfig)
   \<and> (\<forall>r. buildSdkActionConfigResponse d = Inr r \<and> Get_list d ''config_response'' \<noteq> []
        \<longrightarrow> TranslationMap r \<noteq> None \<and> TranslationMapDefaults r \<noteq> None
            \<and> SuccessTemplate r \<noteq> None)
   \<and> (\<forall>r m rest. buildSdkActionConfigResponse d = Inr r
          \<and> Get_list d ''config_response'' = TMap m # rest \<and> map_of m ''translation_map'' = None
        \<longrightarrow> TranslationMap r = Some Map.empty)
   \<and> (\<forall>r m rest. buildSdkActionConfigResponse d = Inr r
          \<and> Get_list d ''config_response'' = TMap m # rest
          \<and> map_of m ''translation_map_defaults'' = None
        \<longrightarrow> TranslationMapDefaults r = Some Map.empty)
   \<and> (\<forall>r m rest. buildSdkActionConfigResponse d = Inr r
          \<and> Get_list d ''config_response'' = TMap m # rest \<and> map_of m ''success_template'' = None
        \<longrightarrow> SuccessTemplate r = Some [])
   \<and> (\<forall>p. createPhone_request h d phoneMetaBaseId = Inr p
        \<longrightarrow> phone_State p = Some (Get_string d ''state'')
            \<and> phone_WebRtcUser p
                = (if Get_string d ''web_rtc_user_id'' = [] then None
                  else buildSdkDomainEntityRef h d ''web_rtc_user_id'')
            \<and> (\<exists>l ls. phone_Lines p = Some (l # ls))
            \<and> (phone_Properties p = None \<longleftrightarrow>
                 (\<not> GetOk d ''line_addresses''
                 \<or> interfaceListToStrings h (Get_list d ''line_addresses'') = []))
            \<and> phone_Capabilities p \<noteq> None)
   \<and> (\<forall>p c. createPhone_request h d phoneMetaBaseId = Inr p \<and> phone_Capabilities p = Some c
          \<and> Get_list d ''capabilities'' = []
        \<longrightarrow> c = empty_Phonecapabilities)
   \<and> (\<forall>p c. createPhone_request h d phoneMetaBaseId = Inr p \<and> phone_Capabilities p = Some c
          \<and> Get_list d ''capabilities'' \<noteq> []
        \<longrightarrow> cap_Provisions c \<noteq> None \<and> cap_Registers c \<noteq> None \<and> cap_DualRegisters c \<noteq> None \<and> cap_HardwareIdType c \<noteq> None \<and> cap_AllowReboot c \<noteq> None \<and> cap_NoRebalance c \<noteq> None \<and> cap_NoCloudProvisioning c \<noteq> None \<and> cap_MediaCodecs c \<noteq> None \<and> cap_Cdm c \<noteq> None)
   \<and> (\<forall>p. updatePhone_request h d = Inr p
        \<longrightarrow> phone_State p = None \<and> phone_Capabilities p = None
            \<and> phone_WebRtcUser p
                = (if Get_string d ''web_rtc_user_id'' = [] then None
                  else buildSdkDomainEntityRef h d ''web_rtc_user_id'')
            \<and> (\<exists>l ls. phone_Lines p = Some (l # ls))
            \<and> (phone_Properties p = None \<longleftrightarrow>
                 (\<not> GetOk d ''line_addresses''
                 \<or> interfaceListToStrings h (Get_list d ''line_addresses'') = [])))"
proof (intro conjI)
  show "(buildOAuthScopes d = None \<longleftrightarrow> \<not> GetOk d ''scopes'')"
    by (simp add: buildOAuthScopes_def setToStringList_not_None)
  show "(buildOAuthRedirectURIs d = None \<longleftrightarrow> \<not> GetOk d ''registered_redirect_uris'')"
    by (simp add: buildOAuthRedirectURIs_def setToStringList_not_None)
  show "(buildOAuthRoles sdk d = Inr None \<longleftrightarrow> \<not> GetOk d ''roles'')"
    by (simp add: buildOAuthRoles_def split: sum.splits)
  show "req_Scope (updateOAuthClient_request d roles) = buildOAuthScopes d"
    by (simp add: updateOAuthClient_request_def)
  show "req_RegisteredRedirectUri (updateOAuthClient_request d roles) = buildOAuthRedirectURIs d"
    by (simp add: updateOAuthClient_request_def)
  show "req_RoleDivisions (updateOAuthClient_request d roles) = roles"
    by (simp add: updateOAuthClient_request_def)
  show "req_Description (updateOAuthClient_request d roles) = Some (Get_string d ''description'')"
    by (simp add: updateOAuthClient_request_def)
  show "(\<forall>fields. buildCredentialFields d = Inr fields \<longrightarrow> fields \<noteq> None)"
    by (auto simp: buildCredentialFields_def split: sum.splits if_splits)
  show "(\<not> GetOk d ''fields'' \<longrightarrow> buildCredentialFields d = Inr (Some Map.empty))"
    by (auto simp: buildCredentialFields_def split: sum.splits if_splits)
  show "saml_SsoTargetURI (updateIdpGeneric_request sdk d) = Some (Get_string d ''target_uri'')"
    by (simp add: updateIdpGeneric_request_def Let_def split: option.splits list.splits)
  show "saml_RelyingPartyIdentifier (updateIdpGeneric_request sdk d)
       = Some (Get_string d ''relying_party_identifier'')"
    by (simp add: updateIdpGeneric_request_def Let_def split: option.splits list.splits)
  show "saml_LogoImageData (updateIdpGeneric_request sdk d) = Some (Get_string d ''logo_image_data'')"
    by (simp add: updateIdpGeneric_request_def Let_def split: option.splits list.splits)
  show "(rd_attrs d ''scopes'' = None \<or> rd_attrs d ''scopes'' = Some (TSet [])
        \<longrightarrow> buildOAuthScopes d = None)"
    by (auto simp: buildOAuthScopes_def GetOk_def is_zero_def)
  show "(\<forall>x xs. rd_attrs d ''scopes'' = Some (TSet (x # xs)) \<longrightarrow> buildOAuthScopes d \<noteq> None)"
    by (auto simp: buildOAuthScopes_def GetOk_def is_zero_def setToStringList_def)
  show "(rd_attrs d ''registered_redirect_uris'' = None \<or> rd_attrs d ''registered_redirect_uris'' = Some (TSet [])
        \<longrightarrow> buildOAuthRedirectURIs d = None)"
    by (auto simp: buildOAuthRedirectURIs_def GetOk_def is_zero_def)
  show "(\<forall>x xs. rd_attrs d ''registered_redirect_uris'' = Some (TSet (x # xs)) \<longrightarrow> buildOAuthRedirectURIs d \<noteq> None)"
    by (auto simp: buildOAuthRedirectURIs_def GetOk_def is_zero_def setToStringList_def)
  show "(rd_attrs d ''roles'' = None \<or> rd_attrs d ''roles'' = Some (TSet [])
        \<longrightarrow> buildOAuthRoles sdk d = Inr None)"
    by (auto simp: buildOAuthRoles_def GetOk_def is_zero_def)
  show "(\<forall>x xs. rd_attrs d ''roles'' = Some (TSet (x # xs)) \<longrightarrow> buildOAuthRoles sdk d \<noteq> Inr None)"
    by (auto simp: buildOAuthRoles_def GetOk_def is_zero_def split: sum.splits)
  show "req_AccessTokenValiditySeconds (updateOAuthClient_request d roles)
       = Some (Get_int d ''access_token_validity_seconds'')"
    by (simp add: updateOAuthClient_request_def)
  show "req_State (updateOAuthClient_request d roles) = Some (Get_string d ''state'')"
    by (simp add: updateOAuthClient_request_def)
  show "(\<forall>rs. buildOAuthRoles sdk d = Inr (Some rs)
        \<longrightarrow> (\<forall>r\<in>set rs. RoleId r \<noteq> None \<and> DivisionId r \<noteq> None))"
    by (intro allI impI) (rule buildOAuthRoles_ids)
  show "(\<forall>c. createCredential_request d = Inr c
        \<longrightarrow> cred_Name c = Some (Get_string d ''name'') \<and> cred_CredentialFields c \<noteq> None)"
    by (auto simp: createCredential_request_def buildCredentialFields_def split: sum.splits if_splits)
  show "saml_Disabled (updateIdpGeneric_request sdk d) = Some (Get_bool d ''disabled'')"
    by (simp add: updateIdpGeneric_request_def Let_def split: option.splits list.splits)
  show "saml_EndpointCompression (updateIdpGeneric_request sdk d)
       = Some (Get_bool d ''endpoint_compression'')"
    by (simp add: updateIdpGeneric_request_def Let_def split: option.splits list.splits)
  show "saml_NameIdentifierFormat (updateIdpGeneric_request sdk d)
       = Some (Get_string d ''name_identifier_format'')"
    by (simp add: updateIdpGeneric_request_def Let_def split: option.splits list.splits)
  show "(\<forall>a. createIntegrationAction_request d contract = Inr a
        \<longrightarrow> action_Secure a = Some (Get_bool d ''secure'')
            \<and> (\<exists>rq rs. action_Config a = Some \<lparr>Request = Some rq, Response = Some rs\<rparr>))"
    by (auto simp: createIntegrationAction_request_def buildSdkActionConfig_def split: sum.splits)
  show "(\<forall>r. buildSdkActionConfigRequest d = Inr r \<and> Get_list d ''config_request'' = []
        \<longrightarrow> r = empty_Requestconfig)"
    by (auto simp: buildSdkActionConfigRequest_def)
  show "(\<forall>r. buildSdkActionConfigRequest d = Inr r \<and> Get_list d ''config_request'' \<noteq> []
        \<longrightarrow> RequestUrlTemplate r \<noteq> None \<and> RequestTemplate r \<noteq> None
            \<and> RequestType r \<noteq> None \<and> Headers r \<noteq> None)"
    by (intro allI impI, elim conjE) (rule buildSdkActionConfigRequest_set)
  show "(\<forall>r m rest. buildSdkActionConfigRequest d = Inr r
          \<and> Get_list d ''config_request'' = TMap m # rest \<and> map_of m ''headers'' = None
        \<longrightarrow> Headers r = Some Map.empty)"
    by (intro allI impI, elim conjE) (rule buildSdkActionConfigRequest_headers)
  show "(\<forall>r. buildSdkActionConfigResponse d = Inr r \<and> Get_list d ''config_response'' = []
        \<longrightarrow> r = empty_Responseconfig)"
    by (auto simp: buildSdkActionConfigResponse_def)
  show "(\<forall>r. buildSdkActionConfigResponse d = Inr r \<and> Get_list d ''config_response'' \<noteq> []
        \<longrightarrow> TranslationMap r \<noteq> None \<and> TranslationMapDefaults r \<noteq> None
            \<and> SuccessTemplate r \<noteq> None)"
    by (intro allI impI, elim conjE) (rule buildSdkActionConfigResponse_set)
  show "(\<forall>r m rest. buildSdkActionConfigResponse d = Inr r
          \<and> Get_list d ''config_response'' = TMap m # rest \<and> map_of m ''translation_map'' = None
        \<longrightarrow> TranslationMap r = Some Map.empty)"
    by (intro allI impI, elim conjE) (rule buildSdkActionConfigResponse_unset_keys(1))
  show "(\<forall>r m rest. buildSdkActionConfigResponse d = Inr r
          \<and> Get_list d ''config_response'' = TMap m # rest
          \<and> map_of m ''translation_map_defaults'' = None
        \<longrightarrow> TranslationMapDefaults r = Some Map.empty)"
    by (intro allI impI, elim conjE) (rule buildSdkActionConfigResponse_unset_keys(2))
  show "(\<forall>r m rest. buildSdkActionConfigResponse d = Inr r
          \<and> Get_list d ''config_response'' = TMap m # rest \<and> map_of m ''success_template'' = None
        \<longrightarrow> SuccessTemplate r = Some [])"
    by (intro allI impI, elim conjE) (rule buildSdkActionConfigResponse_unset_keys(3))
  show "(\<forall>p. createPhone_request h d phoneMetaBaseId = Inr p
        \<longrightarrow> phone_State p = Some (Get_string d ''state'')
            \<and> phone_WebRtcUser p
                = (if Get_string d ''web_rtc_user_id'' = [] then None
                  else buildSdkDomainEntityRef h d ''web_rtc_user_id'')
            \<and> (\<exists>l ls. phone_Lines p = Some (l # ls))
            \<and> (phone_Properties p = None \<longleftrightarrow>
                 (\<not> GetOk d ''line_addresses''
                 \<or> interfaceListToStrings h (Get_list d ''line_addresses'') = []))
            \<and> phone_Capabilities p \<noteq> None)"
    by (intro allI impI) (rule createPhone_request_fields)
  show "(\<forall>p c. createPhone_request h d phoneMetaBaseId = Inr p \<and> phone_Capabilities p = Some c
          \<and> Get_list d ''capabilities'' = []
        \<longrightarrow> c = empty_Phonecapabilities)"
    by (intro allI impI, elim conjE) (rule createPhone_request_capabilities(1))
  show "(\<forall>p c. createPhone_request h d phoneMetaBaseId = Inr p \<and> phone_Capabilities p = Some c
          \<and> Get_list d ''capabilities'' \<noteq> []
        \<longrightarrow> cap_Provisions c \<noteq> None \<and> cap_Registers c \<noteq> None \<and> cap_DualRegisters c \<noteq> None \<and> cap_HardwareIdType c \<noteq> None \<and> cap_AllowReboot c \<noteq> None \<and> cap_NoRebalance c \<noteq> None \<and> cap_NoCloudProvisioning c \<noteq> None \<and> cap_MediaCodecs c \<noteq> None \<and> cap_Cdm c \<noteq> None)"
    by (intro allI impI, elim conjE) (rule createPhone_request_capabilities(2))
  show "(\<forall>p. updatePhone_request h d = Inr p
        \<longrightarrow> phone_State p = None \<and> phone_Capabilities p = None
            \<and> phone_WebRtcUser p
                = (if Get_string d ''web_rtc_user_id'' = [] then None
                  else buildSdkDomainEntityRef h d ''web_rtc_user_id'')
            \<and> (\<exists>l ls. phone_Lines p = Some (l # ls))
            \<and> (phone_Properties p = None \<longleftrightarrow>
                 (\<not> GetOk d ''line_addresses''
                 \<or> interfaceListToStrings h (Get_list d ''line_addresses'') = [])))"
    by (intro allI impI) (rule updatePhone_request_fields)
qed

lemma cleared_client_roles:
  "buildOAuthRoles (offline_sdk :: unit sdk) cleared_client_data
     = Inr (Some [\<lparr>RoleId = Some ''role-1'', DivisionId = Some ''home''\<rparr>])"
  by (simp add: buildOAuthRoles_def GetOk_def is_zero_def Get_set_def cleared_client_data_def
      assert_string_def offline_sdk_def)

lemma plain_action_blocks:
  "Get_list plain_action_data ''config_request''
     = [TMap [(''request_url_template'', TString ''https://example.org/v1''),
              (''request_type'', TString ''POST''),
              (''request_template'', TString ''${input.rawRequest}'')]]"
  "Get_list plain_action_data ''config_response''
     = [TMap [(''success_template'', TString ''${rawResult}'')]]"
  "Get_list mapped_action_data ''config_response''
     = [TMap [(''translation_map'', TMap [(''id'', TString ''$.id'')])]]"
  by (simp_all add: Get_list_def plain_action_data_def mapped_action_data_def)

lemmas action_build_defs =
  createIntegrationAction_request_def buildSdkActionConfig_def buildSdkActionConfigRequest_def
  buildSdkActionConfigResponse_def assert_string_def copy_string_map_def Get_list_def

lemmas phone_build_defs =
  createPhone_request_def updatePhone_request_def buildSdkLines_def line_prefix_def
  buildSdkCapabilities_def assert_bool_def assert_string_def assert_list_def plain_helpers_def
  Get_string_def Get_list_def GetOk_def Let_def

text \<open>
  The theorem on concrete configurations: an OAuth client with scopes set and one with
  the scopes cleared, a credential without attributes, actions with and without the
  optional blocks and keys, a desk phone with capabilities and a WebRTC phone without.
\<close>

theorem optional_fields_presence_witness:
  "buildOAuthScopes scoped_client_data = Some [''openid'']
   \<and> buildOAuthRedirectURIs scoped_client_data = None
   \<and> buildOAuthRoles (offline_sdk :: unit sdk) scoped_client_data = Inr None
   \<and> \<not> GetOk scoped_client_data ''fields''
   \<and> buildCredentialFields scoped_client_data = Inr (Some Map.empty)
   \<and> req_Description (updateOAuthClient_request scoped_client_data None) = Some []
   \<and> rd_attrs cleared_client_data ''scopes'' = Some (TSet [])
   \<and> buildOAuthScopes cleared_client_data = None
   \<and> rd_attrs scoped_client_data ''scopes'' = Some (TSet [TString ''openid''])
   \<and> buildOAuthScopes scoped_client_data \<noteq> None
   \<and> rd_attrs scoped_client_data ''registered_redirect_uris'' = None
   \<and> rd_attrs cleared_client_data ''registered_redirect_uris''
       = Some (TSet [TString ''https://app.example.org/cb''])
   \<and> buildOAuthRedirectURIs cleared_client_data \<noteq> None
   \<and> rd_attrs scoped_client_data ''roles'' = None
   \<and> rd_attrs cleared_client_data ''roles'' = Some (TSet [TMap [(''role_id'', TString ''role-1'')]])
   \<and> buildOAuthRoles (offline_sdk :: unit sdk) cleared_client_data \<noteq> Inr None
   \<and> (\<exists>rs r. buildOAuthRoles (offline_sdk :: unit sdk) cleared_client_data = Inr (Some rs)
         \<and> r \<in> set rs \<and> RoleId r \<noteq> None \<and> DivisionId r \<noteq> None)
   \<and> (\<exists>c. createCredential_request bare_data = Inr c
         \<and> cred_Name c = Some [] \<and> cred_CredentialFields c \<noteq> None)
   \<and> (\<exists>fields. buildCredentialFields bare_data = Inr fields \<and> fields \<noteq> None)
   \<and> (\<exists>a. createIntegrationAction_request get_action_data None = Inr a
         \<and> action_Secure a = Some False
         \<and> (\<exists>rq rs. action_Config a = Some \<lparr>Request = Some rq, Response = Some rs\<rparr>))
   \<and> buildSdkActionConfigRequest bare_data = Inr empty_Requestconfig
   \<and> (\<exists>r. buildSdkActionConfigRequest get_action_data = Inr r
         \<and> RequestUrlTemplate r \<noteq> None \<and> RequestTemplate r \<noteq> None
         \<and> RequestType r \<noteq> None \<and> Headers r \<noteq> None)
   \<and> (\<exists>r. buildSdkActionConfigRequest plain_action_data = Inr r \<and> Headers r = Some Map.empty)
   \<and> buildSdkActionConfigResponse get_action_data = Inr empty_Responseconfig
   \<and> (\<exists>r. buildSdkActionConfigResponse plain_action_data = Inr r
         \<and> TranslationMap r = Some Map.empty \<and> TranslationMapDefaults r = Some Map.empty
         \<and> SuccessTemplate r \<noteq> None)
   \<and> (\<exists>r. buildSdkActionConfigResponse mapped_action_data = Inr r
         \<and> TranslationMap r \<noteq> None \<and> SuccessTemplate r = Some [])
   \<and> (\<exists>p c. createPhone_request plain_helpers desk_phone_data ''meta-1'' = Inr p
         \<and> phone_State p = Some ''active'' \<and> phone_WebRtcUser p = None
         \<and> (\<exists>l ls. phone_Lines p = Some (l # ls)) \<and> phone_Properties p = None
         \<and> phone_Capabilities p = Some c
         \<and> cap_Provisions c \<noteq> None \<and> cap_Registers c \<noteq> None \<and> cap_DualRegisters c \<noteq> None
         \<and> cap_HardwareIdType c \<noteq> None \<and> cap_AllowReboot c \<noteq> None
         \<and> cap_NoRebalance c \<noteq> None \<and> cap_NoCloudProvisioning c \<noteq> None
         \<and> cap_MediaCodecs c \<noteq> None \<and> cap_Cdm c \<noteq> None)
   \<and> (\<exists>p. createPhone_request plain_helpers softphone_data ''meta-1'' = Inr p
         \<and> phone_WebRtcUser p = Some \<lparr>ref_Id = Some ''user-1''\<rparr>
         \<and> phone_Capabilities p = Some empty_Phonecapabilities)
   \<and> (\<exists>p. updatePhone_request plain_helpers softphone_data = Inr p
         \<and> phone_State p = None \<and> phone_Capabilities p = None
         \<and> phone_WebRtcUser p = Some \<lparr>ref_Id = Some ''user-1''\<rparr>
         \<and> (\<exists>l ls. phone_Lines p = Some (l # ls)) \<and> phone_Properties p = None)"
proof -
  note S = optional_fields_presence [where d = scoped_client_data and sdk = "offline_sdk :: unit sdk" and roles = None and h = plain_helpers and contract = None and phoneMetaBaseId = "''meta-1''"]
  note C = optional_fields_presence [where d = cleared_client_data and sdk = "offline_sdk :: unit sdk" and roles = None and h = plain_helpers and contract = None and phoneMetaBaseId = "''meta-1''"]
  note B = optional_fields_presence [where d = bare_data and sdk = "offline_sdk :: unit sdk" and roles = None and h = plain_helpers and contract = None and phoneMetaBaseId = "''meta-1''"]
  note A = optional_fields_presence [where d = get_action_data and sdk = "offline_sdk :: unit sdk" and roles = None and h = plain_helpers and contract = None and phoneMetaBaseId = "''meta-1''"]
  note P = optional_fields_presence [where d = plain_action_data and sdk = "offline_sdk :: unit sdk" and roles = None and h = plain_helpers and contract = None and phoneMetaBaseId = "''meta-1''"]
  note M = optional_fields_presence [where d = mapped_action_data and sdk = "offline_sdk :: unit sdk" and roles = None and h = plain_helpers and contract = None and phoneMetaBaseId = "''meta-1''"]
  note D = optional_fields_presence [where d = desk_phone_data and sdk = "offline_sdk :: unit sdk" and roles = None and h = plain_helpers and contract = None and phoneMetaBaseId = "''meta-1''"]
  note F = optional_fields_presence [where d = softphone_data and sdk = "offline_sdk :: unit sdk" and roles = None and h = plain_helpers and contract = None and phoneMetaBaseId = "''meta-1''"]
  have old: "buildOAuthScopes scoped_client_data = Some [''openid'']
      \<and> buildOAuthRedirectURIs scoped_client_data = None
      \<and> buildOAuthRoles (offline_sdk :: unit sdk) scoped_client_data = Inr None
      \<and> \<not> GetOk scoped_client_data ''fields''
      \<and> buildCredentialFields scoped_client_data = Inr (Some Map.empty)
      \<and> req_Description (updateOAuthClient_request scoped_client_data None) = Some []"
  proof -
    have g: "\<not> GetOk scoped_client_data ''registered_redirect_uris''"
      "\<not> GetOk scoped_client_data ''roles''" "\<not> GetOk scoped_client_data ''fields''"
      by (simp_all add: scoped_client_data_def GetOk_def)
    have "buildOAuthScopes scoped_client_data = Some [''openid'']"
      by (simp add: scoped_client_data_def GetOk_def is_zero_def buildOAuthScopes_def
          setToStringList_def Get_set_def)
    moreover from S [THEN conjunct2, THEN conjunct1] g(1) have "buildOAuthRedirectURIs scoped_client_data = None"
      by simp
    moreover from S [THEN conjunct2, THEN conjunct2, THEN conjunct1] g(2)
    have "buildOAuthRoles (offline_sdk :: unit sdk) scoped_client_data = Inr None" by simp
    moreover from S [THEN conjunct2, THEN conjunct2, THEN conjunct2, THEN conjunct2, THEN conjunct2, THEN conjunct2, THEN conjunct2, THEN conjunct2, THEN conjunct1, rule_format, OF g(3)]
    have "buildCredentialFields scoped_client_data = Inr (Some Map.empty)" .
    moreover from S [THEN conjunct2, THEN conjunct2, THEN conjunct2, THEN conjunct2, THEN conjunct2, THEN conjunct2, THEN conjunct1]
    have "req_Description (updateOAuthClient_request scoped_client_data None) = Some []"
      by (simp add: scoped_client_data_def Get_string_def)
    ultimately show ?thesis using g(3) by simp
  qed
  have a1: "rd_attrs cleared_client_data ''scopes'' = Some (TSet [])"
    "rd_attrs scoped_client_data ''scopes'' = Some (TSet [TString ''openid''])"
    "rd_attrs scoped_client_data ''registered_redirect_uris'' = None"
    "rd_attrs cleared_client_data ''registered_redirect_uris''
       = Some (TSet [TString ''https://app.example.org/cb''])"
    "rd_attrs scoped_client_data ''roles'' = None"
    "rd_attrs cleared_client_data ''roles'' = Some (TSet [TMap [(''role_id'', TString ''role-1'')]])"
    by (simp_all add: cleared_client_data_def scoped_client_data_def)
  have s1: "buildOAuthScopes cleared_client_data = None"
    using C [THEN conjunct2, THEN conjunct2, THEN conjunct2, THEN conjunct2, THEN conjunct2, THEN conjunct2, THEN conjunct2, THEN conjunct2, THEN conjunct2, THEN conjunct2, THEN conjunct2, THEN conjunct2, THEN conjunct1, rule_format, OF disjI2, OF a1(1)] .
  have s2: "buildOAuthScopes scoped_client_data \<noteq> None"
    using S [THEN conjunct2, THEN conjunct2, THEN conjunct2, THEN conjunct2, THEN conjunct2, THEN conjunct2, THEN conjunct2, THEN conjunct2, THEN conjunct2, THEN conjunct2, THEN conjunct2, THEN conjunct2, THEN conjunct2, THEN conjunct1, rule_format, OF a1(2)] .
  have u1: "buildOAuthRedirectURIs scoped_client_data = None"
    using S [THEN conjunct2, THEN conjunct2, THEN conjunct2, THEN conjunct2, THEN conjunct2, THEN conjunct2, THEN conjunct2, THEN conjunct2, THEN conjunct2, THEN conjunct2, THEN conjunct2, THEN conjunct2, THEN conjunct2, THEN conjunct2, THEN conjunct1, rule_format, OF disjI1, OF a1(3)] .
  have r1: "buildOAuthRoles (offline_sdk :: unit sdk) scoped_client_data = Inr None"
    using S [THEN conjunct2, THEN conjunct2, THEN conjunct2, THEN conjunct2, THEN conjunct2, THEN conjunct2, THEN conjunct2, THEN conjunct2, THEN conjunct2, THEN conjunct2, THEN conjunct2, THEN conjunct2, THEN conjunct2, THEN conjunct2, THEN conjunct2, THEN conjunct2, THEN conjunct1, rule_format, OF disjI1, OF a1(5)] .
  have u2: "buildOAuthRedirectURIs cleared_client_data \<noteq> None"
    using C [THEN conjunct2, THEN conjunct2, THEN conjunct2, THEN conjunct2, THEN conjunct2, THEN conjunct2, THEN conjunct2, THEN conjunct2, THEN conjunct2, THEN conjunct2, THEN conjunct2, THEN conjunct2, THEN conjunct2, THEN conjunct2, THEN conjunct2, THEN conjunct1, rule_format, OF a1(4)] .
  have r2: "buildOAuthRoles (offline_sdk :: unit sdk) cleared_client_data \<noteq> Inr None"
    using C [THEN conjunct2, THEN conjunct2, THEN conjunct2, THEN conjunct2, THEN conjunct2, THEN conjunct2, THEN conjunct2, THEN conjunct2, THEN conjunct2, THEN conjunct2, THEN conjunct2, THEN conjunct2, THEN conjunct2, THEN conjunct2, THEN conjunct2, THEN conjunct2, THEN conjunct2, THEN conjunct1, rule_format, OF a1(6)] .
  have dv: "\<exists>rs r. buildOAuthRoles (offline_sdk :: unit sdk) cleared_client_data = Inr (Some rs)
         \<and> r \<in> set rs \<and> RoleId r \<noteq> None \<and> DivisionId r \<noteq> None"
  proof -
    let ?r = "\<lparr>RoleId = Some ''role-1'', DivisionId = Some ''home''\<rparr>"
    have "?r \<in> set [?r]" by simp
    from C [THEN conjunct2, THEN conjunct2, THEN conjunct2, THEN conjunct2, THEN conjunct2, THEN conjunct2, THEN conjunct2, THEN conjunct2, THEN conjunct2, THEN conjunct2, THEN conjunct2, THEN conjunct2, THEN conjunct2, THEN conjunct2, THEN conjunct2, THEN conjunct2, THEN conjunct2, THEN conjunct2, THEN conjunct2, THEN conjunct2, THEN conjunct1, rule_format, OF cleared_client_roles this] cleared_client_roles this
    show ?thesis by blast
  qed
  have cr: "\<exists>c. createCredential_request bare_data = Inr c
         \<and> cred_Name c = Some [] \<and> cred_CredentialFields c \<noteq> None"
  proof -
    have "\<exists>c. createCredential_request bare_data = Inr c"
      by (simp add: createCredential_request_def buildCredentialFields_def GetOk_def bare_data_def)
    then obtain c where c: "createCredential_request bare_data = Inr c" ..
    from B [THEN conjunct2, THEN conjunct2, THEN conjunct2, THEN conjunct2, THEN conjunct2, THEN conjunct2, THEN conjunct2, THEN conjunct2, THEN conjunct2, THEN conjunct2, THEN conjunct2, THEN conjunct2, THEN conjunct2, THEN conjunct2, THEN conjunct2, THEN conjunct2, THEN conjunct2, THEN conjunct2, THEN conjunct2, THEN conjunct2, THEN conjunct2, THEN conjunct1, rule_format, OF c]
    have "cred_Name c = Some [] \<and> cred_CredentialFields c \<noteq> None"
      by (simp add: Get_string_def bare_data_def)
    with c show ?thesis by blast
  qed
  have cf: "\<exists>fields. buildCredentialFields bare_data = Inr fields \<and> fields \<noteq> None"
  proof -
    have "\<exists>fields. buildCredentialFields bare_data = Inr fields"
      by (simp add: buildCredentialFields_def GetOk_def bare_data_def)
    then obtain fields where f: "buildCredentialFields bare_data = Inr fields" ..
    from B [THEN conjunct2, THEN conjunct2, THEN conjunct2, THEN conjunct2, THEN conjunct2, THEN conjunct2, THEN conjunct2, THEN conjunct1, rule_format, OF f] f show ?thesis by blast
  qed
  have ac: "\<exists>a. createIntegrationAction_request get_action_data None = Inr a
         \<and> action_Secure a = Some False
         \<and> (\<exists>rq rs. action_Config a = Some \<lparr>Request = Some rq, Response = Some rs\<rparr>)"
  proof -
    have "\<exists>a. createIntegrationAction_request get_action_data None = Inr a"
      by (simp add: action_build_defs get_action_data_def)
    then obtain a where a: "createIntegrationAction_request get_action_data None = Inr a" ..
    from A [THEN conjunct2, THEN conjunct2, THEN conjunct2, THEN conjunct2, THEN conjunct2, THEN conjunct2, THEN conjunct2, THEN conjunct2, THEN conjunct2, THEN conjunct2, THEN conjunct2, THEN conjunct2, THEN conjunct2, THEN conjunct2, THEN conjunct2, THEN conjunct2, THEN conjunct2, THEN conjunct2, THEN conjunct2, THEN conjunct2, THEN conjunct2, THEN conjunct2, THEN conjunct2, THEN conjunct2, THEN conjunct2, THEN conjunct1, rule_format, OF a]
    have "action_Secure a = Some False
         \<and> (\<exists>rq rs. action_Config a = Some \<lparr>Request = Some rq, Response = Some rs\<rparr>)"
      by (simp add: Get_bool_def get_action_data_def)
    with a show ?thesis by blast
  qed
  have q0: "buildSdkActionConfigRequest bare_data = Inr empty_Requestconfig"
  proof -
    have e: "Get_list bare_data ''config_request'' = []" by (simp add: Get_list_def bare_data_def)
    have "\<exists>r. buildSdkActionConfigRequest bare_data = Inr r"
      by (simp add: action_build_defs bare_data_def)
    then obtain r where r: "buildSdkActionConfigRequest bare_data = Inr r" ..
    from B [THEN conjunct2, THEN conjunct2, THEN conjunct2, THEN conjunct2, THEN conjunct2, THEN conjunct2, THEN conjunct2, THEN conjunct2, THEN conjunct2, THEN conjunct2, THEN conjunct2, THEN conjunct2, THEN conjunct2, THEN conjunct2, THEN conjunct2, THEN conjunct2, THEN conjunct2, THEN conjunct2, THEN conjunct2, THEN conjunct2, THEN conjunct2, THEN conjunct2, THEN conjunct2, THEN conjunct2, THEN conjunct2, THEN conjunct2, THEN conjunct1, rule_format, OF conjI, OF r e] r show ?thesis by simp
  qed
  have q1: "\<exists>r. buildSdkActionConfigRequest get_action_data = Inr r
         \<and> RequestUrlTemplate r \<noteq> None \<and> RequestTemplate r \<noteq> None
         \<and> RequestType r \<noteq> None \<and> Headers r \<noteq> None"
  proof -
    have e: "Get_list get_action_data ''config_request'' \<noteq> []"
      by (simp add: Get_list_def get_action_data_def)
    have "\<exists>r. buildSdkActionConfigRequest get_action_data = Inr r"
      by (simp add: action_build_defs get_action_data_def)
    then obtain r where r: "buildSdkActionConfigRequest get_action_data = Inr r" ..
    from A [THEN conjunct2, THEN conjunct2, THEN conjunct2, THEN conjunct2, THEN conjunct2, THEN conjunct2, THEN conjunct2, THEN conjunct2, THEN conjunct2, THEN conjunct2, THEN conjunct2, THEN conjunct2, THEN conjunct2, THEN conjunct2, THEN conjunct2, THEN conjunct2, THEN conjunct2, THEN conjunct2, THEN conjunct2, THEN conjunct2, THEN conjunct2, THEN conjunct2, THEN conjunct2, THEN conjunct2, THEN conjunct2, THEN conjunct2, THEN conjunct2, THEN conjunct1, rule_format, OF conjI, OF r e] r show ?thesis by blast
  qed
  have q2: "\<exists>r. buildSdkActionConfigRequest plain_action_data = Inr r \<and> Headers r = Some Map.empty"
  proof -
    have e: "map_of [(''request_url_template'', TString ''https://example.org/v1''),
                     (''request_type'', TString ''POST''),
                     (''request_template'', TString ''${input.rawRequest}'')] ''headers'' = None"
      by simp
    have "\<exists>r. buildSdkActionConfigRequest plain_action_data = Inr r"
      by (simp add: action_build_defs plain_action_data_def)
    then obtain r where r: "buildSdkActionConfigRequest plain_action_data = Inr r" ..
    from P [THEN conjunct2, THEN conjunct2, THEN conjunct2, THEN conjunct2, THEN conjunct2, THEN conjunct2, THEN conjunct2, THEN conjunct2, THEN conjunct2, THEN conjunct2, THEN conjunct2, THEN conjunct2, THEN conjunct2, THEN conjunct2, THEN conjunct2, THEN conjunct2, THEN conjunct2, THEN conjunct2, THEN conjunct2, THEN conjunct2, THEN conjunct2, THEN conjunct2, THEN conjunct2, THEN conjunct2, THEN conjunct2, THEN conjunct2, THEN conjunct2, THEN conjunct2, THEN conjunct1, rule_format, OF conjI, OF r conjI, OF plain_action_blocks(1) e] r
    show ?thesis by blast
  qed
  have p0: "buildSdkActionConfigResponse get_action_data = Inr empty_Responseconfig"
  proof -
    have e: "Get_list get_action_data ''config_response'' = []"
      by (simp add: Get_list_def get_action_data_def)
    have "\<exists>r. buildSdkActionConfigResponse get_action_data = Inr r"
      by (simp add: action_build_defs get_action_data_def)
    then obtain r where r: "buildSdkActionConfigResponse get_action_data = Inr r" ..
    from A [THEN conjunct2, THEN conjunct2, THEN conjunct2, THEN conjunct2, THEN conjunct2, THEN conjunct2, THEN conjunct2, THEN conjunct2, THEN conjunct2, THEN conjunct2, THEN conjunct2, THEN conjunct2, THEN conjunct2, THEN conjunct2, THEN conjunct2, THEN conjunct2, THEN conjunct2, THEN conjunct2, THEN conjunct2, THEN conjunct2, THEN conjunct2, THEN conjunct2, THEN conjunct2, THEN conjunct2, THEN conjunct2, THEN conjunct2, THEN conjunct2, THEN conjunct2, THEN conjunct2, THEN conjunct1, rule_format, OF conjI, OF r e] r show ?thesis by simp
  qed
  have p1: "\<exists>r. buildSdkActionConfigResponse plain_action_data = Inr r
         \<and> TranslationMap r = Some Map.empty \<and> TranslationMapDefaults r = Some Map.empty
         \<and> SuccessTemplate r \<noteq> None"
  proof -
    have e: "Get_list plain_action_data ''config_response'' \<noteq> []"
      "map_of [(''success_template'', TString ''${rawResult}'')] ''translation_map'' = None"
      "map_of [(''success_template'', TString ''${rawResult}'')] ''translation_map_defaults'' = None"
      by (simp_all add: plain_action_blocks)
    have "\<exists>r. buildSdkActionConfigResponse plain_action_data = Inr r"
      by (simp add: action_build_defs plain_action_data_def)
    then obtain r where r: "buildSdkActionConfigResponse plain_action_data = Inr r" ..
    from P [THEN conjunct2, THEN conjunct2, THEN conjunct2, THEN conjunct2, THEN conjunct2, THEN conjunct2, THEN conjunct2, THEN conjunct2, THEN conjunct2, THEN conjunct2, THEN conjunct2, THEN conjunct2, THEN conjunct2, THEN conjunct2, THEN conjunct2, THEN conjunct2, THEN conjunct2, THEN conjunct2, THEN conjunct2, THEN conjunct2, THEN conjunct2, THEN conjunct2, THEN conjunct2, THEN conjunct2, THEN conjunct2, THEN conjunct2, THEN conjunct2, THEN conjunct2, THEN conjunct2, THEN conjunct2, THEN conjunct1, rule_format, OF conjI, OF r e(1)]
      P [THEN conjunct2, THEN conjunct2, THEN conjunct2, THEN conjunct2, THEN conjunct2, THEN conjunct2, THEN conjunct2, THEN conjunct2, THEN conjunct2, THEN conjunct2, THEN conjunct2, THEN conjunct2, THEN conjunct2, THEN conjunct2, THEN conjunct2, THEN conjunct2, THEN conjunct2, THEN conjunct2, THEN conjunct2, THEN conjunct2, THEN conjunct2, THEN conjunct2, THEN conjunct2, THEN conjunct2, THEN conjunct2, THEN conjunct2, THEN conjunct2, THEN conjunct2, THEN conjunct2, THEN conjunct2, THEN conjunct2, THEN conjunct1, rule_format, OF conjI, OF r conjI, OF plain_action_blocks(2) e(2)]
      P [THEN conjunct2, THEN conjunct2, THEN conjunct2, THEN conjunct2, THEN conjunct2, THEN conjunct2, THEN conjunct2, THEN conjunct2, THEN conjunct2, THEN conjunct2, THEN conjunct2, THEN conjunct2, THEN conjunct2, THEN conjunct2, THEN conjunct2, THEN conjunct2, THEN conjunct2, THEN conjunct2, THEN conjunct2, THEN conjunct2, THEN conjunct2, THEN conjunct2, THEN conjunct2, THEN conjunct2, THEN conjunct2, THEN conjunct2, THEN conjunct2, THEN conjunct2, THEN conjunct2, THEN conjunct2, THEN conjunct2, THEN conjunct2, THEN conjunct1, rule_format, OF conjI, OF r conjI, OF plain_action_blocks(2) e(3)]
      r
    show ?thesis by blast
  qed
  have p2: "\<exists>r. buildSdkActionConfigResponse mapped_action_data = Inr r
         \<and> TranslationMap r \<noteq> None \<and> SuccessTemplate r = Some []"
  proof -
    have e: "Get_list mapped_action_data ''config_response'' \<noteq> []"
      "map_of [(''translation_map'', TMap [(''id'', TString ''$.id'')])] ''success_template'' = None"
      by (simp_all add: plain_action_blocks)
    have "\<exists>r. buildSdkActionConfigResponse mapped_action_data = Inr r"
      by (simp add: action_build_defs mapped_action_data_def)
    then obtain r where r: "buildSdkActionConfigResponse mapped_action_data = Inr r" ..
    from M [THEN conjunct2, THEN conjunct2, THEN conjunct2, THEN conjunct2, THEN conjunct2, THEN conjunct2, THEN conjunct2, THEN conjunct2, THEN conjunct2, THEN conjunct2, THEN conjunct2, THEN conjunct2, THEN conjunct2, THEN conjunct2, THEN conjunct2, THEN conjunct2, THEN conjunct2, THEN conjunct2, THEN conjunct2, THEN conjunct2, THEN conjunct2, THEN conjunct2, THEN conjunct2, THEN conjunct2, THEN conjunct2, THEN conjunct2, THEN conjunct2, THEN conjunct2, THEN conjunct2, THEN conjunct2, THEN conjunct1, rule_format, OF conjI, OF r e(1)]
      M [THEN conjunct2, THEN conjunct2, THEN conjunct2, THEN conjunct2, THEN conjunct2, THEN conjunct2, THEN conjunct2, THEN conjunct2, THEN conjunct2, THEN conjunct2, THEN conjunct2, THEN conjunct2, THEN conjunct2, THEN conjunct2, THEN conjunct2, THEN conjunct2, THEN conjunct2, THEN conjunct2, THEN conjunct2, THEN conjunct2, THEN conjunct2, THEN conjunct2, THEN conjunct2, THEN conjunct2, THEN conjunct2, THEN conjunct2, THEN conjunct2, THEN conjunct2, THEN conjunct2, THEN conjunct2, THEN conjunct2, THEN conjunct2, THEN conjunct2, THEN conjunct1, rule_format, OF conjI, OF r conjI, OF plain_action_blocks(3) e(2)]
      r
    show ?thesis by blast
  qed
  have d1: "\<exists>p c. createPhone_request plain_helpers desk_phone_data ''meta-1'' = Inr p
         \<and> phone_State p = Some ''active'' \<and> phone_WebRtcUser p = None
         \<and> (\<exists>l ls. phone_Lines p = Some (l # ls)) \<and> phone_Properties p = None
         \<and> phone_Capabilities p = Some c
         \<and> cap_Provisions c \<noteq> None \<and> cap_Registers c \<noteq> None \<and> cap_DualRegisters c \<noteq> None
         \<and> cap_HardwareIdType c \<noteq> None \<and> cap_AllowReboot c \<noteq> None
         \<and> cap_NoRebalance c \<noteq> None \<and> cap_NoCloudProvisioning c \<noteq> None
         \<and> cap_MediaCodecs c \<noteq> None \<and> cap_Cdm c \<noteq> None"
  proof -
    have e: "Get_list desk_phone_data ''capabilities'' \<noteq> []"
      by (simp add: Get_list_def desk_phone_data_def)
    have "\<exists>p. createPhone_request plain_helpers desk_phone_data ''meta-1'' = Inr p"
      by (simp add: phone_build_defs desk_phone_data_def)
    then obtain p where p: "createPhone_request plain_helpers desk_phone_data ''meta-1'' = Inr p" ..
    from D [THEN conjunct2, THEN conjunct2, THEN conjunct2, THEN conjunct2, THEN conjunct2, THEN conjunct2, THEN conjunct2, THEN conjunct2, THEN conjunct2, THEN conjunct2, THEN conjunct2, THEN conjunct2, THEN conjunct2, THEN conjunct2, THEN conjunct2, THEN conjunct2, THEN conjunct2, THEN conjunct2, THEN conjunct2, THEN conjunct2, THEN conjunct2, THEN conjunct2, THEN conjunct2, THEN conjunct2, THEN conjunct2, THEN conjunct2, THEN conjunct2, THEN conjunct2, THEN conjunct2, THEN conjunct2, THEN conjunct2, THEN conjunct2, THEN conjunct2, THEN conjunct2, THEN conjunct1, rule_format, OF p]
    have f: "phone_State p = Some ''active'' \<and> phone_WebRtcUser p = None
         \<and> (\<exists>l ls. phone_Lines p = Some (l # ls)) \<and> phone_Properties p = None
         \<and> phone_Capabilities p \<noteq> None"
      by (simp add: Get_string_def GetOk_def desk_phone_data_def)
    then obtain c where c: "phone_Capabilities p = Some c" by auto
    from D [THEN conjunct2, THEN conjunct2, THEN conjunct2, THEN conjunct2, THEN conjunct2, THEN conjunct2, THEN conjunct2, THEN conjunct2, THEN conjunct2, THEN conjunct2, THEN conjunct2, THEN conjunct2, THEN conjunct2, THEN conjunct2, THEN conjunct2, THEN conjunct2, THEN conjunct2, THEN conjunct2, THEN conjunct2, THEN conjunct2, THEN conjunct2, THEN conjunct2, THEN conjunct2, THEN conjunct2, THEN conjunct2, THEN conjunct2, THEN conjunct2, THEN conjunct2, THEN conjunct2, THEN conjunct2, THEN conjunct2, THEN conjunct2, THEN conjunct2, THEN conjunct2, THEN conjunct2, THEN conjunct2, THEN conjunct1, rule_format, OF conjI, OF p conjI, OF c e] p f c
    show ?thesis by blast
  qed
  have f1: "\<exists>p. createPhone_request plain_helpers softphone_data ''meta-1'' = Inr p
         \<and> phone_WebRtcUser p = Some \<lparr>ref_Id = Some ''user-1''\<rparr>
         \<and> phone_Capabilities p = Some empty_Phonecapabilities"
  proof -
    have e: "Get_list softphone_data ''capabilities'' = []"
      by (simp add: Get_list_def softphone_data_def)
    have "\<exists>p. createPhone_request plain_helpers softphone_data ''meta-1'' = Inr p"
      by (simp add: phone_build_defs softphone_data_def)
    then obtain p where p: "createPhone_request plain_helpers softphone_data ''meta-1'' = Inr p" ..
    from F [THEN conjunct2, THEN conjunct2, THEN conjunct2, THEN conjunct2, THEN conjunct2, THEN conjunct2, THEN conjunct2, THEN conjunct2, THEN conjunct2, THEN conjunct2, THEN conjunct2, THEN conjunct2, THEN conjunct2, THEN conjunct2, THEN conjunct2, THEN conjunct2, THEN conjunct2, THEN conjunct2, THEN conjunct2, THEN conjunct2, THEN conjunct2, THEN conjunct2, THEN conjunct2, THEN conjunct2, THEN conjunct2, THEN conjunct2, THEN conjunct2, THEN conjunct2, THEN conjunct2, THEN conjunct2, THEN conjunct2, THEN conjunct2, THEN conjunct2, THEN conjunct2, THEN conjunct1, rule_format, OF p]
    have f: "phone_WebRtcUser p = Some \<lparr>ref_Id = Some ''user-1''\<rparr>" "phone_Capabilities p \<noteq> None"
      by (simp_all add: Get_string_def plain_helpers_def softphone_data_def)
    then obtain c where c: "phone_Capabilities p = Some c" by auto
    from F [THEN conjunct2, THEN conjunct2, THEN conjunct2, THEN conjunct2, THEN conjunct2, THEN conjunct2, THEN conjunct2, THEN conjunct2, THEN conjunct2, THEN conjunct2, THEN conjunct2, THEN conjunct2, THEN conjunct2, THEN conjunct2, THEN conjunct2, THEN conjunct2, THEN conjunct2, THEN conjunct2, THEN conjunct2, THEN conjunct2, THEN conjunct2, THEN conjunct2, THEN conjunct2, THEN conjunct2, THEN conjunct2, THEN conjunct2, THEN conjunct2, THEN conjunct2, THEN conjunct2, THEN conjunct2, THEN conjunct2, THEN conjunct2, THEN conjunct2, THEN conjunct2, THEN conjunct2, THEN conjunct1, rule_format, OF conjI, OF p conjI, OF c e] p f c
    show ?thesis by blast
  qed
  have f2: "\<exists>p. updatePhone_request plain_helpers softphone_data = Inr p
         \<and> phone_State p = None \<and> phone_Capabilities p = None
         \<and> phone_WebRtcUser p = Some \<lparr>ref_Id = Some ''user-1''\<rparr>
         \<and> (\<exists>l ls. phone_Lines p = Some (l # ls)) \<and> phone_Properties p = None"
  proof -
    have "\<exists>p. updatePhone_request plain_helpers softphone_data = Inr p"
      by (simp add: phone_build_defs softphone_data_def)
    then obtain p where p: "updatePhone_request plain_helpers softphone_data = Inr p" ..
    from F [THEN conjunct2, THEN conjunct2, THEN conjunct2, THEN conjunct2, THEN conjunct2, THEN conjunct2, THEN conjunct2, THEN conjunct2, THEN conjunct2, THEN conjunct2, THEN conjunct2, THEN conjunct2, THEN conjunct2, THEN conjunct2, THEN conjunct2, THEN conjunct2, THEN conjunct2, THEN conjunct2, THEN conjunct2, THEN conjunct2, THEN conjunct2, THEN conjunct2, THEN conjunct2, THEN conjunct2, THEN conjunct2, THEN conjunct2, THEN conjunct2, THEN conjunct2, THEN conjunct2, THEN conjunct2, THEN conjunct2, THEN conjunct2, THEN conjunct2, THEN conjunct2, THEN conjunct2, THEN conjunct2, THEN conjunct2, rule_format, OF p]
    have "phone_State p = None \<and> phone_Capabilities p = None
         \<and> phone_WebRtcUser p = Some \<lparr>ref_Id = Some ''user-1''\<rparr>
         \<and> (\<exists>l ls. phone_Lines p = Some (l # ls)) \<and> phone_Properties p = None"
      by (simp add: Get_string_def GetOk_def plain_helpers_def softphone_data_def)
    with p show ?thesis by blast
  qed
  show ?thesis
    using old a1 s1 s2 u1 r1 u2 r2 dv cr cf ac q0 q1 q2 p0 p1 p2 d1 f1 f2
    by simp
qed

subsection \<open>Certificates of the generic identity provider\<close>

lemma rd_attrs_Set_attr [simp]:
  "rd_attrs (Set_attr key v d) k = (if k = key then Some v else rd_attrs d k)"
  by (simp add: Set_attr_def)

lemma rd_attrs_set_or_nil [simp]:
  "rd_attrs (set_or_nil key p wrap d) k =
     (if k = key then Some (case p of None \<Rightarrow> TNil | Some v \<Rightarrow> wrap v) else rd_attrs d k)"
  by (simp add: set_or_nil_def)

lemma readIdpGeneric_set_certificates:
  "rd_attrs (readIdpGeneric_set generic d) ''certificates'' =
     Some (case saml_Certificate generic of
             Some c \<Rightarrow> stringListToSet [c]
           | None \<Rightarrow> (case saml_Certificates generic of
                         Some cs \<Rightarrow> stringListToSet cs
                       | None \<Rightarrow> TNil))"
  by (simp add: readIdpGeneric_set_def Let_def split: option.splits)

lemma request_certificates:
  "(saml_Certificate (updateIdpGeneric_request sdk d), saml_Certificates (updateIdpGeneric_request sdk d)) =
     (case buildSdkStringList sdk d ''certificates'' of
        None \<Rightarrow> (None, None)
      | Some [c] \<Rightarrow> (Some c, None)
      | Some cs \<Rightarrow> (None, Some cs))"
  by (simp add: updateIdpGeneric_request_def Let_def split: option.splits list.splits)

text \<open>
  C10. The update sends exactly one certificate in the singular field and leaves the
  plural field absent; it sends two or more in the plural field. When the server returns
  the two certificate fields as they were sent, the read stores the same set of
  certificates, whatever its size; and the read prefers the singular field whenever it
  is present.
\<close>

theorem idp_certificates_round_trip:
  assumes echo_one: "saml_Certificate generic = saml_Certificate (updateIdpGeneric_request sdk d)"
    and echo_many: "saml_Certificates generic = saml_Certificates (updateIdpGeneric_request sdk d)"
  shows "(\<forall>c. buildSdkStringList sdk d ''certificates'' = Some [c] \<longrightarrow>
            saml_Certificate (updateIdpGeneric_request sdk d) = Some c
            \<and> saml_Certificates (updateIdpGeneric_request sdk d) = None)
       \<and> (\<forall>cs. buildSdkStringList sdk d ''certificates'' = Some cs \<and> 2 \<le> length cs \<longrightarrow>
            saml_Certificates (updateIdpGeneric_request sdk d) = Some cs
            \<and> saml_Certificate (updateIdpGeneric_request sdk d) = None)
       \<and> set (Get_set (readIdpGeneric_set generic d') ''certificates'')
           = TString ` set (case buildSdkStringList sdk d ''certificates'' of
                              None \<Rightarrow> [] | Some cs \<Rightarrow> cs)
       \<and> (\<forall>g c. saml_Certificate g = Some c \<longrightarrow>
             rd_attrs (readIdpGeneric_set g d') ''certificates'' = Some (stringListToSet [c]))"
proof -
  have one: "\<forall>c. buildSdkStringList sdk d ''certificates'' = Some [c] \<longrightarrow>
            saml_Certificate (updateIdpGeneric_request sdk d) = Some c
            \<and> saml_Certificates (updateIdpGeneric_request sdk d) = None"
    using request_certificates [of sdk d] by auto
  have many: "\<forall>cs. buildSdkStringList sdk d ''certificates'' = Some cs \<and> 2 \<le> length cs \<longrightarrow>
            saml_Certificates (updateIdpGeneric_request sdk d) = Some cs
            \<and> saml_Certificate (updateIdpGeneric_request sdk d) = None"
    using request_certificates [of sdk d] by (auto split: list.splits)
  have stored: "set (Get_set (readIdpGeneric_set generic d') ''certificates'')
           = TString ` set (case buildSdkStringList sdk d ''certificates'' of
                              None \<Rightarrow> [] | Some cs \<Rightarrow> cs)"
    using request_certificates [of sdk d] echo_one echo_many
    by (auto simp: Get_set_def readIdpGeneric_set_certificates stringListToSet_def
        split: option.splits list.splits)
  have pref: "\<forall>g c. saml_Certificate g = Some c \<longrightarrow>
             rd_attrs (readIdpGeneric_set g d') ''certificates'' = Some (stringListToSet [c])"
    by (simp add: readIdpGeneric_set_certificates)
  from one many stored pref show ?thesis by blast
qed

theorem idp_certificates_round_trip_witness:
  "saml_Certificate (updateIdpGeneric_request (offline_sdk :: unit sdk) one_certificate_data)
     = Some ''CERT-A''
   \<and> saml_Certificates (updateIdpGeneric_request (offline_sdk :: unit sdk) one_certificate_data) = None
   \<and> set (Get_set (readIdpGeneric_set
            (updateIdpGeneric_request (offline_sdk :: unit sdk) one_certificate_data) bare_data)
          ''certificates'') = {TString ''CERT-A''}
   \<and> saml_Certificate (updateIdpGeneric_request (offline_sdk :: unit sdk) two_certificates_data) = None
   \<and> saml_Certificates (updateIdpGeneric_request (offline_sdk :: unit sdk) two_certificates_data)
     = Some [''CERT-A'', ''CERT-B'']
   \<and> set (Get_set (readIdpGeneric_set
            (updateIdpGeneric_request (offline_sdk :: unit sdk) two_certificates_data) bare_data)
          ''certificates'') = {TString ''CERT-A'', TString ''CERT-B''}"
proof -
  have one: "buildSdkStringList (offline_sdk :: unit sdk) one_certificate_data ''certificates''
             = Some [''CERT-A'']"
    by (simp add: offline_sdk_def one_certificate_data_def GetOk_def is_zero_def
        setToStringList_def Get_set_def)
  have two: "buildSdkStringList (offline_sdk :: unit sdk) two_certificates_data ''certificates''
             = Some [''CERT-A'', ''CERT-B'']"
    by (simp add: offline_sdk_def two_certificates_data_def GetOk_def is_zero_def
        setToStringList_def Get_set_def)
  show ?thesis
    using idp_certificates_round_trip
        [of "updateIdpGeneric_request (offline_sdk :: unit sdk) one_certificate_data"
            "offline_sdk :: unit sdk" one_certificate_data bare_data, OF refl refl]
      idp_certificates_round_trip
        [of "updateIdpGeneric_request (offline_sdk :: unit sdk) two_certificates_data"
            "offline_sdk :: unit sdk" two_certificates_data bare_data, OF refl refl]
    by (simp add: one two)
qed

subsection \<open>Exporters: the entity loops\<close>

lemma add_actions_entries: "add_actions es r = add_entries action_entry es r"
  by (induction es arbitrary: r) (auto simp: action_entry_def split: option.splits)

lemma add_entries_append:
  "add_entries f (xs @ ys) r =
     (case add_entries f xs r of Inl p \<Rightarrow> Inl p | Inr r' \<Rightarrow> add_entries f ys r')"
  by (induction xs arbitrary: r) (auto split: sum.splits option.splits)

lemma add_entries_sound:
  "add_entries f es r = Inr m \<Longrightarrow> m i = Some meta \<Longrightarrow>
   r i = Some meta \<or> (\<exists>e\<in>set es. f e = Inr (Some (i, Name meta)))"
proof (induction es arbitrary: r)
  case Nil
  then show ?case by simp
next
  case (Cons e es)
  show ?case
  proof (cases "f e")
    case (Inl p)
    with Cons.prems show ?thesis by simp
  next
    case (Inr x)
    show ?thesis
    proof (cases x)
      case None
      with Inr Cons show ?thesis by auto
    next
      case (Some pair)
      obtain j n where pair: "pair = (j, n)" by (cases pair)
      from Cons.prems(1) Inr Some pair
      have run: "add_entries f es (r(j \<mapsto> \<lparr>Name = n\<rparr>)) = Inr m" by simp
      from Cons.IH [OF run Cons.prems(2)]
      show ?thesis using Inr Some pair by (auto split: if_splits)
    qed
  qed
qed

lemma add_entries_complete:
  "add_entries f es r = Inr m \<Longrightarrow>
   r i = Some \<lparr>Name = n\<rparr> \<or> (\<exists>e\<in>set es. f e = Inr (Some (i, n))) \<Longrightarrow>
   (\<forall>e\<in>set es. \<forall>n'. f e = Inr (Some (i, n')) \<longrightarrow> n' = n) \<Longrightarrow>
   m i = Some \<lparr>Name = n\<rparr>"
proof (induction es arbitrary: r)
  case Nil
  then show ?case by simp
next
  case (Cons e es)
  show ?case
  proof (cases "f e")
    case (Inl p)
    with Cons.prems show ?thesis by simp
  next
    case (Inr x)
    show ?thesis
    proof (cases x)
      case None
      with Inr Cons.prems have "add_entries f es r = Inr m"
        "r i = Some \<lparr>Name = n\<rparr> \<or> (\<exists>e\<in>set es. f e = Inr (Some (i, n)))"
        "\<forall>e\<in>set es. \<forall>n'. f e = Inr (Some (i, n')) \<longrightarrow> n' = n"
        by auto
      then show ?thesis by (rule Cons.IH)
    next
      case (Some pair)
      obtain j n0 where pair: "pair = (j, n0)" by (cases pair)
      from Cons.prems(1) Inr Some pair
      have run: "add_entries f es (r(j \<mapsto> \<lparr>Name = n0\<rparr>)) = Inr m" by simp
      have same: "j = i \<Longrightarrow> n0 = n" using Cons.prems(3) Inr Some pair by auto
      have start: "(r(j \<mapsto> \<lparr>Name = n0\<rparr>)) i = Some \<lparr>Name = n\<rparr>
                   \<or> (\<exists>e\<in>set es. f e = Inr (Some (i, n)))"
        using Cons.prems(2) Inr Some pair same by auto
      have rest: "\<forall>e\<in>set es. \<forall>n'. f e = Inr (Some (i, n')) \<longrightarrow> n' = n"
        using Cons.prems(3) by auto
      from run start rest show ?thesis by (rule Cons.IH)
    qed
  qed
qed

lemma add_entries_total:
  "(\<forall>e\<in>set es. \<exists>x. f e = Inr x) \<Longrightarrow> \<exists>m. add_entries f es r = Inr m"
  by (induction es arbitrary: r) (auto split: sum.splits option.splits)

lemma add_credentials_entries: "add_credentials es r = add_entries credential_entry es r"
  by (induction es arbitrary: r) (auto simp: credential_entry_def split: option.splits)

lemma add_phones_entries: "add_phones es r = add_entries phone_entry es r"
  by (induction es arbitrary: r) (auto simp: phone_entry_def split: option.splits)

lemma add_clients_entries: "add_clients es r = add_entries client_entry es r"
  by (induction es arbitrary: r) (auto simp: client_entry_def split: option.splits)

lemma action_entry_Some:
  "action_entry e = Inr (Some (i, n)) \<longleftrightarrow>
   Entity_Id e = Some i \<and> Entity_Name e = Some n \<and> \<not> prefix ''static'' i"
  by (auto simp: action_entry_def split: option.splits if_splits)

lemma credential_entry_Some:
  "credential_entry e = Inr (Some (i, n)) \<longleftrightarrow> Entity_Id e = Some i \<and> Entity_Name e = Some n"
  by (auto simp: credential_entry_def split: option.splits if_splits)

lemma phone_entry_Some:
  "phone_entry e = Inr (Some (i, n)) \<longleftrightarrow>
   Entity_Id e = Some i \<and> Entity_Name e = Some n
   \<and> Entity_State e \<noteq> None \<and> Entity_State e \<noteq> Some ''deleted''"
  by (auto simp: phone_entry_def split: option.splits if_splits)

lemma client_entry_Some:
  "client_entry e = Inr (Some (i, n)) \<longleftrightarrow>
   Entity_Id e = Some i \<and> Entity_Name e = Some n \<and> Entity_State e \<noteq> Some ''disabled''"
  by (auto simp: client_entry_def split: option.splits if_splits)

lemma add_entries_dom:
  "add_entries f es r = Inr m \<Longrightarrow>
   dom m = dom r \<union> {i. \<exists>e\<in>set es. \<exists>n. f e = Inr (Some (i, n))}"
proof (induction es arbitrary: r)
  case Nil
  then show ?case by simp
next
  case (Cons e es)
  show ?case
  proof (cases "f e")
    case (Inl p)
    with Cons.prems show ?thesis by simp
  next
    case (Inr x)
    show ?thesis
    proof (cases x)
      case None
      with Inr Cons.prems have "add_entries f es r = Inr m" by simp
      from Cons.IH [OF this] show ?thesis using Inr None by auto
    next
      case (Some pair)
      obtain j n0 where pair: "pair = (j, n0)" by (cases pair)
      from Cons.prems Inr Some pair
      have "add_entries f es (r(j \<mapsto> \<lparr>Name = n0\<rparr>)) = Inr m" by simp
      from Cons.IH [OF this] show ?thesis using Inr Some pair by (auto split: if_splits)
    qed
  qed
qed

lemma add_entries_lookup:
  assumes run: "add_entries f es Map.empty = Inr m"
    and ids: "\<And>e j n'. f e = Inr (Some (j, n')) \<Longrightarrow> Entity_Id e = Some j \<and> Entity_Name e = Some n'"
    and dist: "distinct (map Entity_Id es)"
  shows "m i = Some \<lparr>Name = n\<rparr> \<longleftrightarrow> (\<exists>e\<in>set es. f e = Inr (Some (i, n)))"
proof
  assume "m i = Some \<lparr>Name = n\<rparr>"
  from add_entries_sound [OF run this] show "\<exists>e\<in>set es. f e = Inr (Some (i, n))" by simp
next
  assume "\<exists>e\<in>set es. f e = Inr (Some (i, n))"
  then obtain e where e: "e \<in> set es" "f e = Inr (Some (i, n))" by blast
  have same: "\<forall>e'\<in>set es. \<forall>n'. f e' = Inr (Some (i, n')) \<longrightarrow> n' = n"
  proof (intro ballI allI impI)
    fix e' n' assume e': "e' \<in> set es" "f e' = Inr (Some (i, n'))"
    from ids [OF e(2)] ids [OF e'(2)] have "Entity_Id e = Entity_Id e'" by simp
    with dist e(1) e'(1) have "e = e'" by (meson distinct_map inj_on_def)
    with ids [OF e(2)] ids [OF e'(2)] show "n' = n" by simp
  qed
  from add_entries_complete [OF run _ same] e show "m i = Some \<lparr>Name = n\<rparr>" by blast
qed

lemma add_entries_excluded:
  assumes run: "add_entries f es Map.empty = Inr m"
    and ids: "\<And>e j n'. f e = Inr (Some (j, n')) \<Longrightarrow> Entity_Id e = Some j \<and> Entity_Name e = Some n'"
    and dist: "distinct (map Entity_Id es)"
    and e: "e \<in> set es" "f e = Inr None" "Entity_Id e = Some i"
  shows "m i = None"
proof (rule ccontr)
  assume "m i \<noteq> None"
  then obtain meta where "m i = Some meta" by auto
  from add_entries_sound [OF run this] obtain e' where
    e': "e' \<in> set es" "f e' = Inr (Some (i, Name meta))" by auto
  from ids [OF e'(2)] e(3) have "Entity_Id e = Entity_Id e'" by simp
  with dist e(1) e'(1) have "e = e'" by (meson distinct_map inj_on_def)
  with e(2) e'(2) show False by simp
qed

subsection \<open>Exporters: the page loops\<close>

lemma trace_invoke [simp]: "trace (snd (invoke c f s)) = trace s @ [Call c]"
  by (simp add: invoke_def split: prod.splits)

lemma getAllIntegrationActions_pages_run:
  assumes st: "stable_pages (\<lambda>k. GetIntegrationsActions sdk 100 k) n pages"
    and k: "1 \<le> k" "k \<le> n"
    and m: "add_actions (concat (map pages [k..<n])) resources = Inr m"
  shows "\<exists>s'. getAllIntegrationActions_pages sdk k resources s = Some (Inr m, s')
           \<and> trace s' = trace s @ map (\<lambda>j. Call (GetIntegrationsActionsReq 100 j)) [k..<Suc n]
           \<and> rdata s' = rdata s"
  using k m
proof (induction "n - k" arbitrary: k resources s)
  case 0
  then have kn: "k = n" by simp
  from st obtain listing resp sv' where
    f: "GetIntegrationsActions sdk 100 n (server s) = ((Some listing, resp, None), sv')"
    and e: "Entities listing = None \<or> Entities listing = Some []"
    unfolding stable_pages_def by blast
  from "0.prems" kn have rm: "resources = m" by simp
  show ?case
    using e
    by (subst getAllIntegrationActions_pages.simps)
       (auto simp: kn invoke_def f rm)
next
  case (Suc d)
  then have lt: "k < n" by simp
  from st lt Suc.prems(1) obtain resp sv' where
    f: "GetIntegrationsActions sdk 100 k (server s) = ((Some \<lparr>Entities = Some (pages k)\<rparr>, resp, None), sv')"
    and ne: "pages k \<noteq> []"
    unfolding stable_pages_def by blast
  have split: "[k..<n] = k # [Suc k..<n]" using lt by (simp add: upt_conv_Cons)
  from Suc.prems(3) obtain r1 where
    r1: "add_actions (pages k) resources = Inr r1"
    and r2: "add_actions (concat (map pages [Suc k..<n])) r1 = Inr m"
    by (auto simp: split add_actions_entries add_entries_append split: sum.splits)
  define s1 where "s1 = s\<lparr>server := sv', trace := trace s @ [Call (GetIntegrationsActionsReq 100 k)]\<rparr>"
  have d: "d = n - Suc k" using Suc.hyps(2) by simp
  from Suc.hyps(1) [OF d _ _ r2, of s1] lt obtain s' where
    run: "getAllIntegrationActions_pages sdk (Suc k) r1 s1 = Some (Inr m, s')"
    and tr: "trace s' = trace s1 @ map (\<lambda>j. Call (GetIntegrationsActionsReq 100 j)) [Suc k..<Suc n]"
    and rd: "rdata s' = rdata s1"
    by auto
  obtain e es where pk: "pages k = e # es" using ne by (cases "pages k") auto
  have "getAllIntegrationActions_pages sdk k resources s = Some (Inr m, s')"
    using r1 run
    by (subst getAllIntegrationActions_pages.simps)
       (simp add: invoke_def f pk s1_def)
  moreover have "trace s' = trace s @ map (\<lambda>j. Call (GetIntegrationsActionsReq 100 j)) [k..<Suc n]"
    using tr lt by (simp add: s1_def upt_conv_Cons)
  moreover have "rdata s' = rdata s" using rd by (simp add: s1_def)
  ultimately show ?case by blast
qed

lemma getAllCredentials_pages_run:
  assumes st: "stable_pages (\<lambda>k. GetIntegrationsCredentials sdk k 100) n pages"
    and k: "1 \<le> k" "k \<le> n"
    and m: "add_credentials (concat (map pages [k..<n])) resources = Inr m"
  shows "\<exists>s'. getAllCredentials_pages sdk k resources s = Some (Inr m, s')
           \<and> trace s' = trace s @ map (\<lambda>j. Call (GetIntegrationsCredentialsReq j 100)) [k..<Suc n]
           \<and> rdata s' = rdata s"
  using k m
proof (induction "n - k" arbitrary: k resources s)
  case 0
  then have kn: "k = n" by simp
  from st obtain listing resp sv' where
    f: "GetIntegrationsCredentials sdk n 100 (server s) = ((Some listing, resp, None), sv')"
    and e: "Entities listing = None \<or> Entities listing = Some []"
    unfolding stable_pages_def by blast
  from "0.prems" kn have rm: "resources = m" by simp
  show ?case
    using e
    by (subst getAllCredentials_pages.simps)
       (auto simp: kn invoke_def f rm)
next
  case (Suc d)
  then have lt: "k < n" by simp
  from st lt Suc.prems(1) obtain resp sv' where
    f: "GetIntegrationsCredentials sdk k 100 (server s) = ((Some \<lparr>Entities = Some (pages k)\<rparr>, resp, None), sv')"
    and ne: "pages k \<noteq> []"
    unfolding stable_pages_def by blast
  have split: "[k..<n] = k # [Suc k..<n]" using lt by (simp add: upt_conv_Cons)
  from Suc.prems(3) obtain r1 where
    r1: "add_credentials (pages k) resources = Inr r1"
    and r2: "add_credentials (concat (map pages [Suc k..<n])) r1 = Inr m"
    by (auto simp: split add_credentials_entries add_entries_append split: sum.splits)
  define s1 where "s1 = s\<lparr>server := sv', trace := trace s @ [Call (GetIntegrationsCredentialsReq k 100)]\<rparr>"
  have d: "d = n - Suc k" using Suc.hyps(2) by simp
  from Suc.hyps(1) [OF d _ _ r2, of s1] lt obtain s' where
    run: "getAllCredentials_pages sdk (Suc k) r1 s1 = Some (Inr m, s')"
    and tr: "trace s' = trace s1 @ map (\<lambda>j. Call (GetIntegrationsCredentialsReq j 100)) [Suc k..<Suc n]"
    and rd: "rdata s' = rdata s1"
    by auto
  obtain e es where pk: "pages k = e # es" using ne by (cases "pages k") auto
  have "getAllCredentials_pages sdk k resources s = Some (Inr m, s')"
    using r1 run
    by (subst getAllCredentials_pages.simps)
       (simp add: invoke_def f pk s1_def)
  moreover have "trace s' = trace s @ map (\<lambda>j. Call (GetIntegrationsCredentialsReq j 100)) [k..<Suc n]"
    using tr lt by (simp add: s1_def upt_conv_Cons)
  moreover have "rdata s' = rdata s" using rd by (simp add: s1_def)
  ultimately show ?case by blast
qed

lemma getAllPhones_pages_run:
  assumes st: "stable_pages (\<lambda>k. GetTelephonyProvidersEdgesPhones sdk k 100) n pages"
    and k: "1 \<le> k" "k \<le> n"
    and m: "add_phones (concat (map pages [k..<n])) resources = Inr m"
  shows "\<exists>s'. getAllPhones_pages sdk k resources s = Some (Inr m, s')
           \<and> trace s' = trace s @ map (\<lambda>j. Call (GetTelephonyProvidersEdgesPhonesReq j 100)) [k..<Suc n]
           \<and> rdata s' = rdata s"
  using k m
proof (induction "n - k" arbitrary: k resources s)
  case 0
  then have kn: "k = n" by simp
  from st obtain listing resp sv' where
    f: "GetTelephonyProvidersEdgesPhones sdk n 100 (server s) = ((Some listing, resp, None), sv')"
    and e: "Entities listing = None \<or> Entities listing = Some []"
    unfolding stable_pages_def by blast
  from "0.prems" kn have rm: "resources = m" by simp
  show ?case
    using e
    by (subst getAllPhones_pages.simps)
       (auto simp: kn invoke_def f rm)
next
  case (Suc d)
  then have lt: "k < n" by simp
  from st lt Suc.prems(1) obtain resp sv' where
    f: "GetTelephonyProvidersEdgesPhones sdk k 100 (server s) = ((Some \<lparr>Entities = Some (pages k)\<rparr>, resp, None), sv')"
    and ne: "pages k \<noteq> []"
    unfolding stable_pages_def by blast
  have split: "[k..<n] = k # [Suc k..<n]" using lt by (simp add: upt_conv_Cons)
  from Suc.prems(3) obtain r1 where
    r1: "add_phones (pages k) resources = Inr r1"
    and r2: "add_phones (concat (map pages [Suc k..<n])) r1 = Inr m"
    by (auto simp: split add_phones_entries add_entries_append split: sum.splits)
  define s1 where "s1 = s\<lparr>server := sv', trace := trace s @ [Call (GetTelephonyProvidersEdgesPhonesReq k 100)]\<rparr>"
  have d: "d = n - Suc k" using Suc.hyps(2) by simp
  from Suc.hyps(1) [OF d _ _ r2, of s1] lt obtain s' where
    run: "getAllPhones_pages sdk (Suc k) r1 s1 = Some (Inr m, s')"
    and tr: "trace s' = trace s1 @ map (\<lambda>j. Call (GetTelephonyProvidersEdgesPhonesReq j 100)) [Suc k..<Suc n]"
    and rd: "rdata s' = rdata s1"
    by auto
  obtain e es where pk: "pages k = e # es" using ne by (cases "pages k") auto
  have "getAllPhones_pages sdk k resources s = Some (Inr m, s')"
    using r1 run
    by (subst getAllPhones_pages.simps)
       (simp add: invoke_def f pk s1_def)
  moreover have "trace s' = trace s @ map (\<lambda>j. Call (GetTelephonyProvidersEdgesPhonesReq j 100)) [k..<Suc n]"
    using tr lt by (simp add: s1_def upt_conv_Cons)
  moreover have "rdata s' = rdata s" using rd by (simp add: s1_def)
  ultimately show ?case by blast
qed

subsection \<open>Exporters: pagination (C4)\<close>

text \<open>
  C4, as the claim states it, fails: the first page holds two entities, fewer than the
  hundred that were requested, and the loop still requests the second page.
\<close>

theorem short_page_counterexample:
  "length [listed ''static-1'' ''builtin'' ''active'', listed ''a-1'' ''lookup'' ''active''] < 100
   \<and> getAllIntegrationActions listing_sdk start_state =
       Some (Inr [''a-1'' \<mapsto> \<lparr>Name = ''lookup''\<rparr>],
             \<lparr>rdata = bare_data, server = (),
              trace = [Call (GetIntegrationsActionsReq 100 1), Call (GetIntegrationsActionsReq 100 2)]\<rparr>)"
  by (simp add: getAllIntegrationActions_def getAllIntegrationActions_pages.simps invoke_def
      listing_sdk_def offline_sdk_def one_page_def start_state_def listed_def)

lemma action_entry_wf:
  "Entity_Id e \<noteq> None \<and> Entity_Name e \<noteq> None \<Longrightarrow> \<exists>x. action_entry e = Inr x"
  by (auto simp: action_entry_def split: option.splits)

lemma credential_entry_wf: "Entity_Id e \<noteq> None \<Longrightarrow> \<exists>x. credential_entry e = Inr x"
  by (auto simp: credential_entry_def split: option.splits)

lemma phone_entry_wf:
  "Entity_Id e \<noteq> None \<and> Entity_Name e \<noteq> None \<and> Entity_State e \<noteq> None \<Longrightarrow>
   \<exists>x. phone_entry e = Inr x"
  by (auto simp: phone_entry_def split: option.splits)

lemma client_entry_wf:
  "Entity_Id e \<noteq> None \<and> Entity_Name e \<noteq> None \<Longrightarrow> \<exists>x. client_entry e = Inr x"
  by (auto simp: client_entry_def split: option.splits)

text \<open>
  C4, amended. On a listing that does not change while it is paged through,
  \<open>getAllIntegrationActions\<close>, \<open>getAllCredentials\<close> and \<open>getAllPhones\<close> request the pages
  1, 2, ... with page size 100 and stop at the first page whose entity list is empty or
  absent, and at no other page; the loop returns, and the keys of the result are exactly
  the IDs of the entities of the fetched pages that are not excluded (static actions,
  credentials without a name, deleted phones). The result is a map, so no ID occurs
  twice. The entities carry the fields the loops dereference.
\<close>

theorem exporters_page_until_empty:
  assumes actions: "stable_pages (\<lambda>k. GetIntegrationsActions sdk 100 k) na actionPages"
    and actions_wf: "\<forall>e\<in>set (concat (map actionPages [1..<na])).
                       Entity_Id e \<noteq> None \<and> Entity_Name e \<noteq> None"
    and creds: "stable_pages (\<lambda>k. GetIntegrationsCredentials sdk k 100) nc credPages"
    and creds_wf: "\<forall>e\<in>set (concat (map credPages [1..<nc])). Entity_Id e \<noteq> None"
    and phones: "stable_pages (\<lambda>k. GetTelephonyProvidersEdgesPhones sdk k 100) np phonePages"
    and phones_wf: "\<forall>e\<in>set (concat (map phonePages [1..<np])).
                      Entity_Id e \<noteq> None \<and> Entity_Name e \<noteq> None \<and> Entity_State e \<noteq> None"
  shows "(\<exists>m s'. getAllIntegrationActions sdk s = Some (Inr m, s')
            \<and> trace s' = trace s @ map (\<lambda>j. Call (GetIntegrationsActionsReq 100 j)) [1..<Suc na]
            \<and> dom m = {i. \<exists>e\<in>set (concat (map actionPages [1..<na])).
                             Entity_Id e = Some i \<and> \<not> prefix ''static'' i})
       \<and> (\<exists>m s'. getAllCredentials sdk s = Some (Inr m, s')
            \<and> trace s' = trace s @ map (\<lambda>j. Call (GetIntegrationsCredentialsReq j 100)) [1..<Suc nc]
            \<and> dom m = {i. \<exists>e\<in>set (concat (map credPages [1..<nc])).
                             Entity_Id e = Some i \<and> Entity_Name e \<noteq> None})
       \<and> (\<exists>m s'. getAllPhones sdk s = Some (Inr m, s')
            \<and> trace s' = trace s @ map (\<lambda>j. Call (GetTelephonyProvidersEdgesPhonesReq j 100)) [1..<Suc np]
            \<and> dom m = {i. \<exists>e\<in>set (concat (map phonePages [1..<np])).
                             Entity_Id e = Some i \<and> Entity_State e \<noteq> Some ''deleted''})"
proof (intro conjI)
  define es where "es = concat (map actionPages [1..<na])"
  have wf: "\<forall>e\<in>set es. Entity_Id e \<noteq> None \<and> Entity_Name e \<noteq> None"
    using actions_wf by (simp only: es_def)
  have "\<forall>e\<in>set es. \<exists>x. action_entry e = Inr x"
    using wf action_entry_wf by blast
  then obtain m where m: "add_entries action_entry es Map.empty = Inr m"
    using add_entries_total by blast
  have na: "1 \<le> na" using actions by (simp add: stable_pages_def)
  from getAllIntegrationActions_pages_run [OF actions _ na, of Map.empty m s] m
  obtain s' where run: "getAllIntegrationActions sdk s = Some (Inr m, s')"
    and tr: "trace s' = trace s @ map (\<lambda>j. Call (GetIntegrationsActionsReq 100 j)) [1..<Suc na]"
    by (auto simp: add_actions_entries getAllIntegrationActions_def es_def)
  have "dom m = {i. \<exists>e\<in>set es. Entity_Id e = Some i \<and> \<not> prefix ''static'' i}"
    using add_entries_dom [OF m] wf by (auto simp: action_entry_Some)
  with run tr show "\<exists>m s'. getAllIntegrationActions sdk s = Some (Inr m, s')
            \<and> trace s' = trace s @ map (\<lambda>j. Call (GetIntegrationsActionsReq 100 j)) [1..<Suc na]
            \<and> dom m = {i. \<exists>e\<in>set (concat (map actionPages [1..<na])).
                             Entity_Id e = Some i \<and> \<not> prefix ''static'' i}"
    unfolding es_def by blast
next
  define es where "es = concat (map credPages [1..<nc])"
  have wf: "\<forall>e\<in>set es. Entity_Id e \<noteq> None"
    using creds_wf by (simp only: es_def)
  have "\<forall>e\<in>set es. \<exists>x. credential_entry e = Inr x"
    using wf credential_entry_wf by blast
  then obtain m where m: "add_entries credential_entry es Map.empty = Inr m"
    using add_entries_total by blast
  have nc: "1 \<le> nc" using creds by (simp add: stable_pages_def)
  from getAllCredentials_pages_run [OF creds _ nc, of Map.empty m s] m
  obtain s' where run: "getAllCredentials sdk s = Some (Inr m, s')"
    and tr: "trace s' = trace s @ map (\<lambda>j. Call (GetIntegrationsCredentialsReq j 100)) [1..<Suc nc]"
    by (auto simp: add_credentials_entries getAllCredentials_def es_def)
  have "dom m = {i. \<exists>e\<in>set es. Entity_Id e = Some i \<and> Entity_Name e \<noteq> None}"
    using add_entries_dom [OF m] by (auto simp: credential_entry_Some)
  with run tr show "\<exists>m s'. getAllCredentials sdk s = Some (Inr m, s')
            \<and> trace s' = trace s @ map (\<lambda>j. Call (GetIntegrationsCredentialsReq j 100)) [1..<Suc nc]
            \<and> dom m = {i. \<exists>e\<in>set (concat (map credPages [1..<nc])).
                             Entity_Id e = Some i \<and> Entity_Name e \<noteq> None}"
    unfolding es_def by blast
next
  define es where "es = concat (map phonePages [1..<np])"
  have wf: "\<forall>e\<in>set es. Entity_Id e \<noteq> None \<and> Entity_Name e \<noteq> None \<and> Entity_State e \<noteq> None"
    using phones_wf by (simp only: es_def)
  have "\<forall>e\<in>set es. \<exists>x. phone_entry e = Inr x"
    using wf phone_entry_wf by blast
  then obtain m where m: "add_entries phone_entry es Map.empty = Inr m"
    using add_entries_total by blast
  have np: "1 \<le> np" using phones by (simp add: stable_pages_def)
  from getAllPhones_pages_run [OF phones _ np, of Map.empty m s] m
  obtain s' where run: "getAllPhones sdk s = Some (Inr m, s')"
    and tr: "trace s' = trace s @ map (\<lambda>j. Call (GetTelephonyProvidersEdgesPhonesReq j 100)) [1..<Suc np]"
    by (auto simp: add_phones_entries getAllPhones_def es_def)
  have "dom m = {i. \<exists>e\<in>set es. Entity_Id e = Some i \<and> Entity_State e \<noteq> Some ''deleted''}"
    using add_entries_dom [OF m] wf by (auto simp: phone_entry_Some)
  with run tr show "\<exists>m s'. getAllPhones sdk s = Some (Inr m, s')
            \<and> trace s' = trace s @ map (\<lambda>j. Call (GetTelephonyProvidersEdgesPhonesReq j 100)) [1..<Suc np]
            \<and> dom m = {i. \<exists>e\<in>set (concat (map phonePages [1..<np])).
                             Entity_Id e = Some i \<and> Entity_State e \<noteq> Some ''deleted''}"
    unfolding es_def by blast
qed

lemma listing_actions_pages:
  "stable_pages (\<lambda>k. GetIntegrationsActions listing_sdk 100 k) 2
     (\<lambda>k. [listed ''static-1'' ''builtin'' ''active'', listed ''a-1'' ''lookup'' ''active''])"
  by (auto simp: stable_pages_def listing_sdk_def offline_sdk_def one_page_def)

lemma listing_credentials_pages:
  "stable_pages (\<lambda>k. GetIntegrationsCredentials listing_sdk k 100) 2
     (\<lambda>k. [listed ''c-1'' ''basic'' ''active'',
            \<lparr>Entity_Id = Some ''c-2'', Entity_Name = None, Entity_State = None\<rparr>])"
  by (auto simp: stable_pages_def listing_sdk_def offline_sdk_def one_page_def)

lemma listing_phones_pages:
  "stable_pages (\<lambda>k. GetTelephonyProvidersEdgesPhones listing_sdk k 100) 2
     (\<lambda>k. [listed ''p-1'' ''desk'' ''active'', listed ''p-2'' ''gone'' ''deleted''])"
  by (auto simp: stable_pages_def listing_sdk_def offline_sdk_def one_page_def)

theorem exporters_page_until_empty_witness:
  "(\<exists>m s'. getAllIntegrationActions listing_sdk start_state = Some (Inr m, s')
      \<and> trace s' = [Call (GetIntegrationsActionsReq 100 1), Call (GetIntegrationsActionsReq 100 2)]
      \<and> dom m = {''a-1''})
   \<and> (\<exists>m s'. getAllCredentials listing_sdk start_state = Some (Inr m, s')
      \<and> trace s' = [Call (GetIntegrationsCredentialsReq 1 100), Call (GetIntegrationsCredentialsReq 2 100)]
      \<and> dom m = {''c-1''})
   \<and> (\<exists>m s'. getAllPhones listing_sdk start_state = Some (Inr m, s')
      \<and> trace s' = [Call (GetTelephonyProvidersEdgesPhonesReq 1 100),
                     Call (GetTelephonyProvidersEdgesPhonesReq 2 100)]
      \<and> dom m = {''p-1''})"
proof -
  let ?A = "\<lambda>k::nat. [listed ''static-1'' ''builtin'' ''active'', listed ''a-1'' ''lookup'' ''active'']"
  let ?C = "\<lambda>k::nat. [listed ''c-1'' ''basic'' ''active'',
                       \<lparr>Entity_Id = Some ''c-2'', Entity_Name = None, Entity_State = None\<rparr>]"
  let ?P = "\<lambda>k::nat. [listed ''p-1'' ''desk'' ''active'', listed ''p-2'' ''gone'' ''deleted'']"
  have wfA: "\<forall>e\<in>set (concat (map ?A [1..<2])). Entity_Id e \<noteq> None \<and> Entity_Name e \<noteq> None"
    by (simp add: upt_rec listed_def)
  have wfC: "\<forall>e\<in>set (concat (map ?C [1..<2])). Entity_Id e \<noteq> None"
    by (simp add: upt_rec listed_def)
  have wfP: "\<forall>e\<in>set (concat (map ?P [1..<2])).
               Entity_Id e \<noteq> None \<and> Entity_Name e \<noteq> None \<and> Entity_State e \<noteq> None"
    by (simp add: upt_rec listed_def)
  have trA: "trace start_state @ map (\<lambda>j. Call (GetIntegrationsActionsReq 100 j)) [1..<Suc 2]
             = [Call (GetIntegrationsActionsReq 100 1), Call (GetIntegrationsActionsReq 100 2)]"
    by (simp add: start_state_def upt_rec)
  have trC: "trace start_state @ map (\<lambda>j. Call (GetIntegrationsCredentialsReq j 100)) [1..<Suc 2]
             = [Call (GetIntegrationsCredentialsReq 1 100), Call (GetIntegrationsCredentialsReq 2 100)]"
    by (simp add: start_state_def upt_rec)
  have trP: "trace start_state @ map (\<lambda>j. Call (GetTelephonyProvidersEdgesPhonesReq j 100)) [1..<Suc 2]
             = [Call (GetTelephonyProvidersEdgesPhonesReq 1 100),
                Call (GetTelephonyProvidersEdgesPhonesReq 2 100)]"
    by (simp add: start_state_def upt_rec)
  have domA: "{i. \<exists>e\<in>set (concat (map ?A [1..<2])). Entity_Id e = Some i \<and> \<not> prefix ''static'' i}
              = {''a-1''}"
    by (auto simp: upt_rec listed_def)
  have domC: "{i. \<exists>e\<in>set (concat (map ?C [1..<2])). Entity_Id e = Some i \<and> Entity_Name e \<noteq> None}
              = {''c-1''}"
    by (auto simp: upt_rec listed_def)
  have domP: "{i. \<exists>e\<in>set (concat (map ?P [1..<2])).
                   Entity_Id e = Some i \<and> Entity_State e \<noteq> Some ''deleted''} = {''p-1''}"
    by (auto simp: upt_rec listed_def)
  show ?thesis
    using exporters_page_until_empty
      [OF listing_actions_pages wfA listing_credentials_pages wfC listing_phones_pages wfP,
       of start_state]
    by (simp only: trA trC trP domA domC domP)
qed

subsection \<open>Exporters: exclusions (C5)\<close>

lemma distinct_same_entity:
  "distinct (map Entity_Id es) \<Longrightarrow> e \<in> set es \<Longrightarrow> e' \<in> set es \<Longrightarrow>
   Entity_Id e = Entity_Id e' \<Longrightarrow> e = e'"
  by (meson distinct_map inj_on_def)

lemma exporter_lookup:
  assumes run: "add_entries f es Map.empty = Inr m"
    and f: "\<And>e j n'. f e = Inr (Some (j, n')) \<longleftrightarrow>
              Entity_Id e = Some j \<and> Entity_Name e = Some n' \<and> K e"
    and total: "\<forall>e\<in>set es. \<exists>x. f e = Inr x"
    and dist: "distinct (map Entity_Id es)"
  shows "(\<forall>i n. m i = Some \<lparr>Name = n\<rparr> \<longleftrightarrow>
            (\<exists>e\<in>set es. Entity_Id e = Some i \<and> Entity_Name e = Some n \<and> K e))
       \<and> (\<forall>e\<in>set es. \<forall>i. Entity_Id e = Some i \<and> \<not> K e \<longrightarrow> m i = None)"
proof (intro conjI allI ballI impI)
  fix i n
  have ids: "\<And>e j n'. f e = Inr (Some (j, n')) \<Longrightarrow> Entity_Id e = Some j \<and> Entity_Name e = Some n'"
    using f by blast
  show "m i = Some \<lparr>Name = n\<rparr> \<longleftrightarrow>
          (\<exists>e\<in>set es. Entity_Id e = Some i \<and> Entity_Name e = Some n \<and> K e)"
    using add_entries_lookup [OF run ids dist, of i n] f by simp
next
  fix e i assume e: "e \<in> set es" "Entity_Id e = Some i \<and> \<not> K e"
  have ids: "\<And>e j n'. f e = Inr (Some (j, n')) \<Longrightarrow> Entity_Id e = Some j \<and> Entity_Name e = Some n'"
    using f by blast
  from total e(1) obtain x where x: "f e = Inr x" by blast
  have "x = None"
  proof (cases x)
    case None then show ?thesis .
  next
    case (Some pair)
    obtain j n' where "pair = (j, n')" by (cases pair)
    with x Some f [of e j n'] e(2) show ?thesis by simp
  qed
  with x have "f e = Inr None" by simp
  from add_entries_excluded [OF run ids dist e(1) this] e(2) show "m i = None" by simp
qed

text \<open>
  C5. On listings whose entities have pairwise different IDs (and carry the fields the
  loops dereference), the result of \<open>getAllIntegrationActions\<close> maps an ID to a name
  exactly when a listed action has that ID and name and its ID does not begin with
  \<open>static\<close>; the result of \<open>getAllOAuthClients\<close> does so exactly for the listed clients
  whose state is not \<open>disabled\<close>; the result of \<open>getAllPhones\<close> exactly for the listed
  phones whose state is not \<open>deleted\<close>. The IDs of the excluded entities are not keys
  of the result.
\<close>

theorem exporters_exclusions:
  assumes actions: "stable_pages (\<lambda>k. GetIntegrationsActions sdk 100 k) na actionPages"
    and actions_wf: "\<forall>e\<in>set (concat (map actionPages [1..<na])).
                       Entity_Id e \<noteq> None \<and> Entity_Name e \<noteq> None"
    and actions_ids: "distinct (map Entity_Id (concat (map actionPages [1..<na])))"
    and clients: "GetOauthClients sdk (server s) = ((Some \<lparr>Entities = Some clients\<rparr>, resp, None), sv')"
    and clients_wf: "\<forall>e\<in>set clients. Entity_Id e \<noteq> None \<and> Entity_Name e \<noteq> None"
    and clients_ids: "distinct (map Entity_Id clients)"
    and phones: "stable_pages (\<lambda>k. GetTelephonyProvidersEdgesPhones sdk k 100) np phonePages"
    and phones_wf: "\<forall>e\<in>set (concat (map phonePages [1..<np])).
                      Entity_Id e \<noteq> None \<and> Entity_Name e \<noteq> None \<and> Entity_State e \<noteq> None"
    and phones_ids: "distinct (map Entity_Id (concat (map phonePages [1..<np])))"
  shows "(\<exists>m s'. getAllIntegrationActions sdk s = Some (Inr m, s')
            \<and> (\<forall>i n. m i = Some \<lparr>Name = n\<rparr> \<longleftrightarrow>
                  (\<exists>e\<in>set (concat (map actionPages [1..<na])).
                      Entity_Id e = Some i \<and> Entity_Name e = Some n \<and> \<not> prefix ''static'' i))
            \<and> (\<forall>e\<in>set (concat (map actionPages [1..<na])). \<forall>i.
                  Entity_Id e = Some i \<and> prefix ''static'' i \<longrightarrow> m i = None))
       \<and> (\<exists>m s'. getAllOAuthClients sdk s = (Inr m, s')
            \<and> (\<forall>i n. m i = Some \<lparr>Name = n\<rparr> \<longleftrightarrow>
                  (\<exists>e\<in>set clients.
                      Entity_Id e = Some i \<and> Entity_Name e = Some n
                      \<and> Entity_State e \<noteq> Some ''disabled''))
            \<and> (\<forall>e\<in>set clients. \<forall>i.
                  Entity_Id e = Some i \<and> Entity_State e = Some ''disabled'' \<longrightarrow> m i = None))
       \<and> (\<exists>m s'. getAllPhones sdk s = Some (Inr m, s')
            \<and> (\<forall>i n. m i = Some \<lparr>Name = n\<rparr> \<longleftrightarrow>
                  (\<exists>e\<in>set (concat (map phonePages [1..<np])).
                      Entity_Id e = Some i \<and> Entity_Name e = Some n
                      \<and> Entity_State e \<noteq> Some ''deleted''))
            \<and> (\<forall>e\<in>set (concat (map phonePages [1..<np])). \<forall>i.
                  Entity_Id e = Some i \<and> Entity_State e = Some ''deleted'' \<longrightarrow> m i = None))"
proof (intro conjI)
  define es where "es = concat (map actionPages [1..<na])"
  have wf: "\<forall>e\<in>set es. Entity_Id e \<noteq> None \<and> Entity_Name e \<noteq> None"
    using actions_wf by (simp only: es_def)
  have dist: "distinct (map Entity_Id es)" using actions_ids by (simp only: es_def)
  have total: "\<forall>e\<in>set es. \<exists>x. action_entry e = Inr x"
    using wf action_entry_wf by blast
  then obtain m where m: "add_entries action_entry es Map.empty = Inr m"
    using add_entries_total by blast
  have na: "1 \<le> na" using actions by (simp add: stable_pages_def)
  from getAllIntegrationActions_pages_run [OF actions _ na, of Map.empty m s] m
  obtain s' where run: "getAllIntegrationActions sdk s = Some (Inr m, s')"
    by (auto simp: add_actions_entries getAllIntegrationActions_def es_def)
  have K: "\<And>e j n'. action_entry e = Inr (Some (j, n')) \<longleftrightarrow>
             Entity_Id e = Some j \<and> Entity_Name e = Some n'
             \<and> (\<forall>i. Entity_Id e = Some i \<longrightarrow> \<not> prefix ''static'' i)"
    by (auto simp: action_entry_Some)
  from exporter_lookup [OF m K total dist] run
  show "\<exists>m s'. getAllIntegrationActions sdk s = Some (Inr m, s')
            \<and> (\<forall>i n. m i = Some \<lparr>Name = n\<rparr> \<longleftrightarrow>
                  (\<exists>e\<in>set (concat (map actionPages [1..<na])).
                      Entity_Id e = Some i \<and> Entity_Name e = Some n \<and> \<not> prefix ''static'' i))
            \<and> (\<forall>e\<in>set (concat (map actionPages [1..<na])). \<forall>i.
                  Entity_Id e = Some i \<and> prefix ''static'' i \<longrightarrow> m i = None)"
    unfolding es_def [symmetric] by (intro exI [of _ m] exI [of _ s']) auto
next
  have total: "\<forall>e\<in>set clients. \<exists>x. client_entry e = Inr x"
    using clients_wf client_entry_wf by blast
  then obtain m where m: "add_entries client_entry clients Map.empty = Inr m"
    using add_entries_total by blast
  have run: "\<exists>s'. getAllOAuthClients sdk s = (Inr m, s')"
    using m clients
    by (cases clients) (auto simp: getAllOAuthClients_def invoke_def add_clients_entries)
  then obtain s' where run': "getAllOAuthClients sdk s = (Inr m, s')" by blast
  have K: "\<And>e j n'. client_entry e = Inr (Some (j, n')) \<longleftrightarrow>
             Entity_Id e = Some j \<and> Entity_Name e = Some n' \<and> Entity_State e \<noteq> Some ''disabled''"
    by (auto simp: client_entry_Some)
  from exporter_lookup [OF m K total clients_ids] run'
  show "\<exists>m s'. getAllOAuthClients sdk s = (Inr m, s')
            \<and> (\<forall>i n. m i = Some \<lparr>Name = n\<rparr> \<longleftrightarrow>
                  (\<exists>e\<in>set clients.
                      Entity_Id e = Some i \<and> Entity_Name e = Some n
                      \<and> Entity_State e \<noteq> Some ''disabled''))
            \<and> (\<forall>e\<in>set clients. \<forall>i.
                  Entity_Id e = Some i \<and> Entity_State e = Some ''disabled'' \<longrightarrow> m i = None)"
    by (intro exI [of _ m] exI [of _ s']) auto
next
  define es where "es = concat (map phonePages [1..<np])"
  have wf: "\<forall>e\<in>set es. Entity_Id e \<noteq> None \<and> Entity_Name e \<noteq> None \<and> Entity_State e \<noteq> None"
    using phones_wf by (simp only: es_def)
  have dist: "distinct (map Entity_Id es)" using phones_ids by (simp only: es_def)
  have total: "\<forall>e\<in>set es. \<exists>x. phone_entry e = Inr x"
    using wf phone_entry_wf by blast
  then obtain m where m: "add_entries phone_entry es Map.empty = Inr m"
    using add_entries_total by blast
  have np: "1 \<le> np" using phones by (simp add: stable_pages_def)
  from getAllPhones_pages_run [OF phones _ np, of Map.empty m s] m
  obtain s' where run: "getAllPhones sdk s = Some (Inr m, s')"
    by (auto simp: add_phones_entries getAllPhones_def es_def)
  have K: "\<And>e j n'. phone_entry e = Inr (Some (j, n')) \<longleftrightarrow>
             Entity_Id e = Some j \<and> Entity_Name e = Some n'
             \<and> (Entity_State e \<noteq> None \<and> Entity_State e \<noteq> Some ''deleted'')"
    by (auto simp: phone_entry_Some)
  from exporter_lookup [OF m K total dist] run wf
  show "\<exists>m s'. getAllPhones sdk s = Some (Inr m, s')
            \<and> (\<forall>i n. m i = Some \<lparr>Name = n\<rparr> \<longleftrightarrow>
                  (\<exists>e\<in>set (concat (map phonePages [1..<np])).
                      Entity_Id e = Some i \<and> Entity_Name e = Some n
                      \<and> Entity_State e \<noteq> Some ''deleted''))
            \<and> (\<forall>e\<in>set (concat (map phonePages [1..<np])). \<forall>i.
                  Entity_Id e = Some i \<and> Entity_State e = Some ''deleted'' \<longrightarrow> m i = None)"
    unfolding es_def [symmetric] by (intro exI [of _ m] exI [of _ s']) auto
qed

theorem exporters_exclusions_witness:
  "(\<exists>m s'. getAllIntegrationActions listing_sdk start_state = Some (Inr m, s')
      \<and> m ''a-1'' = Some \<lparr>Name = ''lookup''\<rparr> \<and> m ''static-1'' = None)
   \<and> (\<exists>m s'. getAllOAuthClients listing_sdk start_state = (Inr m, s')
      \<and> m ''o-1'' = Some \<lparr>Name = ''cli''\<rparr> \<and> m ''o-2'' = None)
   \<and> (\<exists>m s'. getAllPhones listing_sdk start_state = Some (Inr m, s')
      \<and> m ''p-1'' = Some \<lparr>Name = ''desk''\<rparr> \<and> m ''p-2'' = None)"
proof -
  let ?A = "\<lambda>k::nat. [listed ''static-1'' ''builtin'' ''active'', listed ''a-1'' ''lookup'' ''active'']"
  let ?O = "[listed ''o-1'' ''cli'' ''active'', listed ''o-2'' ''old'' ''disabled'']"
  let ?P = "\<lambda>k::nat. [listed ''p-1'' ''desk'' ''active'', listed ''p-2'' ''gone'' ''deleted'']"
  have wfA: "\<forall>e\<in>set (concat (map ?A [1..<2])). Entity_Id e \<noteq> None \<and> Entity_Name e \<noteq> None"
    by (simp add: upt_rec listed_def)
  have idA: "distinct (map Entity_Id (concat (map ?A [1..<2])))"
    by (simp add: upt_rec listed_def)
  have O: "GetOauthClients listing_sdk (server start_state)
           = ((Some \<lparr>Entities = Some ?O\<rparr>, Some ok_response, None), ())"
    by (simp add: listing_sdk_def offline_sdk_def)
  have wfO: "\<forall>e\<in>set ?O. Entity_Id e \<noteq> None \<and> Entity_Name e \<noteq> None"
    by (simp add: listed_def)
  have idO: "distinct (map Entity_Id ?O)"
    by (simp add: listed_def)
  have wfP: "\<forall>e\<in>set (concat (map ?P [1..<2])).
               Entity_Id e \<noteq> None \<and> Entity_Name e \<noteq> None \<and> Entity_State e \<noteq> None"
    by (simp add: upt_rec listed_def)
  have idP: "distinct (map Entity_Id (concat (map ?P [1..<2])))"
    by (simp add: upt_rec listed_def)
  note th = exporters_exclusions
      [OF listing_actions_pages wfA idA O wfO idO listing_phones_pages wfP idP]
  from th [THEN conjunct1] obtain mA sA where
    A: "getAllIntegrationActions listing_sdk start_state = Some (Inr mA, sA)"
    and A_in: "\<forall>i n. mA i = Some \<lparr>Name = n\<rparr> \<longleftrightarrow>
                 (\<exists>e\<in>set (concat (map ?A [1..<2])).
                     Entity_Id e = Some i \<and> Entity_Name e = Some n \<and> \<not> prefix ''static'' i)"
    and A_out: "\<forall>e\<in>set (concat (map ?A [1..<2])). \<forall>i.
                  Entity_Id e = Some i \<and> prefix ''static'' i \<longrightarrow> mA i = None"
    by blast
  from th [THEN conjunct2, THEN conjunct1] obtain mO sO where
    C: "getAllOAuthClients listing_sdk start_state = (Inr mO, sO)"
    and C_in: "\<forall>i n. mO i = Some \<lparr>Name = n\<rparr> \<longleftrightarrow>
                 (\<exists>e\<in>set ?O. Entity_Id e = Some i \<and> Entity_Name e = Some n
                     \<and> Entity_State e \<noteq> Some ''disabled'')"
    and C_out: "\<forall>e\<in>set ?O. \<forall>i.
                  Entity_Id e = Some i \<and> Entity_State e = Some ''disabled'' \<longrightarrow> mO i = None"
    by blast
  from th [THEN conjunct2, THEN conjunct2] obtain mP sP where
    P: "getAllPhones listing_sdk start_state = Some (Inr mP, sP)"
    and P_in: "\<forall>i n. mP i = Some \<lparr>Name = n\<rparr> \<longleftrightarrow>
                 (\<exists>e\<in>set (concat (map ?P [1..<2])).
                     Entity_Id e = Some i \<and> Entity_Name e = Some n
                     \<and> Entity_State e \<noteq> Some ''deleted'')"
    and P_out: "\<forall>e\<in>set (concat (map ?P [1..<2])). \<forall>i.
                  Entity_Id e = Some i \<and> Entity_State e = Some ''deleted'' \<longrightarrow> mP i = None"
    by blast
  have a1: "mA ''a-1'' = Some \<lparr>Name = ''lookup''\<rparr>"
    using A_in [rule_format, of "''a-1''" "''lookup''"] by (simp add: upt_rec listed_def)
  have a2: "mA ''static-1'' = None"
    using A_out [rule_format, of "listed ''static-1'' ''builtin'' ''active''" "''static-1''"]
    by (simp add: upt_rec listed_def)
  have o1: "mO ''o-1'' = Some \<lparr>Name = ''cli''\<rparr>"
    using C_in [rule_format, of "''o-1''" "''cli''"] by (simp add: listed_def)
  have o2: "mO ''o-2'' = None"
    using C_out [rule_format, of "listed ''o-2'' ''old'' ''disabled''" "''o-2''"]
    by (simp add: listed_def)
  have p1: "mP ''p-1'' = Some \<lparr>Name = ''desk''\<rparr>"
    using P_in [rule_format, of "''p-1''" "''desk''"] by (simp add: upt_rec listed_def)
  have p2: "mP ''p-2'' = None"
    using P_out [rule_format, of "listed ''p-2'' ''gone'' ''deleted''" "''p-2''"]
    by (simp add: upt_rec listed_def)
  from A a1 a2 C o1 o2 P p1 p2 show ?thesis by blast
qed


subsection \<open>The retry loop\<close>

lemma retry_loop_Done: "method s = (Done, s') \<Longrightarrow> retry_loop n method s = (None, s')"
  by (cases n) simp_all

lemma retry_loop_first_Done:
  "fst (method s) = Done \<Longrightarrow> retry_loop n method s = (None, snd (method s))"
  by (cases n; cases "method s") simp_all

lemma retry_loop_all_retryable:
  assumes step: "\<And>s. rdata s = d \<Longrightarrow>
                   \<exists>s'. method s = (RetryableError e, s') \<and> rdata s' = d \<and> trace s' = trace s @ [ev]"
    and d: "rdata s = d"
  shows "\<exists>s'. retry_loop n method s = (Some (RetryExhausted e), s')
            \<and> rdata s' = d \<and> trace s' = trace s @ replicate (Suc n) ev"
  using d
proof (induction n arbitrary: s)
  case 0
  from step [OF 0] show ?case by auto
next
  case (Suc n)
  from step [OF Suc.prems] obtain s1 where
    s1: "method s = (RetryableError e, s1)" "rdata s1 = d" "trace s1 = trace s @ [ev]" by blast
  from Suc.IH [OF s1(2)] obtain s' where
    "retry_loop n method s1 = (Some (RetryExhausted e), s')" "rdata s' = d"
    "trace s' = trace s1 @ replicate (Suc n) ev" by blast
  with s1 show ?case by (auto simp: replicate_append_same)
qed

lemma retry_loop_success:
  assumes run: "retry_loop n method s = (None, s')"
    and start: "I s"
    and keep: "\<And>s e s1. I s \<Longrightarrow> method s = (RetryableError e, s1) \<Longrightarrow> I s1"
  shows "\<exists>s0. I s0 \<and> method s0 = (Done, s')"
  using run start
proof (induction n arbitrary: s)
  case 0
  then show ?case by (auto split: prod.splits attempt.splits)
next
  case (Suc n)
  obtain r s1 where m: "method s = (r, s1)" by (cases "method s")
  show ?case
  proof (cases r)
    case Done
    with m Suc.prems show ?thesis by auto
  next
    case (RetryableError e)
    with m Suc.prems have "retry_loop n method s1 = (None, s')" by simp
    moreover from keep [OF Suc.prems(2)] m RetryableError have "I s1" by simp
    ultimately show ?thesis by (rule Suc.IH)
  next
    case (NonRetryableError e)
    with m Suc.prems show ?thesis by simp
  next
    case (Crash p)
    with m Suc.prems show ?thesis by simp
  qed
qed

lemma retry_loop_trace:
  assumes step: "\<And>s r s1. method s = (r, s1) \<Longrightarrow>
                   \<exists>evs. trace s1 = trace s @ evs \<and> (\<forall>ev\<in>set evs. Q ev)"
    and run: "retry_loop n method s = (r, s')"
  shows "\<exists>evs. trace s' = trace s @ evs \<and> (\<forall>ev\<in>set evs. Q ev)"
  using run
proof (induction n arbitrary: s)
  case 0
  obtain r0 s1 where m: "method s = (r0, s1)" by (cases "method s")
  from step [OF m] 0 m show ?case by (cases r0) auto
next
  case (Suc n)
  obtain r0 s1 where m: "method s = (r0, s1)" by (cases "method s")
  from step [OF m] obtain evs where evs: "trace s1 = trace s @ evs" "\<forall>ev\<in>set evs. Q ev" by blast
  show ?case
  proof (cases r0)
    case (RetryableError e)
    with m Suc.prems have "retry_loop n method s1 = (r, s')" by simp
    from Suc.IH [OF this] obtain evs' where "trace s' = trace s1 @ evs'" "\<forall>ev\<in>set evs'. Q ev"
      by blast
    with evs have "trace s' = trace s @ (evs @ evs')" "\<forall>ev\<in>set (evs @ evs'). Q ev" by auto
    then show ?thesis by blast
  qed (use m Suc.prems evs in auto)
qed

subsection \<open>Deleting and polling\<close>

lemma poll_exhausted:
  fixes sdk :: "'sv sdk"
  assumes step: "\<forall>t r t1. attempt t = (r, t1) \<longrightarrow>
                   rdata t1 = rdata t \<and> trace t1 = trace t @ [Call (get (rd_Id (rdata t)))]"
    and found: "\<forall>t. rdata t = rdata s1 \<longrightarrow> (\<exists>t1. attempt t = (RetryableError e, t1))"
  shows "\<exists>s'. withRetries sdk timeout attempt s1 = (Some (RetryExhausted e), s')
           \<and> trace s' = trace s1
                @ replicate (Suc (timeout div poll_interval sdk)) (Call (get (rd_Id (rdata s1))))"
proof -
  have one: "\<And>t. rdata t = rdata s1 \<Longrightarrow>
        \<exists>t'. attempt t = (RetryableError e, t') \<and> rdata t' = rdata s1
             \<and> trace t' = trace t @ [Call (get (rd_Id (rdata s1)))]"
  proof -
    fix t :: "'sv state" assume t: "rdata t = rdata s1"
    from found t obtain t1 where a: "attempt t = (RetryableError e, t1)" by blast
    from step a have "rdata t1 = rdata t \<and> trace t1 = trace t @ [Call (get (rd_Id (rdata t)))]"
      by blast
    with a t
    show "\<exists>t'. attempt t = (RetryableError e, t') \<and> rdata t' = rdata s1
             \<and> trace t' = trace t @ [Call (get (rd_Id (rdata s1)))]"
      by simp
  qed
  from retry_loop_all_retryable [OF one refl, of "timeout div poll_interval sdk"]
  show ?thesis by (auto simp: withRetries_def)
qed

lemma poll_success:
  fixes sdk :: "'sv sdk"
  assumes run: "withRetries sdk timeout attempt s1 = (None, s')"
    and step: "\<forall>t r t1. attempt t = (r, t1) \<longrightarrow>
                 rdata t1 = rdata t \<and> trace t1 = trace t @ [Call (get (rd_Id (rdata t)))]"
  shows "\<exists>(s0 :: 'sv state) pre. rdata s0 = rdata s1 \<and> trace s0 = trace s1 @ pre
           \<and> attempt s0 = (Done, s')
           \<and> trace s' = trace s0 @ [Call (get (rd_Id (rdata s1)))]"
proof -
  define I where "I = (\<lambda>t :: 'sv state. rdata t = rdata s1 \<and> (\<exists>pre. trace t = trace s1 @ pre))"
  have loop: "retry_loop (timeout div poll_interval sdk) attempt s1 = (None, s')"
    using run by (simp add: withRetries_def)
  have start: "I s1" by (simp add: I_def)
  have "\<exists>s0. I s0 \<and> attempt s0 = (Done, s')"
  proof (rule retry_loop_success [where I = I, OF loop start])
    fix t e t1
    assume "I t" and a: "attempt t = (RetryableError e, t1)"
    moreover from step a
    have "rdata t1 = rdata t \<and> trace t1 = trace t @ [Call (get (rd_Id (rdata t)))]" by blast
    ultimately show "I t1" by (auto simp: I_def)
  qed
  then obtain s0 where s0: "I s0" "attempt s0 = (Done, s')" by blast
  from s0(1) obtain pre where pre: "rdata s0 = rdata s1" "trace s0 = trace s1 @ pre"
    by (auto simp: I_def)
  from step s0(2)
  have "rdata s' = rdata s0 \<and> trace s' = trace s0 @ [Call (get (rd_Id (rdata s0)))]" by blast
  with pre(1) have last: "trace s' = trace s0 @ [Call (get (rd_Id (rdata s1)))]" by simp
  show ?thesis
    by (rule exI [of _ s0], rule exI [of _ pre]) (use pre s0(2) last in simp)
qed

lemma deleteIntegrationAction_attempt_step:
  "\<forall>s r s1. deleteIntegrationAction_attempt sdk s = (r, s1) \<longrightarrow>
     rdata s1 = rdata s \<and> trace s1 = trace s @ [Call (GetIntegrationActionReq (rd_Id (rdata s)))]"
  by (auto simp: deleteIntegrationAction_attempt_def invoke_def Let_def
      split: prod.splits option.splits if_splits)

lemma deleteIntegrationAction_attempt_Done:
  "deleteIntegrationAction_attempt sdk s = (Done, s1) \<Longrightarrow>
   not_found (fst (sdkGetIntegrationAction sdk (rd_Id (rdata s)) (server s)))"
  by (auto simp: deleteIntegrationAction_attempt_def invoke_def Let_def not_found_def
      split: prod.splits option.splits if_splits)

lemma deleteIntegrationAction_attempt_found:
  "found (fst (sdkGetIntegrationAction sdk (rd_Id (rdata s)) (server s))) \<Longrightarrow>
   \<exists>s1. deleteIntegrationAction_attempt sdk s = (RetryableError (''Integration action '' @ rd_Id (rdata s) @ '' still exists''), s1)"
  by (auto simp: deleteIntegrationAction_attempt_def invoke_def Let_def found_def
      split: prod.splits option.splits if_splits)

lemma deleteIntegrationAction_exhausted:
  fixes sdk :: "'sv sdk"
  assumes del: "snd (fst (DeleteIntegrationsAction sdk (rd_Id (rdata s)) (server s))) = None"
    and alive: "\<forall>sv. found (fst (sdkGetIntegrationAction sdk (rd_Id (rdata s)) sv))"
  shows "\<exists>e s'. deleteIntegrationAction sdk s = (Some (RetryExhausted e), s')
           \<and> trace s' = trace s @ Call (DeleteIntegrationsActionReq (rd_Id (rdata s)))
                 # replicate (Suc (30 div poll_interval sdk)) (Call (GetIntegrationActionReq (rd_Id (rdata s))))"
proof -
  obtain x sv1 where d0: "DeleteIntegrationsAction sdk (rd_Id (rdata s)) (server s) = (x, sv1)"
    by (cases "DeleteIntegrationsAction sdk (rd_Id (rdata s)) (server s)")
  define s1 where "s1 = s\<lparr>server := sv1, trace := trace s @ [Call (DeleteIntegrationsActionReq (rd_Id (rdata s)))]\<rparr>"
  have rd: "rdata s1 = rdata s" by (simp add: s1_def)
  have run: "deleteIntegrationAction sdk s = withRetries sdk 30 (deleteIntegrationAction_attempt sdk) s1"
    using del d0 by (auto simp: deleteIntegrationAction_def Let_def invoke_def s1_def split: prod.splits)
  have found: "\<forall>t. rdata t = rdata s1 \<longrightarrow>
                 (\<exists>t1. deleteIntegrationAction_attempt sdk t = (RetryableError (''Integration action '' @ rd_Id (rdata s) @ '' still exists''), t1))"
  proof (intro allI impI)
    fix t :: "'sv state" assume t: "rdata t = rdata s1"
    with alive rd have "found (fst (sdkGetIntegrationAction sdk (rd_Id (rdata t)) (server t)))" by simp
    from deleteIntegrationAction_attempt_found [OF this] t rd
    show "\<exists>t1. deleteIntegrationAction_attempt sdk t = (RetryableError (''Integration action '' @ rd_Id (rdata s) @ '' still exists''), t1)" by simp
  qed
  from poll_exhausted [where attempt = "deleteIntegrationAction_attempt sdk" and get = "GetIntegrationActionReq" and ?s1.0 = s1
        and sdk = sdk and timeout = 30, OF deleteIntegrationAction_attempt_step found]
  show ?thesis unfolding run by (auto simp: s1_def)
qed

lemma deleteIntegrationAction_success:
  fixes sdk :: "'sv sdk"
  assumes run: "deleteIntegrationAction sdk s = (None, s')"
  shows "\<exists>(s0 :: 'sv state) pre.
            trace s0 = trace s @ Call (DeleteIntegrationsActionReq (rd_Id (rdata s))) # pre
          \<and> not_found (fst (sdkGetIntegrationAction sdk (rd_Id (rdata s)) (server s0)))
          \<and> trace s' = trace s0 @ [Call (GetIntegrationActionReq (rd_Id (rdata s)))]"
proof -
  obtain x sv1 where d0: "DeleteIntegrationsAction sdk (rd_Id (rdata s)) (server s) = (x, sv1)"
    by (cases "DeleteIntegrationsAction sdk (rd_Id (rdata s)) (server s)")
  define s1 where "s1 = s\<lparr>server := sv1, trace := trace s @ [Call (DeleteIntegrationsActionReq (rd_Id (rdata s)))]\<rparr>"
  have rd: "rdata s1 = rdata s" by (simp add: s1_def)
  have loop: "withRetries sdk 30 (deleteIntegrationAction_attempt sdk) s1 = (None, s')"
    using run d0
    by (auto simp: deleteIntegrationAction_def Let_def invoke_def s1_def split: prod.splits option.splits)
  from poll_success [where get = "GetIntegrationActionReq", OF loop deleteIntegrationAction_attempt_step]
  obtain s0 :: "'sv state" and pre where
    s0: "rdata s0 = rdata s1" "trace s0 = trace s1 @ pre" "deleteIntegrationAction_attempt sdk s0 = (Done, s')"
      "trace s' = trace s0 @ [Call (GetIntegrationActionReq (rd_Id (rdata s1)))]"
    by blast
  have gone: "not_found (fst (sdkGetIntegrationAction sdk (rd_Id (rdata s)) (server s0)))"
    using deleteIntegrationAction_attempt_Done [OF s0(3)] s0(1) rd by simp
  show ?thesis
    by (rule exI [of _ s0], rule exI [of _ pre]) (use s0 gone rd in \<open>simp add: s1_def\<close>)
qed

lemma deleteCredential_attempt_step:
  "\<forall>s r s1. deleteCredential_attempt sdk s = (r, s1) \<longrightarrow>
     rdata s1 = rdata s \<and> trace s1 = trace s @ [Call (GetIntegrationsCredentialReq (rd_Id (rdata s)))]"
  by (auto simp: deleteCredential_attempt_def invoke_def Let_def
      split: prod.splits option.splits if_splits)

lemma deleteCredential_attempt_Done:
  "deleteCredential_attempt sdk s = (Done, s1) \<Longrightarrow>
   not_found (fst (GetIntegrationsCredential sdk (rd_Id (rdata s)) (server s)))"
  by (auto simp: deleteCredential_attempt_def invoke_def Let_def not_found_def
      split: prod.splits option.splits if_splits)

lemma deleteCredential_attempt_found:
  "found (fst (GetIntegrationsCredential sdk (rd_Id (rdata s)) (server s))) \<Longrightarrow>
   \<exists>s1. deleteCredential_attempt sdk s = (RetryableError (''Integration credential '' @ rd_Id (rdata s) @ '' still exists''), s1)"
  by (auto simp: deleteCredential_attempt_def invoke_def Let_def found_def
      split: prod.splits option.splits if_splits)

lemma deleteCredential_exhausted:
  fixes sdk :: "'sv sdk"
  assumes del: "snd (fst (DeleteIntegrationsCredential sdk (rd_Id (rdata s)) (server s))) = None"
    and alive: "\<forall>sv. found (fst (GetIntegrationsCredential sdk (rd_Id (rdata s)) sv))"
  shows "\<exists>e s'. deleteCredential sdk s = (Some (RetryExhausted e), s')
           \<and> trace s' = trace s @ Call (DeleteIntegrationsCredentialReq (rd_Id (rdata s)))
                 # replicate (Suc (30 div poll_interval sdk)) (Call (GetIntegrationsCredentialReq (rd_Id (rdata s))))"
proof -
  obtain x sv1 where d0: "DeleteIntegrationsCredential sdk (rd_Id (rdata s)) (server s) = (x, sv1)"
    by (cases "DeleteIntegrationsCredential sdk (rd_Id (rdata s)) (server s)")
  define s1 where "s1 = s\<lparr>server := sv1, trace := trace s @ [Call (DeleteIntegrationsCredentialReq (rd_Id (rdata s)))]\<rparr>"
  have rd: "rdata s1 = rdata s" by (simp add: s1_def)
  have run: "deleteCredential sdk s = withRetries sdk 30 (deleteCredential_attempt sdk) s1"
    using del d0 by (auto simp: deleteCredential_def Let_def invoke_def s1_def split: prod.splits)
  have found: "\<forall>t. rdata t = rdata s1 \<longrightarrow>
                 (\<exists>t1. deleteCredential_attempt sdk t = (RetryableError (''Integration credential '' @ rd_Id (rdata s) @ '' still exists''), t1))"
  proof (intro allI impI)
    fix t :: "'sv state" assume t: "rdata t = rdata s1"
    with alive rd have "found (fst (GetIntegrationsCredential sdk (rd_Id (rdata t)) (server t)))" by simp
    from deleteCredential_attempt_found [OF this] t rd
    show "\<exists>t1. deleteCredential_attempt sdk t = (RetryableError (''Integration credential '' @ rd_Id (rdata s) @ '' still exists''), t1)" by simp
  qed
  from poll_exhausted [where attempt = "deleteCredential_attempt sdk" and get = "GetIntegrationsCredentialReq" and ?s1.0 = s1
        and sdk = sdk and timeout = 30, OF deleteCredential_attempt_step found]
  show ?thesis unfolding run by (auto simp: s1_def)
qed

lemma deleteCredential_success:
  fixes sdk :: "'sv sdk"
  assumes run: "deleteCredential sdk s = (None, s')"
  shows "\<exists>(s0 :: 'sv state) pre.
            trace s0 = trace s @ Call (DeleteIntegrationsCredentialReq (rd_Id (rdata s))) # pre
          \<and> not_found (fst (GetIntegrationsCredential sdk (rd_Id (rdata s)) (server s0)))
          \<and> trace s' = trace s0 @ [Call (GetIntegrationsCredentialReq (rd_Id (rdata s)))]"
proof -
  obtain x sv1 where d0: "DeleteIntegrationsCredential sdk (rd_Id (rdata s)) (server s) = (x, sv1)"
    by (cases "DeleteIntegrationsCredential sdk (rd_Id (rdata s)) (server s)")
  define s1 where "s1 = s\<lparr>server := sv1, trace := trace s @ [Call (DeleteIntegrationsCredentialReq (rd_Id (rdata s)))]\<rparr>"
  have rd: "rdata s1 = rdata s" by (simp add: s1_def)
  have loop: "withRetries sdk 30 (deleteCredential_attempt sdk) s1 = (None, s')"
    using run d0
    by (auto simp: deleteCredential_def Let_def invoke_def s1_def split: prod.splits option.splits)
  from poll_success [where get = "GetIntegrationsCredentialReq", OF loop deleteCredential_attempt_step]
  obtain s0 :: "'sv state" and pre where
    s0: "rdata s0 = rdata s1" "trace s0 = trace s1 @ pre" "deleteCredential_attempt sdk s0 = (Done, s')"
      "trace s' = trace s0 @ [Call (GetIntegrationsCredentialReq (rd_Id (rdata s1)))]"
    by blast
  have gone: "not_found (fst (GetIntegrationsCredential sdk (rd_Id (rdata s)) (server s0)))"
    using deleteCredential_attempt_Done [OF s0(3)] s0(1) rd by simp
  show ?thesis
    by (rule exI [of _ s0], rule exI [of _ pre]) (use s0 gone rd in \<open>simp add: s1_def\<close>)
qed

lemma deleteIdpGeneric_attempt_step:
  "\<forall>s r s1. deleteIdpGeneric_attempt sdk s = (r, s1) \<longrightarrow>
     rdata s1 = rdata s \<and> trace s1 = trace s @ [Call ((\<lambda>i. GetIdentityprovidersGenericReq) (rd_Id (rdata s)))]"
  by (auto simp: deleteIdpGeneric_attempt_def invoke_def Let_def
      split: prod.splits option.splits if_splits)

lemma deleteIdpGeneric_attempt_Done:
  "deleteIdpGeneric_attempt sdk s = (Done, s1) \<Longrightarrow>
   not_found (fst (GetIdentityprovidersGeneric sdk (server s)))"
  by (auto simp: deleteIdpGeneric_attempt_def invoke_def Let_def not_found_def
      split: prod.splits option.splits if_splits)

lemma deleteIdpGeneric_attempt_found:
  "found (fst (GetIdentityprovidersGeneric sdk (server s))) \<Longrightarrow>
   \<exists>s1. deleteIdpGeneric_attempt sdk s = (RetryableError (''IDP Generic still exists''), s1)"
  by (auto simp: deleteIdpGeneric_attempt_def invoke_def Let_def found_def
      split: prod.splits option.splits if_splits)

lemma deleteIdpGeneric_exhausted:
  fixes sdk :: "'sv sdk"
  assumes del: "snd (snd (fst (DeleteIdentityprovidersGeneric sdk (server s)))) = None"
    and alive: "\<forall>sv. found (fst (GetIdentityprovidersGeneric sdk sv))"
  shows "\<exists>e s'. deleteIdpGeneric sdk s = (Some (RetryExhausted e), s')
           \<and> trace s' = trace s @ Call DeleteIdentityprovidersGenericReq
                 # replicate (Suc (30 div poll_interval sdk)) (Call GetIdentityprovidersGenericReq)"
proof -
  obtain x sv1 where d0: "DeleteIdentityprovidersGeneric sdk (server s) = (x, sv1)"
    by (cases "DeleteIdentityprovidersGeneric sdk (server s)")
  define s1 where "s1 = s\<lparr>server := sv1, trace := trace s @ [Call DeleteIdentityprovidersGenericReq]\<rparr>"
  have rd: "rdata s1 = rdata s" by (simp add: s1_def)
  have run: "deleteIdpGeneric sdk s = withRetries sdk 30 (deleteIdpGeneric_attempt sdk) s1"
    using del d0 by (auto simp: deleteIdpGeneric_def Let_def invoke_def s1_def split: prod.splits)
  have found: "\<forall>t. rdata t = rdata s1 \<longrightarrow>
                 (\<exists>t1. deleteIdpGeneric_attempt sdk t = (RetryableError (''IDP Generic still exists''), t1))"
  proof (intro allI impI)
    fix t :: "'sv state" assume t: "rdata t = rdata s1"
    with alive rd have "found (fst (GetIdentityprovidersGeneric sdk (server t)))" by simp
    from deleteIdpGeneric_attempt_found [OF this] t rd
    show "\<exists>t1. deleteIdpGeneric_attempt sdk t = (RetryableError (''IDP Generic still exists''), t1)" by simp
  qed
  from poll_exhausted [where attempt = "deleteIdpGeneric_attempt sdk" and get = "(\<lambda>i. GetIdentityprovidersGenericReq)" and ?s1.0 = s1
        and sdk = sdk and timeout = 30, OF deleteIdpGeneric_attempt_step found]
  show ?thesis unfolding run by (auto simp: s1_def)
qed

lemma deleteIdpGeneric_success:
  fixes sdk :: "'sv sdk"
  assumes run: "deleteIdpGeneric sdk s = (None, s')"
  shows "\<exists>(s0 :: 'sv state) pre.
            trace s0 = trace s @ Call DeleteIdentityprovidersGenericReq # pre
          \<and> not_found (fst (GetIdentityprovidersGeneric sdk (server s0)))
          \<and> trace s' = trace s0 @ [Call GetIdentityprovidersGenericReq]"
proof -
  obtain x sv1 where d0: "DeleteIdentityprovidersGeneric sdk (server s) = (x, sv1)"
    by (cases "DeleteIdentityprovidersGeneric sdk (server s)")
  define s1 where "s1 = s\<lparr>server := sv1, trace := trace s @ [Call DeleteIdentityprovidersGenericReq]\<rparr>"
  have rd: "rdata s1 = rdata s" by (simp add: s1_def)
  have loop: "withRetries sdk 30 (deleteIdpGeneric_attempt sdk) s1 = (None, s')"
    using run d0
    by (auto simp: deleteIdpGeneric_def Let_def invoke_def s1_def split: prod.splits option.splits)
  from poll_success [where get = "(\<lambda>i. GetIdentityprovidersGenericReq)", OF loop deleteIdpGeneric_attempt_step]
  obtain s0 :: "'sv state" and pre where
    s0: "rdata s0 = rdata s1" "trace s0 = trace s1 @ pre" "deleteIdpGeneric_attempt sdk s0 = (Done, s')"
      "trace s' = trace s0 @ [Call ((\<lambda>i. GetIdentityprovidersGenericReq) (rd_Id (rdata s1)))]"
    by blast
  have gone: "not_found (fst (GetIdentityprovidersGeneric sdk (server s0)))"
    using deleteIdpGeneric_attempt_Done [OF s0(3)] s0(1) rd by simp
  show ?thesis
    by (rule exI [of _ s0], rule exI [of _ pre]) (use s0 gone rd in \<open>simp add: s1_def\<close>)
qed

lemma deletePhone_attempt_step:
  "\<forall>s r s1. deletePhone_attempt sdk s = (r, s1) \<longrightarrow>
     rdata s1 = rdata s \<and> trace s1 = trace s @ [Call (GetTelephonyProvidersEdgesPhoneReq (rd_Id (rdata s)))]"
  by (auto simp: deletePhone_attempt_def invoke_def Let_def
      split: prod.splits option.splits if_splits)

lemma deletePhone_attempt_Done:
  "deletePhone_attempt sdk s = (Done, s1) \<Longrightarrow>
   (not_found (fst (GetTelephonyProvidersEdgesPhone sdk (rd_Id (rdata s)) (server s))) \<or> reports_deleted Entity_State (fst (GetTelephonyProvidersEdgesPhone sdk (rd_Id (rdata s)) (server s))))"
  by (auto simp: deletePhone_attempt_def invoke_def Let_def not_found_def reports_deleted_def
      split: prod.splits option.splits if_splits)

lemma deletePhone_attempt_found:
  "found_alive Entity_State (fst (GetTelephonyProvidersEdgesPhone sdk (rd_Id (rdata s)) (server s))) \<Longrightarrow>
   \<exists>s1. deletePhone_attempt sdk s = (RetryableError (''Phone '' @ rd_Id (rdata s) @ '' still exists''), s1)"
  by (auto simp: deletePhone_attempt_def invoke_def Let_def found_alive_def
      split: prod.splits option.splits if_splits)

lemma deletePhone_exhausted:
  fixes sdk :: "'sv sdk"
  assumes del: "snd (fst (DeleteTelephonyProvidersEdgesPhone sdk (rd_Id (rdata s)) (server s))) = None"
    and alive: "\<forall>sv. found_alive Entity_State (fst (GetTelephonyProvidersEdgesPhone sdk (rd_Id (rdata s)) sv))"
  shows "\<exists>e s'. deletePhone sdk s = (Some (RetryExhausted e), s')
           \<and> trace s' = trace s @ Call (DeleteTelephonyProvidersEdgesPhoneReq (rd_Id (rdata s)))
                 # replicate (Suc (30 div poll_interval sdk)) (Call (GetTelephonyProvidersEdgesPhoneReq (rd_Id (rdata s))))"
proof -
  obtain x sv1 where d0: "DeleteTelephonyProvidersEdgesPhone sdk (rd_Id (rdata s)) (server s) = (x, sv1)"
    by (cases "DeleteTelephonyProvidersEdgesPhone sdk (rd_Id (rdata s)) (server s)")
  define s1 where "s1 = s\<lparr>server := sv1, trace := trace s @ [Call (DeleteTelephonyProvidersEdgesPhoneReq (rd_Id (rdata s)))]\<rparr>"
  have rd: "rdata s1 = rdata s" by (simp add: s1_def)
  have run: "deletePhone sdk s = withRetries sdk 30 (deletePhone_attempt sdk) s1"
    using del d0 by (auto simp: deletePhone_def Let_def invoke_def s1_def split: prod.splits)
  have found: "\<forall>t. rdata t = rdata s1 \<longrightarrow>
                 (\<exists>t1. deletePhone_attempt sdk t = (RetryableError (''Phone '' @ rd_Id (rdata s) @ '' still exists''), t1))"
  proof (intro allI impI)
    fix t :: "'sv state" assume t: "rdata t = rdata s1"
    with alive rd have "found_alive Entity_State (fst (GetTelephonyProvidersEdgesPhone sdk (rd_Id (rdata t)) (server t)))" by simp
    from deletePhone_attempt_found [OF this] t rd
    show "\<exists>t1. deletePhone_attempt sdk t = (RetryableError (''Phone '' @ rd_Id (rdata s) @ '' still exists''), t1)" by simp
  qed
  from poll_exhausted [where attempt = "deletePhone_attempt sdk" and get = "GetTelephonyProvidersEdgesPhoneReq" and ?s1.0 = s1
        and sdk = sdk and timeout = 30, OF deletePhone_attempt_step found]
  show ?thesis unfolding run by (auto simp: s1_def)
qed

lemma deletePhone_success:
  fixes sdk :: "'sv sdk"
  assumes run: "deletePhone sdk s = (None, s')"
  shows "\<exists>(s0 :: 'sv state) pre.
            trace s0 = trace s @ Call (DeleteTelephonyProvidersEdgesPhoneReq (rd_Id (rdata s))) # pre
          \<and> (not_found (fst (GetTelephonyProvidersEdgesPhone sdk (rd_Id (rdata s)) (server s0))) \<or> reports_deleted Entity_State (fst (GetTelephonyProvidersEdgesPhone sdk (rd_Id (rdata s)) (server s0))))
          \<and> trace s' = trace s0 @ [Call (GetTelephonyProvidersEdgesPhoneReq (rd_Id (rdata s)))]"
proof -
  obtain x sv1 where d0: "DeleteTelephonyProvidersEdgesPhone sdk (rd_Id (rdata s)) (server s) = (x, sv1)"
    by (cases "DeleteTelephonyProvidersEdgesPhone sdk (rd_Id (rdata s)) (server s)")
  define s1 where "s1 = s\<lparr>server := sv1, trace := trace s @ [Call (DeleteTelephonyProvidersEdgesPhoneReq (rd_Id (rdata s)))]\<rparr>"
  have rd: "rdata s1 = rdata s" by (simp add: s1_def)
  have loop: "withRetries sdk 30 (deletePhone_attempt sdk) s1 = (None, s')"
    using run d0
    by (auto simp: deletePhone_def Let_def invoke_def s1_def split: prod.splits option.splits)
  from poll_success [where get = "GetTelephonyProvidersEdgesPhoneReq", OF loop deletePhone_attempt_step]
  obtain s0 :: "'sv state" and pre where
    s0: "rdata s0 = rdata s1" "trace s0 = trace s1 @ pre" "deletePhone_attempt sdk s0 = (Done, s')"
      "trace s' = trace s0 @ [Call (GetTelephonyProvidersEdgesPhoneReq (rd_Id (rdata s1)))]"
    by blast
  have gone: "(not_found (fst (GetTelephonyProvidersEdgesPhone sdk (rd_Id (rdata s)) (server s0))) \<or> reports_deleted Entity_State (fst (GetTelephonyProvidersEdgesPhone sdk (rd_Id (rdata s)) (server s0))))"
    using deletePhone_attempt_Done [OF s0(3)] s0(1) rd by simp
  show ?thesis
    by (rule exI [of _ s0], rule exI [of _ pre]) (use s0 gone rd in \<open>simp add: s1_def\<close>)
qed

subsection \<open>OAuth client: update and delete\<close>

lemma rd_Id_Set_attr [simp]: "rd_Id (Set_attr key v d) = rd_Id d"
  by (simp add: Set_attr_def)

lemma rd_Id_set_or_nil [simp]: "rd_Id (set_or_nil key p wrap d) = rd_Id d"
  by (simp add: set_or_nil_def)

lemma readOAuthClient_set_Id: "readOAuthClient_set client d = (r, d') \<Longrightarrow> rd_Id d' = rd_Id d"
  by (auto simp: readOAuthClient_set_def Let_def split: option.splits)

lemma readOAuthClient_attempt_step:
  "readOAuthClient_attempt sdk s = (r, s1) \<Longrightarrow>
   trace s1 = trace s @ [Call (GetOauthClientReq (rd_Id (rdata s)))]"
  by (auto simp: readOAuthClient_attempt_def invoke_def Let_def
      split: prod.splits option.splits if_splits)

lemma readOAuthClient_trace:
  assumes run: "readOAuthClient sdk s = (r, s')"
  shows "\<exists>evs. trace s' = trace s @ evs \<and> (\<forall>ev\<in>set evs. \<exists>i. ev = Call (GetOauthClientReq i))"
proof (cases "rd_IsNewResource (rdata s)")
  case True
  with run have loop: "retry_loop (30 div poll_interval sdk) (readOAuthClient_attempt sdk) s = (r, s')"
    by (simp add: readOAuthClient_def withRetriesForRead_def withRetries_def)
  show ?thesis
  proof (rule retry_loop_trace [OF _ loop])
    fix t r0 t1 assume "readOAuthClient_attempt sdk t = (r0, t1)"
    from readOAuthClient_attempt_step [OF this]
    show "\<exists>evs. trace t1 = trace t @ evs \<and> (\<forall>ev\<in>set evs. \<exists>i. ev = Call (GetOauthClientReq i))"
      by auto
  qed
next
  case False
  obtain r0 s1 where a: "readOAuthClient_attempt sdk s = (r0, s1)"
    by (cases "readOAuthClient_attempt sdk s")
  from run False a have "trace s' = trace s1"
    by (cases r0) (auto simp: readOAuthClient_def withRetriesForRead_def on_rdata_def)
  with readOAuthClient_attempt_step [OF a] show ?thesis by auto
qed

lemma updateOAuthClient_cases:
  assumes run: "updateOAuthClient sdk s = (r, s')"
  shows "(\<exists>diagErr. buildOAuthRoles sdk (rdata s) = Inl diagErr \<and> r = Some diagErr \<and> s' = s)
       \<or> (\<exists>roles evs. buildOAuthRoles sdk (rdata s) = Inr roles
            \<and> trace s' = trace s
                @ Call (PutOauthClientReq (rd_Id (rdata s)) (updateOAuthClient_request (rdata s) roles)) # evs
            \<and> (\<forall>ev\<in>set evs. ev = Sleep 5 \<or> (\<exists>i. ev = Call (GetOauthClientReq i)))
            \<and> (r = None \<longrightarrow>
                 snd (snd (fst (PutOauthClient sdk (rd_Id (rdata s))
                                  (updateOAuthClient_request (rdata s) roles) (server s)))) = None))"
proof (cases "buildOAuthRoles sdk (rdata s)")
  case (Inl diagErr)
  with run show ?thesis by (simp add: updateOAuthClient_def Let_def)
next
  case (Inr roles)
  let ?req = "updateOAuthClient_request (rdata s) roles"
  obtain u resp err sv1 where put: "PutOauthClient sdk (rd_Id (rdata s)) ?req (server s) = ((u, resp, err), sv1)"
    by (metis prod_cases3 surj_pair)
  define s1 where "s1 = s\<lparr>server := sv1, trace := trace s @ [Call (PutOauthClientReq (rd_Id (rdata s)) ?req)]\<rparr>"
  show ?thesis
  proof (cases err)
    case (Some e)
    with run Inr put have "trace s' = trace s @ [Call (PutOauthClientReq (rd_Id (rdata s)) ?req)]" "r \<noteq> None"
      by (auto simp: updateOAuthClient_def Let_def invoke_def)
    with Inr show ?thesis by auto
  next
    case None
    with run Inr put have rd: "readOAuthClient sdk (sleep 5 s1) = (r, s')"
      by (auto simp: updateOAuthClient_def Let_def invoke_def s1_def)
    from readOAuthClient_trace [OF rd] obtain evs where
      evs: "trace s' = trace (sleep 5 s1) @ evs" "\<forall>ev\<in>set evs. \<exists>i. ev = Call (GetOauthClientReq i)"
      by blast
    have "trace s' = trace s @ Call (PutOauthClientReq (rd_Id (rdata s)) ?req) # (Sleep 5 # evs)"
      using evs(1) by (simp add: sleep_def s1_def)
    moreover have "\<forall>ev\<in>set (Sleep 5 # evs). ev = Sleep 5 \<or> (\<exists>i. ev = Call (GetOauthClientReq i))"
      using evs(2) by auto
    moreover have "snd (snd (fst (PutOauthClient sdk (rd_Id (rdata s)) ?req (server s)))) = None"
      using put None by simp
    ultimately show ?thesis using Inr by blast
  qed
qed

lemma deleteOAuthClient_attempt_step:
  "\<forall>s r s1. deleteOAuthClient_attempt sdk s = (r, s1) \<longrightarrow>
     rdata s1 = rdata s \<and> trace s1 = trace s @ [Call (GetOauthClientReq (rd_Id (rdata s)))]"
  by (auto simp: deleteOAuthClient_attempt_def invoke_def Let_def
      split: prod.splits option.splits if_splits)

lemma deleteOAuthClient_attempt_Done:
  "deleteOAuthClient_attempt sdk s = (Done, s1) \<Longrightarrow>
   (not_found (fst (GetOauthClient sdk (rd_Id (rdata s)) (server s)))
    \<or> reports_deleted client_State (fst (GetOauthClient sdk (rd_Id (rdata s)) (server s))))"
  by (auto simp: deleteOAuthClient_attempt_def invoke_def Let_def not_found_def reports_deleted_def
      split: prod.splits option.splits if_splits)

lemma deleteOAuthClient_attempt_found:
  "found_alive client_State (fst (GetOauthClient sdk (rd_Id (rdata s)) (server s))) \<Longrightarrow>
   \<exists>s1. deleteOAuthClient_attempt sdk s =
          (RetryableError (''OAuth client '' @ rd_Id (rdata s) @ '' still exists''), s1)"
  by (auto simp: deleteOAuthClient_attempt_def invoke_def Let_def found_alive_def
      split: prod.splits option.splits if_splits)

lemma deleteOAuthClient_exhausted:
  fixes sdk :: "'sv sdk"
  assumes upd: "updateOAuthClient sdk (on_rdata (Set_attr ''state'' (TString ''inactive'')) s) = (None, s1)"
    and del: "snd (fst (DeleteOauthClient sdk (rd_Id (rdata s1)) (server s1))) = None"
    and alive: "\<forall>sv. found_alive client_State (fst (GetOauthClient sdk (rd_Id (rdata s1)) sv))"
  shows "\<exists>e s'. deleteOAuthClient sdk s = (Some (RetryExhausted e), s')
           \<and> trace s' = trace s1 @ Call (DeleteOauthClientReq (rd_Id (rdata s1)))
                 # replicate (Suc (30 div poll_interval sdk)) (Call (GetOauthClientReq (rd_Id (rdata s1))))"
proof -
  obtain x sv2 where d0: "DeleteOauthClient sdk (rd_Id (rdata s1)) (server s1) = (x, sv2)"
    by (cases "DeleteOauthClient sdk (rd_Id (rdata s1)) (server s1)")
  define s2 where "s2 = s1\<lparr>server := sv2, trace := trace s1 @ [Call (DeleteOauthClientReq (rd_Id (rdata s1)))]\<rparr>"
  have rd: "rdata s2 = rdata s1" by (simp add: s2_def)
  have run: "deleteOAuthClient sdk s = withRetries sdk 30 (deleteOAuthClient_attempt sdk) s2"
    using upd del d0 by (auto simp: deleteOAuthClient_def Let_def invoke_def s2_def split: prod.splits)
  have found: "\<forall>t. rdata t = rdata s2 \<longrightarrow>
                 (\<exists>t1. deleteOAuthClient_attempt sdk t =
                    (RetryableError (''OAuth client '' @ rd_Id (rdata s1) @ '' still exists''), t1))"
  proof (intro allI impI)
    fix t :: "'sv state" assume t: "rdata t = rdata s2"
    with alive rd have "found_alive client_State (fst (GetOauthClient sdk (rd_Id (rdata t)) (server t)))"
      by simp
    from deleteOAuthClient_attempt_found [OF this] t rd
    show "\<exists>t1. deleteOAuthClient_attempt sdk t =
            (RetryableError (''OAuth client '' @ rd_Id (rdata s1) @ '' still exists''), t1)" by simp
  qed
  from poll_exhausted [where attempt = "deleteOAuthClient_attempt sdk" and get = GetOauthClientReq
        and ?s1.0 = s2 and sdk = sdk and timeout = 30, OF deleteOAuthClient_attempt_step found]
  show ?thesis unfolding run by (auto simp: s2_def)
qed

lemma deleteOAuthClient_success:
  fixes sdk :: "'sv sdk"
  assumes run: "deleteOAuthClient sdk s = (None, s')"
  shows "\<exists>(s1 :: 'sv state) (s0 :: 'sv state) pre.
            updateOAuthClient sdk (on_rdata (Set_attr ''state'' (TString ''inactive'')) s) = (None, s1)
          \<and> trace s0 = trace s1 @ Call (DeleteOauthClientReq (rd_Id (rdata s1))) # pre
          \<and> (not_found (fst (GetOauthClient sdk (rd_Id (rdata s1)) (server s0)))
             \<or> reports_deleted client_State (fst (GetOauthClient sdk (rd_Id (rdata s1)) (server s0))))
          \<and> trace s' = trace s0 @ [Call (GetOauthClientReq (rd_Id (rdata s1)))]"
proof -
  obtain r1 s1 where u: "updateOAuthClient sdk (on_rdata (Set_attr ''state'' (TString ''inactive'')) s) = (r1, s1)"
    by (cases "updateOAuthClient sdk (on_rdata (Set_attr ''state'' (TString ''inactive'')) s)")
  from run u have r1: "r1 = None"
    by (cases r1) (auto simp: deleteOAuthClient_def Let_def)
  obtain x sv2 where d0: "DeleteOauthClient sdk (rd_Id (rdata s1)) (server s1) = (x, sv2)"
    by (cases "DeleteOauthClient sdk (rd_Id (rdata s1)) (server s1)")
  define s2 where "s2 = s1\<lparr>server := sv2, trace := trace s1 @ [Call (DeleteOauthClientReq (rd_Id (rdata s1)))]\<rparr>"
  have rd: "rdata s2 = rdata s1" by (simp add: s2_def)
  have loop: "withRetries sdk 30 (deleteOAuthClient_attempt sdk) s2 = (None, s')"
    using run u r1 d0
    by (auto simp: deleteOAuthClient_def Let_def invoke_def s2_def split: prod.splits option.splits)
  from poll_success [where get = GetOauthClientReq, OF loop deleteOAuthClient_attempt_step]
  obtain s0 :: "'sv state" and pre where
    s0: "rdata s0 = rdata s2" "trace s0 = trace s2 @ pre" "deleteOAuthClient_attempt sdk s0 = (Done, s')"
      "trace s' = trace s0 @ [Call (GetOauthClientReq (rd_Id (rdata s2)))]"
    by blast
  have gone: "not_found (fst (GetOauthClient sdk (rd_Id (rdata s1)) (server s0)))
             \<or> reports_deleted client_State (fst (GetOauthClient sdk (rd_Id (rdata s1)) (server s0)))"
    using deleteOAuthClient_attempt_Done [OF s0(3)] s0(1) rd by simp
  show ?thesis
    by (rule exI [of _ s1], rule exI [of _ s0], rule exI [of _ pre])
       (use u r1 s0 gone rd in \<open>simp add: s2_def\<close>)
qed

lemma rdata_on_rdata [simp]: "rdata (on_rdata f s) = f (rdata s)"
  by (simp add: on_rdata_def)

lemma trace_on_rdata [simp]: "trace (on_rdata f s) = trace s"
  by (simp add: on_rdata_def)

lemma server_on_rdata [simp]: "server (on_rdata f s) = server s"
  by (simp add: on_rdata_def)

text \<open>
  C2. \<open>deleteOAuthClient\<close> runs \<open>updateOAuthClient\<close> on the resource data with
  \<open>state = inactive\<close>. When that update fails, the operation returns its error and has
  issued no delete call. When it succeeds, the trace of the operation is: the PUT that
  carries \<open>state = inactive\<close> and that the server accepted, the rest of the update (its
  sleep and read, no delete call), then the delete call, then only polls. So the one
  delete call comes after the inactivating update has completed.
\<close>

theorem deleteOAuthClient_inactivates_first:
  fixes sdk :: "'sv sdk"
  shows "case updateOAuthClient sdk (on_rdata (Set_attr ''state'' (TString ''inactive'')) s) of
           (Some diagErr, s1) \<Rightarrow>
              deleteOAuthClient sdk s = (Some diagErr, s1)
            \<and> (\<exists>evs. trace s1 = trace s @ evs \<and> (\<forall>j. Call (DeleteOauthClientReq j) \<notin> set evs))
         | (None, s1) \<Rightarrow>
             (\<exists>roles evs post.
                trace s1 = trace s
                  @ Call (PutOauthClientReq (rd_Id (rdata s))
                       (updateOAuthClient_request (Set_attr ''state'' (TString ''inactive'') (rdata s)) roles))
                    # evs
              \<and> req_State (updateOAuthClient_request
                             (Set_attr ''state'' (TString ''inactive'') (rdata s)) roles) = Some ''inactive''
              \<and> snd (snd (fst (PutOauthClient sdk (rd_Id (rdata s))
                    (updateOAuthClient_request (Set_attr ''state'' (TString ''inactive'') (rdata s)) roles)
                    (server s)))) = None
              \<and> (\<forall>j. Call (DeleteOauthClientReq j) \<notin> set evs)
              \<and> trace (snd (deleteOAuthClient sdk s))
                  = trace s1 @ Call (DeleteOauthClientReq (rd_Id (rdata s1))) # post
              \<and> (\<forall>j. Call (DeleteOauthClientReq j) \<notin> set post))"
proof -
  let ?s = "on_rdata (Set_attr ''state'' (TString ''inactive'')) s"
  let ?d = "Set_attr ''state'' (TString ''inactive'') (rdata s)"
  obtain r1 s1 where u: "updateOAuthClient sdk ?s = (r1, s1)"
    by (cases "updateOAuthClient sdk ?s")
  have st: "\<And>roles. req_State (updateOAuthClient_request ?d roles) = Some ''inactive''"
    by (simp add: updateOAuthClient_request_def Get_string_def Set_attr_def)
  show ?thesis
  proof (cases r1)
    case (Some diagErr)
    have run: "deleteOAuthClient sdk s = (Some diagErr, s1)"
      using u Some by (simp add: deleteOAuthClient_def Let_def)
    from updateOAuthClient_cases [OF u]
    have "\<exists>evs. trace s1 = trace s @ evs \<and> (\<forall>j. Call (DeleteOauthClientReq j) \<notin> set evs)"
    proof (elim disjE exE conjE)
      fix e assume "s1 = ?s"
      then have "trace s1 = trace s @ []" by simp
      then show ?thesis by fastforce
    next
      fix roles evs
      assume t: "trace s1 = trace ?s @ Call (PutOauthClientReq (rd_Id (rdata ?s))
                     (updateOAuthClient_request (rdata ?s) roles)) # evs"
        and q: "\<forall>ev\<in>set evs. ev = Sleep 5 \<or> (\<exists>i. ev = Call (GetOauthClientReq i))"
      from q have "\<forall>j. Call (DeleteOauthClientReq j)
                    \<notin> set (Call (PutOauthClientReq (rd_Id (rdata ?s))
                              (updateOAuthClient_request (rdata ?s) roles)) # evs)"
        by auto
      with t show ?thesis by (metis trace_on_rdata)
    qed
    with run u Some show ?thesis by simp
  next
    case None
    from updateOAuthClient_cases [OF u] None obtain roles evs where
      t: "trace s1 = trace s @ Call (PutOauthClientReq (rd_Id (rdata s))
                     (updateOAuthClient_request ?d roles)) # evs"
      and q: "\<forall>ev\<in>set evs. ev = Sleep 5 \<or> (\<exists>i. ev = Call (GetOauthClientReq i))"
      and ok: "snd (snd (fst (PutOauthClient sdk (rd_Id (rdata s))
                    (updateOAuthClient_request ?d roles) (server s)))) = None"
      by auto
    from q have nodel: "\<forall>j. Call (DeleteOauthClientReq j) \<notin> set evs" by auto
    obtain x sv2 where d0: "DeleteOauthClient sdk (rd_Id (rdata s1)) (server s1) = (x, sv2)"
      by (cases "DeleteOauthClient sdk (rd_Id (rdata s1)) (server s1)")
    define s2 where "s2 = s1\<lparr>server := sv2, trace := trace s1 @ [Call (DeleteOauthClientReq (rd_Id (rdata s1)))]\<rparr>"
    have "\<exists>post. trace (snd (deleteOAuthClient sdk s))
                  = trace s1 @ Call (DeleteOauthClientReq (rd_Id (rdata s1))) # post
              \<and> (\<forall>j. Call (DeleteOauthClientReq j) \<notin> set post)"
    proof (cases "snd x")
      case (Some err)
      then have "snd (deleteOAuthClient sdk s) = s2"
        using u None d0 by (cases x) (auto simp: deleteOAuthClient_def Let_def invoke_def s2_def)
      then have "trace (snd (deleteOAuthClient sdk s))
                  = trace s1 @ Call (DeleteOauthClientReq (rd_Id (rdata s1))) # []"
        by (simp add: s2_def)
      then show ?thesis by fastforce
    next
      case None2: None
      obtain r s' where w: "withRetries sdk 30 (deleteOAuthClient_attempt sdk) s2 = (r, s')"
        by (cases "withRetries sdk 30 (deleteOAuthClient_attempt sdk) s2")
      have fin: "snd (deleteOAuthClient sdk s) = s'"
        using u None d0 None2 w
        by (cases x) (auto simp: deleteOAuthClient_def Let_def invoke_def s2_def)
      have "\<exists>evs. trace s' = trace s2 @ evs \<and> (\<forall>ev\<in>set evs. \<exists>i. ev = Call (GetOauthClientReq i))"
      proof (rule retry_loop_trace [OF _ w [unfolded withRetries_def]])
        fix t r0 t1 assume "deleteOAuthClient_attempt sdk t = (r0, t1)"
        with deleteOAuthClient_attempt_step [of sdk]
        have "trace t1 = trace t @ [Call (GetOauthClientReq (rd_Id (rdata t)))]" by blast
        then show "\<exists>evs. trace t1 = trace t @ evs
                     \<and> (\<forall>ev\<in>set evs. \<exists>i. ev = Call (GetOauthClientReq i))"
          by auto
      qed
      then obtain post where post: "trace s' = trace s2 @ post"
        "\<forall>ev\<in>set post. \<exists>i. ev = Call (GetOauthClientReq i)" by blast
      from post(2) have "\<forall>j. Call (DeleteOauthClientReq j) \<notin> set post" by auto
      moreover from post(1) fin
      have "trace (snd (deleteOAuthClient sdk s))
              = trace s1 @ Call (DeleteOauthClientReq (rd_Id (rdata s1))) # post"
        by (simp add: s2_def)
      ultimately show ?thesis by blast
    qed
    with t st ok nodel u None show ?thesis by auto
  qed
qed

lemma retry_loop_gone_at:
  assumes st: "\<forall>t. rdata t = d \<longrightarrow>
                 snd (attempt t) = t\<lparr>server := snd (get (server t)), trace := trace t @ [ev]\<rparr>"
    and retry: "\<forall>j<k. \<forall>t. rdata t = d \<and> server t = poll_server get j sv0
                  \<longrightarrow> (\<exists>e. fst (attempt t) = RetryableError e)"
    and gone: "\<forall>t. rdata t = d \<and> server t = poll_server get k sv0 \<longrightarrow> fst (attempt t) = Done"
    and k: "k \<le> n" and d: "rdata s = d" and sv0: "server s = sv0"
  shows "retry_loop n attempt s
           = (None, s\<lparr>server := poll_server get (Suc k) sv0,
                      trace := trace s @ replicate (Suc k) ev\<rparr>)"
  using retry gone k d sv0
proof (induction k arbitrary: n s sv0)
  case 0
  from 0 have "fst (attempt s) = Done" by simp
  moreover from st 0 have "snd (attempt s) = s\<lparr>server := snd (get sv0), trace := trace s @ [ev]\<rparr>"
    by simp
  ultimately show ?case by (simp add: retry_loop_first_Done)
next
  case (Suc k)
  from Suc.prems(3) obtain m where n: "n = Suc m" and km: "k \<le> m" by (cases n) auto
  define s1 where "s1 = s\<lparr>server := snd (get sv0), trace := trace s @ [ev]\<rparr>"
  from Suc.prems(1) [rule_format, of 0 s] Suc.prems(4,5)
  obtain e where "fst (attempt s) = RetryableError e" by auto
  moreover from st Suc.prems(4,5) have "snd (attempt s) = s1" by (simp add: s1_def)
  ultimately have a: "attempt s = (RetryableError e, s1)" by (simp add: prod_eq_iff)
  have retry': "\<forall>j<k. \<forall>t. rdata t = d \<and> server t = poll_server get j (snd (get sv0))
                  \<longrightarrow> (\<exists>e. fst (attempt t) = RetryableError e)"
    using Suc.prems(1) by (metis Suc_less_eq poll_server.simps(2))
  have gone': "\<forall>t. rdata t = d \<and> server t = poll_server get k (snd (get sv0))
                  \<longrightarrow> fst (attempt t) = Done"
    using Suc.prems(2) by simp
  have "retry_loop m attempt s1
          = (None, s1\<lparr>server := poll_server get (Suc k) (snd (get sv0)),
                      trace := trace s1 @ replicate (Suc k) ev\<rparr>)"
    by (rule Suc.IH [OF retry' gone' km]) (simp_all add: s1_def Suc.prems(4))
  with a n show ?case by (simp add: s1_def)
qed

lemma deleteIntegrationAction_attempt_state:
  "snd (deleteIntegrationAction_attempt sdk t)
     = t\<lparr>server := snd (sdkGetIntegrationAction sdk (rd_Id (rdata t)) (server t)),
          trace := trace t @ [Call (GetIntegrationActionReq (rd_Id (rdata t)))]\<rparr>"
  by (auto simp: deleteIntegrationAction_attempt_def invoke_def Let_def split: prod.splits option.splits if_splits)

lemma deleteIntegrationAction_attempt_gone:
  "not_found (fst (sdkGetIntegrationAction sdk (rd_Id (rdata t)) (server t))) \<Longrightarrow> fst (deleteIntegrationAction_attempt sdk t) = Done"
  by (auto simp: deleteIntegrationAction_attempt_def invoke_def Let_def not_found_def reports_deleted_def
      split: prod.splits option.splits if_splits)

lemma deleteIntegrationAction_attempt_retry:
  "found (fst (sdkGetIntegrationAction sdk (rd_Id (rdata t)) (server t))) \<Longrightarrow> \<exists>e. fst (deleteIntegrationAction_attempt sdk t) = RetryableError e"
  by (auto simp: deleteIntegrationAction_attempt_def invoke_def Let_def found_def found_alive_def
      split: prod.splits option.splits if_splits)

lemma deleteIntegrationAction_gone_at:
  fixes sdk :: "'sv sdk"
  assumes del: "snd (fst (DeleteIntegrationsAction sdk (rd_Id (rdata s)) (server s))) = None"
    and sv0: "sv0 = snd (DeleteIntegrationsAction sdk (rd_Id (rdata s)) (server s))"
    and k: "k \<le> 30 div poll_interval sdk"
    and before: "\<forall>j<k. found (fst (sdkGetIntegrationAction sdk (rd_Id (rdata s)) (poll_server (sdkGetIntegrationAction sdk (rd_Id (rdata s))) j sv0)))"
    and at: "not_found (fst (sdkGetIntegrationAction sdk (rd_Id (rdata s)) (poll_server (sdkGetIntegrationAction sdk (rd_Id (rdata s))) k sv0)))"
  shows "deleteIntegrationAction sdk s
           = (None, s\<lparr>server := poll_server (sdkGetIntegrationAction sdk (rd_Id (rdata s))) (Suc k) sv0,
                       trace := trace s @ Call (DeleteIntegrationsActionReq (rd_Id (rdata s)))
                                  # replicate (Suc k) (Call (GetIntegrationActionReq (rd_Id (rdata s))))\<rparr>)"
proof -
  define s2 where "s2 = s\<lparr>server := sv0, trace := trace s @ [Call (DeleteIntegrationsActionReq (rd_Id (rdata s)))]\<rparr>"
  have run: "deleteIntegrationAction sdk s = retry_loop (30 div poll_interval sdk) (deleteIntegrationAction_attempt sdk) s2"
    using del by (auto simp: deleteIntegrationAction_def Let_def invoke_def s2_def withRetries_def sv0 split: prod.splits)
  have st: "\<forall>t. rdata t = rdata s \<longrightarrow>
              snd (deleteIntegrationAction_attempt sdk t)
                = t\<lparr>server := snd (sdkGetIntegrationAction sdk (rd_Id (rdata s)) (server t)),
                     trace := trace t @ [Call (GetIntegrationActionReq (rd_Id (rdata s)))]\<rparr>"
    by (simp add: deleteIntegrationAction_attempt_state)
  have retry: "\<forall>j<k. \<forall>t. rdata t = rdata s \<and> server t = poll_server (sdkGetIntegrationAction sdk (rd_Id (rdata s))) j sv0
                  \<longrightarrow> (\<exists>e. fst (deleteIntegrationAction_attempt sdk t) = RetryableError e)"
  proof (intro allI impI)
    fix j and t :: "'sv state"
    assume j: "j < k" and t: "rdata t = rdata s \<and> server t = poll_server (sdkGetIntegrationAction sdk (rd_Id (rdata s))) j sv0"
    from before j t have "found (fst (sdkGetIntegrationAction sdk (rd_Id (rdata t)) (server t)))" by simp
    thus "\<exists>e. fst (deleteIntegrationAction_attempt sdk t) = RetryableError e" by (rule deleteIntegrationAction_attempt_retry)
  qed
  have gone: "\<forall>t. rdata t = rdata s \<and> server t = poll_server (sdkGetIntegrationAction sdk (rd_Id (rdata s))) k sv0
                  \<longrightarrow> fst (deleteIntegrationAction_attempt sdk t) = Done"
  proof (intro allI impI)
    fix t :: "'sv state"
    assume t: "rdata t = rdata s \<and> server t = poll_server (sdkGetIntegrationAction sdk (rd_Id (rdata s))) k sv0"
    from at t have "not_found (fst (sdkGetIntegrationAction sdk (rd_Id (rdata t)) (server t)))" by simp
    thus "fst (deleteIntegrationAction_attempt sdk t) = Done" by (rule deleteIntegrationAction_attempt_gone)
  qed
  have "retry_loop (30 div poll_interval sdk) (deleteIntegrationAction_attempt sdk) s2
          = (None, s2\<lparr>server := poll_server (sdkGetIntegrationAction sdk (rd_Id (rdata s))) (Suc k) sv0,
                       trace := trace s2 @ replicate (Suc k) (Call (GetIntegrationActionReq (rd_Id (rdata s))))\<rparr>)"
    by (rule retry_loop_gone_at [OF st retry gone k]) (simp_all add: s2_def)
  with run show ?thesis by (simp add: s2_def)
qed

lemma deleteOAuthClient_attempt_state:
  "snd (deleteOAuthClient_attempt sdk t)
     = t\<lparr>server := snd (GetOauthClient sdk (rd_Id (rdata t)) (server t)),
          trace := trace t @ [Call (GetOauthClientReq (rd_Id (rdata t)))]\<rparr>"
  by (auto simp: deleteOAuthClient_attempt_def invoke_def Let_def split: prod.splits option.splits if_splits)

lemma deleteOAuthClient_attempt_gone:
  "(not_found (fst (GetOauthClient sdk (rd_Id (rdata t)) (server t))) \<or> reports_deleted client_State (fst (GetOauthClient sdk (rd_Id (rdata t)) (server t)))) \<Longrightarrow> fst (deleteOAuthClient_attempt sdk t) = Done"
  by (auto simp: deleteOAuthClient_attempt_def invoke_def Let_def not_found_def reports_deleted_def
      split: prod.splits option.splits if_splits)

lemma deleteOAuthClient_attempt_retry:
  "found_alive client_State (fst (GetOauthClient sdk (rd_Id (rdata t)) (server t))) \<Longrightarrow> \<exists>e. fst (deleteOAuthClient_attempt sdk t) = RetryableError e"
  by (auto simp: deleteOAuthClient_attempt_def invoke_def Let_def found_def found_alive_def
      split: prod.splits option.splits if_splits)

lemma deleteOAuthClient_gone_at:
  fixes sdk :: "'sv sdk"
  assumes upd: "updateOAuthClient sdk (on_rdata (Set_attr ''state'' (TString ''inactive'')) s) = (None, s1)"
    and del: "snd (fst (DeleteOauthClient sdk (rd_Id (rdata s1)) (server s1))) = None"
    and sv0: "sv0 = snd (DeleteOauthClient sdk (rd_Id (rdata s1)) (server s1))"
    and k: "k \<le> 30 div poll_interval sdk"
    and before: "\<forall>j<k. found_alive client_State (fst (GetOauthClient sdk (rd_Id (rdata s1)) (poll_server (GetOauthClient sdk (rd_Id (rdata s1))) j sv0)))"
    and at: "(not_found (fst (GetOauthClient sdk (rd_Id (rdata s1)) (poll_server (GetOauthClient sdk (rd_Id (rdata s1))) k sv0))) \<or> reports_deleted client_State (fst (GetOauthClient sdk (rd_Id (rdata s1)) (poll_server (GetOauthClient sdk (rd_Id (rdata s1))) k sv0))))"
  shows "deleteOAuthClient sdk s
           = (None, s1\<lparr>server := poll_server (GetOauthClient sdk (rd_Id (rdata s1))) (Suc k) sv0,
                       trace := trace s1 @ Call (DeleteOauthClientReq (rd_Id (rdata s1)))
                                  # replicate (Suc k) (Call (GetOauthClientReq (rd_Id (rdata s1))))\<rparr>)"
proof -
  define s2 where "s2 = s1\<lparr>server := sv0, trace := trace s1 @ [Call (DeleteOauthClientReq (rd_Id (rdata s1)))]\<rparr>"
  have run: "deleteOAuthClient sdk s = retry_loop (30 div poll_interval sdk) (deleteOAuthClient_attempt sdk) s2"
    using upd del by (auto simp: deleteOAuthClient_def Let_def invoke_def s2_def withRetries_def sv0 split: prod.splits)
  have st: "\<forall>t. rdata t = rdata s1 \<longrightarrow>
              snd (deleteOAuthClient_attempt sdk t)
                = t\<lparr>server := snd (GetOauthClient sdk (rd_Id (rdata s1)) (server t)),
                     trace := trace t @ [Call (GetOauthClientReq (rd_Id (rdata s1)))]\<rparr>"
    by (simp add: deleteOAuthClient_attempt_state)
  have retry: "\<forall>j<k. \<forall>t. rdata t = rdata s1 \<and> server t = poll_server (GetOauthClient sdk (rd_Id (rdata s1))) j sv0
                  \<longrightarrow> (\<exists>e. fst (deleteOAuthClient_attempt sdk t) = RetryableError e)"
  proof (intro allI impI)
    fix j and t :: "'sv state"
    assume j: "j < k" and t: "rdata t = rdata s1 \<and> server t = poll_server (GetOauthClient sdk (rd_Id (rdata s1))) j sv0"
    from before j t have "found_alive client_State (fst (GetOauthClient sdk (rd_Id (rdata t)) (server t)))" by simp
    thus "\<exists>e. fst (deleteOAuthClient_attempt sdk t) = RetryableError e" by (rule deleteOAuthClient_attempt_retry)
  qed
  have gone: "\<forall>t. rdata t = rdata s1 \<and> server t = poll_server (GetOauthClient sdk (rd_Id (rdata s1))) k sv0
                  \<longrightarrow> fst (deleteOAuthClient_attempt sdk t) = Done"
  proof (intro allI impI)
    fix t :: "'sv state"
    assume t: "rdata t = rdata s1 \<and> server t = poll_server (GetOauthClient sdk (rd_Id (rdata s1))) k sv0"
    from at t have "(not_found (fst (GetOauthClient sdk (rd_Id (rdata t)) (server t))) \<or> reports_deleted client_State (fst (GetOauthClient sdk (rd_Id (rdata t)) (server t))))" by simp
    thus "fst (deleteOAuthClient_attempt sdk t) = Done" by (rule deleteOAuthClient_attempt_gone)
  qed
  have "retry_loop (30 div poll_interval sdk) (deleteOAuthClient_attempt sdk) s2
          = (None, s2\<lparr>server := poll_server (GetOauthClient sdk (rd_Id (rdata s1))) (Suc k) sv0,
                       trace := trace s2 @ replicate (Suc k) (Call (GetOauthClientReq (rd_Id (rdata s1))))\<rparr>)"
    by (rule retry_loop_gone_at [OF st retry gone k]) (simp_all add: s2_def)
  with run show ?thesis by (simp add: s2_def)
qed

lemma deleteCredential_attempt_state:
  "snd (deleteCredential_attempt sdk t)
     = t\<lparr>server := snd (GetIntegrationsCredential sdk (rd_Id (rdata t)) (server t)),
          trace := trace t @ [Call (GetIntegrationsCredentialReq (rd_Id (rdata t)))]\<rparr>"
  by (auto simp: deleteCredential_attempt_def invoke_def Let_def split: prod.splits option.splits if_splits)

lemma deleteCredential_attempt_gone:
  "not_found (fst (GetIntegrationsCredential sdk (rd_Id (rdata t)) (server t))) \<Longrightarrow> fst (deleteCredential_attempt sdk t) = Done"
  by (auto simp: deleteCredential_attempt_def invoke_def Let_def not_found_def reports_deleted_def
      split: prod.splits option.splits if_splits)

lemma deleteCredential_attempt_retry:
  "found (fst (GetIntegrationsCredential sdk (rd_Id (rdata t)) (server t))) \<Longrightarrow> \<exists>e. fst (deleteCredential_attempt sdk t) = RetryableError e"
  by (auto simp: deleteCredential_attempt_def invoke_def Let_def found_def found_alive_def
      split: prod.splits option.splits if_splits)

lemma deleteCredential_gone_at:
  fixes sdk :: "'sv sdk"
  assumes del: "snd (fst (DeleteIntegrationsCredential sdk (rd_Id (rdata s)) (server s))) = None"
    and sv0: "sv0 = snd (DeleteIntegrationsCredential sdk (rd_Id (rdata s)) (server s))"
    and k: "k \<le> 30 div poll_interval sdk"
    and before: "\<forall>j<k. found (fst (GetIntegrationsCredential sdk (rd_Id (rdata s)) (poll_server (GetIntegrationsCredential sdk (rd_Id (rdata s))) j sv0)))"
    and at: "not_found (fst (GetIntegrationsCredential sdk (rd_Id (rdata s)) (poll_server (GetIntegrationsCredential sdk (rd_Id (rdata s))) k sv0)))"
  shows "deleteCredential sdk s
           = (None, s\<lparr>server := poll_server (GetIntegrationsCredential sdk (rd_Id (rdata s))) (Suc k) sv0,
                       trace := trace s @ Call (DeleteIntegrationsCredentialReq (rd_Id (rdata s)))
                                  # replicate (Suc k) (Call (GetIntegrationsCredentialReq (rd_Id (rdata s))))\<rparr>)"
proof -
  define s2 where "s2 = s\<lparr>server := sv0, trace := trace s @ [Call (DeleteIntegrationsCredentialReq (rd_Id (rdata s)))]\<rparr>"
  have run: "deleteCredential sdk s = retry_loop (30 div poll_interval sdk) (deleteCredential_attempt sdk) s2"
    using del by (auto simp: deleteCredential_def Let_def invoke_def s2_def withRetries_def sv0 split: prod.splits)
  have st: "\<forall>t. rdata t = rdata s \<longrightarrow>
              snd (deleteCredential_attempt sdk t)
                = t\<lparr>server := snd (GetIntegrationsCredential sdk (rd_Id (rdata s)) (server t)),
                     trace := trace t @ [Call (GetIntegrationsCredentialReq (rd_Id (rdata s)))]\<rparr>"
    by (simp add: deleteCredential_attempt_state)
  have retry: "\<forall>j<k. \<forall>t. rdata t = rdata s \<and> server t = poll_server (GetIntegrationsCredential sdk (rd_Id (rdata s))) j sv0
                  \<longrightarrow> (\<exists>e. fst (deleteCredential_attempt sdk t) = RetryableError e)"
  proof (intro allI impI)
    fix j and t :: "'sv state"
    assume j: "j < k" and t: "rdata t = rdata s \<and> server t = poll_server (GetIntegrationsCredential sdk (rd_Id (rdata s))) j sv0"
    from before j t have "found (fst (GetIntegrationsCredential sdk (rd_Id (rdata t)) (server t)))" by simp
    thus "\<exists>e. fst (deleteCredential_attempt sdk t) = RetryableError e" by (rule deleteCredential_attempt_retry)
  qed
  have gone: "\<forall>t. rdata t = rdata s \<and> server t = poll_server (GetIntegrationsCredential sdk (rd_Id (rdata s))) k sv0
                  \<longrightarrow> fst (deleteCredential_attempt sdk t) = Done"
  proof (intro allI impI)
    fix t :: "'sv state"
    assume t: "rdata t = rdata s \<and> server t = poll_server (GetIntegrationsCredential sdk (rd_Id (rdata s))) k sv0"
    from at t have "not_found (fst (GetIntegrationsCredential sdk (rd_Id (rdata t)) (server t)))" by simp
    thus "fst (deleteCredential_attempt sdk t) = Done" by (rule deleteCredential_attempt_gone)
  qed
  have "retry_loop (30 div poll_interval sdk) (deleteCredential_attempt sdk) s2
          = (None, s2\<lparr>server := poll_server (GetIntegrationsCredential sdk (rd_Id (rdata s))) (Suc k) sv0,
                       trace := trace s2 @ replicate (Suc k) (Call (GetIntegrationsCredentialReq (rd_Id (rdata s))))\<rparr>)"
    by (rule retry_loop_gone_at [OF st retry gone k]) (simp_all add: s2_def)
  with run show ?thesis by (simp add: s2_def)
qed

lemma deleteIdpGeneric_attempt_state:
  "snd (deleteIdpGeneric_attempt sdk t)
     = t\<lparr>server := snd (GetIdentityprovidersGeneric sdk (server t)),
          trace := trace t @ [Call GetIdentityprovidersGenericReq]\<rparr>"
  by (auto simp: deleteIdpGeneric_attempt_def invoke_def Let_def split: prod.splits option.splits if_splits)

lemma deleteIdpGeneric_attempt_gone:
  "not_found (fst (GetIdentityprovidersGeneric sdk (server t))) \<Longrightarrow> fst (deleteIdpGeneric_attempt sdk t) = Done"
  by (auto simp: deleteIdpGeneric_attempt_def invoke_def Let_def not_found_def reports_deleted_def
      split: prod.splits option.splits if_splits)

lemma deleteIdpGeneric_attempt_retry:
  "found (fst (GetIdentityprovidersGeneric sdk (server t))) \<Longrightarrow> \<exists>e. fst (deleteIdpGeneric_attempt sdk t) = RetryableError e"
  by (auto simp: deleteIdpGeneric_attempt_def invoke_def Let_def found_def found_alive_def
      split: prod.splits option.splits if_splits)

lemma deleteIdpGeneric_gone_at:
  fixes sdk :: "'sv sdk"
  assumes del: "snd (snd (fst (DeleteIdentityprovidersGeneric sdk (server s)))) = None"
    and sv0: "sv0 = snd (DeleteIdentityprovidersGeneric sdk (server s))"
    and k: "k \<le> 30 div poll_interval sdk"
    and before: "\<forall>j<k. found (fst (GetIdentityprovidersGeneric sdk (poll_server (GetIdentityprovidersGeneric sdk) j sv0)))"
    and at: "not_found (fst (GetIdentityprovidersGeneric sdk (poll_server (GetIdentityprovidersGeneric sdk) k sv0)))"
  shows "deleteIdpGeneric sdk s
           = (None, s\<lparr>server := poll_server (GetIdentityprovidersGeneric sdk) (Suc k) sv0,
                       trace := trace s @ Call DeleteIdentityprovidersGenericReq
                                  # replicate (Suc k) (Call GetIdentityprovidersGenericReq)\<rparr>)"
proof -
  define s2 where "s2 = s\<lparr>server := sv0, trace := trace s @ [Call DeleteIdentityprovidersGenericReq]\<rparr>"
  have run: "deleteIdpGeneric sdk s = retry_loop (30 div poll_interval sdk) (deleteIdpGeneric_attempt sdk) s2"
    using del by (auto simp: deleteIdpGeneric_def Let_def invoke_def s2_def withRetries_def sv0 split: prod.splits)
  have st: "\<forall>t. rdata t = rdata s \<longrightarrow>
              snd (deleteIdpGeneric_attempt sdk t)
                = t\<lparr>server := snd (GetIdentityprovidersGeneric sdk (server t)),
                     trace := trace t @ [Call GetIdentityprovidersGenericReq]\<rparr>"
    by (simp add: deleteIdpGeneric_attempt_state)
  have retry: "\<forall>j<k. \<forall>t. rdata t = rdata s \<and> server t = poll_server (GetIdentityprovidersGeneric sdk) j sv0
                  \<longrightarrow> (\<exists>e. fst (deleteIdpGeneric_attempt sdk t) = RetryableError e)"
  proof (intro allI impI)
    fix j and t :: "'sv state"
    assume j: "j < k" and t: "rdata t = rdata s \<and> server t = poll_server (GetIdentityprovidersGeneric sdk) j sv0"
    from before j t have "found (fst (GetIdentityprovidersGeneric sdk (server t)))" by simp
    thus "\<exists>e. fst (deleteIdpGeneric_attempt sdk t) = RetryableError e" by (rule deleteIdpGeneric_attempt_retry)
  qed
  have gone: "\<forall>t. rdata t = rdata s \<and> server t = poll_server (GetIdentityprovidersGeneric sdk) k sv0
                  \<longrightarrow> fst (deleteIdpGeneric_attempt sdk t) = Done"
  proof (intro allI impI)
    fix t :: "'sv state"
    assume t: "rdata t = rdata s \<and> server t = poll_server (GetIdentityprovidersGeneric sdk) k sv0"
    from at t have "not_found (fst (GetIdentityprovidersGeneric sdk (server t)))" by simp
    thus "fst (deleteIdpGeneric_attempt sdk t) = Done" by (rule deleteIdpGeneric_attempt_gone)
  qed
  have "retry_loop (30 div poll_interval sdk) (deleteIdpGeneric_attempt sdk) s2
          = (None, s2\<lparr>server := poll_server (GetIdentityprovidersGeneric sdk) (Suc k) sv0,
                       trace := trace s2 @ replicate (Suc k) (Call GetIdentityprovidersGenericReq)\<rparr>)"
    by (rule retry_loop_gone_at [OF st retry gone k]) (simp_all add: s2_def)
  with run show ?thesis by (simp add: s2_def)
qed

lemma deletePhone_attempt_state:
  "snd (deletePhone_attempt sdk t)
     = t\<lparr>server := snd (GetTelephonyProvidersEdgesPhone sdk (rd_Id (rdata t)) (server t)),
          trace := trace t @ [Call (GetTelephonyProvidersEdgesPhoneReq (rd_Id (rdata t)))]\<rparr>"
  by (auto simp: deletePhone_attempt_def invoke_def Let_def split: prod.splits option.splits if_splits)

lemma deletePhone_attempt_gone:
  "(not_found (fst (GetTelephonyProvidersEdgesPhone sdk (rd_Id (rdata t)) (server t))) \<or> reports_deleted Entity_State (fst (GetTelephonyProvidersEdgesPhone sdk (rd_Id (rdata t)) (server t)))) \<Longrightarrow> fst (deletePhone_attempt sdk t) = Done"
  by (auto simp: deletePhone_attempt_def invoke_def Let_def not_found_def reports_deleted_def
      split: prod.splits option.splits if_splits)

lemma deletePhone_attempt_retry:
  "found_alive Entity_State (fst (GetTelephonyProvidersEdgesPhone sdk (rd_Id (rdata t)) (server t))) \<Longrightarrow> \<exists>e. fst (deletePhone_attempt sdk t) = RetryableError e"
  by (auto simp: deletePhone_attempt_def invoke_def Let_def found_def found_alive_def
      split: prod.splits option.splits if_splits)

lemma deletePhone_gone_at:
  fixes sdk :: "'sv sdk"
  assumes del: "snd (fst (DeleteTelephonyProvidersEdgesPhone sdk (rd_Id (rdata s)) (server s))) = None"
    and sv0: "sv0 = snd (DeleteTelephonyProvidersEdgesPhone sdk (rd_Id (rdata s)) (server s))"
    and k: "k \<le> 30 div poll_interval sdk"
    and before: "\<forall>j<k. found_alive Entity_State (fst (GetTelephonyProvidersEdgesPhone sdk (rd_Id (rdata s)) (poll_server (GetTelephonyProvidersEdgesPhone sdk (rd_Id (rdata s))) j sv0)))"
    and at: "(not_found (fst (GetTelephonyProvidersEdgesPhone sdk (rd_Id (rdata s)) (poll_server (GetTelephonyProvidersEdgesPhone sdk (rd_Id (rdata s))) k sv0))) \<or> reports_deleted Entity_State (fst (GetTelephonyProvidersEdgesPhone sdk (rd_Id (rdata s)) (poll_server (GetTelephonyProvidersEdgesPhone sdk (rd_Id (rdata s))) k sv0))))"
  shows "deletePhone sdk s
           = (None, s\<lparr>server := poll_server (GetTelephonyProvidersEdgesPhone sdk (rd_Id (rdata s))) (Suc k) sv0,
                       trace := trace s @ Call (DeleteTelephonyProvidersEdgesPhoneReq (rd_Id (rdata s)))
                                  # replicate (Suc k) (Call (GetTelephonyProvidersEdgesPhoneReq (rd_Id (rdata s))))\<rparr>)"
proof -
  define s2 where "s2 = s\<lparr>server := sv0, trace := trace s @ [Call (DeleteTelephonyProvidersEdgesPhoneReq (rd_Id (rdata s)))]\<rparr>"
  have run: "deletePhone sdk s = retry_loop (30 div poll_interval sdk) (deletePhone_attempt sdk) s2"
    using del by (auto simp: deletePhone_def Let_def invoke_def s2_def withRetries_def sv0 split: prod.splits)
  have st: "\<forall>t. rdata t = rdata s \<longrightarrow>
              snd (deletePhone_attempt sdk t)
                = t\<lparr>server := snd (GetTelephonyProvidersEdgesPhone sdk (rd_Id (rdata s)) (server t)),
                     trace := trace t @ [Call (GetTelephonyProvidersEdgesPhoneReq (rd_Id (rdata s)))]\<rparr>"
    by (simp add: deletePhone_attempt_state)
  have retry: "\<forall>j<k. \<forall>t. rdata t = rdata s \<and> server t = poll_server (GetTelephonyProvidersEdgesPhone sdk (rd_Id (rdata s))) j sv0
                  \<longrightarrow> (\<exists>e. fst (deletePhone_attempt sdk t) = RetryableError e)"
  proof (intro allI impI)
    fix j and t :: "'sv state"
    assume j: "j < k" and t: "rdata t = rdata s \<and> server t = poll_server (GetTelephonyProvidersEdgesPhone sdk (rd_Id (rdata s))) j sv0"
    from before j t have "found_alive Entity_State (fst (GetTelephonyProvidersEdgesPhone sdk (rd_Id (rdata t)) (server t)))" by simp
    thus "\<exists>e. fst (deletePhone_attempt sdk t) = RetryableError e" by (rule deletePhone_attempt_retry)
  qed
  have gone: "\<forall>t. rdata t = rdata s \<and> server t = poll_server (GetTelephonyProvidersEdgesPhone sdk (rd_Id (rdata s))) k sv0
                  \<longrightarrow> fst (deletePhone_attempt sdk t) = Done"
  proof (intro allI impI)
    fix t :: "'sv state"
    assume t: "rdata t = rdata s \<and> server t = poll_server (GetTelephonyProvidersEdgesPhone sdk (rd_Id (rdata s))) k sv0"
    from at t have "(not_found (fst (GetTelephonyProvidersEdgesPhone sdk (rd_Id (rdata t)) (server t))) \<or> reports_deleted Entity_State (fst (GetTelephonyProvidersEdgesPhone sdk (rd_Id (rdata t)) (server t))))" by simp
    thus "fst (deletePhone_attempt sdk t) = Done" by (rule deletePhone_attempt_gone)
  qed
  have "retry_loop (30 div poll_interval sdk) (deletePhone_attempt sdk) s2
          = (None, s2\<lparr>server := poll_server (GetTelephonyProvidersEdgesPhone sdk (rd_Id (rdata s))) (Suc k) sv0,
                       trace := trace s2 @ replicate (Suc k) (Call (GetTelephonyProvidersEdgesPhoneReq (rd_Id (rdata s))))\<rparr>)"
    by (rule retry_loop_gone_at [OF st retry gone k]) (simp_all add: s2_def)
  with run show ?thesis by (simp add: s2_def)
qed

text \<open>
  C1. For each of the five delete operations (integration action, OAuth client,
  credential, generic identity provider, phone) three facts, all after the delete call
  was accepted (for the OAuth client: after its inactivating update succeeded). First,
  when every GET finds the entity (alive, for the two entity types that report a
  state), the operation ends with the retry-exhausted failure after the delete call and
  exactly \<open>1 + 30 div poll_interval\<close> polls: the polls that start within 30 seconds.
  Second, when the operation succeeds, its last call is a poll, issued after the delete
  call, that returned not-found or (OAuth client, phone) the state \<open>deleted\<close>. Third,
  when the polls number 0 to \<open>k - 1\<close> find the entity and poll number \<open>k\<close>, one of the
  \<open>1 + 30 div poll_interval\<close> polls of the budget, returns not-found or (OAuth client,
  phone) the state \<open>deleted\<close>, the operation succeeds at that poll: it returns no
  error after the delete call and exactly \<open>k + 1\<close> polls. Every operation is a total
  function: it returns on every server.
\<close>

theorem delete_polls_until_gone:
  fixes sdk :: "'sv sdk"
  shows "(snd (fst (DeleteIntegrationsAction sdk (rd_Id (rdata s)) (server s))) = None
          \<and> (\<forall>sv. found (fst (sdkGetIntegrationAction sdk (rd_Id (rdata s)) sv)))
        \<longrightarrow> (\<exists>e s'. deleteIntegrationAction sdk s = (Some (RetryExhausted e), s')
              \<and> trace s' = trace s @ Call (DeleteIntegrationsActionReq (rd_Id (rdata s)))
                    # replicate (Suc (30 div poll_interval sdk)) (Call (GetIntegrationActionReq (rd_Id (rdata s))))))
     \<and> (fst (deleteIntegrationAction sdk s) = None
        \<longrightarrow> (\<exists>(s0 :: 'sv state) pre.
               trace s0 = trace s @ Call (DeleteIntegrationsActionReq (rd_Id (rdata s))) # pre
             \<and> not_found (fst (sdkGetIntegrationAction sdk (rd_Id (rdata s)) (server s0)))
             \<and> trace (snd (deleteIntegrationAction sdk s)) = trace s0 @ [Call (GetIntegrationActionReq (rd_Id (rdata s)))]))
     \<and> (fst (updateOAuthClient sdk (on_rdata (Set_attr ''state'' (TString ''inactive'')) s)) = None
          \<and> snd (fst (DeleteOauthClient sdk (rd_Id (rdata (snd (updateOAuthClient sdk (on_rdata (Set_attr ''state'' (TString ''inactive'')) s)))))
                        (server (snd (updateOAuthClient sdk (on_rdata (Set_attr ''state'' (TString ''inactive'')) s)))))) = None
          \<and> (\<forall>sv. found_alive client_State
                     (fst (GetOauthClient sdk (rd_Id (rdata (snd (updateOAuthClient sdk (on_rdata (Set_attr ''state'' (TString ''inactive'')) s))))) sv)))
        \<longrightarrow> (\<exists>e s'. deleteOAuthClient sdk s = (Some (RetryExhausted e), s')
              \<and> trace s' = trace (snd (updateOAuthClient sdk (on_rdata (Set_attr ''state'' (TString ''inactive'')) s)))
                    @ Call (DeleteOauthClientReq (rd_Id (rdata (snd (updateOAuthClient sdk (on_rdata (Set_attr ''state'' (TString ''inactive'')) s))))))
                    # replicate (Suc (30 div poll_interval sdk))
                        (Call (GetOauthClientReq (rd_Id (rdata (snd (updateOAuthClient sdk (on_rdata (Set_attr ''state'' (TString ''inactive'')) s)))))))))
     \<and> (fst (deleteOAuthClient sdk s) = None
        \<longrightarrow> (\<exists>(s1 :: 'sv state) (s0 :: 'sv state) pre.
               updateOAuthClient sdk (on_rdata (Set_attr ''state'' (TString ''inactive'')) s) = (None, s1)
             \<and> trace s0 = trace s1 @ Call (DeleteOauthClientReq (rd_Id (rdata s1))) # pre
             \<and> (not_found (fst (GetOauthClient sdk (rd_Id (rdata s1)) (server s0)))
               \<or> reports_deleted client_State (fst (GetOauthClient sdk (rd_Id (rdata s1)) (server s0))))
             \<and> trace (snd (deleteOAuthClient sdk s))
                 = trace s0 @ [Call (GetOauthClientReq (rd_Id (rdata s1)))]))
     \<and> (snd (fst (DeleteIntegrationsCredential sdk (rd_Id (rdata s)) (server s))) = None
          \<and> (\<forall>sv. found (fst (GetIntegrationsCredential sdk (rd_Id (rdata s)) sv)))
        \<longrightarrow> (\<exists>e s'. deleteCredential sdk s = (Some (RetryExhausted e), s')
              \<and> trace s' = trace s @ Call (DeleteIntegrationsCredentialReq (rd_Id (rdata s)))
                    # replicate (Suc (30 div poll_interval sdk)) (Call (GetIntegrationsCredentialReq (rd_Id (rdata s))))))
     \<and> (fst (deleteCredential sdk s) = None
        \<longrightarrow> (\<exists>(s0 :: 'sv state) pre.
               trace s0 = trace s @ Call (DeleteIntegrationsCredentialReq (rd_Id (rdata s))) # pre
             \<and> not_found (fst (GetIntegrationsCredential sdk (rd_Id (rdata s)) (server s0)))
             \<and> trace (snd (deleteCredential sdk s)) = trace s0 @ [Call (GetIntegrationsCredentialReq (rd_Id (rdata s)))]))
     \<and> (snd (snd (fst (DeleteIdentityprovidersGeneric sdk (server s)))) = None
          \<and> (\<forall>sv. found (fst (GetIdentityprovidersGeneric sdk sv)))
        \<longrightarrow> (\<exists>e s'. deleteIdpGeneric sdk s = (Some (RetryExhausted e), s')
              \<and> trace s' = trace s @ Call DeleteIdentityprovidersGenericReq
                    # replicate (Suc (30 div poll_interval sdk)) (Call GetIdentityprovidersGenericReq)))
     \<and> (fst (deleteIdpGeneric sdk s) = None
        \<longrightarrow> (\<exists>(s0 :: 'sv state) pre.
               trace s0 = trace s @ Call DeleteIdentityprovidersGenericReq # pre
             \<and> not_found (fst (GetIdentityprovidersGeneric sdk (server s0)))
             \<and> trace (snd (deleteIdpGeneric sdk s)) = trace s0 @ [Call GetIdentityprovidersGenericReq]))
     \<and> (snd (fst (DeleteTelephonyProvidersEdgesPhone sdk (rd_Id (rdata s)) (server s))) = None
          \<and> (\<forall>sv. found_alive Entity_State (fst (GetTelephonyProvidersEdgesPhone sdk (rd_Id (rdata s)) sv)))
        \<longrightarrow> (\<exists>e s'. deletePhone sdk s = (Some (RetryExhausted e), s')
              \<and> trace s' = trace s @ Call (DeleteTelephonyProvidersEdgesPhoneReq (rd_Id (rdata s)))
                    # replicate (Suc (30 div poll_interval sdk)) (Call (GetTelephonyProvidersEdgesPhoneReq (rd_Id (rdata s))))))
     \<and> (fst (deletePhone sdk s) = None
        \<longrightarrow> (\<exists>(s0 :: 'sv state) pre.
               trace s0 = trace s @ Call (DeleteTelephonyProvidersEdgesPhoneReq (rd_Id (rdata s))) # pre
             \<and> (not_found (fst (GetTelephonyProvidersEdgesPhone sdk (rd_Id (rdata s)) (server s0)))
               \<or> reports_deleted Entity_State (fst (GetTelephonyProvidersEdgesPhone sdk (rd_Id (rdata s)) (server s0))))
             \<and> trace (snd (deletePhone sdk s)) = trace s0 @ [Call (GetTelephonyProvidersEdgesPhoneReq (rd_Id (rdata s)))]))
     \<and> (\<forall>k. snd (fst (DeleteIntegrationsAction sdk (rd_Id (rdata s)) (server s))) = None
          \<and> k \<le> 30 div poll_interval sdk
          \<and> (\<forall>j<k. found (fst (sdkGetIntegrationAction sdk (rd_Id (rdata s)) (poll_server (sdkGetIntegrationAction sdk (rd_Id (rdata s))) j (snd (DeleteIntegrationsAction sdk (rd_Id (rdata s)) (server s)))))))
          \<and> not_found (fst (sdkGetIntegrationAction sdk (rd_Id (rdata s)) (poll_server (sdkGetIntegrationAction sdk (rd_Id (rdata s))) k (snd (DeleteIntegrationsAction sdk (rd_Id (rdata s)) (server s))))))
        \<longrightarrow> fst (deleteIntegrationAction sdk s) = None
            \<and> trace (snd (deleteIntegrationAction sdk s))
                = trace s @ Call (DeleteIntegrationsActionReq (rd_Id (rdata s))) # replicate (Suc k) (Call (GetIntegrationActionReq (rd_Id (rdata s)))))
     \<and> (\<forall>k s1. updateOAuthClient sdk (on_rdata (Set_attr ''state'' (TString ''inactive'')) s) = (None, s1)
          \<and> snd (fst (DeleteOauthClient sdk (rd_Id (rdata s1)) (server s1))) = None
          \<and> k \<le> 30 div poll_interval sdk
          \<and> (\<forall>j<k. found_alive client_State (fst (GetOauthClient sdk (rd_Id (rdata s1)) (poll_server (GetOauthClient sdk (rd_Id (rdata s1))) j (snd (DeleteOauthClient sdk (rd_Id (rdata s1)) (server s1)))))))
          \<and> (not_found (fst (GetOauthClient sdk (rd_Id (rdata s1)) (poll_server (GetOauthClient sdk (rd_Id (rdata s1))) k (snd (DeleteOauthClient sdk (rd_Id (rdata s1)) (server s1)))))) \<or> reports_deleted client_State (fst (GetOauthClient sdk (rd_Id (rdata s1)) (poll_server (GetOauthClient sdk (rd_Id (rdata s1))) k (snd (DeleteOauthClient sdk (rd_Id (rdata s1)) (server s1)))))))
        \<longrightarrow> fst (deleteOAuthClient sdk s) = None
            \<and> trace (snd (deleteOAuthClient sdk s))
                = trace s1 @ Call (DeleteOauthClientReq (rd_Id (rdata s1))) # replicate (Suc k) (Call (GetOauthClientReq (rd_Id (rdata s1)))))
     \<and> (\<forall>k. snd (fst (DeleteIntegrationsCredential sdk (rd_Id (rdata s)) (server s))) = None
          \<and> k \<le> 30 div poll_interval sdk
          \<and> (\<forall>j<k. found (fst (GetIntegrationsCredential sdk (rd_Id (rdata s)) (poll_server (GetIntegrationsCredential sdk (rd_Id (rdata s))) j (snd (DeleteIntegrationsCredential sdk (rd_Id (rdata s)) (server s)))))))
          \<and> not_found (fst (GetIntegrationsCredential sdk (rd_Id (rdata s)) (poll_server (GetIntegrationsCredential sdk (rd_Id (rdata s))) k (snd (DeleteIntegrationsCredential sdk (rd_Id (rdata s)) (server s))))))
        \<longrightarrow> fst (deleteCredential sdk s) = None
            \<and> trace (snd (deleteCredential sdk s))
                = trace s @ Call (DeleteIntegrationsCredentialReq (rd_Id (rdata s))) # replicate (Suc k) (Call (GetIntegrationsCredentialReq (rd_Id (rdata s)))))
     \<and> (\<forall>k. snd (snd (fst (DeleteIdentityprovidersGeneric sdk (server s)))) = None
          \<and> k \<le> 30 div poll_interval sdk
          \<and> (\<forall>j<k. found (fst (GetIdentityprovidersGeneric sdk (poll_server (GetIdentityprovidersGeneric sdk) j (snd (DeleteIdentityprovidersGeneric sdk (server s)))))))
          \<and> not_found (fst (GetIdentityprovidersGeneric sdk (poll_server (GetIdentityprovidersGeneric sdk) k (snd (DeleteIdentityprovidersGeneric sdk (server s))))))
        \<longrightarrow> fst (deleteIdpGeneric sdk s) = None
            \<and> trace (snd (deleteIdpGeneric sdk s))
                = trace s @ Call DeleteIdentityprovidersGenericReq # replicate (Suc k) (Call GetIdentityprovidersGenericReq))
     \<and> (\<forall>k. snd (fst (DeleteTelephonyProvidersEdgesPhone sdk (rd_Id (rdata s)) (server s))) = None
          \<and> k \<le> 30 div poll_interval sdk
          \<and> (\<forall>j<k. found_alive Entity_State (fst (GetTelephonyProvidersEdgesPhone sdk (rd_Id (rdata s)) (poll_server (GetTelephonyProvidersEdgesPhone sdk (rd_Id (rdata s))) j (snd (DeleteTelephonyProvidersEdgesPhone sdk (rd_Id (rdata s)) (server s)))))))
          \<and> (not_found (fst (GetTelephonyProvidersEdgesPhone sdk (rd_Id (rdata s)) (poll_server (GetTelephonyProvidersEdgesPhone sdk (rd_Id (rdata s))) k (snd (DeleteTelephonyProvidersEdgesPhone sdk (rd_Id (rdata s)) (server s)))))) \<or> reports_deleted Entity_State (fst (GetTelephonyProvidersEdgesPhone sdk (rd_Id (rdata s)) (poll_server (GetTelephonyProvidersEdgesPhone sdk (rd_Id (rdata s))) k (snd (DeleteTelephonyProvidersEdgesPhone sdk (rd_Id (rdata s)) (server s)))))))
        \<longrightarrow> fst (deletePhone sdk s) = None
            \<and> trace (snd (deletePhone sdk s))
                = trace s @ Call (DeleteTelephonyProvidersEdgesPhoneReq (rd_Id (rdata s))) # replicate (Suc k) (Call (GetTelephonyProvidersEdgesPhoneReq (rd_Id (rdata s)))))"
proof (intro conjI)
  show "(snd (fst (DeleteIntegrationsAction sdk (rd_Id (rdata s)) (server s))) = None
          \<and> (\<forall>sv. found (fst (sdkGetIntegrationAction sdk (rd_Id (rdata s)) sv)))
        \<longrightarrow> (\<exists>e s'. deleteIntegrationAction sdk s = (Some (RetryExhausted e), s')
              \<and> trace s' = trace s @ Call (DeleteIntegrationsActionReq (rd_Id (rdata s)))
                    # replicate (Suc (30 div poll_interval sdk)) (Call (GetIntegrationActionReq (rd_Id (rdata s))))))"
    using deleteIntegrationAction_exhausted [of sdk s] by blast
  show "(fst (deleteIntegrationAction sdk s) = None
        \<longrightarrow> (\<exists>(s0 :: 'sv state) pre.
               trace s0 = trace s @ Call (DeleteIntegrationsActionReq (rd_Id (rdata s))) # pre
             \<and> not_found (fst (sdkGetIntegrationAction sdk (rd_Id (rdata s)) (server s0)))
             \<and> trace (snd (deleteIntegrationAction sdk s)) = trace s0 @ [Call (GetIntegrationActionReq (rd_Id (rdata s)))]))"
    using deleteIntegrationAction_success [of sdk s "snd (deleteIntegrationAction sdk s)"] by (simp add: prod_eq_iff)
  show "(fst (updateOAuthClient sdk (on_rdata (Set_attr ''state'' (TString ''inactive'')) s)) = None
          \<and> snd (fst (DeleteOauthClient sdk (rd_Id (rdata (snd (updateOAuthClient sdk (on_rdata (Set_attr ''state'' (TString ''inactive'')) s)))))
                        (server (snd (updateOAuthClient sdk (on_rdata (Set_attr ''state'' (TString ''inactive'')) s)))))) = None
          \<and> (\<forall>sv. found_alive client_State
                     (fst (GetOauthClient sdk (rd_Id (rdata (snd (updateOAuthClient sdk (on_rdata (Set_attr ''state'' (TString ''inactive'')) s))))) sv)))
        \<longrightarrow> (\<exists>e s'. deleteOAuthClient sdk s = (Some (RetryExhausted e), s')
              \<and> trace s' = trace (snd (updateOAuthClient sdk (on_rdata (Set_attr ''state'' (TString ''inactive'')) s)))
                    @ Call (DeleteOauthClientReq (rd_Id (rdata (snd (updateOAuthClient sdk (on_rdata (Set_attr ''state'' (TString ''inactive'')) s))))))
                    # replicate (Suc (30 div poll_interval sdk))
                        (Call (GetOauthClientReq (rd_Id (rdata (snd (updateOAuthClient sdk (on_rdata (Set_attr ''state'' (TString ''inactive'')) s)))))))))"
    using deleteOAuthClient_exhausted [of sdk s "snd (updateOAuthClient sdk (on_rdata (Set_attr ''state'' (TString ''inactive'')) s))"] by (simp add: prod_eq_iff)
  show "(fst (deleteOAuthClient sdk s) = None
        \<longrightarrow> (\<exists>(s1 :: 'sv state) (s0 :: 'sv state) pre.
               updateOAuthClient sdk (on_rdata (Set_attr ''state'' (TString ''inactive'')) s) = (None, s1)
             \<and> trace s0 = trace s1 @ Call (DeleteOauthClientReq (rd_Id (rdata s1))) # pre
             \<and> (not_found (fst (GetOauthClient sdk (rd_Id (rdata s1)) (server s0)))
               \<or> reports_deleted client_State (fst (GetOauthClient sdk (rd_Id (rdata s1)) (server s0))))
             \<and> trace (snd (deleteOAuthClient sdk s))
                 = trace s0 @ [Call (GetOauthClientReq (rd_Id (rdata s1)))]))"
    using deleteOAuthClient_success [of sdk s "snd (deleteOAuthClient sdk s)"] by (simp add: prod_eq_iff)
  show "(snd (fst (DeleteIntegrationsCredential sdk (rd_Id (rdata s)) (server s))) = None
          \<and> (\<forall>sv. found (fst (GetIntegrationsCredential sdk (rd_Id (rdata s)) sv)))
        \<longrightarrow> (\<exists>e s'. deleteCredential sdk s = (Some (RetryExhausted e), s')
              \<and> trace s' = trace s @ Call (DeleteIntegrationsCredentialReq (rd_Id (rdata s)))
                    # replicate (Suc (30 div poll_interval sdk)) (Call (GetIntegrationsCredentialReq (rd_Id (rdata s))))))"
    using deleteCredential_exhausted [of sdk s] by blast
  show "(fst (deleteCredential sdk s) = None
        \<longrightarrow> (\<exists>(s0 :: 'sv state) pre.
               trace s0 = trace s @ Call (DeleteIntegrationsCredentialReq (rd_Id (rdata s))) # pre
             \<and> not_found (fst (GetIntegrationsCredential sdk (rd_Id (rdata s)) (server s0)))
             \<and> trace (snd (deleteCredential sdk s)) = trace s0 @ [Call (GetIntegrationsCredentialReq (rd_Id (rdata s)))]))"
    using deleteCredential_success [of sdk s "snd (deleteCredential sdk s)"] by (simp add: prod_eq_iff)
  show "(snd (snd (fst (DeleteIdentityprovidersGeneric sdk (server s)))) = None
          \<and> (\<forall>sv. found (fst (GetIdentityprovidersGeneric sdk sv)))
        \<longrightarrow> (\<exists>e s'. deleteIdpGeneric sdk s = (Some (RetryExhausted e), s')
              \<and> trace s' = trace s @ Call DeleteIdentityprovidersGenericReq
                    # replicate (Suc (30 div poll_interval sdk)) (Call GetIdentityprovidersGenericReq)))"
    using deleteIdpGeneric_exhausted [of sdk s] by blast
  show "(fst (deleteIdpGeneric sdk s) = None
        \<longrightarrow> (\<exists>(s0 :: 'sv state) pre.
               trace s0 = trace s @ Call DeleteIdentityprovidersGenericReq # pre
             \<and> not_found (fst (GetIdentityprovidersGeneric sdk (server s0)))
             \<and> trace (snd (deleteIdpGeneric sdk s)) = trace s0 @ [Call GetIdentityprovidersGenericReq]))"
    using deleteIdpGeneric_success [of sdk s "snd (deleteIdpGeneric sdk s)"] by (simp add: prod_eq_iff)
  show "(snd (fst (DeleteTelephonyProvidersEdgesPhone sdk (rd_Id (rdata s)) (server s))) = None
          \<and> (\<forall>sv. found_alive Entity_State (fst (GetTelephonyProvidersEdgesPhone sdk (rd_Id (rdata s)) sv)))
        \<longrightarrow> (\<exists>e s'. deletePhone sdk s = (Some (RetryExhausted e), s')
              \<and> trace s' = trace s @ Call (DeleteTelephonyProvidersEdgesPhoneReq (rd_Id (rdata s)))
                    # replicate (Suc (30 div poll_interval sdk)) (Call (GetTelephonyProvidersEdgesPhoneReq (rd_Id (rdata s))))))"
    using deletePhone_exhausted [of sdk s] by blast
  show "(fst (deletePhone sdk s) = None
        \<longrightarrow> (\<exists>(s0 :: 'sv state) pre.
               trace s0 = trace s @ Call (DeleteTelephonyProvidersEdgesPhoneReq (rd_Id (rdata s))) # pre
             \<and> (not_found (fst (GetTelephonyProvidersEdgesPhone sdk (rd_Id (rdata s)) (server s0)))
               \<or> reports_deleted Entity_State (fst (GetTelephonyProvidersEdgesPhone sdk (rd_Id (rdata s)) (server s0))))
             \<and> trace (snd (deletePhone sdk s)) = trace s0 @ [Call (GetTelephonyProvidersEdgesPhoneReq (rd_Id (rdata s)))]))"
    using deletePhone_success [of sdk s "snd (deletePhone sdk s)"] by (simp add: prod_eq_iff)
  show "(\<forall>k. snd (fst (DeleteIntegrationsAction sdk (rd_Id (rdata s)) (server s))) = None
          \<and> k \<le> 30 div poll_interval sdk
          \<and> (\<forall>j<k. found (fst (sdkGetIntegrationAction sdk (rd_Id (rdata s)) (poll_server (sdkGetIntegrationAction sdk (rd_Id (rdata s))) j (snd (DeleteIntegrationsAction sdk (rd_Id (rdata s)) (server s)))))))
          \<and> not_found (fst (sdkGetIntegrationAction sdk (rd_Id (rdata s)) (poll_server (sdkGetIntegrationAction sdk (rd_Id (rdata s))) k (snd (DeleteIntegrationsAction sdk (rd_Id (rdata s)) (server s))))))
        \<longrightarrow> fst (deleteIntegrationAction sdk s) = None
            \<and> trace (snd (deleteIntegrationAction sdk s))
                = trace s @ Call (DeleteIntegrationsActionReq (rd_Id (rdata s))) # replicate (Suc k) (Call (GetIntegrationActionReq (rd_Id (rdata s)))))"
  proof (intro allI impI)
    fix k
    assume h: "snd (fst (DeleteIntegrationsAction sdk (rd_Id (rdata s)) (server s))) = None
          \<and> k \<le> 30 div poll_interval sdk
          \<and> (\<forall>j<k. found (fst (sdkGetIntegrationAction sdk (rd_Id (rdata s)) (poll_server (sdkGetIntegrationAction sdk (rd_Id (rdata s))) j (snd (DeleteIntegrationsAction sdk (rd_Id (rdata s)) (server s)))))))
          \<and> not_found (fst (sdkGetIntegrationAction sdk (rd_Id (rdata s)) (poll_server (sdkGetIntegrationAction sdk (rd_Id (rdata s))) k (snd (DeleteIntegrationsAction sdk (rd_Id (rdata s)) (server s))))))"
    have "deleteIntegrationAction sdk s
            = (None, s\<lparr>server := poll_server (sdkGetIntegrationAction sdk (rd_Id (rdata s))) (Suc k) (snd (DeleteIntegrationsAction sdk (rd_Id (rdata s)) (server s))),
                        trace := trace s @ Call (DeleteIntegrationsActionReq (rd_Id (rdata s)))
                                   # replicate (Suc k) (Call (GetIntegrationActionReq (rd_Id (rdata s))))\<rparr>)"
      by (rule deleteIntegrationAction_gone_at [OF _ refl]) (use h in simp_all)
    thus "fst (deleteIntegrationAction sdk s) = None
            \<and> trace (snd (deleteIntegrationAction sdk s))
                = trace s @ Call (DeleteIntegrationsActionReq (rd_Id (rdata s))) # replicate (Suc k) (Call (GetIntegrationActionReq (rd_Id (rdata s))))"
      by simp
  qed
  show "(\<forall>k s1. updateOAuthClient sdk (on_rdata (Set_attr ''state'' (TString ''inactive'')) s) = (None, s1)
          \<and> snd (fst (DeleteOauthClient sdk (rd_Id (rdata s1)) (server s1))) = None
          \<and> k \<le> 30 div poll_interval sdk
          \<and> (\<forall>j<k. found_alive client_State (fst (GetOauthClient sdk (rd_Id (rdata s1)) (poll_server (GetOauthClient sdk (rd_Id (rdata s1))) j (snd (DeleteOauthClient sdk (rd_Id (rdata s1)) (server s1)))))))
          \<and> (not_found (fst (GetOauthClient sdk (rd_Id (rdata s1)) (poll_server (GetOauthClient sdk (rd_Id (rdata s1))) k (snd (DeleteOauthClient sdk (rd_Id (rdata s1)) (server s1)))))) \<or> reports_deleted client_State (fst (GetOauthClient sdk (rd_Id (rdata s1)) (poll_server (GetOauthClient sdk (rd_Id (rdata s1))) k (snd (DeleteOauthClient sdk (rd_Id (rdata s1)) (server s1)))))))
        \<longrightarrow> fst (deleteOAuthClient sdk s) = None
            \<and> trace (snd (deleteOAuthClient sdk s))
                = trace s1 @ Call (DeleteOauthClientReq (rd_Id (rdata s1))) # replicate (Suc k) (Call (GetOauthClientReq (rd_Id (rdata s1)))))"
  proof (intro allI impI)
    fix k and s1 :: "'sv state"
    assume h: "updateOAuthClient sdk (on_rdata (Set_attr ''state'' (TString ''inactive'')) s) = (None, s1)
          \<and> snd (fst (DeleteOauthClient sdk (rd_Id (rdata s1)) (server s1))) = None
          \<and> k \<le> 30 div poll_interval sdk
          \<and> (\<forall>j<k. found_alive client_State (fst (GetOauthClient sdk (rd_Id (rdata s1)) (poll_server (GetOauthClient sdk (rd_Id (rdata s1))) j (snd (DeleteOauthClient sdk (rd_Id (rdata s1)) (server s1)))))))
          \<and> (not_found (fst (GetOauthClient sdk (rd_Id (rdata s1)) (poll_server (GetOauthClient sdk (rd_Id (rdata s1))) k (snd (DeleteOauthClient sdk (rd_Id (rdata s1)) (server s1)))))) \<or> reports_deleted client_State (fst (GetOauthClient sdk (rd_Id (rdata s1)) (poll_server (GetOauthClient sdk (rd_Id (rdata s1))) k (snd (DeleteOauthClient sdk (rd_Id (rdata s1)) (server s1)))))))"
    have "deleteOAuthClient sdk s
            = (None, s1\<lparr>server := poll_server (GetOauthClient sdk (rd_Id (rdata s1))) (Suc k) (snd (DeleteOauthClient sdk (rd_Id (rdata s1)) (server s1))),
                        trace := trace s1 @ Call (DeleteOauthClientReq (rd_Id (rdata s1)))
                                   # replicate (Suc k) (Call (GetOauthClientReq (rd_Id (rdata s1))))\<rparr>)"
      by (rule deleteOAuthClient_gone_at [OF _ _ refl]) (use h in simp_all)
    thus "fst (deleteOAuthClient sdk s) = None
            \<and> trace (snd (deleteOAuthClient sdk s))
                = trace s1 @ Call (DeleteOauthClientReq (rd_Id (rdata s1))) # replicate (Suc k) (Call (GetOauthClientReq (rd_Id (rdata s1))))"
      by simp
  qed
  show "(\<forall>k. snd (fst (DeleteIntegrationsCredential sdk (rd_Id (rdata s)) (server s))) = None
          \<and> k \<le> 30 div poll_interval sdk
          \<and> (\<forall>j<k. found (fst (GetIntegrationsCredential sdk (rd_Id (rdata s)) (poll_server (GetIntegrationsCredential sdk (rd_Id (rdata s))) j (snd (DeleteIntegrationsCredential sdk (rd_Id (rdata s)) (server s)))))))
          \<and> not_found (fst (GetIntegrationsCredential sdk (rd_Id (rdata s)) (poll_server (GetIntegrationsCredential sdk (rd_Id (rdata s))) k (snd (DeleteIntegrationsCredential sdk (rd_Id (rdata s)) (server s))))))
        \<longrightarrow> fst (deleteCredential sdk s) = None
            \<and> trace (snd (deleteCredential sdk s))
                = trace s @ Call (DeleteIntegrationsCredentialReq (rd_Id (rdata s))) # replicate (Suc k) (Call (GetIntegrationsCredentialReq (rd_Id (rdata s)))))"
  proof (intro allI impI)
    fix k
    assume h: "snd (fst (DeleteIntegrationsCredential sdk (rd_Id (rdata s)) (server s))) = None
          \<and> k \<le> 30 div poll_interval sdk
          \<and> (\<forall>j<k. found (fst (GetIntegrationsCredential sdk (rd_Id (rdata s)) (poll_server (GetIntegrationsCredential sdk (rd_Id (rdata s))) j (snd (DeleteIntegrationsCredential sdk (rd_Id (rdata s)) (server s)))))))
          \<and> not_found (fst (GetIntegrationsCredential sdk (rd_Id (rdata s)) (poll_server (GetIntegrationsCredential sdk (rd_Id (rdata s))) k (snd (DeleteIntegrationsCredential sdk (rd_Id (rdata s)) (server s))))))"
    have "deleteCredential sdk s
            = (None, s\<lparr>server := poll_server (GetIntegrationsCredential sdk (rd_Id (rdata s))) (Suc k) (snd (DeleteIntegrationsCredential sdk (rd_Id (rdata s)) (server s))),
                        trace := trace s @ Call (DeleteIntegrationsCredentialReq (rd_Id (rdata s)))
                                   # replicate (Suc k) (Call (GetIntegrationsCredentialReq (rd_Id (rdata s))))\<rparr>)"
      by (rule deleteCredential_gone_at [OF _ refl]) (use h in simp_all)
    thus "fst (deleteCredential sdk s) = None
            \<and> trace (snd (deleteCredential sdk s))
                = trace s @ Call (DeleteIntegrationsCredentialReq (rd_Id (rdata s))) # replicate (Suc k) (Call (GetIntegrationsCredentialReq (rd_Id (rdata s))))"
      by simp
  qed
  show "(\<forall>k. snd (snd (fst (DeleteIdentityprovidersGeneric sdk (server s)))) = None
          \<and> k \<le> 30 div poll_interval sdk
          \<and> (\<forall>j<k. found (fst (GetIdentityprovidersGeneric sdk (poll_server (GetIdentityprovidersGeneric sdk) j (snd (DeleteIdentityprovidersGeneric sdk (server s)))))))
          \<and> not_found (fst (GetIdentityprovidersGeneric sdk (poll_server (GetIdentityprovidersGeneric sdk) k (snd (DeleteIdentityprovidersGeneric sdk (server s))))))
        \<longrightarrow> fst (deleteIdpGeneric sdk s) = None
            \<and> trace (snd (deleteIdpGeneric sdk s))
                = trace s @ Call DeleteIdentityprovidersGenericReq # replicate (Suc k) (Call GetIdentityprovidersGenericReq))"
  proof (intro allI impI)
    fix k
    assume h: "snd (snd (fst (DeleteIdentityprovidersGeneric sdk (server s)))) = None
          \<and> k \<le> 30 div poll_interval sdk
          \<and> (\<forall>j<k. found (fst (GetIdentityprovidersGeneric sdk (poll_server (GetIdentityprovidersGeneric sdk) j (snd (DeleteIdentityprovidersGeneric sdk (server s)))))))
          \<and> not_found (fst (GetIdentityprovidersGeneric sdk (poll_server (GetIdentityprovidersGeneric sdk) k (snd (DeleteIdentityprovidersGeneric sdk (server s))))))"
    have "deleteIdpGeneric sdk s
            = (None, s\<lparr>server := poll_server (GetIdentityprovidersGeneric sdk) (Suc k) (snd (DeleteIdentityprovidersGeneric sdk (server s))),
                        trace := trace s @ Call DeleteIdentityprovidersGenericReq
                                   # replicate (Suc k) (Call GetIdentityprovidersGenericReq)\<rparr>)"
      by (rule deleteIdpGeneric_gone_at [OF _ refl]) (use h in simp_all)
    thus "fst (deleteIdpGeneric sdk s) = None
            \<and> trace (snd (deleteIdpGeneric sdk s))
                = trace s @ Call DeleteIdentityprovidersGenericReq # replicate (Suc k) (Call GetIdentityprovidersGenericReq)"
      by simp
  qed
  show "(\<forall>k. snd (fst (DeleteTelephonyProvidersEdgesPhone sdk (rd_Id (rdata s)) (server s))) = None
          \<and> k \<le> 30 div poll_interval sdk
          \<and> (\<forall>j<k. found_alive Entity_State (fst (GetTelephonyProvidersEdgesPhone sdk (rd_Id (rdata s)) (poll_server (GetTelephonyProvidersEdgesPhone sdk (rd_Id (rdata s))) j (snd (DeleteTelephonyProvidersEdgesPhone sdk (rd_Id (rdata s)) (server s)))))))
          \<and> (not_found (fst (GetTelephonyProvidersEdgesPhone sdk (rd_Id (rdata s)) (poll_server (GetTelephonyProvidersEdgesPhone sdk (rd_Id (rdata s))) k (snd (DeleteTelephonyProvidersEdgesPhone sdk (rd_Id (rdata s)) (server s)))))) \<or> reports_deleted Entity_State (fst (GetTelephonyProvidersEdgesPhone sdk (rd_Id (rdata s)) (poll_server (GetTelephonyProvidersEdgesPhone sdk (rd_Id (rdata s))) k (snd (DeleteTelephonyProvidersEdgesPhone sdk (rd_Id (rdata s)) (server s)))))))
        \<longrightarrow> fst (deletePhone sdk s) = None
            \<and> trace (snd (deletePhone sdk s))
                = trace s @ Call (DeleteTelephonyProvidersEdgesPhoneReq (rd_Id (rdata s))) # replicate (Suc k) (Call (GetTelephonyProvidersEdgesPhoneReq (rd_Id (rdata s)))))"
  proof (intro allI impI)
    fix k
    assume h: "snd (fst (DeleteTelephonyProvidersEdgesPhone sdk (rd_Id (rdata s)) (server s))) = None
          \<and> k \<le> 30 div poll_interval sdk
          \<and> (\<forall>j<k. found_alive Entity_State (fst (GetTelephonyProvidersEdgesPhone sdk (rd_Id (rdata s)) (poll_server (GetTelephonyProvidersEdgesPhone sdk (rd_Id (rdata s))) j (snd (DeleteTelephonyProvidersEdgesPhone sdk (rd_Id (rdata s)) (server s)))))))
          \<and> (not_found (fst (GetTelephonyProvidersEdgesPhone sdk (rd_Id (rdata s)) (poll_server (GetTelephonyProvidersEdgesPhone sdk (rd_Id (rdata s))) k (snd (DeleteTelephonyProvidersEdgesPhone sdk (rd_Id (rdata s)) (server s)))))) \<or> reports_deleted Entity_State (fst (GetTelephonyProvidersEdgesPhone sdk (rd_Id (rdata s)) (poll_server (GetTelephonyProvidersEdgesPhone sdk (rd_Id (rdata s))) k (snd (DeleteTelephonyProvidersEdgesPhone sdk (rd_Id (rdata s)) (server s)))))))"
    have "deletePhone sdk s
            = (None, s\<lparr>server := poll_server (GetTelephonyProvidersEdgesPhone sdk (rd_Id (rdata s))) (Suc k) (snd (DeleteTelephonyProvidersEdgesPhone sdk (rd_Id (rdata s)) (server s))),
                        trace := trace s @ Call (DeleteTelephonyProvidersEdgesPhoneReq (rd_Id (rdata s)))
                                   # replicate (Suc k) (Call (GetTelephonyProvidersEdgesPhoneReq (rd_Id (rdata s))))\<rparr>)"
      by (rule deletePhone_gone_at [OF _ refl]) (use h in simp_all)
    thus "fst (deletePhone sdk s) = None
            \<and> trace (snd (deletePhone sdk s))
                = trace s @ Call (DeleteTelephonyProvidersEdgesPhoneReq (rd_Id (rdata s))) # replicate (Suc k) (Call (GetTelephonyProvidersEdgesPhoneReq (rd_Id (rdata s))))"
      by simp
  qed
qed


subsection \<open>Deleting on the example servers\<close>

lemma lingering_endpoints:
  "sdkGetIntegrationAction lingering_sdk i sv = ((Some stored_action, Some ok_response, None), sv)"
  "DeleteIntegrationsAction lingering_sdk i sv = ((Some ok_response, None), sv)"
  "GetIntegrationsCredential lingering_sdk i sv = ((Some (), Some ok_response, None), sv)"
  "DeleteIntegrationsCredential lingering_sdk i sv = ((Some ok_response, None), sv)"
  "GetOauthClient lingering_sdk i sv = ((Some active_client, Some ok_response, None), sv)"
  "PutOauthClient lingering_sdk i body sv = ((Some (), Some ok_response, None), sv)"
  "DeleteOauthClient lingering_sdk i sv = ((Some ok_response, None), sv)"
  "GetIdentityprovidersGeneric lingering_sdk sv = ((Some stored_saml, Some ok_response, None), sv)"
  "DeleteIdentityprovidersGeneric lingering_sdk sv = ((Some (), Some ok_response, None), sv)"
  "GetTelephonyProvidersEdgesPhone lingering_sdk i sv
     = ((Some (listed i ''desk'' ''active''), Some ok_response, None), sv)"
  "DeleteTelephonyProvidersEdgesPhone lingering_sdk i sv = ((Some ok_response, None), sv)"
  "getHomeDivisionID lingering_sdk = Inr ''home''"
  "30 div poll_interval lingering_sdk = Suc (Suc (Suc 0))"
  by (simp_all add: lingering_sdk_def offline_sdk_def)

lemma vanishing_endpoints:
  "sdkGetIntegrationAction vanishing_sdk i sv = ((None, Some missing_response, Some ''API Error: 404''), sv)"
  "DeleteIntegrationsAction vanishing_sdk i sv = ((Some ok_response, None), sv)"
  "GetIntegrationsCredential vanishing_sdk i sv = ((None, Some missing_response, Some ''API Error: 404''), sv)"
  "DeleteIntegrationsCredential vanishing_sdk i sv = ((Some ok_response, None), sv)"
  "GetOauthClient vanishing_sdk i sv = ((None, Some missing_response, Some ''API Error: 404''), sv)"
  "PutOauthClient vanishing_sdk i body sv = ((Some (), Some ok_response, None), sv)"
  "DeleteOauthClient vanishing_sdk i sv = ((Some ok_response, None), sv)"
  "GetIdentityprovidersGeneric vanishing_sdk sv = ((None, Some missing_response, Some ''API Error: 404''), sv)"
  "DeleteIdentityprovidersGeneric vanishing_sdk sv = ((Some (), Some ok_response, None), sv)"
  "GetTelephonyProvidersEdgesPhone vanishing_sdk i sv
     = ((None, Some missing_response, Some ''API Error: 404''), sv)"
  "DeleteTelephonyProvidersEdgesPhone vanishing_sdk i sv = ((Some ok_response, None), sv)"
  "getHomeDivisionID vanishing_sdk = Inr ''home''"
  by (simp_all add: vanishing_sdk_def offline_sdk_def)

lemmas run_defs =
  start_state_def bare_data_def invoke_def Let_def withRetries_def isStatus404_def
  on_rdata_def sleep_def not_found_def found_def found_alive_def reports_deleted_def
  listed_def missing_response_def

lemma lingering_update:
  "fst (updateOAuthClient lingering_sdk (on_rdata (Set_attr ''state'' (TString ''inactive'')) start_state)) = None"
  "trace (snd (updateOAuthClient lingering_sdk (on_rdata (Set_attr ''state'' (TString ''inactive'')) start_state)))
     = [Call (PutOauthClientReq ''id-1'' (updateOAuthClient_request (Set_attr ''state'' (TString ''inactive'') bare_data) None)), Sleep 5, Call (GetOauthClientReq ''id-1'')]"
  "rd_Id (rdata (snd (updateOAuthClient lingering_sdk (on_rdata (Set_attr ''state'' (TString ''inactive'')) start_state)))) = ''id-1''"
  "server (snd (updateOAuthClient lingering_sdk (on_rdata (Set_attr ''state'' (TString ''inactive'')) start_state))) = ()"
  by (simp_all add: updateOAuthClient_def buildOAuthRoles_def GetOk_def lingering_endpoints
      readOAuthClient_def withRetriesForRead_def readOAuthClient_attempt_def readOAuthClient_set_def
      active_client_def Set_attr_def set_or_nil_def run_defs)

lemma vanishing_update:
  "fst (updateOAuthClient vanishing_sdk (on_rdata (Set_attr ''state'' (TString ''inactive'')) start_state)) = None"
  "trace (snd (updateOAuthClient vanishing_sdk (on_rdata (Set_attr ''state'' (TString ''inactive'')) start_state)))
     = [Call (PutOauthClientReq ''id-1'' (updateOAuthClient_request (Set_attr ''state'' (TString ''inactive'') bare_data) None)), Sleep 5, Call (GetOauthClientReq ''id-1'')]"
  "rd_Id (rdata (snd (updateOAuthClient vanishing_sdk (on_rdata (Set_attr ''state'' (TString ''inactive'')) start_state)))) = []"
  "server (snd (updateOAuthClient vanishing_sdk (on_rdata (Set_attr ''state'' (TString ''inactive'')) start_state))) = ()"
  by (simp_all add: updateOAuthClient_def buildOAuthRoles_def GetOk_def vanishing_endpoints
      readOAuthClient_def withRetriesForRead_def readOAuthClient_attempt_def
      Set_attr_def SetId_def run_defs)

lemma lagging_get_simps:
  "lagging_get x None = ((Some x, Some ok_response, None), None)"
  "lagging_get x (Some (Suc n)) = ((Some x, Some ok_response, None), Some n)"
  "lagging_get x (Some 0) = ((None, Some missing_response, Some ''API Error: 404''), Some 0)"
  by (simp_all add: lagging_get_def)

lemma lagging_phone_simps:
  "lagging_phone i None = ((Some (listed i ''desk'' ''active''), Some ok_response, None), None)"
  "lagging_phone i (Some (Suc n)) = ((Some (listed i ''desk'' ''active''), Some ok_response, None), Some n)"
  "lagging_phone i (Some 0) = ((Some (listed i ''desk'' ''deleted''), Some ok_response, None), Some 0)"
  by (simp_all add: lagging_phone_def)

lemma lagging_endpoints:
  "sdkGetIntegrationAction lagging_sdk i = lagging_get stored_action"
  "DeleteIntegrationsAction lagging_sdk i sv = ((Some ok_response, None), Some (Suc (Suc 0)))"
  "GetIntegrationsCredential lagging_sdk i = lagging_get ()"
  "DeleteIntegrationsCredential lagging_sdk i sv = ((Some ok_response, None), Some (Suc (Suc 0)))"
  "GetOauthClient lagging_sdk i = lagging_get active_client"
  "PutOauthClient lagging_sdk i body sv = ((Some (), Some ok_response, None), sv)"
  "DeleteOauthClient lagging_sdk i sv = ((Some ok_response, None), Some (Suc (Suc 0)))"
  "GetIdentityprovidersGeneric lagging_sdk = lagging_get stored_saml"
  "DeleteIdentityprovidersGeneric lagging_sdk sv = ((Some (), Some ok_response, None), Some (Suc (Suc 0)))"
  "GetTelephonyProvidersEdgesPhone lagging_sdk i = lagging_phone i"
  "DeleteTelephonyProvidersEdgesPhone lagging_sdk i sv = ((Some ok_response, None), Some (Suc (Suc 0)))"
  "getHomeDivisionID lagging_sdk = Inr ''home''"
  "30 div poll_interval lagging_sdk = Suc (Suc (Suc 0))"
  by (simp_all add: lagging_sdk_def offline_sdk_def numeral_2_eq_2)

lemma lagging_update:
  "fst (updateOAuthClient lagging_sdk (on_rdata (Set_attr ''state'' (TString ''inactive'')) lagging_state)) = None"
  "trace (snd (updateOAuthClient lagging_sdk (on_rdata (Set_attr ''state'' (TString ''inactive'')) lagging_state)))
     = [Call (PutOauthClientReq ''id-1'' (updateOAuthClient_request (Set_attr ''state'' (TString ''inactive'') bare_data) None)), Sleep 5, Call (GetOauthClientReq ''id-1'')]"
  "rd_Id (rdata (snd (updateOAuthClient lagging_sdk (on_rdata (Set_attr ''state'' (TString ''inactive'')) lagging_state)))) = ''id-1''"
  "server (snd (updateOAuthClient lagging_sdk (on_rdata (Set_attr ''state'' (TString ''inactive'')) lagging_state))) = None"
  by (simp_all add: updateOAuthClient_def buildOAuthRoles_def GetOk_def lagging_endpoints
      lagging_get_simps lagging_state_def
      readOAuthClient_def withRetriesForRead_def readOAuthClient_attempt_def readOAuthClient_set_def
      active_client_def Set_attr_def set_or_nil_def run_defs)

text \<open>
  On the server where nothing is ever gone (poll interval 10 seconds) each delete
  operation ends retry-exhausted after the delete call and four polls; on the server
  that finds no entity each one succeeds at its first poll; on the server where a
  deleted entity stays visible for two more GETs each one succeeds at its third poll
  (the phone's third poll returns the phone in the state \<open>deleted\<close>).
\<close>

theorem delete_polls_until_gone_witness:
  "(\<exists>e s'. deleteIntegrationAction lingering_sdk start_state = (Some (RetryExhausted e), s')
       \<and> trace s' = [Call (DeleteIntegrationsActionReq ''id-1''), Call (GetIntegrationActionReq ''id-1''), Call (GetIntegrationActionReq ''id-1''), Call (GetIntegrationActionReq ''id-1''), Call (GetIntegrationActionReq ''id-1'')])
   \<and> (\<exists>(s0 :: unit state) pre.
          trace s0 = Call (DeleteIntegrationsActionReq ''id-1'') # pre
        \<and> trace (snd (deleteIntegrationAction vanishing_sdk start_state)) = trace s0 @ [Call (GetIntegrationActionReq ''id-1'')])
   \<and> (\<exists>e s'. deleteOAuthClient lingering_sdk start_state = (Some (RetryExhausted e), s')
       \<and> trace s' = [Call (PutOauthClientReq ''id-1'' (updateOAuthClient_request (Set_attr ''state'' (TString ''inactive'') bare_data) None)), Sleep 5, Call (GetOauthClientReq ''id-1''),
                      Call (DeleteOauthClientReq ''id-1''), Call (GetOauthClientReq ''id-1''), Call (GetOauthClientReq ''id-1''), Call (GetOauthClientReq ''id-1''), Call (GetOauthClientReq ''id-1'')])
   \<and> (\<exists>(s0 :: unit state) pre.
          trace s0 = [Call (PutOauthClientReq ''id-1'' (updateOAuthClient_request (Set_attr ''state'' (TString ''inactive'') bare_data) None)), Sleep 5, Call (GetOauthClientReq ''id-1'')]
                     @ Call (DeleteOauthClientReq []) # pre
        \<and> trace (snd (deleteOAuthClient vanishing_sdk start_state)) = trace s0 @ [Call (GetOauthClientReq [])])
   \<and> (\<exists>e s'. deleteCredential lingering_sdk start_state = (Some (RetryExhausted e), s')
       \<and> trace s' = [Call (DeleteIntegrationsCredentialReq ''id-1''), Call (GetIntegrationsCredentialReq ''id-1''), Call (GetIntegrationsCredentialReq ''id-1''), Call (GetIntegrationsCredentialReq ''id-1''), Call (GetIntegrationsCredentialReq ''id-1'')])
   \<and> (\<exists>(s0 :: unit state) pre.
          trace s0 = Call (DeleteIntegrationsCredentialReq ''id-1'') # pre
        \<and> trace (snd (deleteCredential vanishing_sdk start_state)) = trace s0 @ [Call (GetIntegrationsCredentialReq ''id-1'')])
   \<and> (\<exists>e s'. deleteIdpGeneric lingering_sdk start_state = (Some (RetryExhausted e), s')
       \<and> trace s' = [Call DeleteIdentityprovidersGenericReq, Call GetIdentityprovidersGenericReq, Call GetIdentityprovidersGenericReq, Call GetIdentityprovidersGenericReq, Call GetIdentityprovidersGenericReq])
   \<and> (\<exists>(s0 :: unit state) pre.
          trace s0 = Call DeleteIdentityprovidersGenericReq # pre
        \<and> trace (snd (deleteIdpGeneric vanishing_sdk start_state)) = trace s0 @ [Call GetIdentityprovidersGenericReq])
   \<and> (\<exists>e s'. deletePhone lingering_sdk start_state = (Some (RetryExhausted e), s')
       \<and> trace s' = [Call (DeleteTelephonyProvidersEdgesPhoneReq ''id-1''), Call (GetTelephonyProvidersEdgesPhoneReq ''id-1''), Call (GetTelephonyProvidersEdgesPhoneReq ''id-1''), Call (GetTelephonyProvidersEdgesPhoneReq ''id-1''), Call (GetTelephonyProvidersEdgesPhoneReq ''id-1'')])
   \<and> (\<exists>(s0 :: unit state) pre.
          trace s0 = Call (DeleteTelephonyProvidersEdgesPhoneReq ''id-1'') # pre
        \<and> trace (snd (deletePhone vanishing_sdk start_state)) = trace s0 @ [Call (GetTelephonyProvidersEdgesPhoneReq ''id-1'')])
   \<and> (fst (deleteIntegrationAction vanishing_sdk start_state) = None
      \<and> trace (snd (deleteIntegrationAction vanishing_sdk start_state))
          = [Call (DeleteIntegrationsActionReq ''id-1''), Call (GetIntegrationActionReq ''id-1'')])
   \<and> (fst (deleteIntegrationAction lagging_sdk lagging_state) = None
      \<and> trace (snd (deleteIntegrationAction lagging_sdk lagging_state))
          = [Call (DeleteIntegrationsActionReq ''id-1''), Call (GetIntegrationActionReq ''id-1''), Call (GetIntegrationActionReq ''id-1''), Call (GetIntegrationActionReq ''id-1'')])
   \<and> (fst (deleteOAuthClient vanishing_sdk start_state) = None
      \<and> trace (snd (deleteOAuthClient vanishing_sdk start_state))
          = [Call (PutOauthClientReq ''id-1'' (updateOAuthClient_request (Set_attr ''state'' (TString ''inactive'') bare_data) None)), Sleep 5, Call (GetOauthClientReq ''id-1''), Call (DeleteOauthClientReq []), Call (GetOauthClientReq [])])
   \<and> (fst (deleteOAuthClient lagging_sdk lagging_state) = None
      \<and> trace (snd (deleteOAuthClient lagging_sdk lagging_state))
          = [Call (PutOauthClientReq ''id-1'' (updateOAuthClient_request (Set_attr ''state'' (TString ''inactive'') bare_data) None)), Sleep 5, Call (GetOauthClientReq ''id-1''), Call (DeleteOauthClientReq ''id-1''), Call (GetOauthClientReq ''id-1''), Call (GetOauthClientReq ''id-1''), Call (GetOauthClientReq ''id-1'')])
   \<and> (fst (deleteCredential vanishing_sdk start_state) = None
      \<and> trace (snd (deleteCredential vanishing_sdk start_state))
          = [Call (DeleteIntegrationsCredentialReq ''id-1''), Call (GetIntegrationsCredentialReq ''id-1'')])
   \<and> (fst (deleteCredential lagging_sdk lagging_state) = None
      \<and> trace (snd (deleteCredential lagging_sdk lagging_state))
          = [Call (DeleteIntegrationsCredentialReq ''id-1''), Call (GetIntegrationsCredentialReq ''id-1''), Call (GetIntegrationsCredentialReq ''id-1''), Call (GetIntegrationsCredentialReq ''id-1'')])
   \<and> (fst (deleteIdpGeneric vanishing_sdk start_state) = None
      \<and> trace (snd (deleteIdpGeneric vanishing_sdk start_state))
          = [Call DeleteIdentityprovidersGenericReq, Call GetIdentityprovidersGenericReq])
   \<and> (fst (deleteIdpGeneric lagging_sdk lagging_state) = None
      \<and> trace (snd (deleteIdpGeneric lagging_sdk lagging_state))
          = [Call DeleteIdentityprovidersGenericReq, Call GetIdentityprovidersGenericReq, Call GetIdentityprovidersGenericReq, Call GetIdentityprovidersGenericReq])
   \<and> (fst (deletePhone vanishing_sdk start_state) = None
      \<and> trace (snd (deletePhone vanishing_sdk start_state))
          = [Call (DeleteTelephonyProvidersEdgesPhoneReq ''id-1''), Call (GetTelephonyProvidersEdgesPhoneReq ''id-1'')])
   \<and> (fst (deletePhone lagging_sdk lagging_state) = None
      \<and> trace (snd (deletePhone lagging_sdk lagging_state))
          = [Call (DeleteTelephonyProvidersEdgesPhoneReq ''id-1''), Call (GetTelephonyProvidersEdgesPhoneReq ''id-1''), Call (GetTelephonyProvidersEdgesPhoneReq ''id-1''), Call (GetTelephonyProvidersEdgesPhoneReq ''id-1'')])"
proof -
  note L = delete_polls_until_gone [of lingering_sdk start_state]
  note V = delete_polls_until_gone [of vanishing_sdk start_state]
  note G = delete_polls_until_gone [of lagging_sdk lagging_state]
  have h1: "snd (fst (DeleteIntegrationsAction lingering_sdk (rd_Id (rdata start_state)) (server start_state))) = None
          \<and> (\<forall>sv. found (fst (sdkGetIntegrationAction lingering_sdk (rd_Id (rdata start_state)) sv)))"
    by (simp add: lingering_endpoints run_defs)
  have c1: "(\<exists>e s'. deleteIntegrationAction lingering_sdk start_state = (Some (RetryExhausted e), s')
       \<and> trace s' = [Call (DeleteIntegrationsActionReq ''id-1''), Call (GetIntegrationActionReq ''id-1''), Call (GetIntegrationActionReq ''id-1''), Call (GetIntegrationActionReq ''id-1''), Call (GetIntegrationActionReq ''id-1'')])"
    using L [THEN conjunct1, rule_format, OF h1]
    by (simp add: lingering_endpoints start_state_def bare_data_def)
  have h2: "fst (deleteIntegrationAction vanishing_sdk start_state) = None"
    by (simp add: deleteIntegrationAction_def deleteIntegrationAction_attempt_def retry_loop_first_Done vanishing_endpoints run_defs)
  have c2: "(\<exists>(s0 :: unit state) pre.
          trace s0 = Call (DeleteIntegrationsActionReq ''id-1'') # pre
        \<and> trace (snd (deleteIntegrationAction vanishing_sdk start_state)) = trace s0 @ [Call (GetIntegrationActionReq ''id-1'')])"
    using V [THEN conjunct2, THEN conjunct1, rule_format, OF h2]
    by (simp add: vanishing_endpoints run_defs)
  have h5: "snd (fst (DeleteIntegrationsCredential lingering_sdk (rd_Id (rdata start_state)) (server start_state))) = None
          \<and> (\<forall>sv. found (fst (GetIntegrationsCredential lingering_sdk (rd_Id (rdata start_state)) sv)))"
    by (simp add: lingering_endpoints run_defs)
  have c5: "(\<exists>e s'. deleteCredential lingering_sdk start_state = (Some (RetryExhausted e), s')
       \<and> trace s' = [Call (DeleteIntegrationsCredentialReq ''id-1''), Call (GetIntegrationsCredentialReq ''id-1''), Call (GetIntegrationsCredentialReq ''id-1''), Call (GetIntegrationsCredentialReq ''id-1''), Call (GetIntegrationsCredentialReq ''id-1'')])"
    using L [THEN conjunct2, THEN conjunct2, THEN conjunct2, THEN conjunct2, THEN conjunct1, rule_format, OF h5]
    by (simp add: lingering_endpoints start_state_def bare_data_def)
  have h6: "fst (deleteCredential vanishing_sdk start_state) = None"
    by (simp add: deleteCredential_def deleteCredential_attempt_def retry_loop_first_Done vanishing_endpoints run_defs)
  have c6: "(\<exists>(s0 :: unit state) pre.
          trace s0 = Call (DeleteIntegrationsCredentialReq ''id-1'') # pre
        \<and> trace (snd (deleteCredential vanishing_sdk start_state)) = trace s0 @ [Call (GetIntegrationsCredentialReq ''id-1'')])"
    using V [THEN conjunct2, THEN conjunct2, THEN conjunct2, THEN conjunct2, THEN conjunct2, THEN conjunct1, rule_format, OF h6]
    by (simp add: vanishing_endpoints run_defs)
  have h7: "snd (snd (fst (DeleteIdentityprovidersGeneric lingering_sdk (server start_state)))) = None
          \<and> (\<forall>sv. found (fst (GetIdentityprovidersGeneric lingering_sdk sv)))"
    by (simp add: lingering_endpoints run_defs)
  have c7: "(\<exists>e s'. deleteIdpGeneric lingering_sdk start_state = (Some (RetryExhausted e), s')
       \<and> trace s' = [Call DeleteIdentityprovidersGenericReq, Call GetIdentityprovidersGenericReq, Call GetIdentityprovidersGenericReq, Call GetIdentityprovidersGenericReq, Call GetIdentityprovidersGenericReq])"
    using L [THEN conjunct2, THEN conjunct2, THEN conjunct2, THEN conjunct2, THEN conjunct2, THEN conjunct2, THEN conjunct1, rule_format, OF h7]
    by (simp add: lingering_endpoints start_state_def bare_data_def)
  have h8: "fst (deleteIdpGeneric vanishing_sdk start_state) = None"
    by (simp add: deleteIdpGeneric_def deleteIdpGeneric_attempt_def retry_loop_first_Done vanishing_endpoints run_defs)
  have c8: "(\<exists>(s0 :: unit state) pre.
          trace s0 = Call DeleteIdentityprovidersGenericReq # pre
        \<and> trace (snd (deleteIdpGeneric vanishing_sdk start_state)) = trace s0 @ [Call GetIdentityprovidersGenericReq])"
    using V [THEN conjunct2, THEN conjunct2, THEN conjunct2, THEN conjunct2, THEN conjunct2, THEN conjunct2, THEN conjunct2, THEN conjunct1, rule_format, OF h8]
    by (simp add: vanishing_endpoints run_defs)
  have h9: "snd (fst (DeleteTelephonyProvidersEdgesPhone lingering_sdk (rd_Id (rdata start_state)) (server start_state))) = None
          \<and> (\<forall>sv. found_alive Entity_State (fst (GetTelephonyProvidersEdgesPhone lingering_sdk (rd_Id (rdata start_state)) sv)))"
    by (simp add: lingering_endpoints run_defs)
  have c9: "(\<exists>e s'. deletePhone lingering_sdk start_state = (Some (RetryExhausted e), s')
       \<and> trace s' = [Call (DeleteTelephonyProvidersEdgesPhoneReq ''id-1''), Call (GetTelephonyProvidersEdgesPhoneReq ''id-1''), Call (GetTelephonyProvidersEdgesPhoneReq ''id-1''), Call (GetTelephonyProvidersEdgesPhoneReq ''id-1''), Call (GetTelephonyProvidersEdgesPhoneReq ''id-1'')])"
    using L [THEN conjunct2, THEN conjunct2, THEN conjunct2, THEN conjunct2, THEN conjunct2, THEN conjunct2, THEN conjunct2, THEN conjunct2, THEN conjunct1, rule_format, OF h9]
    by (simp add: lingering_endpoints start_state_def bare_data_def)
  have h10: "fst (deletePhone vanishing_sdk start_state) = None"
    by (simp add: deletePhone_def deletePhone_attempt_def retry_loop_first_Done vanishing_endpoints run_defs)
  have c10: "(\<exists>(s0 :: unit state) pre.
          trace s0 = Call (DeleteTelephonyProvidersEdgesPhoneReq ''id-1'') # pre
        \<and> trace (snd (deletePhone vanishing_sdk start_state)) = trace s0 @ [Call (GetTelephonyProvidersEdgesPhoneReq ''id-1'')])"
    using V [THEN conjunct2, THEN conjunct2, THEN conjunct2, THEN conjunct2, THEN conjunct2, THEN conjunct2, THEN conjunct2, THEN conjunct2, THEN conjunct2, THEN conjunct1, rule_format, OF h10]
    by (simp add: vanishing_endpoints run_defs)
  have h3: "fst (updateOAuthClient lingering_sdk (on_rdata (Set_attr ''state'' (TString ''inactive'')) start_state)) = None
          \<and> snd (fst (DeleteOauthClient lingering_sdk (rd_Id (rdata (snd (updateOAuthClient lingering_sdk (on_rdata (Set_attr ''state'' (TString ''inactive'')) start_state)))))
                        (server (snd (updateOAuthClient lingering_sdk (on_rdata (Set_attr ''state'' (TString ''inactive'')) start_state)))))) = None
          \<and> (\<forall>sv. found_alive client_State
                     (fst (GetOauthClient lingering_sdk (rd_Id (rdata (snd (updateOAuthClient lingering_sdk (on_rdata (Set_attr ''state'' (TString ''inactive'')) start_state))))) sv)))"
    by (simp add: lingering_update lingering_endpoints found_alive_def active_client_def)
  have c3: "(\<exists>e s'. deleteOAuthClient lingering_sdk start_state = (Some (RetryExhausted e), s')
       \<and> trace s' = [Call (PutOauthClientReq ''id-1'' (updateOAuthClient_request (Set_attr ''state'' (TString ''inactive'') bare_data) None)), Sleep 5, Call (GetOauthClientReq ''id-1''),
                      Call (DeleteOauthClientReq ''id-1''), Call (GetOauthClientReq ''id-1''), Call (GetOauthClientReq ''id-1''), Call (GetOauthClientReq ''id-1''), Call (GetOauthClientReq ''id-1'')])"
    using L [THEN conjunct2, THEN conjunct2, THEN conjunct1, rule_format, OF h3]
    by (simp add: lingering_update lingering_endpoints)
  have h4: "fst (deleteOAuthClient vanishing_sdk start_state) = None"
    by (simp add: deleteOAuthClient_def deleteOAuthClient_attempt_def case_prod_beta Let_def
        vanishing_update retry_loop_first_Done vanishing_endpoints invoke_def withRetries_def
        isStatus404_def missing_response_def)
  from V [THEN conjunct2, THEN conjunct2, THEN conjunct2, THEN conjunct1, rule_format, OF h4]
  obtain s1 s0 :: "unit state" and pre where
    u: "updateOAuthClient vanishing_sdk (on_rdata (Set_attr ''state'' (TString ''inactive'')) start_state) = (None, s1)"
    and t0: "trace s0 = trace s1 @ Call (DeleteOauthClientReq (rd_Id (rdata s1))) # pre"
    and t1: "trace (snd (deleteOAuthClient vanishing_sdk start_state))
               = trace s0 @ [Call (GetOauthClientReq (rd_Id (rdata s1)))]"
    by blast
  from u have s1: "s1 = snd (updateOAuthClient vanishing_sdk (on_rdata (Set_attr ''state'' (TString ''inactive'')) start_state))" by simp
  have c4: "(\<exists>(s0 :: unit state) pre.
          trace s0 = [Call (PutOauthClientReq ''id-1'' (updateOAuthClient_request (Set_attr ''state'' (TString ''inactive'') bare_data) None)), Sleep 5, Call (GetOauthClientReq ''id-1'')]
                     @ Call (DeleteOauthClientReq []) # pre
        \<and> trace (snd (deleteOAuthClient vanishing_sdk start_state)) = trace s0 @ [Call (GetOauthClientReq [])])"
    by (rule exI [of _ s0], rule exI [of _ pre]) (use t0 t1 in \<open>simp add: s1 vanishing_update\<close>)
  have hv10: "snd (fst (DeleteIntegrationsAction vanishing_sdk (rd_Id (rdata start_state)) (server start_state))) = None
          \<and> 0 \<le> 30 div poll_interval vanishing_sdk
          \<and> (\<forall>j<0. found (fst (sdkGetIntegrationAction vanishing_sdk (rd_Id (rdata start_state)) (poll_server (sdkGetIntegrationAction vanishing_sdk (rd_Id (rdata start_state))) j (snd (DeleteIntegrationsAction vanishing_sdk (rd_Id (rdata start_state)) (server start_state)))))))
          \<and> not_found (fst (sdkGetIntegrationAction vanishing_sdk (rd_Id (rdata start_state)) (poll_server (sdkGetIntegrationAction vanishing_sdk (rd_Id (rdata start_state))) (0) (snd (DeleteIntegrationsAction vanishing_sdk (rd_Id (rdata start_state)) (server start_state))))))"
    by (simp add: vanishing_endpoints run_defs)
  have cv10: "(fst (deleteIntegrationAction vanishing_sdk start_state) = None
      \<and> trace (snd (deleteIntegrationAction vanishing_sdk start_state))
          = [Call (DeleteIntegrationsActionReq ''id-1''), Call (GetIntegrationActionReq ''id-1'')])"
    using V [THEN conjunct2, THEN conjunct2, THEN conjunct2, THEN conjunct2, THEN conjunct2, THEN conjunct2, THEN conjunct2, THEN conjunct2, THEN conjunct2, THEN conjunct2, THEN conjunct1, rule_format, OF hv10]
    by (simp add: start_state_def bare_data_def)
  have hg10: "snd (fst (DeleteIntegrationsAction lagging_sdk (rd_Id (rdata lagging_state)) (server lagging_state))) = None
          \<and> Suc (Suc 0) \<le> 30 div poll_interval lagging_sdk
          \<and> (\<forall>j<Suc (Suc 0). found (fst (sdkGetIntegrationAction lagging_sdk (rd_Id (rdata lagging_state)) (poll_server (sdkGetIntegrationAction lagging_sdk (rd_Id (rdata lagging_state))) j (snd (DeleteIntegrationsAction lagging_sdk (rd_Id (rdata lagging_state)) (server lagging_state)))))))
          \<and> not_found (fst (sdkGetIntegrationAction lagging_sdk (rd_Id (rdata lagging_state)) (poll_server (sdkGetIntegrationAction lagging_sdk (rd_Id (rdata lagging_state))) (Suc (Suc 0)) (snd (DeleteIntegrationsAction lagging_sdk (rd_Id (rdata lagging_state)) (server lagging_state))))))"
    by (simp add: lagging_endpoints lagging_get_simps All_less_Suc lagging_state_def bare_data_def not_found_def found_def found_alive_def reports_deleted_def isStatus404_def missing_response_def listed_def)
  have cg10: "(fst (deleteIntegrationAction lagging_sdk lagging_state) = None
      \<and> trace (snd (deleteIntegrationAction lagging_sdk lagging_state))
          = [Call (DeleteIntegrationsActionReq ''id-1''), Call (GetIntegrationActionReq ''id-1''), Call (GetIntegrationActionReq ''id-1''), Call (GetIntegrationActionReq ''id-1'')])"
    using G [THEN conjunct2, THEN conjunct2, THEN conjunct2, THEN conjunct2, THEN conjunct2, THEN conjunct2, THEN conjunct2, THEN conjunct2, THEN conjunct2, THEN conjunct2, THEN conjunct1, rule_format, OF hg10]
    by (simp add: lagging_state_def bare_data_def)
  have hv11: "updateOAuthClient vanishing_sdk (on_rdata (Set_attr ''state'' (TString ''inactive'')) start_state) = (None, snd (updateOAuthClient vanishing_sdk (on_rdata (Set_attr ''state'' (TString ''inactive'')) start_state)))
          \<and> snd (fst (DeleteOauthClient vanishing_sdk (rd_Id (rdata (snd (updateOAuthClient vanishing_sdk (on_rdata (Set_attr ''state'' (TString ''inactive'')) start_state))))) (server (snd (updateOAuthClient vanishing_sdk (on_rdata (Set_attr ''state'' (TString ''inactive'')) start_state)))))) = None
          \<and> 0 \<le> 30 div poll_interval vanishing_sdk
          \<and> (\<forall>j<0. found_alive client_State (fst (GetOauthClient vanishing_sdk (rd_Id (rdata (snd (updateOAuthClient vanishing_sdk (on_rdata (Set_attr ''state'' (TString ''inactive'')) start_state))))) (poll_server (GetOauthClient vanishing_sdk (rd_Id (rdata (snd (updateOAuthClient vanishing_sdk (on_rdata (Set_attr ''state'' (TString ''inactive'')) start_state)))))) j (snd (DeleteOauthClient vanishing_sdk (rd_Id (rdata (snd (updateOAuthClient vanishing_sdk (on_rdata (Set_attr ''state'' (TString ''inactive'')) start_state))))) (server (snd (updateOAuthClient vanishing_sdk (on_rdata (Set_attr ''state'' (TString ''inactive'')) start_state))))))))))
          \<and> (not_found (fst (GetOauthClient vanishing_sdk (rd_Id (rdata (snd (updateOAuthClient vanishing_sdk (on_rdata (Set_attr ''state'' (TString ''inactive'')) start_state))))) (poll_server (GetOauthClient vanishing_sdk (rd_Id (rdata (snd (updateOAuthClient vanishing_sdk (on_rdata (Set_attr ''state'' (TString ''inactive'')) start_state)))))) (0) (snd (DeleteOauthClient vanishing_sdk (rd_Id (rdata (snd (updateOAuthClient vanishing_sdk (on_rdata (Set_attr ''state'' (TString ''inactive'')) start_state))))) (server (snd (updateOAuthClient vanishing_sdk (on_rdata (Set_attr ''state'' (TString ''inactive'')) start_state))))))))) \<or> reports_deleted client_State (fst (GetOauthClient vanishing_sdk (rd_Id (rdata (snd (updateOAuthClient vanishing_sdk (on_rdata (Set_attr ''state'' (TString ''inactive'')) start_state))))) (poll_server (GetOauthClient vanishing_sdk (rd_Id (rdata (snd (updateOAuthClient vanishing_sdk (on_rdata (Set_attr ''state'' (TString ''inactive'')) start_state)))))) (0) (snd (DeleteOauthClient vanishing_sdk (rd_Id (rdata (snd (updateOAuthClient vanishing_sdk (on_rdata (Set_attr ''state'' (TString ''inactive'')) start_state))))) (server (snd (updateOAuthClient vanishing_sdk (on_rdata (Set_attr ''state'' (TString ''inactive'')) start_state))))))))))"
    by (simp add: vanishing_update prod_eq_iff vanishing_endpoints not_found_def found_def found_alive_def reports_deleted_def isStatus404_def missing_response_def listed_def)
  have cv11: "(fst (deleteOAuthClient vanishing_sdk start_state) = None
      \<and> trace (snd (deleteOAuthClient vanishing_sdk start_state))
          = [Call (PutOauthClientReq ''id-1'' (updateOAuthClient_request (Set_attr ''state'' (TString ''inactive'') bare_data) None)), Sleep 5, Call (GetOauthClientReq ''id-1''), Call (DeleteOauthClientReq []), Call (GetOauthClientReq [])])"
    using V [THEN conjunct2, THEN conjunct2, THEN conjunct2, THEN conjunct2, THEN conjunct2, THEN conjunct2, THEN conjunct2, THEN conjunct2, THEN conjunct2, THEN conjunct2, THEN conjunct2, THEN conjunct1, rule_format, OF hv11]
    by (simp add: vanishing_update)
  have hg11: "updateOAuthClient lagging_sdk (on_rdata (Set_attr ''state'' (TString ''inactive'')) lagging_state) = (None, snd (updateOAuthClient lagging_sdk (on_rdata (Set_attr ''state'' (TString ''inactive'')) lagging_state)))
          \<and> snd (fst (DeleteOauthClient lagging_sdk (rd_Id (rdata (snd (updateOAuthClient lagging_sdk (on_rdata (Set_attr ''state'' (TString ''inactive'')) lagging_state))))) (server (snd (updateOAuthClient lagging_sdk (on_rdata (Set_attr ''state'' (TString ''inactive'')) lagging_state)))))) = None
          \<and> Suc (Suc 0) \<le> 30 div poll_interval lagging_sdk
          \<and> (\<forall>j<Suc (Suc 0). found_alive client_State (fst (GetOauthClient lagging_sdk (rd_Id (rdata (snd (updateOAuthClient lagging_sdk (on_rdata (Set_attr ''state'' (TString ''inactive'')) lagging_state))))) (poll_server (GetOauthClient lagging_sdk (rd_Id (rdata (snd (updateOAuthClient lagging_sdk (on_rdata (Set_attr ''state'' (TString ''inactive'')) lagging_state)))))) j (snd (DeleteOauthClient lagging_sdk (rd_Id (rdata (snd (updateOAuthClient lagging_sdk (on_rdata (Set_attr ''state'' (TString ''inactive'')) lagging_state))))) (server (snd (updateOAuthClient lagging_sdk (on_rdata (Set_attr ''state'' (TString ''inactive'')) lagging_state))))))))))
          \<and> (not_found (fst (GetOauthClient lagging_sdk (rd_Id (rdata (snd (updateOAuthClient lagging_sdk (on_rdata (Set_attr ''state'' (TString ''inactive'')) lagging_state))))) (poll_server (GetOauthClient lagging_sdk (rd_Id (rdata (snd (updateOAuthClient lagging_sdk (on_rdata (Set_attr ''state'' (TString ''inactive'')) lagging_state)))))) (Suc (Suc 0)) (snd (DeleteOauthClient lagging_sdk (rd_Id (rdata (snd (updateOAuthClient lagging_sdk (on_rdata (Set_attr ''state'' (TString ''inactive'')) lagging_state))))) (server (snd (updateOAuthClient lagging_sdk (on_rdata (Set_attr ''state'' (TString ''inactive'')) lagging_state))))))))) \<or> reports_deleted client_State (fst (GetOauthClient lagging_sdk (rd_Id (rdata (snd (updateOAuthClient lagging_sdk (on_rdata (Set_attr ''state'' (TString ''inactive'')) lagging_state))))) (poll_server (GetOauthClient lagging_sdk (rd_Id (rdata (snd (updateOAuthClient lagging_sdk (on_rdata (Set_attr ''state'' (TString ''inactive'')) lagging_state)))))) (Suc (Suc 0)) (snd (DeleteOauthClient lagging_sdk (rd_Id (rdata (snd (updateOAuthClient lagging_sdk (on_rdata (Set_attr ''state'' (TString ''inactive'')) lagging_state))))) (server (snd (updateOAuthClient lagging_sdk (on_rdata (Set_attr ''state'' (TString ''inactive'')) lagging_state))))))))))"
    by (simp add: lagging_update prod_eq_iff lagging_endpoints lagging_get_simps All_less_Suc active_client_def not_found_def found_def found_alive_def reports_deleted_def isStatus404_def missing_response_def listed_def)
  have cg11: "(fst (deleteOAuthClient lagging_sdk lagging_state) = None
      \<and> trace (snd (deleteOAuthClient lagging_sdk lagging_state))
          = [Call (PutOauthClientReq ''id-1'' (updateOAuthClient_request (Set_attr ''state'' (TString ''inactive'') bare_data) None)), Sleep 5, Call (GetOauthClientReq ''id-1''), Call (DeleteOauthClientReq ''id-1''), Call (GetOauthClientReq ''id-1''), Call (GetOauthClientReq ''id-1''), Call (GetOauthClientReq ''id-1'')])"
    using G [THEN conjunct2, THEN conjunct2, THEN conjunct2, THEN conjunct2, THEN conjunct2, THEN conjunct2, THEN conjunct2, THEN conjunct2, THEN conjunct2, THEN conjunct2, THEN conjunct2, THEN conjunct1, rule_format, OF hg11]
    by (simp add: lagging_update)
  have hv12: "snd (fst (DeleteIntegrationsCredential vanishing_sdk (rd_Id (rdata start_state)) (server start_state))) = None
          \<and> 0 \<le> 30 div poll_interval vanishing_sdk
          \<and> (\<forall>j<0. found (fst (GetIntegrationsCredential vanishing_sdk (rd_Id (rdata start_state)) (poll_server (GetIntegrationsCredential vanishing_sdk (rd_Id (rdata start_state))) j (snd (DeleteIntegrationsCredential vanishing_sdk (rd_Id (rdata start_state)) (server start_state)))))))
          \<and> not_found (fst (GetIntegrationsCredential vanishing_sdk (rd_Id (rdata start_state)) (poll_server (GetIntegrationsCredential vanishing_sdk (rd_Id (rdata start_state))) (0) (snd (DeleteIntegrationsCredential vanishing_sdk (rd_Id (rdata start_state)) (server start_state))))))"
    by (simp add: vanishing_endpoints run_defs)
  have cv12: "(fst (deleteCredential vanishing_sdk start_state) = None
      \<and> trace (snd (deleteCredential vanishing_sdk start_state))
          = [Call (DeleteIntegrationsCredentialReq ''id-1''), Call (GetIntegrationsCredentialReq ''id-1'')])"
    using V [THEN conjunct2, THEN conjunct2, THEN conjunct2, THEN conjunct2, THEN conjunct2, THEN conjunct2, THEN conjunct2, THEN conjunct2, THEN conjunct2, THEN conjunct2, THEN conjunct2, THEN conjunct2, THEN conjunct1, rule_format, OF hv12]
    by (simp add: start_state_def bare_data_def)
  have hg12: "snd (fst (DeleteIntegrationsCredential lagging_sdk (rd_Id (rdata lagging_state)) (server lagging_state))) = None
          \<and> Suc (Suc 0) \<le> 30 div poll_interval lagging_sdk
          \<and> (\<forall>j<Suc (Suc 0). found (fst (GetIntegrationsCredential lagging_sdk (rd_Id (rdata lagging_state)) (poll_server (GetIntegrationsCredential lagging_sdk (rd_Id (rdata lagging_state))) j (snd (DeleteIntegrationsCredential lagging_sdk (rd_Id (rdata lagging_state)) (server lagging_state)))))))
          \<and> not_found (fst (GetIntegrationsCredential lagging_sdk (rd_Id (rdata lagging_state)) (poll_server (GetIntegrationsCredential lagging_sdk (rd_Id (rdata lagging_state))) (Suc (Suc 0)) (snd (DeleteIntegrationsCredential lagging_sdk (rd_Id (rdata lagging_state)) (server lagging_state))))))"
    by (simp add: lagging_endpoints lagging_get_simps All_less_Suc lagging_state_def bare_data_def not_found_def found_def found_alive_def reports_deleted_def isStatus404_def missing_response_def listed_def)
  have cg12: "(fst (deleteCredential lagging_sdk lagging_state) = None
      \<and> trace (snd (deleteCredential lagging_sdk lagging_state))
          = [Call (DeleteIntegrationsCredentialReq ''id-1''), Call (GetIntegrationsCredentialReq ''id-1''), Call (GetIntegrationsCredentialReq ''id-1''), Call (GetIntegrationsCredentialReq ''id-1'')])"
    using G [THEN conjunct2, THEN conjunct2, THEN conjunct2, THEN conjunct2, THEN conjunct2, THEN conjunct2, THEN conjunct2, THEN conjunct2, THEN conjunct2, THEN conjunct2, THEN conjunct2, THEN conjunct2, THEN conjunct1, rule_format, OF hg12]
    by (simp add: lagging_state_def bare_data_def)
  have hv13: "snd (snd (fst (DeleteIdentityprovidersGeneric vanishing_sdk (server start_state)))) = None
          \<and> 0 \<le> 30 div poll_interval vanishing_sdk
          \<and> (\<forall>j<0. found (fst (GetIdentityprovidersGeneric vanishing_sdk (poll_server (GetIdentityprovidersGeneric vanishing_sdk) j (snd (DeleteIdentityprovidersGeneric vanishing_sdk (server start_state)))))))
          \<and> not_found (fst (GetIdentityprovidersGeneric vanishing_sdk (poll_server (GetIdentityprovidersGeneric vanishing_sdk) (0) (snd (DeleteIdentityprovidersGeneric vanishing_sdk (server start_state))))))"
    by (simp add: vanishing_endpoints run_defs)
  have cv13: "(fst (deleteIdpGeneric vanishing_sdk start_state) = None
      \<and> trace (snd (deleteIdpGeneric vanishing_sdk start_state))
          = [Call DeleteIdentityprovidersGenericReq, Call GetIdentityprovidersGenericReq])"
    using V [THEN conjunct2, THEN conjunct2, THEN conjunct2, THEN conjunct2, THEN conjunct2, THEN conjunct2, THEN conjunct2, THEN conjunct2, THEN conjunct2, THEN conjunct2, THEN conjunct2, THEN conjunct2, THEN conjunct2, THEN conjunct1, rule_format, OF hv13]
    by (simp add: start_state_def bare_data_def)
  have hg13: "snd (snd (fst (DeleteIdentityprovidersGeneric lagging_sdk (server lagging_state)))) = None
          \<and> Suc (Suc 0) \<le> 30 div poll_interval lagging_sdk
          \<and> (\<forall>j<Suc (Suc 0). found (fst (GetIdentityprovidersGeneric lagging_sdk (poll_server (GetIdentityprovidersGeneric lagging_sdk) j (snd (DeleteIdentityprovidersGeneric lagging_sdk (server lagging_state)))))))
          \<and> not_found (fst (GetIdentityprovidersGeneric lagging_sdk (poll_server (GetIdentityprovidersGeneric lagging_sdk) (Suc (Suc 0)) (snd (DeleteIdentityprovidersGeneric lagging_sdk (server lagging_state))))))"
    by (simp add: lagging_endpoints lagging_get_simps All_less_Suc lagging_state_def bare_data_def not_found_def found_def found_alive_def reports_deleted_def isStatus404_def missing_response_def listed_def)
  have cg13: "(fst (deleteIdpGeneric lagging_sdk lagging_state) = None
      \<and> trace (snd (deleteIdpGeneric lagging_sdk lagging_state))
          = [Call DeleteIdentityprovidersGenericReq, Call GetIdentityprovidersGenericReq, Call GetIdentityprovidersGenericReq, Call GetIdentityprovidersGenericReq])"
    using G [THEN conjunct2, THEN conjunct2, THEN conjunct2, THEN conjunct2, THEN conjunct2, THEN conjunct2, THEN conjunct2, THEN conjunct2, THEN conjunct2, THEN conjunct2, THEN conjunct2, THEN conjunct2, THEN conjunct2, THEN conjunct1, rule_format, OF hg13]
    by (simp add: lagging_state_def bare_data_def)
  have hv14: "snd (fst (DeleteTelephonyProvidersEdgesPhone vanishing_sdk (rd_Id (rdata start_state)) (server start_state))) = None
          \<and> 0 \<le> 30 div poll_interval vanishing_sdk
          \<and> (\<forall>j<0. found_alive Entity_State (fst (GetTelephonyProvidersEdgesPhone vanishing_sdk (rd_Id (rdata start_state)) (poll_server (GetTelephonyProvidersEdgesPhone vanishing_sdk (rd_Id (rdata start_state))) j (snd (DeleteTelephonyProvidersEdgesPhone vanishing_sdk (rd_Id (rdata start_state)) (server start_state)))))))
          \<and> (not_found (fst (GetTelephonyProvidersEdgesPhone vanishing_sdk (rd_Id (rdata start_state)) (poll_server (GetTelephonyProvidersEdgesPhone vanishing_sdk (rd_Id (rdata start_state))) (0) (snd (DeleteTelephonyProvidersEdgesPhone vanishing_sdk (rd_Id (rdata start_state)) (server start_state)))))) \<or> reports_deleted Entity_State (fst (GetTelephonyProvidersEdgesPhone vanishing_sdk (rd_Id (rdata start_state)) (poll_server (GetTelephonyProvidersEdgesPhone vanishing_sdk (rd_Id (rdata start_state))) (0) (snd (DeleteTelephonyProvidersEdgesPhone vanishing_sdk (rd_Id (rdata start_state)) (server start_state)))))))"
    by (simp add: vanishing_endpoints run_defs)
  have cv14: "(fst (deletePhone vanishing_sdk start_state) = None
      \<and> trace (snd (deletePhone vanishing_sdk start_state))
          = [Call (DeleteTelephonyProvidersEdgesPhoneReq ''id-1''), Call (GetTelephonyProvidersEdgesPhoneReq ''id-1'')])"
    using V [THEN conjunct2, THEN conjunct2, THEN conjunct2, THEN conjunct2, THEN conjunct2, THEN conjunct2, THEN conjunct2, THEN conjunct2, THEN conjunct2, THEN conjunct2, THEN conjunct2, THEN conjunct2, THEN conjunct2, THEN conjunct2, rule_format, OF hv14]
    by (simp add: start_state_def bare_data_def)
  have hg14: "snd (fst (DeleteTelephonyProvidersEdgesPhone lagging_sdk (rd_Id (rdata lagging_state)) (server lagging_state))) = None
          \<and> Suc (Suc 0) \<le> 30 div poll_interval lagging_sdk
          \<and> (\<forall>j<Suc (Suc 0). found_alive Entity_State (fst (GetTelephonyProvidersEdgesPhone lagging_sdk (rd_Id (rdata lagging_state)) (poll_server (GetTelephonyProvidersEdgesPhone lagging_sdk (rd_Id (rdata lagging_state))) j (snd (DeleteTelephonyProvidersEdgesPhone lagging_sdk (rd_Id (rdata lagging_state)) (server lagging_state)))))))
          \<and> (not_found (fst (GetTelephonyProvidersEdgesPhone lagging_sdk (rd_Id (rdata lagging_state)) (poll_server (GetTelephonyProvidersEdgesPhone lagging_sdk (rd_Id (rdata lagging_state))) (Suc (Suc 0)) (snd (DeleteTelephonyProvidersEdgesPhone lagging_sdk (rd_Id (rdata lagging_state)) (server lagging_state)))))) \<or> reports_deleted Entity_State (fst (GetTelephonyProvidersEdgesPhone lagging_sdk (rd_Id (rdata lagging_state)) (poll_server (GetTelephonyProvidersEdgesPhone lagging_sdk (rd_Id (rdata lagging_state))) (Suc (Suc 0)) (snd (DeleteTelephonyProvidersEdgesPhone lagging_sdk (rd_Id (rdata lagging_state)) (server lagging_state)))))))"
    by (simp add: lagging_endpoints lagging_get_simps lagging_phone_simps All_less_Suc lagging_state_def bare_data_def not_found_def found_def found_alive_def reports_deleted_def isStatus404_def missing_response_def listed_def)
  have cg14: "(fst (deletePhone lagging_sdk lagging_state) = None
      \<and> trace (snd (deletePhone lagging_sdk lagging_state))
          = [Call (DeleteTelephonyProvidersEdgesPhoneReq ''id-1''), Call (GetTelephonyProvidersEdgesPhoneReq ''id-1''), Call (GetTelephonyProvidersEdgesPhoneReq ''id-1''), Call (GetTelephonyProvidersEdgesPhoneReq ''id-1'')])"
    using G [THEN conjunct2, THEN conjunct2, THEN conjunct2, THEN conjunct2, THEN conjunct2, THEN conjunct2, THEN conjunct2, THEN conjunct2, THEN conjunct2, THEN conjunct2, THEN conjunct2, THEN conjunct2, THEN conjunct2, THEN conjunct2, rule_format, OF hg14]
    by (simp add: lagging_state_def bare_data_def)
  from c1 c2 c3 c4 c5 c6 c7 c8 c9 c10 cv10 [THEN conjunct1] cv10 [THEN conjunct2] cg10 [THEN conjunct1] cg10 [THEN conjunct2] cv11 [THEN conjunct1] cv11 [THEN conjunct2] cg11 [THEN conjunct1] cg11 [THEN conjunct2] cv12 [THEN conjunct1] cv12 [THEN conjunct2] cg12 [THEN conjunct1] cg12 [THEN conjunct2] cv13 [THEN conjunct1] cv13 [THEN conjunct2] cg13 [THEN conjunct1] cg13 [THEN conjunct2] cv14 [THEN conjunct1] cv14 [THEN conjunct2] cg14 [THEN conjunct1] cg14 [THEN conjunct2]
  show ?thesis by (intro conjI)
qed


subsection \<open>Reads that find the entity absent\<close>

lemma withRetriesForRead_not_exhausted:
  "\<not> rd_IsNewResource (rdata s) \<Longrightarrow>
   fst (withRetriesForRead sdk timeout method s) \<noteq> Some (RetryExhausted e)"
  by (auto simp: withRetriesForRead_def split: prod.splits attempt.splits)

lemma retry_loop_never_done:
  assumes step: "\<And>s. rdata s = d \<Longrightarrow>
                   \<exists>e s'. method s = (RetryableError e, s') \<and> rdata s' = d \<and> trace s' = trace s @ [ev]"
    and d: "rdata s = d"
  shows "\<exists>e s'. retry_loop n method s = (Some (RetryExhausted e), s')
            \<and> rdata s' = d \<and> trace s' = trace s @ replicate (Suc n) ev"
  using d
proof (induction n arbitrary: s)
  case 0
  from step [OF 0] show ?case by auto
next
  case (Suc n)
  from step [OF Suc.prems] obtain e s1 where
    s1: "method s = (RetryableError e, s1)" "rdata s1 = d" "trace s1 = trace s @ [ev]" by blast
  from Suc.IH [OF s1(2)] obtain e' s' where
    "retry_loop n method s1 = (Some (RetryExhausted e'), s')" "rdata s' = d"
    "trace s' = trace s1 @ replicate (Suc n) ev" by blast
  with s1 show ?case by (auto simp: replicate_append_same)
qed

lemma readIntegrationAction_attempt_not_found:
  "not_found (fst (sdkGetIntegrationAction sdk (rd_Id (rdata s)) (server s))) \<Longrightarrow>
   \<exists>e s1. readIntegrationAction_attempt sdk s = (RetryableError e, s1) \<and> rdata s1 = rdata s
      \<and> trace s1 = trace s @ [Call (GetIntegrationActionReq (rd_Id (rdata s)))]"
  by (auto simp: readIntegrationAction_attempt_def invoke_def Let_def not_found_def
      split: prod.splits option.splits if_splits)

lemma readIntegrationAction_refresh_not_found:
  assumes old: "\<not> rd_IsNewResource (rdata s)"
    and nf: "not_found (fst (sdkGetIntegrationAction sdk (rd_Id (rdata s)) (server s)))"
  shows "fst (readIntegrationAction sdk s) = None
       \<and> rd_Id (rdata (snd (readIntegrationAction sdk s))) = []
       \<and> trace (snd (readIntegrationAction sdk s)) = trace s @ [Call (GetIntegrationActionReq (rd_Id (rdata s)))]"
proof -
  from readIntegrationAction_attempt_not_found [OF nf] obtain e s1 where
    "readIntegrationAction_attempt sdk s = (RetryableError e, s1)" "trace s1 = trace s @ [Call (GetIntegrationActionReq (rd_Id (rdata s)))]" by blast
  with old show ?thesis
    by (simp add: readIntegrationAction_def withRetriesForRead_def on_rdata_def SetId_def)
qed

lemma readIntegrationAction_create_not_found:
  fixes sdk :: "'sv sdk"
  assumes new: "rd_IsNewResource (rdata s)"
    and nf: "\<forall>sv. not_found (fst (sdkGetIntegrationAction sdk (rd_Id (rdata s)) sv))"
  shows "\<exists>e s'. readIntegrationAction sdk s = (Some (RetryExhausted e), s')
           \<and> trace s' = trace s @ replicate (Suc (30 div poll_interval sdk)) (Call (GetIntegrationActionReq (rd_Id (rdata s))))"
proof -
  have step: "\<And>t. rdata t = rdata s \<Longrightarrow>
        \<exists>e t'. readIntegrationAction_attempt sdk t = (RetryableError e, t') \<and> rdata t' = rdata s
             \<and> trace t' = trace t @ [Call (GetIntegrationActionReq (rd_Id (rdata s)))]"
  proof -
    fix t :: "'sv state" assume t: "rdata t = rdata s"
    with nf have "not_found (fst (sdkGetIntegrationAction sdk (rd_Id (rdata t)) (server t)))" by simp
    from readIntegrationAction_attempt_not_found [OF this] t
    show "\<exists>e t'. readIntegrationAction_attempt sdk t = (RetryableError e, t') \<and> rdata t' = rdata s
             \<and> trace t' = trace t @ [Call (GetIntegrationActionReq (rd_Id (rdata s)))]"
      by simp
  qed
  from retry_loop_never_done [OF step refl, of "30 div poll_interval sdk"] new
  show ?thesis
    by (auto simp: readIntegrationAction_def withRetriesForRead_def withRetries_def)
qed

lemma readIntegrationAction_exhausted_only_new:
  "fst (readIntegrationAction sdk s) = Some (RetryExhausted e) \<Longrightarrow> rd_IsNewResource (rdata s)"
  using withRetriesForRead_not_exhausted [of s sdk 30 "readIntegrationAction_attempt sdk" e]
  by (auto simp: readIntegrationAction_def)

lemma readOAuthClient_attempt_not_found:
  "not_found (fst (GetOauthClient sdk (rd_Id (rdata s)) (server s))) \<Longrightarrow>
   \<exists>e s1. readOAuthClient_attempt sdk s = (RetryableError e, s1) \<and> rdata s1 = rdata s
      \<and> trace s1 = trace s @ [Call (GetOauthClientReq (rd_Id (rdata s)))]"
  by (auto simp: readOAuthClient_attempt_def invoke_def Let_def not_found_def
      split: prod.splits option.splits if_splits)

lemma readOAuthClient_refresh_not_found:
  assumes old: "\<not> rd_IsNewResource (rdata s)"
    and nf: "not_found (fst (GetOauthClient sdk (rd_Id (rdata s)) (server s)))"
  shows "fst (readOAuthClient sdk s) = None
       \<and> rd_Id (rdata (snd (readOAuthClient sdk s))) = []
       \<and> trace (snd (readOAuthClient sdk s)) = trace s @ [Call (GetOauthClientReq (rd_Id (rdata s)))]"
proof -
  from readOAuthClient_attempt_not_found [OF nf] obtain e s1 where
    "readOAuthClient_attempt sdk s = (RetryableError e, s1)" "trace s1 = trace s @ [Call (GetOauthClientReq (rd_Id (rdata s)))]" by blast
  with old show ?thesis
    by (simp add: readOAuthClient_def withRetriesForRead_def on_rdata_def SetId_def)
qed

lemma readOAuthClient_create_not_found:
  fixes sdk :: "'sv sdk"
  assumes new: "rd_IsNewResource (rdata s)"
    and nf: "\<forall>sv. not_found (fst (GetOauthClient sdk (rd_Id (rdata s)) sv))"
  shows "\<exists>e s'. readOAuthClient sdk s = (Some (RetryExhausted e), s')
           \<and> trace s' = trace s @ replicate (Suc (30 div poll_interval sdk)) (Call (GetOauthClientReq (rd_Id (rdata s))))"
proof -
  have step: "\<And>t. rdata t = rdata s \<Longrightarrow>
        \<exists>e t'. readOAuthClient_attempt sdk t = (RetryableError e, t') \<and> rdata t' = rdata s
             \<and> trace t' = trace t @ [Call (GetOauthClientReq (rd_Id (rdata s)))]"
  proof -
    fix t :: "'sv state" assume t: "rdata t = rdata s"
    with nf have "not_found (fst (GetOauthClient sdk (rd_Id (rdata t)) (server t)))" by simp
    from readOAuthClient_attempt_not_found [OF this] t
    show "\<exists>e t'. readOAuthClient_attempt sdk t = (RetryableError e, t') \<and> rdata t' = rdata s
             \<and> trace t' = trace t @ [Call (GetOauthClientReq (rd_Id (rdata s)))]"
      by simp
  qed
  from retry_loop_never_done [OF step refl, of "30 div poll_interval sdk"] new
  show ?thesis
    by (auto simp: readOAuthClient_def withRetriesForRead_def withRetries_def)
qed

lemma readOAuthClient_exhausted_only_new:
  "fst (readOAuthClient sdk s) = Some (RetryExhausted e) \<Longrightarrow> rd_IsNewResource (rdata s)"
  using withRetriesForRead_not_exhausted [of s sdk 30 "readOAuthClient_attempt sdk" e]
  by (auto simp: readOAuthClient_def)

lemma readIdpGeneric_attempt_not_found:
  "not_found (fst (GetIdentityprovidersGeneric sdk (server s))) \<Longrightarrow>
   \<exists>e s1. readIdpGeneric_attempt sdk s = (RetryableError e, s1) \<and> rdata s1 = rdata s
      \<and> trace s1 = trace s @ [Call GetIdentityprovidersGenericReq]"
  by (auto simp: readIdpGeneric_attempt_def invoke_def Let_def not_found_def
      split: prod.splits option.splits if_splits)

lemma readIdpGeneric_refresh_not_found:
  assumes old: "\<not> rd_IsNewResource (rdata s)"
    and nf: "not_found (fst (GetIdentityprovidersGeneric sdk (server s)))"
  shows "fst (readIdpGeneric sdk s) = None
       \<and> rd_Id (rdata (snd (readIdpGeneric sdk s))) = []
       \<and> trace (snd (readIdpGeneric sdk s)) = trace s @ [Call GetIdentityprovidersGenericReq]"
proof -
  from readIdpGeneric_attempt_not_found [OF nf] obtain e s1 where
    "readIdpGeneric_attempt sdk s = (RetryableError e, s1)" "trace s1 = trace s @ [Call GetIdentityprovidersGenericReq]" by blast
  with old show ?thesis
    by (simp add: readIdpGeneric_def withRetriesForRead_def on_rdata_def SetId_def)
qed

lemma readIdpGeneric_create_not_found:
  fixes sdk :: "'sv sdk"
  assumes new: "rd_IsNewResource (rdata s)"
    and nf: "\<forall>sv. not_found (fst (GetIdentityprovidersGeneric sdk sv))"
  shows "\<exists>e s'. readIdpGeneric sdk s = (Some (RetryExhausted e), s')
           \<and> trace s' = trace s @ replicate (Suc (30 div poll_interval sdk)) (Call GetIdentityprovidersGenericReq)"
proof -
  have step: "\<And>t. rdata t = rdata s \<Longrightarrow>
        \<exists>e t'. readIdpGeneric_attempt sdk t = (RetryableError e, t') \<and> rdata t' = rdata s
             \<and> trace t' = trace t @ [Call GetIdentityprovidersGenericReq]"
  proof -
    fix t :: "'sv state" assume t: "rdata t = rdata s"
    with nf have "not_found (fst (GetIdentityprovidersGeneric sdk (server t)))" by simp
    from readIdpGeneric_attempt_not_found [OF this] t
    show "\<exists>e t'. readIdpGeneric_attempt sdk t = (RetryableError e, t') \<and> rdata t' = rdata s
             \<and> trace t' = trace t @ [Call GetIdentityprovidersGenericReq]"
      by simp
  qed
  from retry_loop_never_done [OF step refl, of "30 div poll_interval sdk"] new
  show ?thesis
    by (auto simp: readIdpGeneric_def withRetriesForRead_def withRetries_def)
qed

lemma readIdpGeneric_exhausted_only_new:
  "fst (readIdpGeneric sdk s) = Some (RetryExhausted e) \<Longrightarrow> rd_IsNewResource (rdata s)"
  using withRetriesForRead_not_exhausted [of s sdk 30 "readIdpGeneric_attempt sdk" e]
  by (auto simp: readIdpGeneric_def)

lemma readIntegrationAction_attempt_Done:
  assumes a: "fst (readIntegrationAction_attempt sdk s) = Done"
  shows "readIntegrationAction sdk s = (None, snd (readIntegrationAction_attempt sdk s))"
proof (cases "rd_IsNewResource (rdata s)")
  case True
  with a show ?thesis
    by (simp add: readIntegrationAction_def withRetriesForRead_def withRetries_def
        retry_loop_first_Done)
next
  case False
  with a show ?thesis
    by (cases "readIntegrationAction_attempt sdk s")
       (auto simp: readIntegrationAction_def withRetriesForRead_def)
qed

lemma readIntegrationAction_template_not_found:
  assumes act: "sdkGetIntegrationAction sdk (rd_Id (rdata s)) (server s) = ((action, resp, None), sv1)"
    and nf: "not_found (fst (sdkGetIntegrationActionTemplate sdk (rd_Id (rdata s)) ''requesttemplate.vm'' sv1))
           \<or> (\<exists>reqTemp resp2 sv2.
                sdkGetIntegrationActionTemplate sdk (rd_Id (rdata s)) ''requesttemplate.vm'' sv1
                  = ((reqTemp, resp2, None), sv2)
              \<and> not_found (fst (sdkGetIntegrationActionTemplate sdk (rd_Id (rdata s)) ''successtemplate.vm'' sv2)))"
  shows "fst (readIntegrationAction sdk s) = None
       \<and> rd_Id (rdata (snd (readIntegrationAction sdk s))) = []"
proof -
  have a: "fst (readIntegrationAction_attempt sdk s) = Done
         \<and> rd_Id (rdata (snd (readIntegrationAction_attempt sdk s))) = []"
    using act nf
    by (auto simp: readIntegrationAction_attempt_def invoke_def Let_def not_found_def
        on_rdata_def SetId_def split: prod.splits option.splits)
  with readIntegrationAction_attempt_Done [of sdk s] show ?thesis by simp
qed

text \<open>
  C9. For the reads of an integration action, an OAuth client and the generic identity
  provider: when the resource is not being created and the GET answers 404, the read
  returns no error, resets the resource ID to the empty string and has issued that one
  GET; when the resource is being created and every GET answers 404, the read fails as
  retry-exhausted after \<open>1 + 30 div poll_interval\<close> GETs; a read fails as retry-exhausted
  only for a resource that is being created. The read of an integration action also
  resets the ID and returns no error when the action is found and one of its two
  templates answers 404.
\<close>

theorem read_not_found_clears_state:
  fixes sdk :: "'sv sdk"
  shows "(\<not> rd_IsNewResource (rdata s) \<and> not_found (fst (sdkGetIntegrationAction sdk (rd_Id (rdata s)) (server s)))
        \<longrightarrow> fst (readIntegrationAction sdk s) = None
            \<and> rd_Id (rdata (snd (readIntegrationAction sdk s))) = []
            \<and> trace (snd (readIntegrationAction sdk s)) = trace s @ [Call (GetIntegrationActionReq (rd_Id (rdata s)))])
     \<and> (rd_IsNewResource (rdata s) \<and> (\<forall>sv. not_found (fst (sdkGetIntegrationAction sdk (rd_Id (rdata s)) sv)))
        \<longrightarrow> (\<exists>e s'. readIntegrationAction sdk s = (Some (RetryExhausted e), s')
              \<and> trace s' = trace s @ replicate (Suc (30 div poll_interval sdk)) (Call (GetIntegrationActionReq (rd_Id (rdata s))))))
     \<and> (\<forall>e. fst (readIntegrationAction sdk s) = Some (RetryExhausted e) \<longrightarrow> rd_IsNewResource (rdata s))
     \<and> (\<not> rd_IsNewResource (rdata s) \<and> not_found (fst (GetOauthClient sdk (rd_Id (rdata s)) (server s)))
        \<longrightarrow> fst (readOAuthClient sdk s) = None
            \<and> rd_Id (rdata (snd (readOAuthClient sdk s))) = []
            \<and> trace (snd (readOAuthClient sdk s)) = trace s @ [Call (GetOauthClientReq (rd_Id (rdata s)))])
     \<and> (rd_IsNewResource (rdata s) \<and> (\<forall>sv. not_found (fst (GetOauthClient sdk (rd_Id (rdata s)) sv)))
        \<longrightarrow> (\<exists>e s'. readOAuthClient sdk s = (Some (RetryExhausted e), s')
              \<and> trace s' = trace s @ replicate (Suc (30 div poll_interval sdk)) (Call (GetOauthClientReq (rd_Id (rdata s))))))
     \<and> (\<forall>e. fst (readOAuthClient sdk s) = Some (RetryExhausted e) \<longrightarrow> rd_IsNewResource (rdata s))
     \<and> (\<not> rd_IsNewResource (rdata s) \<and> not_found (fst (GetIdentityprovidersGeneric sdk (server s)))
        \<longrightarrow> fst (readIdpGeneric sdk s) = None
            \<and> rd_Id (rdata (snd (readIdpGeneric sdk s))) = []
            \<and> trace (snd (readIdpGeneric sdk s)) = trace s @ [Call GetIdentityprovidersGenericReq])
     \<and> (rd_IsNewResource (rdata s) \<and> (\<forall>sv. not_found (fst (GetIdentityprovidersGeneric sdk sv)))
        \<longrightarrow> (\<exists>e s'. readIdpGeneric sdk s = (Some (RetryExhausted e), s')
              \<and> trace s' = trace s @ replicate (Suc (30 div poll_interval sdk)) (Call GetIdentityprovidersGenericReq)))
     \<and> (\<forall>e. fst (readIdpGeneric sdk s) = Some (RetryExhausted e) \<longrightarrow> rd_IsNewResource (rdata s))
     \<and> (\<forall>action resp sv1.
          sdkGetIntegrationAction sdk (rd_Id (rdata s)) (server s) = ((action, resp, None), sv1)
          \<and> (not_found (fst (sdkGetIntegrationActionTemplate sdk (rd_Id (rdata s))
                                ''requesttemplate.vm'' sv1))
             \<or> (\<exists>reqTemp resp2 sv2.
                  sdkGetIntegrationActionTemplate sdk (rd_Id (rdata s)) ''requesttemplate.vm'' sv1
                    = ((reqTemp, resp2, None), sv2)
                \<and> not_found (fst (sdkGetIntegrationActionTemplate sdk (rd_Id (rdata s))
                                      ''successtemplate.vm'' sv2))))
        \<longrightarrow> fst (readIntegrationAction sdk s) = None
            \<and> rd_Id (rdata (snd (readIntegrationAction sdk s))) = [])"
proof (intro conjI)
  show "(\<not> rd_IsNewResource (rdata s) \<and> not_found (fst (sdkGetIntegrationAction sdk (rd_Id (rdata s)) (server s)))
        \<longrightarrow> fst (readIntegrationAction sdk s) = None
            \<and> rd_Id (rdata (snd (readIntegrationAction sdk s))) = []
            \<and> trace (snd (readIntegrationAction sdk s)) = trace s @ [Call (GetIntegrationActionReq (rd_Id (rdata s)))])"
    using readIntegrationAction_refresh_not_found [of s sdk] by blast
  show "(rd_IsNewResource (rdata s) \<and> (\<forall>sv. not_found (fst (sdkGetIntegrationAction sdk (rd_Id (rdata s)) sv)))
        \<longrightarrow> (\<exists>e s'. readIntegrationAction sdk s = (Some (RetryExhausted e), s')
              \<and> trace s' = trace s @ replicate (Suc (30 div poll_interval sdk)) (Call (GetIntegrationActionReq (rd_Id (rdata s))))))"
    using readIntegrationAction_create_not_found [of s sdk] by blast
  show "(\<forall>e. fst (readIntegrationAction sdk s) = Some (RetryExhausted e) \<longrightarrow> rd_IsNewResource (rdata s))"
    using readIntegrationAction_exhausted_only_new [of sdk s] by blast
  show "(\<not> rd_IsNewResource (rdata s) \<and> not_found (fst (GetOauthClient sdk (rd_Id (rdata s)) (server s)))
        \<longrightarrow> fst (readOAuthClient sdk s) = None
            \<and> rd_Id (rdata (snd (readOAuthClient sdk s))) = []
            \<and> trace (snd (readOAuthClient sdk s)) = trace s @ [Call (GetOauthClientReq (rd_Id (rdata s)))])"
    using readOAuthClient_refresh_not_found [of s sdk] by blast
  show "(rd_IsNewResource (rdata s) \<and> (\<forall>sv. not_found (fst (GetOauthClient sdk (rd_Id (rdata s)) sv)))
        \<longrightarrow> (\<exists>e s'. readOAuthClient sdk s = (Some (RetryExhausted e), s')
              \<and> trace s' = trace s @ replicate (Suc (30 div poll_interval sdk)) (Call (GetOauthClientReq (rd_Id (rdata s))))))"
    using readOAuthClient_create_not_found [of s sdk] by blast
  show "(\<forall>e. fst (readOAuthClient sdk s) = Some (RetryExhausted e) \<longrightarrow> rd_IsNewResource (rdata s))"
    using readOAuthClient_exhausted_only_new [of sdk s] by blast
  show "(\<not> rd_IsNewResource (rdata s) \<and> not_found (fst (GetIdentityprovidersGeneric sdk (server s)))
        \<longrightarrow> fst (readIdpGeneric sdk s) = None
            \<and> rd_Id (rdata (snd (readIdpGeneric sdk s))) = []
            \<and> trace (snd (readIdpGeneric sdk s)) = trace s @ [Call GetIdentityprovidersGenericReq])"
    using readIdpGeneric_refresh_not_found [of s sdk] by blast
  show "(rd_IsNewResource (rdata s) \<and> (\<forall>sv. not_found (fst (GetIdentityprovidersGeneric sdk sv)))
        \<longrightarrow> (\<exists>e s'. readIdpGeneric sdk s = (Some (RetryExhausted e), s')
              \<and> trace s' = trace s @ replicate (Suc (30 div poll_interval sdk)) (Call GetIdentityprovidersGenericReq)))"
    using readIdpGeneric_create_not_found [of s sdk] by blast
  show "(\<forall>e. fst (readIdpGeneric sdk s) = Some (RetryExhausted e) \<longrightarrow> rd_IsNewResource (rdata s))"
    using readIdpGeneric_exhausted_only_new [of sdk s] by blast
  show "(\<forall>action resp sv1.
          sdkGetIntegrationAction sdk (rd_Id (rdata s)) (server s) = ((action, resp, None), sv1)
          \<and> (not_found (fst (sdkGetIntegrationActionTemplate sdk (rd_Id (rdata s))
                                ''requesttemplate.vm'' sv1))
             \<or> (\<exists>reqTemp resp2 sv2.
                  sdkGetIntegrationActionTemplate sdk (rd_Id (rdata s)) ''requesttemplate.vm'' sv1
                    = ((reqTemp, resp2, None), sv2)
                \<and> not_found (fst (sdkGetIntegrationActionTemplate sdk (rd_Id (rdata s))
                                      ''successtemplate.vm'' sv2))))
        \<longrightarrow> fst (readIntegrationAction sdk s) = None
            \<and> rd_Id (rdata (snd (readIntegrationAction sdk s))) = [])"
    using readIntegrationAction_template_not_found [of sdk s] by blast
qed

lemma templateless_endpoints:
  "sdkGetIntegrationAction templateless_sdk i sv = ((Some stored_action, Some ok_response, None), sv)"
  "sdkGetIntegrationActionTemplate templateless_sdk i n sv
     = ((None, Some missing_response, Some ''API Error: 404''), sv)"
  by (simp_all add: templateless_sdk_def lingering_sdk_def offline_sdk_def)

lemma vanishing_poll_interval: "30 div poll_interval vanishing_sdk = Suc (Suc (Suc 0))"
  by (simp add: vanishing_sdk_def offline_sdk_def)

lemma created_state_simps:
  "rd_IsNewResource (rdata created_state)" "rd_Id (rdata created_state) = ''id-1''"
  "trace created_state = []" "server created_state = ()"
  "\<not> rd_IsNewResource (rdata start_state)" "rd_Id (rdata start_state) = ''id-1''"
  "trace start_state = []" "server start_state = ()"
  by (simp_all add: created_state_def start_state_def bare_data_def)

theorem read_not_found_clears_state_witness:
  "(fst (readIntegrationAction vanishing_sdk start_state) = None
      \<and> rd_Id (rdata (snd (readIntegrationAction vanishing_sdk start_state))) = []
      \<and> trace (snd (readIntegrationAction vanishing_sdk start_state)) = [Call (GetIntegrationActionReq ''id-1'')])
   \<and> (\<exists>e s'. readIntegrationAction vanishing_sdk created_state = (Some (RetryExhausted e), s')
          \<and> trace s' = [Call (GetIntegrationActionReq ''id-1''), Call (GetIntegrationActionReq ''id-1''), Call (GetIntegrationActionReq ''id-1''), Call (GetIntegrationActionReq ''id-1'')])
   \<and> (fst (readOAuthClient vanishing_sdk start_state) = None
      \<and> rd_Id (rdata (snd (readOAuthClient vanishing_sdk start_state))) = []
      \<and> trace (snd (readOAuthClient vanishing_sdk start_state)) = [Call (GetOauthClientReq ''id-1'')])
   \<and> (\<exists>e s'. readOAuthClient vanishing_sdk created_state = (Some (RetryExhausted e), s')
          \<and> trace s' = [Call (GetOauthClientReq ''id-1''), Call (GetOauthClientReq ''id-1''), Call (GetOauthClientReq ''id-1''), Call (GetOauthClientReq ''id-1'')])
   \<and> (fst (readIdpGeneric vanishing_sdk start_state) = None
      \<and> rd_Id (rdata (snd (readIdpGeneric vanishing_sdk start_state))) = []
      \<and> trace (snd (readIdpGeneric vanishing_sdk start_state)) = [Call GetIdentityprovidersGenericReq])
   \<and> (\<exists>e s'. readIdpGeneric vanishing_sdk created_state = (Some (RetryExhausted e), s')
          \<and> trace s' = [Call GetIdentityprovidersGenericReq, Call GetIdentityprovidersGenericReq, Call GetIdentityprovidersGenericReq, Call GetIdentityprovidersGenericReq])
   \<and> rd_IsNewResource (rdata created_state)
   \<and> (fst (readIntegrationAction templateless_sdk start_state) = None
      \<and> rd_Id (rdata (snd (readIntegrationAction templateless_sdk start_state))) = [])"
proof -
  note V = read_not_found_clears_state [of start_state vanishing_sdk]
  note W = read_not_found_clears_state [of created_state vanishing_sdk]
  note T = read_not_found_clears_state [of start_state templateless_sdk]
  have h0: "\<not> rd_IsNewResource (rdata start_state) \<and> not_found (fst (sdkGetIntegrationAction vanishing_sdk (rd_Id (rdata start_state)) (server start_state)))"
    by (simp add: vanishing_endpoints created_state_simps not_found_def isStatus404_def missing_response_def)
  have c0: "(fst (readIntegrationAction vanishing_sdk start_state) = None
      \<and> rd_Id (rdata (snd (readIntegrationAction vanishing_sdk start_state))) = []
      \<and> trace (snd (readIntegrationAction vanishing_sdk start_state)) = [Call (GetIntegrationActionReq ''id-1'')])"
    using V [THEN conjunct1, rule_format, OF h0]
    by (simp add: created_state_simps)
  have h1: "rd_IsNewResource (rdata created_state) \<and> (\<forall>sv. not_found (fst (sdkGetIntegrationAction vanishing_sdk (rd_Id (rdata created_state)) sv)))"
    by (simp add: vanishing_endpoints created_state_simps not_found_def isStatus404_def missing_response_def)
  have c1: "(\<exists>e s'. readIntegrationAction vanishing_sdk created_state = (Some (RetryExhausted e), s')
          \<and> trace s' = [Call (GetIntegrationActionReq ''id-1''), Call (GetIntegrationActionReq ''id-1''), Call (GetIntegrationActionReq ''id-1''), Call (GetIntegrationActionReq ''id-1'')])"
    using W [THEN conjunct2, THEN conjunct1, rule_format, OF h1]
    by (simp add: created_state_simps vanishing_poll_interval)
  from c1 obtain e2 where h2: "fst (readIntegrationAction vanishing_sdk created_state) = Some (RetryExhausted e2)"
    by auto
  have c2: "rd_IsNewResource (rdata created_state)"
    using W [THEN conjunct2, THEN conjunct2, THEN conjunct1, rule_format, OF h2] .
  have h3: "\<not> rd_IsNewResource (rdata start_state) \<and> not_found (fst (GetOauthClient vanishing_sdk (rd_Id (rdata start_state)) (server start_state)))"
    by (simp add: vanishing_endpoints created_state_simps not_found_def isStatus404_def missing_response_def)
  have c3: "(fst (readOAuthClient vanishing_sdk start_state) = None
      \<and> rd_Id (rdata (snd (readOAuthClient vanishing_sdk start_state))) = []
      \<and> trace (snd (readOAuthClient vanishing_sdk start_state)) = [Call (GetOauthClientReq ''id-1'')])"
    using V [THEN conjunct2, THEN conjunct2, THEN conjunct2, THEN conjunct1, rule_format, OF h3]
    by (simp add: created_state_simps)
  have h4: "rd_IsNewResource (rdata created_state) \<and> (\<forall>sv. not_found (fst (GetOauthClient vanishing_sdk (rd_Id (rdata created_state)) sv)))"
    by (simp add: vanishing_endpoints created_state_simps not_found_def isStatus404_def missing_response_def)
  have c4: "(\<exists>e s'. readOAuthClient vanishing_sdk created_state = (Some (RetryExhausted e), s')
          \<and> trace s' = [Call (GetOauthClientReq ''id-1''), Call (GetOauthClientReq ''id-1''), Call (GetOauthClientReq ''id-1''), Call (GetOauthClientReq ''id-1'')])"
    using W [THEN conjunct2, THEN conjunct2, THEN conjunct2, THEN conjunct2, THEN conjunct1, rule_format, OF h4]
    by (simp add: created_state_simps vanishing_poll_interval)
  from c4 obtain e5 where h5: "fst (readOAuthClient vanishing_sdk created_state) = Some (RetryExhausted e5)"
    by auto
  have c5: "rd_IsNewResource (rdata created_state)"
    using W [THEN conjunct2, THEN conjunct2, THEN conjunct2, THEN conjunct2, THEN conjunct2, THEN conjunct1, rule_format, OF h5] .
  have h6: "\<not> rd_IsNewResource (rdata start_state) \<and> not_found (fst (GetIdentityprovidersGeneric vanishing_sdk (server start_state)))"
    by (simp add: vanishing_endpoints created_state_simps not_found_def isStatus404_def missing_response_def)
  have c6: "(fst (readIdpGeneric vanishing_sdk start_state) = None
      \<and> rd_Id (rdata (snd (readIdpGeneric vanishing_sdk start_state))) = []
      \<and> trace (snd (readIdpGeneric vanishing_sdk start_state)) = [Call GetIdentityprovidersGenericReq])"
    using V [THEN conjunct2, THEN conjunct2, THEN conjunct2, THEN conjunct2, THEN conjunct2, THEN conjunct2, THEN conjunct1, rule_format, OF h6]
    by (simp add: created_state_simps)
  have h7: "rd_IsNewResource (rdata created_state) \<and> (\<forall>sv. not_found (fst (GetIdentityprovidersGeneric vanishing_sdk sv)))"
    by (simp add: vanishing_endpoints created_state_simps not_found_def isStatus404_def missing_response_def)
  have c7: "(\<exists>e s'. readIdpGeneric vanishing_sdk created_state = (Some (RetryExhausted e), s')
          \<and> trace s' = [Call GetIdentityprovidersGenericReq, Call GetIdentityprovidersGenericReq, Call GetIdentityprovidersGenericReq, Call GetIdentityprovidersGenericReq])"
    using W [THEN conjunct2, THEN conjunct2, THEN conjunct2, THEN conjunct2, THEN conjunct2, THEN conjunct2, THEN conjunct2, THEN conjunct1, rule_format, OF h7]
    by (simp add: created_state_simps vanishing_poll_interval)
  from c7 obtain e8 where h8: "fst (readIdpGeneric vanishing_sdk created_state) = Some (RetryExhausted e8)"
    by auto
  have c8: "rd_IsNewResource (rdata created_state)"
    using W [THEN conjunct2, THEN conjunct2, THEN conjunct2, THEN conjunct2, THEN conjunct2, THEN conjunct2, THEN conjunct2, THEN conjunct2, THEN conjunct1, rule_format, OF h8] .
  have h9: "sdkGetIntegrationAction templateless_sdk (rd_Id (rdata start_state)) (server start_state)
               = ((Some stored_action, Some ok_response, None), ())
          \<and> (not_found (fst (sdkGetIntegrationActionTemplate templateless_sdk (rd_Id (rdata start_state))
                                ''requesttemplate.vm'' ()))
             \<or> (\<exists>reqTemp resp2 sv2.
                  sdkGetIntegrationActionTemplate templateless_sdk (rd_Id (rdata start_state)) ''requesttemplate.vm'' ()
                    = ((reqTemp, resp2, None), sv2)
                \<and> not_found (fst (sdkGetIntegrationActionTemplate templateless_sdk (rd_Id (rdata start_state))
                                      ''successtemplate.vm'' sv2))))"
    by (simp add: templateless_endpoints created_state_simps not_found_def isStatus404_def missing_response_def)
  have c9: "(fst (readIntegrationAction templateless_sdk start_state) = None
      \<and> rd_Id (rdata (snd (readIntegrationAction templateless_sdk start_state))) = [])"
    using T [THEN conjunct2, THEN conjunct2, THEN conjunct2, THEN conjunct2, THEN conjunct2, THEN conjunct2, THEN conjunct2, THEN conjunct2, THEN conjunct2, rule_format, OF h9] .
  from c0 c1 c2 c3 c4 c5 c6 c7 c8 c9 show ?thesis by blast
qed


subsection \<open>Update of an integration action under a version mismatch\<close>

text \<open>
  The response that the closure of \<open>updateIntegrationAction\<close> returns is the response of
  its GET, also when the PATCH failed.
\<close>

lemma updateIntegrationAction_attempt_response:
  assumes "sdkGetIntegrationAction sdk (rd_Id (rdata s)) (server s) = ((Some action, resp, None), sv1)"
    and "buildSdkActionConfig (rdata s) = Inr config"
  shows "fst (fst (updateIntegrationAction_attempt sdk name category s)) = resp"
  using assms
  by (auto simp: updateIntegrationAction_attempt_def invoke_def Let_def
      split: prod.splits option.splits sum.splits)

text \<open>
  Hence a rejected PATCH is retried only if the predicate accepts the GET's response:
  when it does not, the update fails after one GET and one PATCH, whatever the response
  of the PATCH was.
\<close>

lemma updateIntegrationAction_patch_rejected:
  assumes get: "sdkGetIntegrationAction sdk (rd_Id (rdata s)) (server s) = ((Some action, resp, None), sv1)"
    and config: "buildSdkActionConfig (rdata s) = Inr config"
    and body: "body = \<lparr>upd_Category = Some (Get_string (rdata s) ''category''),
                       upd_Name = Some (Get_string (rdata s) ''name''),
                       upd_Config = Some config, upd_Version = action_Version action\<rparr>"
    and patch: "PatchIntegrationsAction sdk (rd_Id (rdata s)) body sv1 = ((u, patchResp, Some err), sv2)"
    and get_ok: "\<not> isVersionMismatch sdk resp"
  shows "fst (updateIntegrationAction sdk s)
           = Some (Diag (''Failed to update integration action '' @ Get_string (rdata s) ''name'' @ '': '' @ err))
       \<and> trace (snd (updateIntegrationAction sdk s))
           = trace s @ [Call (GetIntegrationActionReq (rd_Id (rdata s))),
                        Call (PatchIntegrationsActionReq (rd_Id (rdata s)) body)]"
proof -
  have a: "updateIntegrationAction_attempt sdk (Get_string (rdata s) ''name'')
             (Get_string (rdata s) ''category'') s
           = ((resp, Some (Diag (''Failed to update integration action ''
                                   @ Get_string (rdata s) ''name'' @ '': '' @ err))),
              s\<lparr>server := sv2,
                trace := trace s @ [Call (GetIntegrationActionReq (rd_Id (rdata s))),
                                    Call (PatchIntegrationsActionReq (rd_Id (rdata s)) body)]\<rparr>)"
    using get config patch
    by (simp add: updateIntegrationAction_attempt_def invoke_def Let_def body)
  show ?thesis
    using a get_ok
    by (cases "retry_limit sdk")
       (simp_all add: updateIntegrationAction_def retryWhen_def Let_def)
qed

lemma racing_endpoints:
  "sdkGetIntegrationAction racing_sdk i sv = ((Some stored_action, Some ok_response, None), sv)"
  "PatchIntegrationsAction racing_sdk i body (Suc n)
     = ((None, Some conflict_response, Some ''API Error: 409''), n)"
  "PatchIntegrationsAction racing_sdk i body 0 = ((Some (), Some ok_response, None), 0)"
  "isVersionMismatch racing_sdk (Some r) \<longleftrightarrow> StatusCode r = 409"
  "retry_limit racing_sdk = Suc (Suc (Suc 0))"
  by (simp_all add: racing_sdk_def offline_sdk_def)

lemma lookup_action_Id: "rd_Id lookup_action_data = ''id-1''"
  by (simp add: lookup_action_data_def)

lemma lookup_action_config:
  "buildSdkActionConfig lookup_action_data
     = Inr \<lparr>Request = Some empty_Requestconfig, Response = Some empty_Responseconfig\<rparr>"
  by (simp add: buildSdkActionConfig_def buildSdkActionConfigRequest_def
      buildSdkActionConfigResponse_def lookup_action_data_def Get_list_def)

text \<open>
  C3. On a server that rejects the first PATCH with 409 because another writer's update
  landed after the GET, and that would accept the next PATCH, \<open>updateIntegrationAction\<close>
  fails with the PATCH's error after one GET and one PATCH: it does not read again, and
  it does not retry, although 409 is a version mismatch and retries are left. A second
  run of the closure in the state reached would have been accepted.
\<close>

theorem update_version_mismatch_not_retried:
  "fst (updateIntegrationAction racing_sdk racing_state)
     = Some (Diag ''Failed to update integration action lookup: API Error: 409'')
   \<and> trace (snd (updateIntegrationAction racing_sdk racing_state))
     = [Call (GetIntegrationActionReq ''id-1''),
        Call (PatchIntegrationsActionReq ''id-1'' lookup_action_update)]
   \<and> isVersionMismatch racing_sdk (Some conflict_response)
   \<and> 0 < retry_limit racing_sdk
   \<and> snd (fst (updateIntegrationAction_attempt racing_sdk ''lookup'' ''web''
                  (snd (updateIntegrationAction racing_sdk racing_state)))) = None"
proof -
  have a: "updateIntegrationAction_attempt racing_sdk ''lookup'' ''web'' racing_state
           = ((Some ok_response, Some (Diag ''Failed to update integration action lookup: API Error: 409'')),
              racing_state\<lparr>server := 0,
                trace := [Call (GetIntegrationActionReq ''id-1''),
                          Call (PatchIntegrationsActionReq ''id-1'' lookup_action_update)]\<rparr>)"
    by (simp add: updateIntegrationAction_attempt_def invoke_def Let_def racing_endpoints
        racing_state_def lookup_action_config lookup_action_Id lookup_action_update_def
        stored_action_def)
  have names: "Get_string (rdata racing_state) ''name'' = ''lookup''"
    "Get_string (rdata racing_state) ''category'' = ''web''"
    by (simp_all add: racing_state_def lookup_action_data_def Get_string_def)
  have run: "updateIntegrationAction racing_sdk racing_state
           = (Some (Diag ''Failed to update integration action lookup: API Error: 409''),
              racing_state\<lparr>server := 0,
                trace := [Call (GetIntegrationActionReq ''id-1''),
                          Call (PatchIntegrationsActionReq ''id-1'' lookup_action_update)]\<rparr>)"
    by (simp add: updateIntegrationAction_def retryWhen_def Let_def names a racing_endpoints
        ok_response_def)
  have again: "snd (fst (updateIntegrationAction_attempt racing_sdk ''lookup'' ''web''
                  (racing_state\<lparr>server := 0,
                     trace := [Call (GetIntegrationActionReq ''id-1''),
                               Call (PatchIntegrationsActionReq ''id-1'' lookup_action_update)]\<rparr>))) = None"
    by (simp add: updateIntegrationAction_attempt_def invoke_def Let_def racing_endpoints
        racing_state_def lookup_action_config lookup_action_Id)
  show ?thesis
    by (simp add: run again racing_endpoints conflict_response_def)
qed

subsection \<open>Data-source lookups by name\<close>

lemma find_queue_Some:
  "find_queue name es = Inr (Some i) \<Longrightarrow>
   \<exists>q\<in>set es. Entity_Name q = Some name \<and> Entity_Id q = Some i"
  by (induction es) (auto split: if_splits option.splits)

lemma loose_search_endpoints:
  "GetArchitectSchedulegroups loose_search_sdk (Suc 0) pageSize name sv
     = ((Some \<lparr>Entities = Some [listed ''sg-2'' ''Sales EMEA'' ''active'']\<rparr>, Some ok_response, None), sv)"
  "GetRoutingQueues loose_search_sdk (Suc 0) pageSize name sv
     = ((Some \<lparr>Entities = Some [listed ''q-2'' ''Sales EMEA'' ''active'']\<rparr>, Some ok_response, None), sv)"
  "15 div poll_interval loose_search_sdk = Suc 0"
  by (simp_all add: loose_search_sdk_def offline_sdk_def one_page_def)

text \<open>
  The routing queue lookup binds an ID only of a listed queue that bears the requested
  name, and changes the ID in no other exit.
\<close>

lemma dataSourceRoutingQueueRead_pages_exact:
  fixes sdk :: "'sv sdk"
  assumes run: "dataSourceRoutingQueueRead_pages sdk name pageNum s = Some (r, s')"
  shows "(r = Done \<longrightarrow>
            (\<exists>p sv l resp sv' es q.
                GetRoutingQueues sdk p 100 name sv = ((Some l, resp, None), sv')
              \<and> Entities l = Some es \<and> q \<in> set es
              \<and> Entity_Name q = Some name \<and> Entity_Id q = Some (rd_Id (rdata s'))))
       \<and> (r \<noteq> Done \<longrightarrow> rd_Id (rdata s') = rd_Id (rdata s))"
proof -
  let ?P = "\<lambda>(sdk :: 'sv sdk) name (pageNum :: nat) (s :: 'sv state) (y :: attempt \<times> 'sv state).
      (fst y = Done \<longrightarrow>
            (\<exists>p sv l resp sv' es q.
                GetRoutingQueues sdk p 100 name sv = ((Some l, resp, None), sv')
              \<and> Entities l = Some es \<and> q \<in> set es
              \<and> Entity_Name q = Some name \<and> Entity_Id q = Some (rd_Id (rdata (snd y)))))
       \<and> (fst y \<noteq> Done \<longrightarrow> rd_Id (rdata (snd y)) = rd_Id (rdata s))"
  have "?P sdk name pageNum s (r, s')"
  proof (rule dataSourceRoutingQueueRead_pages.raw_induct [where P = ?P, OF _ run])
    fix f and sdk :: "'sv sdk" and name pageNum and s :: "'sv state" and y
    assume IH: "\<And>sdk name pageNum s y. f sdk name pageNum s = Some y \<Longrightarrow> ?P sdk name pageNum s y"
      and step: "(case invoke (GetRoutingQueuesReq pageNum 100 name) (GetRoutingQueues sdk pageNum 100 name) s of
        ((queues, resp, Some getErr), s') \<Rightarrow>
          Some (NonRetryableError (''Error requesting queue '' @ name @ '': '' @ getErr), s')
      | ((None, resp, None), s') \<Rightarrow> Some (Crash NilPointerDereference, s')
      | ((Some queues, resp, None), s') \<Rightarrow>
          (case Entities queues of
             None \<Rightarrow> Some (RetryableError (''No routing queues found with name '' @ name), s')
           | Some [] \<Rightarrow> Some (RetryableError (''No routing queues found with name '' @ name), s')
           | Some (e # es) \<Rightarrow>
               (case find_queue name (e # es) of
                  Inl p \<Rightarrow> Some (Crash p, s')
                | Inr (Some i) \<Rightarrow> Some (Done, on_rdata (SetId i) s')
                | Inr None \<Rightarrow> f sdk name (pageNum + 1) s'))) = Some y"
    obtain payload resp err sv1 where
      get: "GetRoutingQueues sdk pageNum 100 name (server s) = ((payload, resp, err), sv1)"
      by (metis prod.exhaust)
    define s1 where "s1 = s\<lparr>server := sv1, trace := trace s @ [Call (GetRoutingQueuesReq pageNum 100 name)]\<rparr>"
    have inv: "invoke (GetRoutingQueuesReq pageNum 100 name) (GetRoutingQueues sdk pageNum 100 name) s
               = ((payload, resp, err), s1)"
      by (simp add: invoke_def get s1_def Let_def)
    have s1: "rd_Id (rdata s1) = rd_Id (rdata s)" by (simp add: s1_def)
    show "?P sdk name pageNum s y"
    proof (cases "\<exists>l e es. err = None \<and> payload = Some l \<and> Entities l = Some (e # es)")
      case False
      with step inv s1 show ?thesis
        by (auto split: option.splits list.splits)
    next
      case True
      then obtain l e es where
        l: "err = None" "payload = Some l" "Entities l = Some (e # es)" by blast
      show ?thesis
      proof (cases "find_queue name (e # es)")
        case (Inl p)
        with step inv l s1 show ?thesis by auto
      next
        case (Inr found)
        show ?thesis
        proof (cases found)
          case None
          with step inv l Inr have "f sdk name (pageNum + 1) s1 = Some y" by simp
          from IH [OF this] s1 show ?thesis by simp
        next
          case (Some i)
          with step inv l Inr have y: "y = (Done, on_rdata (SetId i) s1)" by simp
          from find_queue_Some [of name "e # es" i] Inr Some obtain q where
            "q \<in> set (e # es)" "Entity_Name q = Some name" "Entity_Id q = Some i" by blast
          note q = this
          from get l have get': "GetRoutingQueues sdk pageNum 100 name (server s) = ((Some l, resp, None), sv1)"
            by simp
          from get' l(3) q have
            "\<exists>p sv l resp sv' es q.
                GetRoutingQueues sdk p 100 name sv = ((Some l, resp, None), sv')
              \<and> Entities l = Some es \<and> q \<in> set es
              \<and> Entity_Name q = Some name \<and> Entity_Id q = Some i"
            by blast
          with y show ?thesis
            by (simp add: on_rdata_def SetId_def)
        qed
      qed
    qed
  qed
  thus ?thesis by simp
qed

lemma retry_loop_partial_Done:
  "retry_loop_partial n method s = Some (None, s') \<Longrightarrow> \<exists>t. method t = Some (Done, s')"
proof (induction n arbitrary: s)
  case 0
  thus ?case by (auto split: option.splits prod.splits attempt.splits)
next
  case (Suc n)
  thus ?case by (auto split: option.splits prod.splits attempt.splits)
qed

lemma dataSourceRoutingQueueRead_exact:
  assumes "dataSourceRoutingQueueRead sdk s = Some (None, s')"
  shows "\<exists>p sv l resp sv' es q.
            GetRoutingQueues sdk p 100 (Get_string (rdata s) ''name'') sv = ((Some l, resp, None), sv')
          \<and> Entities l = Some es \<and> q \<in> set es
          \<and> Entity_Name q = Some (Get_string (rdata s) ''name'')
          \<and> Entity_Id q = Some (rd_Id (rdata s'))"
proof -
  note run = assms [unfolded dataSourceRoutingQueueRead_def Let_def]
  from retry_loop_partial_Done [OF run] obtain t where
    "dataSourceRoutingQueueRead_pages sdk (Get_string (rdata s) ''name'') 1 t = Some (Done, s')"
    by (rule exE)
  from dataSourceRoutingQueueRead_pages_exact [OF this] show ?thesis by simp
qed

text \<open>
  Asked for the queue named \<open>Sales\<close> on the same search, the routing queue lookup binds
  nothing: it pages to the empty page, retries and fails as retry-exhausted.
\<close>

lemma routing_queue_lookup_on_loose_search:
  "\<exists>e s'. dataSourceRoutingQueueRead loose_search_sdk sales_lookup_state = Some (Some (RetryExhausted e), s')
         \<and> rd_Id (rdata s') = []"
proof -
  have page2: "GetRoutingQueues loose_search_sdk (Suc (Suc 0)) pageSize name sv
     = ((Some \<lparr>Entities = Some []\<rparr>, Some ok_response, None), sv)" for pageSize name sv
    by (simp add: loose_search_sdk_def offline_sdk_def one_page_def)
  have a: "\<exists>t'. dataSourceRoutingQueueRead_pages loose_search_sdk ''Sales'' (Suc 0) t
           = Some (RetryableError ''No routing queues found with name Sales'', t') \<and> rdata t' = rdata t"
    for t :: "unit state"
    apply (subst dataSourceRoutingQueueRead_pages.simps)
    apply (simp add: invoke_def Let_def loose_search_endpoints listed_def)
    apply (subst dataSourceRoutingQueueRead_pages.simps)
    apply (simp add: invoke_def Let_def page2)
    done
  have name: "Get_string (rdata sales_lookup_state) ''name'' = ''Sales''"
    by (simp add: sales_lookup_state_def Get_string_def)
  from a [of sales_lookup_state] obtain t1 where
    t1: "dataSourceRoutingQueueRead_pages loose_search_sdk ''Sales'' (Suc 0) sales_lookup_state
           = Some (RetryableError ''No routing queues found with name Sales'', t1)"
        "rdata t1 = rdata sales_lookup_state" by blast
  from a [of t1] obtain t2 where
    t2: "dataSourceRoutingQueueRead_pages loose_search_sdk ''Sales'' (Suc 0) t1
           = Some (RetryableError ''No routing queues found with name Sales'', t2)"
        "rdata t2 = rdata t1" by blast
  have "dataSourceRoutingQueueRead loose_search_sdk sales_lookup_state
          = Some (Some (RetryExhausted ''No routing queues found with name Sales''), t2)"
    by (simp add: dataSourceRoutingQueueRead_def Let_def name loose_search_endpoints t1 t2)
  moreover have "rd_Id (rdata t2) = []"
    by (simp add: t1 t2 sales_lookup_state_def)
  ultimately show ?thesis by blast
qed

text \<open>
  C8. Asked for the schedule group named \<open>Sales\<close> on a search that lists only the group
  \<open>Sales EMEA\<close>, \<open>dataSourceScheduleGroupRead\<close> returns no error after one request and has
  bound the ID of \<open>Sales EMEA\<close>: the closure takes the first listed entity and never
  compares its name with the requested one.
\<close>

theorem schedule_group_lookup_binds_other_name:
  "fst (dataSourceScheduleGroupRead loose_search_sdk sales_lookup_state) = None
   \<and> rd_Id (rdata (snd (dataSourceScheduleGroupRead loose_search_sdk sales_lookup_state))) = ''sg-2''
   \<and> trace (snd (dataSourceScheduleGroupRead loose_search_sdk sales_lookup_state))
       = [Call (GetArchitectSchedulegroupsReq 1 100 ''Sales'')]
   \<and> Get_string (rdata sales_lookup_state) ''name'' = ''Sales''
   \<and> fst (fst (GetArchitectSchedulegroups loose_search_sdk 1 100 ''Sales'' ()))
       = Some \<lparr>Entities = Some [listed ''sg-2'' ''Sales EMEA'' ''active'']\<rparr>
   \<and> Entity_Name (listed ''sg-2'' ''Sales EMEA'' ''active'') \<noteq> Some ''Sales''"
proof -
  have name: "Get_string (rdata sales_lookup_state) ''name'' = ''Sales''"
    by (simp add: sales_lookup_state_def Get_string_def)
  have a: "dataSourceScheduleGroupRead_attempt loose_search_sdk ''Sales'' sales_lookup_state
           = (Done, on_rdata (SetId ''sg-2'')
                (sales_lookup_state\<lparr>trace := [Call (GetArchitectSchedulegroupsReq 1 100 ''Sales'')]\<rparr>))"
    by (simp add: dataSourceScheduleGroupRead_attempt_def invoke_def Let_def
        loose_search_endpoints sales_lookup_state_def listed_def)
  have run: "dataSourceScheduleGroupRead loose_search_sdk sales_lookup_state
           = (None, on_rdata (SetId ''sg-2'')
                (sales_lookup_state\<lparr>trace := [Call (GetArchitectSchedulegroupsReq 1 100 ''Sales'')]\<rparr>))"
    by (simp add: dataSourceScheduleGroupRead_def Let_def name withRetries_def
        retry_loop_first_Done a)
  show ?thesis
    by (simp add: run name on_rdata_def SetId_def loose_search_endpoints listed_def)
qed


end
